(* ===== verification/Nearby_Prelude.thy ===== *)
theory Nearby_Prelude
  imports
    Main
    "HOL-Library.AList"
    "HOL-Library.Monad_Syntax"
    "HOL-Library.Sublist"
    "HOL-Library.Word"
begin

text \<open>
  Shared vocabulary of the development: bytes, the model of Rust's \<^verbatim>\<open>HashMap\<close> and
  \<^verbatim>\<open>HashSet\<close>, the parts of \<^verbatim>\<open>str\<close> that the crate calls, and the option monad in
  which every operation that can fail to return is written.

  A call that does not return normally (it blocks for ever on a condition variable, it
  panics, or it exhausts the stack) is the value \<^verbatim>\<open>None\<close>; \<^verbatim>\<open>unwrap\<close> of an absent
  value is therefore a bind on the option itself. A Rust \<^verbatim>\<open>Result\<close> is a sum, \<^verbatim>\<open>Inl\<close>
  the error, and never mixed up with not returning.

  A hash map is an association list with pairwise different keys, a hash set a list with
  pairwise different members. The order of the list is the iteration order, which Rust
  leaves open: a theorem about every such list is a theorem about every iteration order.
\<close>

type_synonym byte = "8 word"
type_synonym bytes = "byte list"
type_synonym i32 = int
type_synonym i64 = int

section \<open>Hash maps and hash sets\<close>

type_synonym ('k, 'v) hash_map = "('k \<times> 'v) list"
type_synonym 'a hash_set = "'a list"

abbreviation hm_get :: "('k, 'v) hash_map \<Rightarrow> 'k \<Rightarrow> 'v option" where
  "hm_get \<equiv> map_of"

abbreviation hm_insert :: "'k \<Rightarrow> 'v \<Rightarrow> ('k, 'v) hash_map \<Rightarrow> ('k, 'v) hash_map" where
  "hm_insert \<equiv> AList.update"

abbreviation hm_remove :: "'k \<Rightarrow> ('k, 'v) hash_map \<Rightarrow> ('k, 'v) hash_map" where
  "hm_remove \<equiv> AList.delete"

abbreviation hm_keys :: "('k, 'v) hash_map \<Rightarrow> 'k list" where
  "hm_keys m \<equiv> map fst m"

abbreviation hm_contains :: "('k, 'v) hash_map \<Rightarrow> 'k \<Rightarrow> bool" where
  "hm_contains m k \<equiv> k \<in> set (hm_keys m)"

abbreviation hm_wf :: "('k, 'v) hash_map \<Rightarrow> bool" where
  "hm_wf m \<equiv> distinct (hm_keys m)"

abbreviation hs_insert :: "'a \<Rightarrow> 'a hash_set \<Rightarrow> 'a hash_set" where
  "hs_insert \<equiv> List.insert"

abbreviation hs_remove :: "'a \<Rightarrow> 'a hash_set \<Rightarrow> 'a hash_set" where
  "hs_remove \<equiv> removeAll"

abbreviation unwrap_or :: "'a option \<Rightarrow> 'a \<Rightarrow> 'a" where
  "unwrap_or x d \<equiv> (case x of Some v \<Rightarrow> v | None \<Rightarrow> d)"

lemma hm_get_insert [simp]: "hm_get (hm_insert k v m) = (hm_get m)(k \<mapsto> v)"
  by (rule update_conv')

lemma hm_get_remove [simp]: "hm_get (hm_remove k m) = (hm_get m)(k := None)"
  by (rule delete_conv')

lemma hm_wf_insert [simp]: "hm_wf m \<Longrightarrow> hm_wf (hm_insert k v m)"
  by (rule distinct_update)

lemma hm_wf_remove [simp]: "hm_wf m \<Longrightarrow> hm_wf (hm_remove k m)"
  by (rule distinct_delete)

lemma hm_keys_insert [simp]: "set (hm_keys (hm_insert k v m)) = insert k (set (hm_keys m))"
  by (metis dom_map_of_conv_image_fst dom_fun_upd hm_get_insert image_set option.distinct(1))

lemma hm_keys_remove [simp]: "set (hm_keys (hm_remove k m)) = set (hm_keys m) - {k}"
  by (metis dom_map_of_conv_image_fst dom_fun_upd hm_get_remove image_set)

lemma hm_contains_get: "hm_contains m k \<longleftrightarrow> (\<exists>v. hm_get m k = Some v)"
  by (metis domD domI dom_map_of_conv_image_fst image_set)

lemma hm_vals_insert: "snd ` set (hm_insert k v m) \<subseteq> insert v (snd ` set m)"
  by (induction m) auto

lemma hm_vals_remove: "snd ` set (hm_remove k m) \<subseteq> snd ` set m"
  by (auto simp: AList.delete_eq)

lemma hm_get_in_vals: "hm_get m k = Some v \<Longrightarrow> v \<in> snd ` set m"
  by (force dest: map_of_SomeD)

lemma hm_remove_absent: "hm_get m k = None \<Longrightarrow> hm_remove k m = m"
  by (simp add: map_of_eq_None_iff)

lemma hm_insert_remove_length:
  "hm_wf m \<Longrightarrow> hm_contains m k \<Longrightarrow> length (hm_insert k v m) = length m"
  by (induction m) auto

section \<open>Strings\<close>

text \<open>
  A Rust \<^verbatim>\<open>str\<close> is its UTF-8 bytes, one \<^verbatim>\<open>char\<close> of HOL each, so \<^verbatim>\<open>length\<close> is
  \<^verbatim>\<open>str::len\<close>. \<^verbatim>\<open>ends_with\<close> and \<^verbatim>\<open>contains\<close> are \<^const>\<open>suffix\<close> and \<^const>\<open>sublist\<close>.
\<close>

abbreviation str_ends_with :: "string \<Rightarrow> string \<Rightarrow> bool" where
  "str_ends_with s pat \<equiv> suffix pat s"

abbreviation str_contains :: "string \<Rightarrow> string \<Rightarrow> bool" where
  "str_contains s pat \<equiv> sublist pat s"

definition str_strip_suffix :: "string \<Rightarrow> string \<Rightarrow> string option" where
  "str_strip_suffix s pat =
     (if suffix pat s then Some (take (length s - length pat) s) else None)"

definition str_strip_prefix :: "string \<Rightarrow> string \<Rightarrow> string option" where
  "str_strip_prefix s pat =
     (if prefix pat s then Some (drop (length pat) s) else None)"

fun str_split :: "char \<Rightarrow> string \<Rightarrow> string list" where
  "str_split c [] = [[]]"
| "str_split c (x # xs) =
     (if x = c then [] # str_split c xs
      else (case str_split c xs of [] \<Rightarrow> [[x]] | p # ps \<Rightarrow> (x # p) # ps))"

fun str_join :: "char \<Rightarrow> string list \<Rightarrow> string" where
  "str_join c [] = []"
| "str_join c [p] = p"
| "str_join c (p # ps) = p @ c # str_join c ps"

lemma str_strip_suffix_append [simp]: "str_strip_suffix (s @ pat) pat = Some s"
  by (simp add: str_strip_suffix_def suffix_def)

lemma str_strip_suffix_Some: "str_strip_suffix s pat = Some r \<longleftrightarrow> s = r @ pat"
  by (auto simp: str_strip_suffix_def suffix_def)

lemma str_strip_prefix_Some: "str_strip_prefix s pat = Some r \<longleftrightarrow> s = pat @ r"
  by (auto simp: str_strip_prefix_def prefix_def)

lemma str_split_nonempty [simp]: "str_split c s \<noteq> []"
  by (induction s) (auto split: list.splits)

lemma str_split_no_sep: "c \<notin> set s \<Longrightarrow> str_split c s = [s]"
  by (induction s) auto

lemma str_split_append_sep:
  "c \<notin> set p \<Longrightarrow> str_split c (p @ c # s) = p # str_split c s"
  by (induction p) auto

text \<open>Splitting and joining at a separator are inverse, in both directions.\<close>

lemma str_join_split: "str_join c (str_split c s) = s"
proof (induction s)
  case Nil
  then show ?case by simp
next
  case (Cons x xs)
  show ?case
  proof (cases "str_split c xs")
    case Nil
    then show ?thesis by simp
  next
    case (Cons p ps)
    with Cons.IH show ?thesis by (cases ps) auto
  qed
qed

lemma str_split_join:
  "ps \<noteq> [] \<Longrightarrow> \<forall>p \<in> set ps. c \<notin> set p \<Longrightarrow> str_split c (str_join c ps) = ps"
  by (induction c ps rule: str_join.induct) (auto simp: str_split_append_sep str_split_no_sep)

lemma str_split_parts: "p \<in> set (str_split c s) \<Longrightarrow> c \<notin> set p"
  by (induction s arbitrary: p) (auto split: if_splits list.splits)

section \<open>The option monad\<close>

lemma bind_SomeE [elim]:
  assumes "Option.bind m f = Some y"
  obtains x where "m = Some x" and "f x = Some y"
  using assms by (auto simp: bind_eq_Some_conv)

end
