(* ===== verification/Mediums.thy ===== *)
theory Mediums
  imports Nearby_Prelude
begin

text \<open>
  The domain enums of \<^verbatim>\<open>src/mediums.rs\<close>: the canonical \<^verbatim>\<open>Medium\<close> and
  \<^verbatim>\<open>WifiDirectAuthType\<close>, with the discriminants their \<^verbatim>\<open>repr(i32)\<close> gives them.
  Both derive \<^verbatim>\<open>Ord\<close>: the order of the variants is the order of the discriminants.
\<close>

datatype medium =
    UnknownMedium | Mdns | Bluetooth | WifiHotspot | Ble | WifiLan | WifiAware | Nfc
  | WifiDirect | WebRtc | BleL2cap | Usb | WebRtcNonCellular | Awdl

fun medium_as_i32 :: "medium \<Rightarrow> i32" where
  "medium_as_i32 UnknownMedium = 0"
| "medium_as_i32 Mdns = 1"
| "medium_as_i32 Bluetooth = 2"
| "medium_as_i32 WifiHotspot = 3"
| "medium_as_i32 Ble = 4"
| "medium_as_i32 WifiLan = 5"
| "medium_as_i32 WifiAware = 6"
| "medium_as_i32 Nfc = 7"
| "medium_as_i32 WifiDirect = 8"
| "medium_as_i32 WebRtc = 9"
| "medium_as_i32 BleL2cap = 10"
| "medium_as_i32 Usb = 11"
| "medium_as_i32 WebRtcNonCellular = 12"
| "medium_as_i32 Awdl = 13"

datatype wifi_direct_auth_type =
    WifiDirectTypeUnknown | WifiDirectWithPassword | WifiDirectWithPin
  | WifiDirectWithDeviceName

fun wifi_direct_auth_type_as_i32 :: "wifi_direct_auth_type \<Rightarrow> i32" where
  "wifi_direct_auth_type_as_i32 WifiDirectTypeUnknown = 0"
| "wifi_direct_auth_type_as_i32 WifiDirectWithPassword = 1"
| "wifi_direct_auth_type_as_i32 WifiDirectWithPin = 2"
| "wifi_direct_auth_type_as_i32 WifiDirectWithDeviceName = 3"

text \<open>The derived \<^verbatim>\<open>Ord\<close> makes the mediums a linear order.\<close>

instantiation medium :: linorder
begin

definition less_eq_medium :: "medium \<Rightarrow> medium \<Rightarrow> bool" where
  "less_eq_medium a b \<longleftrightarrow> medium_as_i32 a \<le> medium_as_i32 b"

definition less_medium :: "medium \<Rightarrow> medium \<Rightarrow> bool" where
  "less_medium a b \<longleftrightarrow> medium_as_i32 a < medium_as_i32 b"

instance
proof
  fix x y z :: medium
  show "x < y \<longleftrightarrow> x \<le> y \<and> \<not> y \<le> x"
    by (auto simp: less_eq_medium_def less_medium_def)
  show "x \<le> x" by (simp add: less_eq_medium_def)
  show "x \<le> y \<Longrightarrow> y \<le> z \<Longrightarrow> x \<le> z" by (simp add: less_eq_medium_def)
  show "x \<le> y \<Longrightarrow> y \<le> x \<Longrightarrow> x = y"
    by (cases x; cases y; simp add: less_eq_medium_def)
  show "x \<le> y \<or> y \<le> x" by (auto simp: less_eq_medium_def)
qed

end

lemma medium_as_i32_inj: "inj medium_as_i32"
proof (rule injI)
  fix a b assume "medium_as_i32 a = medium_as_i32 b"
  then have "a \<le> b" and "b \<le> a" by (simp_all add: less_eq_medium_def)
  then show "a = b" by simp
qed

end
