(* ===== verification/Offline_Wire.thy ===== *)
theory Offline_Wire
  imports Nearby_Prelude
begin

text \<open>
  The messages and enums of \<^verbatim>\<open>proto/offline_wire_formats.proto\<close>, as prost gives them to
  the crate: an optional field is an option, a repeated field a list, and a field of enum
  type is an optional or repeated integer (the raw \<^verbatim>\<open>i32\<close>), which the code converts with
  \<^verbatim>\<open>as i32\<close> and \<^verbatim>\<open>try_from\<close>. A record is one message, its fields in the order of the
  message, each with a short prefix because HOL field names are global. \<^verbatim>\<open>x_default\<close> is
  \<^verbatim>\<open>X::default()\<close>: every field absent or empty. The five usable-channels messages have
  one field of the same shape and share a record.

  Serialisation is prost's, code outside the repository: the development takes it as a
  parameter where a definition uses it.
\<close>

section \<open>Enums\<close>

text \<open>\<^verbatim>\<open>OfflineFrame.Version\<close>\<close>

datatype version =
    UnknownVersion
  | V1

fun version_as_i32 :: "version \<Rightarrow> i32" where
  "version_as_i32 UnknownVersion = 0"
| "version_as_i32 V1 = 1"

definition version_try_from :: "i32 \<Rightarrow> version option" where
  "version_try_from v =
     (if v = 0 then Some UnknownVersion
      else if v = 1 then Some V1
      else None)"

text \<open>\<^verbatim>\<open>V1Frame.FrameType\<close>\<close>

datatype frame_type =
    UnknownFrameType
  | ConnectionRequest
  | ConnectionResponse
  | PayloadTransfer
  | BandwidthUpgradeNegotiation
  | KeepAlive
  | Disconnection
  | PairedKeyEncryption
  | AuthenticationMessage
  | AuthenticationResult
  | AutoResume
  | AutoReconnect
  | BandwidthUpgradeRetry

fun frame_type_as_i32 :: "frame_type \<Rightarrow> i32" where
  "frame_type_as_i32 UnknownFrameType = 0"
| "frame_type_as_i32 ConnectionRequest = 1"
| "frame_type_as_i32 ConnectionResponse = 2"
| "frame_type_as_i32 PayloadTransfer = 3"
| "frame_type_as_i32 BandwidthUpgradeNegotiation = 4"
| "frame_type_as_i32 KeepAlive = 5"
| "frame_type_as_i32 Disconnection = 6"
| "frame_type_as_i32 PairedKeyEncryption = 7"
| "frame_type_as_i32 AuthenticationMessage = 8"
| "frame_type_as_i32 AuthenticationResult = 9"
| "frame_type_as_i32 AutoResume = 10"
| "frame_type_as_i32 AutoReconnect = 11"
| "frame_type_as_i32 BandwidthUpgradeRetry = 12"

definition frame_type_try_from :: "i32 \<Rightarrow> frame_type option" where
  "frame_type_try_from v =
     (if v = 0 then Some UnknownFrameType
      else if v = 1 then Some ConnectionRequest
      else if v = 2 then Some ConnectionResponse
      else if v = 3 then Some PayloadTransfer
      else if v = 4 then Some BandwidthUpgradeNegotiation
      else if v = 5 then Some KeepAlive
      else if v = 6 then Some Disconnection
      else if v = 7 then Some PairedKeyEncryption
      else if v = 8 then Some AuthenticationMessage
      else if v = 9 then Some AuthenticationResult
      else if v = 10 then Some AutoResume
      else if v = 11 then Some AutoReconnect
      else if v = 12 then Some BandwidthUpgradeRetry
      else None)"

text \<open>\<^verbatim>\<open>ConnectionRequestFrame.Medium\<close>\<close>

datatype crf_medium =
    CrfUnknownMedium
  | CrfMdns
  | CrfBluetooth
  | CrfWifiHotspot
  | CrfBle
  | CrfWifiLan
  | CrfWifiAware
  | CrfNfc
  | CrfWifiDirect
  | CrfWebRtc
  | CrfBleL2cap
  | CrfUsb
  | CrfWebRtcNonCellular
  | CrfAwdl

fun crf_medium_as_i32 :: "crf_medium \<Rightarrow> i32" where
  "crf_medium_as_i32 CrfUnknownMedium = 0"
| "crf_medium_as_i32 CrfMdns = 1"
| "crf_medium_as_i32 CrfBluetooth = 2"
| "crf_medium_as_i32 CrfWifiHotspot = 3"
| "crf_medium_as_i32 CrfBle = 4"
| "crf_medium_as_i32 CrfWifiLan = 5"
| "crf_medium_as_i32 CrfWifiAware = 6"
| "crf_medium_as_i32 CrfNfc = 7"
| "crf_medium_as_i32 CrfWifiDirect = 8"
| "crf_medium_as_i32 CrfWebRtc = 9"
| "crf_medium_as_i32 CrfBleL2cap = 10"
| "crf_medium_as_i32 CrfUsb = 11"
| "crf_medium_as_i32 CrfWebRtcNonCellular = 12"
| "crf_medium_as_i32 CrfAwdl = 13"

definition crf_medium_try_from :: "i32 \<Rightarrow> crf_medium option" where
  "crf_medium_try_from v =
     (if v = 0 then Some CrfUnknownMedium
      else if v = 1 then Some CrfMdns
      else if v = 2 then Some CrfBluetooth
      else if v = 3 then Some CrfWifiHotspot
      else if v = 4 then Some CrfBle
      else if v = 5 then Some CrfWifiLan
      else if v = 6 then Some CrfWifiAware
      else if v = 7 then Some CrfNfc
      else if v = 8 then Some CrfWifiDirect
      else if v = 9 then Some CrfWebRtc
      else if v = 10 then Some CrfBleL2cap
      else if v = 11 then Some CrfUsb
      else if v = 12 then Some CrfWebRtcNonCellular
      else if v = 13 then Some CrfAwdl
      else None)"

text \<open>\<^verbatim>\<open>ConnectionResponseFrame.ResponseStatus\<close>\<close>

datatype response_status =
    UnknownResponseStatus
  | Accept
  | Reject

fun response_status_as_i32 :: "response_status \<Rightarrow> i32" where
  "response_status_as_i32 UnknownResponseStatus = 0"
| "response_status_as_i32 Accept = 1"
| "response_status_as_i32 Reject = 2"

definition response_status_try_from :: "i32 \<Rightarrow> response_status option" where
  "response_status_try_from v =
     (if v = 0 then Some UnknownResponseStatus
      else if v = 1 then Some Accept
      else if v = 2 then Some Reject
      else None)"

text \<open>\<^verbatim>\<open>PayloadTransferFrame.PacketType\<close>\<close>

datatype packet_type =
    UnknownPacketType
  | Data
  | Control
  | PayloadAck

fun packet_type_as_i32 :: "packet_type \<Rightarrow> i32" where
  "packet_type_as_i32 UnknownPacketType = 0"
| "packet_type_as_i32 Data = 1"
| "packet_type_as_i32 Control = 2"
| "packet_type_as_i32 PayloadAck = 3"

definition packet_type_try_from :: "i32 \<Rightarrow> packet_type option" where
  "packet_type_try_from v =
     (if v = 0 then Some UnknownPacketType
      else if v = 1 then Some Data
      else if v = 2 then Some Control
      else if v = 3 then Some PayloadAck
      else None)"

text \<open>\<^verbatim>\<open>PayloadHeader.PayloadType\<close>\<close>

datatype payload_type =
    UnknownPayloadType
  | Bytes
  | File
  | Stream

fun payload_type_as_i32 :: "payload_type \<Rightarrow> i32" where
  "payload_type_as_i32 UnknownPayloadType = 0"
| "payload_type_as_i32 Bytes = 1"
| "payload_type_as_i32 File = 2"
| "payload_type_as_i32 Stream = 3"

definition payload_type_try_from :: "i32 \<Rightarrow> payload_type option" where
  "payload_type_try_from v =
     (if v = 0 then Some UnknownPayloadType
      else if v = 1 then Some Bytes
      else if v = 2 then Some File
      else if v = 3 then Some Stream
      else None)"

text \<open>\<^verbatim>\<open>BandwidthUpgradeNegotiationFrame.EventType\<close>\<close>

datatype event_type =
    UnknownEventType
  | UpgradePathAvailable
  | LastWriteToPriorChannel
  | SafeToClosePriorChannel
  | ClientIntroduction
  | UpgradeFailure
  | ClientIntroductionAck
  | UpgradePathRequest

fun event_type_as_i32 :: "event_type \<Rightarrow> i32" where
  "event_type_as_i32 UnknownEventType = 0"
| "event_type_as_i32 UpgradePathAvailable = 1"
| "event_type_as_i32 LastWriteToPriorChannel = 2"
| "event_type_as_i32 SafeToClosePriorChannel = 3"
| "event_type_as_i32 ClientIntroduction = 4"
| "event_type_as_i32 UpgradeFailure = 5"
| "event_type_as_i32 ClientIntroductionAck = 6"
| "event_type_as_i32 UpgradePathRequest = 7"

definition event_type_try_from :: "i32 \<Rightarrow> event_type option" where
  "event_type_try_from v =
     (if v = 0 then Some UnknownEventType
      else if v = 1 then Some UpgradePathAvailable
      else if v = 2 then Some LastWriteToPriorChannel
      else if v = 3 then Some SafeToClosePriorChannel
      else if v = 4 then Some ClientIntroduction
      else if v = 5 then Some UpgradeFailure
      else if v = 6 then Some ClientIntroductionAck
      else if v = 7 then Some UpgradePathRequest
      else None)"

text \<open>\<^verbatim>\<open>UpgradePathInfo.Medium\<close>\<close>

datatype upi_medium_pb =
    UpiUnknownMedium
  | UpiMdns
  | UpiBluetooth
  | UpiWifiHotspot
  | UpiBle
  | UpiWifiLan
  | UpiWifiAware
  | UpiNfc
  | UpiWifiDirect
  | UpiWebRtc
  | UpiUsb
  | UpiWebRtcNonCellular
  | UpiAwdl

fun upi_medium_pb_as_i32 :: "upi_medium_pb \<Rightarrow> i32" where
  "upi_medium_pb_as_i32 UpiUnknownMedium = 0"
| "upi_medium_pb_as_i32 UpiMdns = 1"
| "upi_medium_pb_as_i32 UpiBluetooth = 2"
| "upi_medium_pb_as_i32 UpiWifiHotspot = 3"
| "upi_medium_pb_as_i32 UpiBle = 4"
| "upi_medium_pb_as_i32 UpiWifiLan = 5"
| "upi_medium_pb_as_i32 UpiWifiAware = 6"
| "upi_medium_pb_as_i32 UpiNfc = 7"
| "upi_medium_pb_as_i32 UpiWifiDirect = 8"
| "upi_medium_pb_as_i32 UpiWebRtc = 9"
| "upi_medium_pb_as_i32 UpiUsb = 11"
| "upi_medium_pb_as_i32 UpiWebRtcNonCellular = 12"
| "upi_medium_pb_as_i32 UpiAwdl = 13"

definition upi_medium_pb_try_from :: "i32 \<Rightarrow> upi_medium_pb option" where
  "upi_medium_pb_try_from v =
     (if v = 0 then Some UpiUnknownMedium
      else if v = 1 then Some UpiMdns
      else if v = 2 then Some UpiBluetooth
      else if v = 3 then Some UpiWifiHotspot
      else if v = 4 then Some UpiBle
      else if v = 5 then Some UpiWifiLan
      else if v = 6 then Some UpiWifiAware
      else if v = 7 then Some UpiNfc
      else if v = 8 then Some UpiWifiDirect
      else if v = 9 then Some UpiWebRtc
      else if v = 11 then Some UpiUsb
      else if v = 12 then Some UpiWebRtcNonCellular
      else if v = 13 then Some UpiAwdl
      else None)"

text \<open>\<^verbatim>\<open>MediumMetadata.WifiDirectAuthType\<close>\<close>

datatype mm_auth_type =
    MmWifiDirectTypeUnknown
  | MmWifiDirectWithPassword
  | MmWifiDirectWithPin
  | MmWifiDirectWithDeviceName

fun mm_auth_type_as_i32 :: "mm_auth_type \<Rightarrow> i32" where
  "mm_auth_type_as_i32 MmWifiDirectTypeUnknown = 0"
| "mm_auth_type_as_i32 MmWifiDirectWithPassword = 1"
| "mm_auth_type_as_i32 MmWifiDirectWithPin = 2"
| "mm_auth_type_as_i32 MmWifiDirectWithDeviceName = 3"

definition mm_auth_type_try_from :: "i32 \<Rightarrow> mm_auth_type option" where
  "mm_auth_type_try_from v =
     (if v = 0 then Some MmWifiDirectTypeUnknown
      else if v = 1 then Some MmWifiDirectWithPassword
      else if v = 2 then Some MmWifiDirectWithPin
      else if v = 3 then Some MmWifiDirectWithDeviceName
      else None)"

section \<open>Messages\<close>

record pb_service_address =
  sa_ip_address :: "bytes option"
  sa_port :: "i32 option"

definition pb_service_address_default :: pb_service_address where
  "pb_service_address_default = \<lparr>
     sa_ip_address = None, sa_port = None\<rparr>"

record usable_channels =
  uc_channels :: "i32 list"

definition usable_channels_default :: usable_channels where
  "usable_channels_default = \<lparr>
     uc_channels = []\<rparr>"

record medium_role =
  mr_support_wifi_direct_group_owner :: "bool option"
  mr_support_wifi_direct_group_client :: "bool option"
  mr_support_wifi_hotspot_host :: "bool option"
  mr_support_wifi_hotspot_client :: "bool option"
  mr_support_wifi_aware_publisher :: "bool option"
  mr_support_wifi_aware_subscriber :: "bool option"
  mr_support_awdl_publisher :: "bool option"
  mr_support_awdl_subscriber :: "bool option"

definition medium_role_default :: medium_role where
  "medium_role_default = \<lparr>
     mr_support_wifi_direct_group_owner = None,
     mr_support_wifi_direct_group_client = None, mr_support_wifi_hotspot_host = None,
     mr_support_wifi_hotspot_client = None, mr_support_wifi_aware_publisher = None,
     mr_support_wifi_aware_subscriber = None, mr_support_awdl_publisher = None,
     mr_support_awdl_subscriber = None\<rparr>"

record location_hint =
  lh_location :: "string option"
  lh_format :: "i32 option"

definition location_hint_default :: location_hint where
  "location_hint_default = \<lparr>
     lh_location = None, lh_format = None\<rparr>"

record os_info =
  os_type :: "i32 option"

definition os_info_default :: os_info where
  "os_info_default = \<lparr>
     os_type = None\<rparr>"

record connections_device =
  cd_endpoint_id :: "string option"
  cd_endpoint_type :: "i32 option"
  cd_connectivity_info_list :: "bytes option"
  cd_endpoint_info :: "bytes option"

definition connections_device_default :: connections_device where
  "connections_device_default = \<lparr>
     cd_endpoint_id = None, cd_endpoint_type = None, cd_connectivity_info_list = None,
     cd_endpoint_info = None\<rparr>"

record presence_device =
  pd_endpoint_id :: "string option"
  pd_endpoint_type :: "i32 option"
  pd_connectivity_info_list :: "bytes option"
  pd_device_id :: "i64 option"
  pd_device_name :: "string option"
  pd_device_type :: "i32 option"
  pd_device_image_url :: "string option"
  pd_discovery_medium :: "i32 list"
  pd_actions :: "i32 list"
  pd_identity_type :: "i64 list"

definition presence_device_default :: presence_device where
  "presence_device_default = \<lparr>
     pd_endpoint_id = None, pd_endpoint_type = None, pd_connectivity_info_list = None,
     pd_device_id = None, pd_device_name = None, pd_device_type = None,
     pd_device_image_url = None, pd_discovery_medium = [], pd_actions = [],
     pd_identity_type = []\<rparr>"

record medium_metadata =
  mm_supports_5_ghz :: "bool option"
  mm_bssid :: "string option"
  mm_ip_address :: "bytes option"
  mm_supports_6_ghz :: "bool option"
  mm_mobile_radio :: "bool option"
  mm_ap_frequency :: "i32 option"
  mm_available_channels :: "usable_channels option"
  mm_wifi_direct_cli_usable_channels :: "usable_channels option"
  mm_wifi_lan_usable_channels :: "usable_channels option"
  mm_wifi_aware_usable_channels :: "usable_channels option"
  mm_wifi_hotspot_sta_usable_channels :: "usable_channels option"
  mm_medium_role :: "medium_role option"
  mm_supported_wifi_direct_auth_types :: "i32 list"

definition medium_metadata_default :: medium_metadata where
  "medium_metadata_default = \<lparr>
     mm_supports_5_ghz = None, mm_bssid = None, mm_ip_address = None,
     mm_supports_6_ghz = None, mm_mobile_radio = None, mm_ap_frequency = None,
     mm_available_channels = None, mm_wifi_direct_cli_usable_channels = None,
     mm_wifi_lan_usable_channels = None, mm_wifi_aware_usable_channels = None,
     mm_wifi_hotspot_sta_usable_channels = None, mm_medium_role = None,
     mm_supported_wifi_direct_auth_types = []\<rparr>"

text \<open>The \<^verbatim>\<open>oneof Device\<close> of a connection request.\<close>

datatype device = ConnectionsDevice connections_device | PresenceDevice presence_device

record connection_request_frame =
  crf_endpoint_id :: "string option"
  crf_endpoint_name :: "string option"
  crf_handshake_data :: "bytes option"
  crf_nonce :: "i32 option"
  crf_mediums :: "i32 list"
  crf_endpoint_info :: "bytes option"
  crf_medium_metadata :: "medium_metadata option"
  crf_keep_alive_interval_millis :: "i32 option"
  crf_keep_alive_timeout_millis :: "i32 option"
  crf_device_type :: "i32 option"
  crf_device_info :: "bytes option"
  crf_device :: "device option"
  crf_connection_mode :: "i32 option"
  crf_location_hint :: "location_hint option"

definition connection_request_frame_default :: connection_request_frame where
  "connection_request_frame_default = \<lparr>
     crf_endpoint_id = None, crf_endpoint_name = None, crf_handshake_data = None,
     crf_nonce = None, crf_mediums = [], crf_endpoint_info = None,
     crf_medium_metadata = None, crf_keep_alive_interval_millis = None,
     crf_keep_alive_timeout_millis = None, crf_device_type = None, crf_device_info = None,
     crf_device = None, crf_connection_mode = None, crf_location_hint = None\<rparr>"

record connection_response_frame =
  crs_status :: "i32 option"
  crs_handshake_data :: "bytes option"
  crs_response :: "i32 option"
  crs_os_info :: "os_info option"
  crs_multiplex_socket_bitmask :: "i32 option"
  crs_nearby_connections_version :: "i32 option"
  crs_safe_to_disconnect_version :: "i32 option"
  crs_location_hint :: "location_hint option"
  crs_keep_alive_timeout_millis :: "i32 option"

definition connection_response_frame_default :: connection_response_frame where
  "connection_response_frame_default = \<lparr>
     crs_status = None, crs_handshake_data = None, crs_response = None,
     crs_os_info = None, crs_multiplex_socket_bitmask = None,
     crs_nearby_connections_version = None, crs_safe_to_disconnect_version = None,
     crs_location_hint = None, crs_keep_alive_timeout_millis = None\<rparr>"

record payload_header =
  ph_id :: "i64 option"
  ph_type :: "i32 option"
  ph_total_size :: "i64 option"
  ph_is_sensitive :: "bool option"
  ph_file_name :: "string option"
  ph_parent_folder :: "string option"
  ph_last_modified_timestamp_millis :: "i64 option"

definition payload_header_default :: payload_header where
  "payload_header_default = \<lparr>
     ph_id = None, ph_type = None, ph_total_size = None, ph_is_sensitive = None,
     ph_file_name = None, ph_parent_folder = None,
     ph_last_modified_timestamp_millis = None\<rparr>"

record payload_chunk =
  pc_flags :: "i32 option"
  pc_offset :: "i64 option"
  pc_body :: "bytes option"
  pc_index :: "i32 option"

definition payload_chunk_default :: payload_chunk where
  "payload_chunk_default = \<lparr>
     pc_flags = None, pc_offset = None, pc_body = None, pc_index = None\<rparr>"

record control_message =
  cm_event :: "i32 option"
  cm_offset :: "i64 option"

definition control_message_default :: control_message where
  "control_message_default = \<lparr>
     cm_event = None, cm_offset = None\<rparr>"

record payload_transfer_frame =
  pt_packet_type :: "i32 option"
  pt_payload_header :: "payload_header option"
  pt_payload_chunk :: "payload_chunk option"
  pt_control_message :: "control_message option"

definition payload_transfer_frame_default :: payload_transfer_frame where
  "payload_transfer_frame_default = \<lparr>
     pt_packet_type = None, pt_payload_header = None, pt_payload_chunk = None,
     pt_control_message = None\<rparr>"

record wifi_hotspot_credentials =
  wh_ssid :: "string option"
  wh_password :: "string option"
  wh_port :: "i32 option"
  wh_gateway :: "string option"
  wh_frequency :: "i32 option"
  wh_address_candidates :: "pb_service_address list"

definition wifi_hotspot_credentials_default :: wifi_hotspot_credentials where
  "wifi_hotspot_credentials_default = \<lparr>
     wh_ssid = None, wh_password = None, wh_port = None, wh_gateway = None,
     wh_frequency = None, wh_address_candidates = []\<rparr>"

record wifi_lan_socket =
  wl_ip_address :: "bytes option"
  wl_wifi_port :: "i32 option"
  wl_address_candidates :: "pb_service_address list"

definition wifi_lan_socket_default :: wifi_lan_socket where
  "wifi_lan_socket_default = \<lparr>
     wl_ip_address = None, wl_wifi_port = None, wl_address_candidates = []\<rparr>"

record bluetooth_credentials =
  bt_service_name :: "string option"
  bt_mac_address :: "string option"

definition bluetooth_credentials_default :: bluetooth_credentials where
  "bluetooth_credentials_default = \<lparr>
     bt_service_name = None, bt_mac_address = None\<rparr>"

record wifi_aware_credentials =
  wa_service_id :: "string option"
  wa_service_info :: "bytes option"
  wa_password :: "string option"

definition wifi_aware_credentials_default :: wifi_aware_credentials where
  "wifi_aware_credentials_default = \<lparr>
     wa_service_id = None, wa_service_info = None, wa_password = None\<rparr>"

record wifi_direct_credentials =
  wd_ssid :: "string option"
  wd_password :: "string option"
  wd_port :: "i32 option"
  wd_frequency :: "i32 option"
  wd_gateway :: "string option"
  wd_ip_v6_address :: "bytes option"
  wd_service_name :: "string option"
  wd_device_name :: "string option"
  wd_pin :: "string option"

definition wifi_direct_credentials_default :: wifi_direct_credentials where
  "wifi_direct_credentials_default = \<lparr>
     wd_ssid = None, wd_password = None, wd_port = None, wd_frequency = None,
     wd_gateway = None, wd_ip_v6_address = None, wd_service_name = None,
     wd_device_name = None, wd_pin = None\<rparr>"

record web_rtc_credentials =
  wr_peer_id :: "string option"
  wr_location_hint :: "location_hint option"

definition web_rtc_credentials_default :: web_rtc_credentials where
  "web_rtc_credentials_default = \<lparr>
     wr_peer_id = None, wr_location_hint = None\<rparr>"

record awdl_credentials =
  aw_service_name :: "string option"
  aw_service_type :: "string option"
  aw_password :: "string option"

definition awdl_credentials_default :: awdl_credentials where
  "awdl_credentials_default = \<lparr>
     aw_service_name = None, aw_service_type = None, aw_password = None\<rparr>"

record upgrade_path_request =
  upr_mediums :: "i32 list"
  upr_medium_meta_data :: "medium_metadata option"

definition upgrade_path_request_default :: upgrade_path_request where
  "upgrade_path_request_default = \<lparr>
     upr_mediums = [], upr_medium_meta_data = None\<rparr>"

record upgrade_path_info =
  upi_medium :: "i32 option"
  upi_wifi_hotspot_credentials :: "wifi_hotspot_credentials option"
  upi_wifi_lan_socket :: "wifi_lan_socket option"
  upi_bluetooth_credentials :: "bluetooth_credentials option"
  upi_wifi_aware_credentials :: "wifi_aware_credentials option"
  upi_wifi_direct_credentials :: "wifi_direct_credentials option"
  upi_web_rtc_credentials :: "web_rtc_credentials option"
  upi_awdl_credentials :: "awdl_credentials option"
  upi_supports_disabling_encryption :: "bool option"
  upi_supports_client_introduction_ack :: "bool option"
  upi_upgrade_path_request :: "upgrade_path_request option"

definition upgrade_path_info_default :: upgrade_path_info where
  "upgrade_path_info_default = \<lparr>
     upi_medium = None, upi_wifi_hotspot_credentials = None, upi_wifi_lan_socket = None,
     upi_bluetooth_credentials = None, upi_wifi_aware_credentials = None,
     upi_wifi_direct_credentials = None, upi_web_rtc_credentials = None,
     upi_awdl_credentials = None, upi_supports_disabling_encryption = None,
     upi_supports_client_introduction_ack = None, upi_upgrade_path_request = None\<rparr>"

record safe_to_close_prior_channel =
  stc_sta_frequency :: "i32 option"

definition safe_to_close_prior_channel_default :: safe_to_close_prior_channel where
  "safe_to_close_prior_channel_default = \<lparr>
     stc_sta_frequency = None\<rparr>"

record client_introduction =
  ci_endpoint_id :: "string option"
  ci_supports_disabling_encryption :: "bool option"
  ci_last_endpoint_id :: "string option"

definition client_introduction_default :: client_introduction where
  "client_introduction_default = \<lparr>
     ci_endpoint_id = None, ci_supports_disabling_encryption = None,
     ci_last_endpoint_id = None\<rparr>"

record bandwidth_upgrade_negotiation_frame =
  bwu_event_type :: "i32 option"
  bwu_upgrade_path_info :: "upgrade_path_info option"
  bwu_client_introduction :: "client_introduction option"
  bwu_client_introduction_ack :: "unit option"
  bwu_safe_to_close_prior_channel :: "safe_to_close_prior_channel option"

definition bandwidth_upgrade_negotiation_frame_default :: bandwidth_upgrade_negotiation_frame where
  "bandwidth_upgrade_negotiation_frame_default = \<lparr>
     bwu_event_type = None, bwu_upgrade_path_info = None, bwu_client_introduction = None,
     bwu_client_introduction_ack = None, bwu_safe_to_close_prior_channel = None\<rparr>"

record bandwidth_upgrade_retry_frame =
  bur_supported_medium :: "i32 list"
  bur_is_request :: "bool option"

definition bandwidth_upgrade_retry_frame_default :: bandwidth_upgrade_retry_frame where
  "bandwidth_upgrade_retry_frame_default = \<lparr>
     bur_supported_medium = [], bur_is_request = None\<rparr>"

record keep_alive_frame =
  ka_ack :: "bool option"
  ka_seq_num :: "nat option"

definition keep_alive_frame_default :: keep_alive_frame where
  "keep_alive_frame_default = \<lparr>
     ka_ack = None, ka_seq_num = None\<rparr>"

record disconnection_frame =
  dis_request_safe_to_disconnect :: "bool option"
  dis_ack_safe_to_disconnect :: "bool option"

definition disconnection_frame_default :: disconnection_frame where
  "disconnection_frame_default = \<lparr>
     dis_request_safe_to_disconnect = None, dis_ack_safe_to_disconnect = None\<rparr>"

record paired_key_encryption_frame =
  pke_signed_data :: "bytes option"

definition paired_key_encryption_frame_default :: paired_key_encryption_frame where
  "paired_key_encryption_frame_default = \<lparr>
     pke_signed_data = None\<rparr>"

record authentication_message_frame =
  amf_auth_message :: "bytes option"

definition authentication_message_frame_default :: authentication_message_frame where
  "authentication_message_frame_default = \<lparr>
     amf_auth_message = None\<rparr>"

record authentication_result_frame =
  arf_result :: "i32 option"

definition authentication_result_frame_default :: authentication_result_frame where
  "authentication_result_frame_default = \<lparr>
     arf_result = None\<rparr>"

record auto_resume_frame =
  arsf_event_type :: "i32 option"
  arsf_pending_payload_id :: "i64 option"
  arsf_next_payload_chunk_index :: "i32 option"
  arsf_version :: "i32 option"

definition auto_resume_frame_default :: auto_resume_frame where
  "auto_resume_frame_default = \<lparr>
     arsf_event_type = None, arsf_pending_payload_id = None,
     arsf_next_payload_chunk_index = None, arsf_version = None\<rparr>"

record auto_reconnect_frame =
  arcf_endpoint_id :: "string option"
  arcf_event_type :: "i32 option"
  arcf_last_endpoint_id :: "string option"

definition auto_reconnect_frame_default :: auto_reconnect_frame where
  "auto_reconnect_frame_default = \<lparr>
     arcf_endpoint_id = None, arcf_event_type = None, arcf_last_endpoint_id = None\<rparr>"

record v1_frame =
  v1_type :: "i32 option"
  v1_connection_request :: "connection_request_frame option"
  v1_connection_response :: "connection_response_frame option"
  v1_payload_transfer :: "payload_transfer_frame option"
  v1_bandwidth_upgrade_negotiation :: "bandwidth_upgrade_negotiation_frame option"
  v1_keep_alive :: "keep_alive_frame option"
  v1_disconnection :: "disconnection_frame option"
  v1_paired_key_encryption :: "paired_key_encryption_frame option"
  v1_authentication_message :: "authentication_message_frame option"
  v1_authentication_result :: "authentication_result_frame option"
  v1_auto_resume :: "auto_resume_frame option"
  v1_auto_reconnect :: "auto_reconnect_frame option"
  v1_bandwidth_upgrade_retry :: "bandwidth_upgrade_retry_frame option"

definition v1_frame_default :: v1_frame where
  "v1_frame_default = \<lparr>
     v1_type = None, v1_connection_request = None, v1_connection_response = None,
     v1_payload_transfer = None, v1_bandwidth_upgrade_negotiation = None,
     v1_keep_alive = None, v1_disconnection = None, v1_paired_key_encryption = None,
     v1_authentication_message = None, v1_authentication_result = None,
     v1_auto_resume = None, v1_auto_reconnect = None, v1_bandwidth_upgrade_retry = None\<rparr>"

record offline_frame =
  of_version :: "i32 option"
  of_v1 :: "v1_frame option"

definition offline_frame_default :: offline_frame where
  "offline_frame_default = \<lparr>
     of_version = None, of_v1 = None\<rparr>"

lemmas wire_defaults =
  pb_service_address_default_def
  usable_channels_default_def
  medium_role_default_def
  location_hint_default_def
  os_info_default_def
  connections_device_default_def
  presence_device_default_def
  medium_metadata_default_def
  connection_request_frame_default_def
  connection_response_frame_default_def
  payload_header_default_def
  payload_chunk_default_def
  control_message_default_def
  payload_transfer_frame_default_def
  wifi_hotspot_credentials_default_def
  wifi_lan_socket_default_def
  bluetooth_credentials_default_def
  wifi_aware_credentials_default_def
  wifi_direct_credentials_default_def
  web_rtc_credentials_default_def
  awdl_credentials_default_def
  upgrade_path_request_default_def
  upgrade_path_info_default_def
  safe_to_close_prior_channel_default_def
  client_introduction_default_def
  bandwidth_upgrade_negotiation_frame_default_def
  bandwidth_upgrade_retry_frame_default_def
  keep_alive_frame_default_def
  disconnection_frame_default_def
  paired_key_encryption_frame_default_def
  authentication_message_frame_default_def
  authentication_result_frame_default_def
  auto_resume_frame_default_def
  auto_reconnect_frame_default_def
  v1_frame_default_def
  offline_frame_default_def

section \<open>Enum conversions round trip\<close>

lemma version_try_from_as_i32 [simp]: "version_try_from (version_as_i32 x) = Some x"
  by (cases x) (simp_all add: version_try_from_def)

lemma version_as_i32_eq [simp]: "version_as_i32 x = version_as_i32 y \<longleftrightarrow> x = y"
  by (metis option.inject version_try_from_as_i32)

declare version_as_i32.simps [simp del]

lemma version_try_from_Some: "version_try_from v = Some x \<Longrightarrow> v = version_as_i32 x"
  by (auto simp: version_try_from_def version_as_i32.simps split: if_splits)

lemma frame_type_try_from_as_i32 [simp]: "frame_type_try_from (frame_type_as_i32 x) = Some x"
  by (cases x) (simp_all add: frame_type_try_from_def)

lemma frame_type_as_i32_eq [simp]: "frame_type_as_i32 x = frame_type_as_i32 y \<longleftrightarrow> x = y"
  by (metis option.inject frame_type_try_from_as_i32)

declare frame_type_as_i32.simps [simp del]

lemma frame_type_try_from_Some: "frame_type_try_from v = Some x \<Longrightarrow> v = frame_type_as_i32 x"
  by (auto simp: frame_type_try_from_def frame_type_as_i32.simps split: if_splits)

lemma crf_medium_try_from_as_i32 [simp]: "crf_medium_try_from (crf_medium_as_i32 x) = Some x"
  by (cases x) (simp_all add: crf_medium_try_from_def)

lemma crf_medium_as_i32_eq [simp]: "crf_medium_as_i32 x = crf_medium_as_i32 y \<longleftrightarrow> x = y"
  by (metis option.inject crf_medium_try_from_as_i32)

declare crf_medium_as_i32.simps [simp del]

lemma crf_medium_try_from_Some: "crf_medium_try_from v = Some x \<Longrightarrow> v = crf_medium_as_i32 x"
  by (auto simp: crf_medium_try_from_def crf_medium_as_i32.simps split: if_splits)

lemma response_status_try_from_as_i32 [simp]: "response_status_try_from (response_status_as_i32 x) = Some x"
  by (cases x) (simp_all add: response_status_try_from_def)

lemma response_status_as_i32_eq [simp]: "response_status_as_i32 x = response_status_as_i32 y \<longleftrightarrow> x = y"
  by (metis option.inject response_status_try_from_as_i32)

declare response_status_as_i32.simps [simp del]

lemma response_status_try_from_Some: "response_status_try_from v = Some x \<Longrightarrow> v = response_status_as_i32 x"
  by (auto simp: response_status_try_from_def response_status_as_i32.simps split: if_splits)

lemma packet_type_try_from_as_i32 [simp]: "packet_type_try_from (packet_type_as_i32 x) = Some x"
  by (cases x) (simp_all add: packet_type_try_from_def)

lemma packet_type_as_i32_eq [simp]: "packet_type_as_i32 x = packet_type_as_i32 y \<longleftrightarrow> x = y"
  by (metis option.inject packet_type_try_from_as_i32)

declare packet_type_as_i32.simps [simp del]

lemma packet_type_try_from_Some: "packet_type_try_from v = Some x \<Longrightarrow> v = packet_type_as_i32 x"
  by (auto simp: packet_type_try_from_def packet_type_as_i32.simps split: if_splits)

lemma payload_type_try_from_as_i32 [simp]: "payload_type_try_from (payload_type_as_i32 x) = Some x"
  by (cases x) (simp_all add: payload_type_try_from_def)

lemma payload_type_as_i32_eq [simp]: "payload_type_as_i32 x = payload_type_as_i32 y \<longleftrightarrow> x = y"
  by (metis option.inject payload_type_try_from_as_i32)

declare payload_type_as_i32.simps [simp del]

lemma payload_type_try_from_Some: "payload_type_try_from v = Some x \<Longrightarrow> v = payload_type_as_i32 x"
  by (auto simp: payload_type_try_from_def payload_type_as_i32.simps split: if_splits)

lemma event_type_try_from_as_i32 [simp]: "event_type_try_from (event_type_as_i32 x) = Some x"
  by (cases x) (simp_all add: event_type_try_from_def)

lemma event_type_as_i32_eq [simp]: "event_type_as_i32 x = event_type_as_i32 y \<longleftrightarrow> x = y"
  by (metis option.inject event_type_try_from_as_i32)

declare event_type_as_i32.simps [simp del]

lemma event_type_try_from_Some: "event_type_try_from v = Some x \<Longrightarrow> v = event_type_as_i32 x"
  by (auto simp: event_type_try_from_def event_type_as_i32.simps split: if_splits)

lemma upi_medium_pb_try_from_as_i32 [simp]: "upi_medium_pb_try_from (upi_medium_pb_as_i32 x) = Some x"
  by (cases x) (simp_all add: upi_medium_pb_try_from_def)

lemma upi_medium_pb_as_i32_eq [simp]: "upi_medium_pb_as_i32 x = upi_medium_pb_as_i32 y \<longleftrightarrow> x = y"
  by (metis option.inject upi_medium_pb_try_from_as_i32)

declare upi_medium_pb_as_i32.simps [simp del]

lemma upi_medium_pb_try_from_Some: "upi_medium_pb_try_from v = Some x \<Longrightarrow> v = upi_medium_pb_as_i32 x"
  by (auto simp: upi_medium_pb_try_from_def upi_medium_pb_as_i32.simps split: if_splits)

lemma mm_auth_type_try_from_as_i32 [simp]: "mm_auth_type_try_from (mm_auth_type_as_i32 x) = Some x"
  by (cases x) (simp_all add: mm_auth_type_try_from_def)

lemma mm_auth_type_as_i32_eq [simp]: "mm_auth_type_as_i32 x = mm_auth_type_as_i32 y \<longleftrightarrow> x = y"
  by (metis option.inject mm_auth_type_try_from_as_i32)

declare mm_auth_type_as_i32.simps [simp del]

lemma mm_auth_type_try_from_Some: "mm_auth_type_try_from v = Some x \<Longrightarrow> v = mm_auth_type_as_i32 x"
  by (auto simp: mm_auth_type_try_from_def mm_auth_type_as_i32.simps split: if_splits)

end
