(* ===== verification/Rust_Std.thy ===== *)
theory Rust_Std
  imports Nearby_Prelude
begin

text \<open>
  The functions of Rust's standard library whose results the crate depends on:
  \<^verbatim>\<open>String::from_utf8_lossy\<close>, decimal \<^verbatim>\<open>parse\<close> and \<^verbatim>\<open>to_string\<close> of integers and of
  \<^verbatim>\<open>Ipv4Addr\<close>, \<^verbatim>\<open>i32::to_be_bytes\<close>/\<^verbatim>\<open>from_be_bytes\<close>, and checked \<^verbatim>\<open>Duration\<close>
  arithmetic.
\<close>

section \<open>UTF-8\<close>

abbreviation byte_char :: "byte \<Rightarrow> char" where
  "byte_char b \<equiv> char_of (unat b)"

definition is_continuation :: "nat \<Rightarrow> bool" where
  "is_continuation b \<longleftrightarrow> 128 \<le> b \<and> b < 192"

text \<open>
  One step of the lossy decoder (\<^verbatim>\<open>Utf8Chunks\<close>): how many bytes the next chunk takes, and
  whether they are one well-formed scalar value. An ill-formed sequence is cut after the
  longest prefix that could still have become well formed. Reading past the end yields 0,
  which is not a continuation byte.
\<close>

definition utf8_first_continuation_ok :: "nat \<Rightarrow> nat \<Rightarrow> bool" where
  "utf8_first_continuation_ok a b =
     (if a = 224 then 160 \<le> b \<and> b < 192
      else if a = 237 then 128 \<le> b \<and> b < 160
      else if a = 240 then 144 \<le> b \<and> b < 192
      else if a = 244 then 128 \<le> b \<and> b < 144
      else is_continuation b)"

fun nth_or_0 :: "byte list \<Rightarrow> nat \<Rightarrow> nat" where
  "nth_or_0 [] i = 0"
| "nth_or_0 (b # bs) 0 = unat b"
| "nth_or_0 (b # bs) (Suc i) = nth_or_0 bs i"

definition utf8_chunk :: "bytes \<Rightarrow> nat \<times> bool" where
  "utf8_chunk bs =
     (let a = nth_or_0 bs 0; b = nth_or_0 bs 1; c = nth_or_0 bs 2; d = nth_or_0 bs 3
      in if a < 128 then (1, True)
         else if 194 \<le> a \<and> a < 224 then
           (if is_continuation b then (2, True) else (1, False))
         else if 224 \<le> a \<and> a < 240 then
           (if \<not> utf8_first_continuation_ok a b then (1, False)
            else if is_continuation c then (3, True) else (2, False))
         else if 240 \<le> a \<and> a < 245 then
           (if \<not> utf8_first_continuation_ok a b then (1, False)
            else if \<not> is_continuation c then (2, False)
            else if is_continuation d then (4, True) else (3, False))
         else (1, False))"

text \<open>U+FFFD in UTF-8.\<close>

definition replacement_char :: string where
  "replacement_char = [CHR 0xEF, CHR 0xBF, CHR 0xBD]"

lemma utf8_chunk_pos: "0 < fst (utf8_chunk bs)"
  by (simp add: utf8_chunk_def Let_def)

function from_utf8_lossy :: "bytes \<Rightarrow> string" where
  "from_utf8_lossy [] = []"
| "from_utf8_lossy (x # xs) =
     (let (n, ok) = utf8_chunk (x # xs)
      in (if ok then map byte_char (take n (x # xs)) else replacement_char)
         @ from_utf8_lossy (drop n (x # xs)))"
  by pat_completeness auto
termination
proof (relation "measure length")
  fix x :: byte and xs n ok y
  assume "y = utf8_chunk (x # xs)" and "(n, ok) = y"
  then have "0 < n" using utf8_chunk_pos [of "x # xs"] by (metis fst_conv)
  then show "(drop n (x # xs), x # xs) \<in> measure length" by simp
qed simp

declare from_utf8_lossy.simps(2) [simp del]

lemma from_utf8_lossy_empty_iff: "from_utf8_lossy bs = [] \<longleftrightarrow> bs = []"
proof (cases bs)
  case (Cons x xs)
  obtain n ok where "utf8_chunk (x # xs) = (n, ok)" by fastforce
  moreover have "0 < n" using utf8_chunk_pos [of "x # xs"] calculation by simp
  ultimately show ?thesis
    using Cons by (simp add: from_utf8_lossy.simps(2) replacement_char_def)
qed simp

lemma from_utf8_lossy_ascii:
  "\<forall>b \<in> set bs. unat b < 128 \<Longrightarrow> from_utf8_lossy bs = map byte_char bs"
  by (induction bs) (simp_all add: from_utf8_lossy.simps(2) utf8_chunk_def)

section \<open>Decimal numbers\<close>

definition is_ascii_digit :: "char \<Rightarrow> bool" where
  "is_ascii_digit c \<longleftrightarrow> 48 \<le> (of_char c :: nat) \<and> (of_char c :: nat) \<le> 57"

definition is_ascii_alphanumeric :: "char \<Rightarrow> bool" where
  "is_ascii_alphanumeric c \<longleftrightarrow> is_ascii_digit c
     \<or> 65 \<le> (of_char c :: nat) \<and> (of_char c :: nat) \<le> 90
     \<or> 97 \<le> (of_char c :: nat) \<and> (of_char c :: nat) \<le> 122"

definition digit_value :: "char \<Rightarrow> nat" where
  "digit_value c = of_char c - 48"

definition decimal_value :: "string \<Rightarrow> nat" where
  "decimal_value s = foldl (\<lambda>n c. 10 * n + digit_value c) 0 s"

text \<open>
  \<^verbatim>\<open>str::parse\<close> for an unsigned integer type with the given maximum: an optional plus
  sign, then one or more digits; anything else and an overflow are errors.
\<close>

definition parse_unsigned :: "nat \<Rightarrow> string \<Rightarrow> nat option" where
  "parse_unsigned mx s =
     (let ds = (case s of [] \<Rightarrow> [] | c # cs \<Rightarrow> if c = CHR ''+'' then cs else s)
      in if ds = [] \<or> \<not> list_all is_ascii_digit ds then None
         else if decimal_value ds \<le> mx then Some (decimal_value ds) else None)"

definition digit_char :: "nat \<Rightarrow> char" where
  "digit_char d = char_of (48 + d)"

fun show_nat :: "nat \<Rightarrow> string" where
  "show_nat n = (if n < 10 then [digit_char n] else show_nat (n div 10) @ [digit_char (n mod 10)])"

declare show_nat.simps [simp del]

lemma digit_char_digit: "d < 10 \<Longrightarrow> is_ascii_digit (digit_char d) \<and> digit_value (digit_char d) = d"
  by (simp add: is_ascii_digit_def digit_value_def digit_char_def)

lemma plus_not_digit: "\<not> is_ascii_digit CHR ''+''" "\<not> is_ascii_digit CHR ''.''"
  by (simp_all add: is_ascii_digit_def)

lemma decimal_value_snoc: "decimal_value (s @ [c]) = 10 * decimal_value s + digit_value c"
  by (simp add: decimal_value_def)

lemma show_nat_digits: "list_all is_ascii_digit (show_nat n) \<and> show_nat n \<noteq> []"
proof (induction n rule: show_nat.induct)
  case (1 n)
  then show ?case
    by (cases "n < 10") (simp_all add: show_nat.simps [of n] digit_char_digit)
qed

lemma decimal_value_show_nat: "decimal_value (show_nat n) = n"
proof (induction n rule: show_nat.induct)
  case (1 n)
  then show ?case
    by (cases "n < 10")
      (simp_all add: show_nat.simps [of n] decimal_value_snoc digit_char_digit decimal_value_def)
qed

lemma parse_unsigned_digits:
  assumes "list_all is_ascii_digit s" and "s \<noteq> []"
  shows "parse_unsigned mx s = (if decimal_value s \<le> mx then Some (decimal_value s) else None)"
  using assms plus_not_digit(1)
  by (cases s) (auto simp: parse_unsigned_def Let_def)

lemma parse_unsigned_show_nat: "n \<le> mx \<Longrightarrow> parse_unsigned mx (show_nat n) = Some n"
  by (simp add: parse_unsigned_digits show_nat_digits decimal_value_show_nat)

lemma show_nat_length: "n < 1000 \<Longrightarrow> length (show_nat n) \<le> 3"
  by (simp add: show_nat.simps [of n] show_nat.simps [of "n div 10"]
      show_nat.simps [of "n div 10 div 10"])

lemma show_nat_no_leading_zero: "show_nat n = CHR ''0'' # cs \<Longrightarrow> cs = []"
proof (induction n arbitrary: cs rule: show_nat.induct)
  case (1 n)
  show ?case
  proof (cases "n < 10")
    case True
    with "1.prems" show ?thesis by (simp add: show_nat.simps [of n])
  next
    case False
    obtain c ds where c: "show_nat (n div 10) = c # ds"
      using show_nat_digits [of "n div 10"] by (cases "show_nat (n div 10)") auto
    with "1.prems" False have "show_nat (n div 10) = CHR ''0'' # ds"
      by (simp add: show_nat.simps [of n])
    with "1.IH" False have "ds = []" by blast
    with \<open>show_nat (n div 10) = CHR ''0'' # ds\<close>
    have "decimal_value (show_nat (n div 10)) = decimal_value ''0''" by simp
    then have "n div 10 = 0"
      by (simp only: decimal_value_show_nat) (simp add: decimal_value_def digit_value_def)
    with False show ?thesis by simp
  qed
qed

section \<open>IPv4 addresses\<close>

text \<open>An \<^verbatim>\<open>Ipv4Addr\<close> is its four octets.\<close>

type_synonym ipv4 = "byte \<times> byte \<times> byte \<times> byte"

definition ipv4_localhost :: ipv4 where
  "ipv4_localhost = (127, 0, 0, 1)"

fun ipv4_octets :: "ipv4 \<Rightarrow> bytes" where
  "ipv4_octets (a, b, c, d) = [a, b, c, d]"

fun ipv4_to_string :: "ipv4 \<Rightarrow> string" where
  "ipv4_to_string (a, b, c, d) =
     str_join (CHR ''.'') (map (\<lambda>x. show_nat (unat x)) [a, b, c, d])"

text \<open>
  \<^verbatim>\<open>Ipv4Addr::from_str\<close>: four decimal octets of one to three digits; an octet of more
  than one digit may not start with zero.
\<close>

definition parse_octet :: "string \<Rightarrow> byte option" where
  "parse_octet s =
     (if s = [] \<or> 3 < length s \<or> \<not> list_all is_ascii_digit s then None
      else if 1 < length s \<and> hd s = CHR ''0'' then None
      else if decimal_value s \<le> 255 then Some (of_nat (decimal_value s)) else None)"

definition ipv4_parse :: "string \<Rightarrow> ipv4 option" where
  "ipv4_parse s =
     (case str_split (CHR ''.'') s of
        [p, q, r, t] \<Rightarrow>
          do { a \<leftarrow> parse_octet p; b \<leftarrow> parse_octet q; c \<leftarrow> parse_octet r; d \<leftarrow> parse_octet t;
               Some (a, b, c, d) }
      | _ \<Rightarrow> None)"

lemma unat_byte_le: "unat (b :: byte) \<le> 255"
  using unsigned_less [of b, where ?'a = nat] by simp

lemma parse_octet_show: "parse_octet (show_nat (unat (b :: byte))) = Some b"
proof -
  have "length (show_nat (unat b)) \<le> 3"
    by (rule show_nat_length) (use unat_byte_le [of b] in simp)
  moreover have "hd (show_nat (unat b)) = CHR ''0'' \<Longrightarrow> length (show_nat (unat b)) \<le> 1"
    using show_nat_no_leading_zero [of "unat b"] show_nat_digits [of "unat b"]
    by (cases "show_nat (unat b)") auto
  ultimately show ?thesis
    using unat_byte_le [of b]
    by (auto simp: parse_octet_def show_nat_digits decimal_value_show_nat)
qed

lemma dot_notin_show_nat: "CHR ''.'' \<notin> set (show_nat n)"
  using show_nat_digits [of n] plus_not_digit(2) by (auto simp: list_all_iff)

lemma ipv4_split_to_string:
  "str_split (CHR ''.'') (ipv4_to_string (a, b, c, d))
     = map (\<lambda>x. show_nat (unat x)) [a, b, c, d]"
  unfolding ipv4_to_string.simps by (rule str_split_join) (auto simp: dot_notin_show_nat)

text \<open>Printing an address and parsing it back is the identity.\<close>

lemma ipv4_parse_to_string: "ipv4_parse (ipv4_to_string ip) = Some ip"
proof -
  obtain a b c d where ip: "ip = (a, b, c, d)" by (metis surj_pair)
  show ?thesis
    unfolding ip ipv4_parse_def ipv4_split_to_string by (simp add: parse_octet_show)
qed

section \<open>Big-endian integers\<close>

text \<open>
  \<^verbatim>\<open>i32::to_be_bytes\<close> and \<^verbatim>\<open>from_be_bytes\<close>, over the 32-bit word that holds the value;
  \<^const>\<open>sint\<close> reads the word as the signed integer.
\<close>

definition to_be_bytes :: "32 word \<Rightarrow> bytes" where
  "to_be_bytes w = [ucast (drop_bit 24 w), ucast (drop_bit 16 w), ucast (drop_bit 8 w), ucast w]"

definition from_be_bytes :: "byte \<Rightarrow> byte \<Rightarrow> byte \<Rightarrow> byte \<Rightarrow> 32 word" where
  "from_be_bytes a b c d =
     push_bit 24 (ucast a) + push_bit 16 (ucast b) + push_bit 8 (ucast c) + ucast d"

lemma length_to_be_bytes [simp]: "length (to_be_bytes w) = 4"
  by (simp add: to_be_bytes_def)

lemma base256_digits:
  fixes n :: nat
  assumes "n < 4294967296"
  shows "n div 16777216 mod 256 * 16777216 + n div 65536 mod 256 * 65536
      + n div 256 mod 256 * 256 + n mod 256 = n"
proof -
  define q1 q2 q3 where "q1 = n div 256" and "q2 = q1 div 256" and "q3 = q2 div 256"
  have d: "n div 65536 = q2" "n div 16777216 = q3"
    by (simp_all add: q1_def q2_def q3_def div_mult2_eq [symmetric])
  have "q3 < 256" using assms d(2) by linarith
  then have "q3 mod 256 = q3" by simp
  moreover have "n = 256 * q1 + n mod 256" "q1 = 256 * q2 + q1 mod 256" "q2 = 256 * q3 + q2 mod 256"
    by (simp_all add: q1_def q2_def q3_def)
  ultimately show ?thesis unfolding d q1_def [symmetric] by linarith
qed

lemma unat_shifted_byte:
  assumes "k \<le> 24"
  shows "unat (push_bit k (ucast (x :: byte)) :: 32 word) = unat x * 2 ^ k"
proof -
  have "unat x * 2 ^ k < 256 * 2 ^ k" using unat_byte_le [of x] by simp
  also have "\<dots> \<le> 256 * 2 ^ 24"
    by (rule mult_le_mono2) (rule power_increasing [OF assms], simp)
  finally have lt: "unat x * 2 ^ k < 2 ^ 32" by simp
  have "(push_bit k (ucast x) :: 32 word) = of_nat (unat x * 2 ^ k)"
    by (simp add: push_bit_eq_mult)
  then have "unat (push_bit k (ucast x) :: 32 word) = unat x * 2 ^ k mod 2 ^ 32"
    by (simp only: unat_of_nat) simp
  then show ?thesis using lt by simp
qed

lemma unat_from_be_bytes:
  "unat (from_be_bytes a b c d)
     = unat a * 16777216 + unat b * 65536 + unat c * 256 + unat d"
proof -
  have "unat a \<le> 255" "unat b \<le> 255" "unat c \<le> 255" "unat d \<le> 255"
    by (rule unat_byte_le)+
  then show ?thesis
    using unat_shifted_byte [of 24 a] unat_shifted_byte [of 16 b] unat_shifted_byte [of 8 c]
    by (simp add: from_be_bytes_def unat_word_ariths unsigned_ucast_eq take_bit_eq_mod)
qed

lemma unat_to_be_byte:
  "m = 2 ^ k \<Longrightarrow> unat (ucast (drop_bit k (w :: 32 word)) :: byte) = unat w div m mod 256"
  by (simp only: unsigned_ucast_eq take_bit_eq_mod unat_drop_bit_eq) (simp add: drop_bit_eq_div)

lemma from_to_be_bytes:
  "from_be_bytes (ucast (drop_bit 24 w)) (ucast (drop_bit 16 w)) (ucast (drop_bit 8 w)) (ucast w) = w"
proof -
  have lt: "unat w < 4294967296" using unsigned_less [of w, where ?'a = nat] by simp
  have d: "unat (ucast (drop_bit 24 w) :: byte) = unat w div 16777216 mod 256"
    "unat (ucast (drop_bit 16 w) :: byte) = unat w div 65536 mod 256"
    "unat (ucast (drop_bit 8 w) :: byte) = unat w div 256 mod 256"
    by (rule unat_to_be_byte, simp)+
  have "unat (ucast w :: byte) = unat w mod 256"
    using unat_to_be_byte [of 1 0 w] by simp
  then have "unat (from_be_bytes (ucast (drop_bit 24 w)) (ucast (drop_bit 16 w))
      (ucast (drop_bit 8 w)) (ucast w)) = unat w"
    by (simp only: unat_from_be_bytes d base256_digits [OF lt])
  then show ?thesis by (simp only: word_unat_eq_iff)
qed

section \<open>Durations\<close>

text \<open>
  A \<^verbatim>\<open>Duration\<close> in nanoseconds. It holds a 64-bit count of seconds and a part below one
  second; \<^verbatim>\<open>*\<close> and \<^verbatim>\<open>+\<close> panic when the result does not fit.
\<close>

type_synonym duration = nat

definition duration_max :: duration where
  "duration_max = (2 ^ 64 - 1) * 10 ^ 9 + 999999999"

definition from_secs :: "nat \<Rightarrow> duration" where
  "from_secs s = s * 10 ^ 9"

definition duration_mul :: "duration \<Rightarrow> nat \<Rightarrow> duration option" where
  "duration_mul d k = (if d * k \<le> duration_max then Some (d * k) else None)"

definition duration_add :: "duration \<Rightarrow> duration \<Rightarrow> duration option" where
  "duration_add a b = (if a + b \<le> duration_max then Some (a + b) else None)"

end
