(* ===== verification/Frames.thy ===== *)
theory Frames
  imports Mediums Offline_Wire Rust_Std
begin

text \<open>
  \<^verbatim>\<open>src/frames.rs\<close>: the exception codes, \<^verbatim>\<open>get_frame_type\<close>, the conversions between the
  domain enums and the per-frame enums, and the frame builders. A builder serialises the
  frame it builds; \<^verbatim>\<open>enc\<close>, prost's \<^verbatim>\<open>Message::encode\<close>, is the first argument of each.
  \<^verbatim>\<open>from_bytes\<close>, which validates, is in theory \<^verbatim>\<open>Validator\<close>.
\<close>

section \<open>Exceptions and plain data\<close>

datatype exception =
    Success | Failed | Io | Interrupted | InvalidProtocolBuffer | Execution | Timeout
  | IllegalCharacters | NoData

definition exception_ok :: "exception \<Rightarrow> bool" where
  "exception_ok e \<longleftrightarrow> e = Success"

definition STATUS_SUCCESS :: i32 where
  "STATUS_SUCCESS = 0"

definition INDETERMINATE_SIZE :: i64 where
  "INDETERMINATE_SIZE = -1"

record service_address =
  address :: bytes
  addr_port :: i32

definition service_address_to_proto :: "service_address \<Rightarrow> pb_service_address" where
  "service_address_to_proto a =
     \<lparr>sa_ip_address = Some (address a), sa_port = Some (addr_port a)\<rparr>"

record connection_info =
  local_endpoint_id :: string
  local_endpoint_info :: bytes
  nonce :: i32
  supports_5ghz :: bool
  bssid :: string
  ap_frequency :: i32
  supported_mediums :: "medium list"
  keep_alive_interval_millis :: i32
  keep_alive_timeout_millis :: i32
  medium_role_info :: "medium_role option"
  supported_wifi_direct_auth_types :: "wifi_direct_auth_type list"

section \<open>The frame type of a parsed frame\<close>

definition get_frame_type :: "offline_frame \<Rightarrow> frame_type" where
  "get_frame_type frame =
     (if of_version frame = Some (version_as_i32 V1) then
        (case of_v1 frame of
           Some v1 \<Rightarrow> unwrap_or (frame_type_try_from (unwrap_or (v1_type v1) 0)) UnknownFrameType
         | None \<Rightarrow> UnknownFrameType)
      else UnknownFrameType)"

section \<open>Medium conversions\<close>

fun medium_to_connection_request_medium :: "medium \<Rightarrow> crf_medium" where
  "medium_to_connection_request_medium Mdns = CrfMdns"
| "medium_to_connection_request_medium Bluetooth = CrfBluetooth"
| "medium_to_connection_request_medium WifiHotspot = CrfWifiHotspot"
| "medium_to_connection_request_medium Ble = CrfBle"
| "medium_to_connection_request_medium BleL2cap = CrfBleL2cap"
| "medium_to_connection_request_medium WifiLan = CrfWifiLan"
| "medium_to_connection_request_medium WifiAware = CrfWifiAware"
| "medium_to_connection_request_medium Nfc = CrfNfc"
| "medium_to_connection_request_medium WifiDirect = CrfWifiDirect"
| "medium_to_connection_request_medium WebRtc = CrfWebRtc"
| "medium_to_connection_request_medium WebRtcNonCellular = CrfWebRtcNonCellular"
| "medium_to_connection_request_medium Usb = CrfUsb"
| "medium_to_connection_request_medium Awdl = CrfAwdl"
| "medium_to_connection_request_medium UnknownMedium = CrfUnknownMedium"

fun connection_request_medium_to_medium :: "crf_medium \<Rightarrow> medium" where
  "connection_request_medium_to_medium CrfMdns = Mdns"
| "connection_request_medium_to_medium CrfBluetooth = Bluetooth"
| "connection_request_medium_to_medium CrfWifiHotspot = WifiHotspot"
| "connection_request_medium_to_medium CrfBle = Ble"
| "connection_request_medium_to_medium CrfBleL2cap = BleL2cap"
| "connection_request_medium_to_medium CrfWifiLan = WifiLan"
| "connection_request_medium_to_medium CrfWifiAware = WifiAware"
| "connection_request_medium_to_medium CrfNfc = Nfc"
| "connection_request_medium_to_medium CrfWifiDirect = WifiDirect"
| "connection_request_medium_to_medium CrfWebRtc = WebRtc"
| "connection_request_medium_to_medium CrfWebRtcNonCellular = WebRtcNonCellular"
| "connection_request_medium_to_medium CrfUsb = Usb"
| "connection_request_medium_to_medium CrfAwdl = Awdl"
| "connection_request_medium_to_medium CrfUnknownMedium = UnknownMedium"

fun medium_to_upgrade_path_info_medium :: "medium \<Rightarrow> upi_medium_pb" where
  "medium_to_upgrade_path_info_medium Mdns = UpiMdns"
| "medium_to_upgrade_path_info_medium Bluetooth = UpiBluetooth"
| "medium_to_upgrade_path_info_medium WifiHotspot = UpiWifiHotspot"
| "medium_to_upgrade_path_info_medium Ble = UpiBle"
| "medium_to_upgrade_path_info_medium WifiLan = UpiWifiLan"
| "medium_to_upgrade_path_info_medium WifiAware = UpiWifiAware"
| "medium_to_upgrade_path_info_medium Nfc = UpiNfc"
| "medium_to_upgrade_path_info_medium WifiDirect = UpiWifiDirect"
| "medium_to_upgrade_path_info_medium WebRtc = UpiWebRtc"
| "medium_to_upgrade_path_info_medium WebRtcNonCellular = UpiWebRtcNonCellular"
| "medium_to_upgrade_path_info_medium Usb = UpiUsb"
| "medium_to_upgrade_path_info_medium Awdl = UpiAwdl"
| "medium_to_upgrade_path_info_medium BleL2cap = UpiUnknownMedium"
| "medium_to_upgrade_path_info_medium UnknownMedium = UpiUnknownMedium"

fun upgrade_path_info_medium_to_medium :: "upi_medium_pb \<Rightarrow> medium" where
  "upgrade_path_info_medium_to_medium UpiMdns = Mdns"
| "upgrade_path_info_medium_to_medium UpiBluetooth = Bluetooth"
| "upgrade_path_info_medium_to_medium UpiWifiHotspot = WifiHotspot"
| "upgrade_path_info_medium_to_medium UpiBle = Ble"
| "upgrade_path_info_medium_to_medium UpiWifiLan = WifiLan"
| "upgrade_path_info_medium_to_medium UpiWifiAware = WifiAware"
| "upgrade_path_info_medium_to_medium UpiNfc = Nfc"
| "upgrade_path_info_medium_to_medium UpiWifiDirect = WifiDirect"
| "upgrade_path_info_medium_to_medium UpiWebRtc = WebRtc"
| "upgrade_path_info_medium_to_medium UpiWebRtcNonCellular = WebRtcNonCellular"
| "upgrade_path_info_medium_to_medium UpiUsb = Usb"
| "upgrade_path_info_medium_to_medium UpiAwdl = Awdl"
| "upgrade_path_info_medium_to_medium UpiUnknownMedium = UnknownMedium"

definition connection_request_mediums_to_mediums :: "connection_request_frame \<Rightarrow> medium list" where
  "connection_request_mediums_to_mediums frame =
     map (\<lambda>int_medium. connection_request_medium_to_medium
            (unwrap_or (crf_medium_try_from int_medium) CrfUnknownMedium))
       (crf_mediums frame)"

fun wfd_auth_type_to_medium_metadata_wfd_auth_type :: "wifi_direct_auth_type \<Rightarrow> mm_auth_type" where
  "wfd_auth_type_to_medium_metadata_wfd_auth_type WifiDirectWithPassword = MmWifiDirectWithPassword"
| "wfd_auth_type_to_medium_metadata_wfd_auth_type WifiDirectWithDeviceName = MmWifiDirectWithDeviceName"
| "wfd_auth_type_to_medium_metadata_wfd_auth_type _ = MmWifiDirectTypeUnknown"

fun medium_metadata_wfd_auth_type_to_wfd_auth_type :: "mm_auth_type \<Rightarrow> wifi_direct_auth_type" where
  "medium_metadata_wfd_auth_type_to_wfd_auth_type MmWifiDirectWithPassword = WifiDirectWithPassword"
| "medium_metadata_wfd_auth_type_to_wfd_auth_type MmWifiDirectWithDeviceName = WifiDirectWithDeviceName"
| "medium_metadata_wfd_auth_type_to_wfd_auth_type _ = WifiDirectTypeUnknown"

definition medium_metadata_wfd_auth_types_to_wfd_auth_types ::
    "medium_metadata \<Rightarrow> wifi_direct_auth_type list" where
  "medium_metadata_wfd_auth_types_to_wfd_auth_types mm =
     map (\<lambda>int_type. medium_metadata_wfd_auth_type_to_wfd_auth_type
            (unwrap_or (mm_auth_type_try_from int_type) MmWifiDirectTypeUnknown))
       (mm_supported_wifi_direct_auth_types mm)"

section \<open>Builders\<close>

text \<open>
  \<^verbatim>\<open>v1_offline_frame\<close> is the frame \<^verbatim>\<open>encode_v1\<close> assembles before it serialises it.
\<close>

definition v1_offline_frame :: "frame_type \<Rightarrow> (v1_frame \<Rightarrow> v1_frame) \<Rightarrow> offline_frame" where
  "v1_offline_frame frame_type fill =
     \<lparr>of_version = Some (version_as_i32 V1),
      of_v1 = Some (fill (v1_frame_default\<lparr>v1_type := Some (frame_type_as_i32 frame_type)\<rparr>))\<rparr>"

definition encode_v1 ::
    "(offline_frame \<Rightarrow> bytes) \<Rightarrow> frame_type \<Rightarrow> (v1_frame \<Rightarrow> v1_frame) \<Rightarrow> bytes" where
  "encode_v1 enc frame_type fill = enc (v1_offline_frame frame_type fill)"

definition build_connection_request_common :: "connection_info \<Rightarrow> connection_request_frame" where
  "build_connection_request_common info =
     (let req = connection_request_frame_default;
          req = (if local_endpoint_info info \<noteq> []
                 then req\<lparr>crf_endpoint_name := Some (from_utf8_lossy (local_endpoint_info info)),
                          crf_endpoint_info := Some (local_endpoint_info info)\<rparr>
                 else req);
          req = req\<lparr>crf_nonce := Some (nonce info)\<rparr>;
          mm = medium_metadata_default\<lparr>mm_supports_5_ghz := Some (supports_5ghz info)\<rparr>;
          mm = (if bssid info \<noteq> [] then mm\<lparr>mm_bssid := Some (bssid info)\<rparr> else mm);
          mm = mm\<lparr>mm_ap_frequency := Some (ap_frequency info)\<rparr>;
          req = req\<lparr>crf_medium_metadata := Some mm\<rparr>;
          req = req\<lparr>crf_mediums := crf_mediums req @
                  map (\<lambda>m. crf_medium_as_i32 (medium_to_connection_request_medium m))
                    (supported_mediums info)\<rparr>;
          req = (if 0 < keep_alive_interval_millis info
                 then req\<lparr>crf_keep_alive_interval_millis := Some (keep_alive_interval_millis info)\<rparr>
                 else req)
      in (if 0 < keep_alive_timeout_millis info
          then req\<lparr>crf_keep_alive_timeout_millis := Some (keep_alive_timeout_millis info)\<rparr>
          else req))"

definition connection_request_connections ::
    "connections_device option \<Rightarrow> connection_info \<Rightarrow> bool \<Rightarrow> connection_request_frame option" where
  "connection_request_connections proto_connections_device info enable_dynamic_role_switch =
     (let req = connection_request_frame_default;
          req = (case proto_connections_device of
                   Some dev \<Rightarrow> if cd_endpoint_id dev \<noteq> None
                               then req\<lparr>crf_device := Some (ConnectionsDevice dev)\<rparr> else req
                 | None \<Rightarrow> req);
          req = (if local_endpoint_id info \<noteq> []
                 then req\<lparr>crf_endpoint_id := Some (local_endpoint_id info)\<rparr> else req);
          common = build_connection_request_common info;
          req = req\<lparr>crf_endpoint_name := crf_endpoint_name common,
                    crf_endpoint_info := crf_endpoint_info common,
                    crf_nonce := crf_nonce common\<rparr>
      in do {
           mm \<leftarrow> crf_medium_metadata common;
           let mm = (if enable_dynamic_role_switch
                     then (case medium_role_info info of
                             Some role \<Rightarrow> mm\<lparr>mm_medium_role := Some role\<rparr> | None \<Rightarrow> mm)
                     else mm);
           let mm = mm\<lparr>mm_supported_wifi_direct_auth_types :=
                    mm_supported_wifi_direct_auth_types mm @
                    map (\<lambda>t. mm_auth_type_as_i32 (wfd_auth_type_to_medium_metadata_wfd_auth_type t))
                      (supported_wifi_direct_auth_types info)\<rparr>;
           Some (req\<lparr>crf_medium_metadata := Some mm,
                     crf_mediums := crf_mediums common,
                     crf_keep_alive_interval_millis := crf_keep_alive_interval_millis common,
                     crf_keep_alive_timeout_millis := crf_keep_alive_timeout_millis common\<rparr>)
         })"

definition for_connection_request_connections ::
    "(offline_frame \<Rightarrow> bytes) \<Rightarrow> connections_device option \<Rightarrow> connection_info \<Rightarrow> bool \<Rightarrow> bytes option" where
  "for_connection_request_connections enc dev info switch =
     do { req \<leftarrow> connection_request_connections dev info switch;
          Some (encode_v1 enc ConnectionRequest (\<lambda>v1. v1\<lparr>v1_connection_request := Some req\<rparr>)) }"

definition for_connection_request_presence ::
    "(offline_frame \<Rightarrow> bytes) \<Rightarrow> presence_device \<Rightarrow> connection_info \<Rightarrow> bytes" where
  "for_connection_request_presence enc dev info =
     (let req = build_connection_request_common info;
          req = (if local_endpoint_id info \<noteq> []
                 then req\<lparr>crf_endpoint_id := Some (unwrap_or (pd_endpoint_id dev) [])\<rparr> else req);
          req = req\<lparr>crf_device := Some (PresenceDevice dev)\<rparr>
      in encode_v1 enc ConnectionRequest (\<lambda>v1. v1\<lparr>v1_connection_request := Some req\<rparr>))"

definition for_connection_response ::
    "(offline_frame \<Rightarrow> bytes) \<Rightarrow> i32 \<Rightarrow> os_info \<Rightarrow> i32 \<Rightarrow> bytes" where
  "for_connection_response enc status os_info safe_to_disconnect_version =
     (let response = (if status = STATUS_SUCCESS then Accept else Reject);
          sub = connection_response_frame_default\<lparr>
                  crs_status := Some status,
                  crs_response := Some (response_status_as_i32 response),
                  crs_os_info := Some os_info,
                  crs_multiplex_socket_bitmask := Some 0,
                  crs_safe_to_disconnect_version := Some safe_to_disconnect_version\<rparr>
      in encode_v1 enc ConnectionResponse (\<lambda>v1. v1\<lparr>v1_connection_response := Some sub\<rparr>))"

definition encode_payload_transfer :: "(offline_frame \<Rightarrow> bytes) \<Rightarrow> payload_transfer_frame \<Rightarrow> bytes" where
  "encode_payload_transfer enc sub =
     encode_v1 enc PayloadTransfer (\<lambda>v1. v1\<lparr>v1_payload_transfer := Some sub\<rparr>)"

definition for_data_payload_transfer ::
    "(offline_frame \<Rightarrow> bytes) \<Rightarrow> payload_header \<Rightarrow> payload_chunk \<Rightarrow> bytes" where
  "for_data_payload_transfer enc header chunk =
     encode_payload_transfer enc (payload_transfer_frame_default\<lparr>
       pt_packet_type := Some (packet_type_as_i32 Data),
       pt_payload_header := Some header,
       pt_payload_chunk := Some chunk\<rparr>)"

definition for_control_payload_transfer ::
    "(offline_frame \<Rightarrow> bytes) \<Rightarrow> payload_header \<Rightarrow> control_message \<Rightarrow> bytes" where
  "for_control_payload_transfer enc header control =
     encode_payload_transfer enc (payload_transfer_frame_default\<lparr>
       pt_packet_type := Some (packet_type_as_i32 Control),
       pt_payload_header := Some header,
       pt_control_message := Some control\<rparr>)"

definition for_payload_ack_payload_transfer :: "(offline_frame \<Rightarrow> bytes) \<Rightarrow> i64 \<Rightarrow> bytes" where
  "for_payload_ack_payload_transfer enc payload_id =
     (let header = payload_header_default\<lparr>
                     ph_id := Some payload_id, ph_total_size := Some INDETERMINATE_SIZE\<rparr>
      in encode_payload_transfer enc (payload_transfer_frame_default\<lparr>
           pt_packet_type := Some (packet_type_as_i32 PayloadAck),
           pt_payload_header := Some header\<rparr>))"

text \<open>The negotiation frames all wrap one \<^verbatim>\<open>BandwidthUpgradeNegotiationFrame\<close>.\<close>

definition bwu_offline_frame :: "bandwidth_upgrade_negotiation_frame \<Rightarrow> offline_frame" where
  "bwu_offline_frame sub =
     v1_offline_frame BandwidthUpgradeNegotiation
       (\<lambda>v1. v1\<lparr>v1_bandwidth_upgrade_negotiation := Some sub\<rparr>)"

definition encode_bwu :: "(offline_frame \<Rightarrow> bytes) \<Rightarrow> bandwidth_upgrade_negotiation_frame \<Rightarrow> bytes" where
  "encode_bwu enc sub =
     encode_v1 enc BandwidthUpgradeNegotiation
       (\<lambda>v1. v1\<lparr>v1_bandwidth_upgrade_negotiation := Some sub\<rparr>)"

definition bwu_event :: "event_type \<Rightarrow> bandwidth_upgrade_negotiation_frame" where
  "bwu_event e = bandwidth_upgrade_negotiation_frame_default\<lparr>
     bwu_event_type := Some (event_type_as_i32 e)\<rparr>"

definition bwu_upgrade_path_available :: "(offline_frame \<Rightarrow> bytes) \<Rightarrow> upgrade_path_info \<Rightarrow> bytes" where
  "bwu_upgrade_path_available enc info =
     encode_bwu enc ((bwu_event UpgradePathAvailable)\<lparr>bwu_upgrade_path_info := Some info\<rparr>)"

definition wifi_hotspot_path_info :: "wifi_hotspot_credentials \<Rightarrow> bool \<Rightarrow> upgrade_path_info" where
  "wifi_hotspot_path_info credentials supports_disabling_encryption =
     upgrade_path_info_default\<lparr>
       upi_medium := Some (upi_medium_pb_as_i32 UpiWifiHotspot),
       upi_supports_client_introduction_ack := Some True,
       upi_supports_disabling_encryption := Some supports_disabling_encryption,
       upi_wifi_hotspot_credentials := Some credentials\<rparr>"

definition for_bwu_wifi_hotspot_path_available ::
    "(offline_frame \<Rightarrow> bytes) \<Rightarrow> wifi_hotspot_credentials \<Rightarrow> bool \<Rightarrow> bytes" where
  "for_bwu_wifi_hotspot_path_available enc credentials supports_disabling_encryption =
     bwu_upgrade_path_available enc
       (wifi_hotspot_path_info credentials supports_disabling_encryption)"

definition wifi_lan_path_info :: "service_address list \<Rightarrow> upgrade_path_info" where
  "wifi_lan_path_info addresses =
     (let socket = wifi_lan_socket_default;
          socket = (if addresses = [] then socket
            else
              (let last_address = last addresses;
                   socket = (if length (address last_address) = 4
                     then socket\<lparr>wl_ip_address := Some (address last_address),
                                 wl_wifi_port := Some (addr_port last_address)\<rparr>
                     else socket)
               in socket\<lparr>wl_address_candidates :=
                    wl_address_candidates socket @ map service_address_to_proto addresses\<rparr>))
      in upgrade_path_info_default\<lparr>
           upi_medium := Some (upi_medium_pb_as_i32 UpiWifiLan),
           upi_supports_client_introduction_ack := Some True,
           upi_wifi_lan_socket := Some socket\<rparr>)"

definition for_bwu_wifi_lan_path_available ::
    "(offline_frame \<Rightarrow> bytes) \<Rightarrow> service_address list \<Rightarrow> bytes" where
  "for_bwu_wifi_lan_path_available enc addresses =
     bwu_upgrade_path_available enc (wifi_lan_path_info addresses)"

definition for_bwu_awdl_path_available ::
    "(offline_frame \<Rightarrow> bytes) \<Rightarrow> string \<Rightarrow> string \<Rightarrow> string \<Rightarrow> bool \<Rightarrow> bytes" where
  "for_bwu_awdl_path_available enc service_name service_type password supports_disabling_encryption =
     bwu_upgrade_path_available enc (upgrade_path_info_default\<lparr>
       upi_medium := Some (upi_medium_pb_as_i32 UpiAwdl),
       upi_supports_client_introduction_ack := Some True,
       upi_supports_disabling_encryption := Some supports_disabling_encryption,
       upi_awdl_credentials := Some \<lparr>aw_service_name = Some service_name,
         aw_service_type = Some service_type, aw_password = Some password\<rparr>\<rparr>)"

definition for_bwu_wifi_aware_path_available ::
    "(offline_frame \<Rightarrow> bytes) \<Rightarrow> string \<Rightarrow> bytes \<Rightarrow> string \<Rightarrow> bool \<Rightarrow> bytes" where
  "for_bwu_wifi_aware_path_available enc service_id service_info password supports_disabling_encryption =
     (let creds = \<lparr>wa_service_id = Some service_id, wa_service_info = Some service_info,
                   wa_password = None\<rparr>;
          creds = (if password \<noteq> [] then creds\<lparr>wa_password := Some password\<rparr> else creds)
      in bwu_upgrade_path_available enc (upgrade_path_info_default\<lparr>
           upi_medium := Some (upi_medium_pb_as_i32 UpiWifiAware),
           upi_supports_client_introduction_ack := Some True,
           upi_supports_disabling_encryption := Some supports_disabling_encryption,
           upi_wifi_aware_credentials := Some creds\<rparr>))"

definition wifi_direct_path_info ::
    "string \<Rightarrow> string \<Rightarrow> i32 \<Rightarrow> i32 \<Rightarrow> bool \<Rightarrow> string \<Rightarrow> string \<Rightarrow> string \<Rightarrow> upgrade_path_info" where
  "wifi_direct_path_info ssid password port frequency supports_disabling_encryption gateway
       device_name pin =
     upgrade_path_info_default\<lparr>
       upi_medium := Some (upi_medium_pb_as_i32 UpiWifiDirect),
       upi_supports_client_introduction_ack := Some True,
       upi_supports_disabling_encryption := Some supports_disabling_encryption,
       upi_wifi_direct_credentials := Some (wifi_direct_credentials_default\<lparr>
         wd_ssid := Some ssid, wd_password := Some password, wd_port := Some port,
         wd_frequency := Some frequency, wd_gateway := Some gateway,
         wd_device_name := Some device_name, wd_pin := Some pin\<rparr>)\<rparr>"

definition for_bwu_wifi_direct_path_available ::
    "(offline_frame \<Rightarrow> bytes) \<Rightarrow> string \<Rightarrow> string \<Rightarrow> i32 \<Rightarrow> i32 \<Rightarrow> bool \<Rightarrow> string \<Rightarrow> string \<Rightarrow> string \<Rightarrow> bytes" where
  "for_bwu_wifi_direct_path_available enc ssid password port frequency
       supports_disabling_encryption gateway device_name pin =
     bwu_upgrade_path_available enc
       (wifi_direct_path_info ssid password port frequency supports_disabling_encryption gateway
         device_name pin)"

definition bluetooth_path_info :: "string \<Rightarrow> string \<Rightarrow> upgrade_path_info" where
  "bluetooth_path_info service_id mac_address =
     upgrade_path_info_default\<lparr>
       upi_medium := Some (upi_medium_pb_as_i32 UpiBluetooth),
       upi_supports_client_introduction_ack := Some True,
       upi_bluetooth_credentials := Some \<lparr>bt_service_name = Some service_id,
         bt_mac_address = Some mac_address\<rparr>\<rparr>"

definition for_bwu_bluetooth_path_available ::
    "(offline_frame \<Rightarrow> bytes) \<Rightarrow> string \<Rightarrow> string \<Rightarrow> bytes" where
  "for_bwu_bluetooth_path_available enc service_id mac_address =
     bwu_upgrade_path_available enc (bluetooth_path_info service_id mac_address)"

definition webrtc_path_info :: "string \<Rightarrow> location_hint \<Rightarrow> upgrade_path_info" where
  "webrtc_path_info peer_id location_hint =
     upgrade_path_info_default\<lparr>
       upi_medium := Some (upi_medium_pb_as_i32 UpiWebRtc),
       upi_supports_client_introduction_ack := Some True,
       upi_web_rtc_credentials := Some \<lparr>wr_peer_id = Some peer_id,
         wr_location_hint = Some location_hint\<rparr>\<rparr>"

definition for_bwu_webrtc_path_available ::
    "(offline_frame \<Rightarrow> bytes) \<Rightarrow> string \<Rightarrow> location_hint \<Rightarrow> bytes" where
  "for_bwu_webrtc_path_available enc peer_id location_hint =
     bwu_upgrade_path_available enc (webrtc_path_info peer_id location_hint)"

definition bwu_failure_frame :: "upgrade_path_info \<Rightarrow> bandwidth_upgrade_negotiation_frame" where
  "bwu_failure_frame info = (bwu_event UpgradeFailure)\<lparr>bwu_upgrade_path_info := Some info\<rparr>"

definition for_bwu_failure :: "(offline_frame \<Rightarrow> bytes) \<Rightarrow> upgrade_path_info \<Rightarrow> bytes" where
  "for_bwu_failure enc info = encode_bwu enc (bwu_failure_frame info)"

definition for_bwu_last_write :: "(offline_frame \<Rightarrow> bytes) \<Rightarrow> bytes" where
  "for_bwu_last_write enc = encode_bwu enc (bwu_event LastWriteToPriorChannel)"

definition for_bwu_safe_to_close :: "(offline_frame \<Rightarrow> bytes) \<Rightarrow> bytes" where
  "for_bwu_safe_to_close enc = encode_bwu enc (bwu_event SafeToClosePriorChannel)"

definition bwu_introduction :: "string \<Rightarrow> string \<Rightarrow> bool \<Rightarrow> client_introduction" where
  "bwu_introduction endpoint_id last_endpoint_id supports_disabling_encryption =
     (let intro = \<lparr>ci_endpoint_id = Some endpoint_id,
                   ci_supports_disabling_encryption = Some supports_disabling_encryption,
                   ci_last_endpoint_id = None\<rparr>
      in if last_endpoint_id \<noteq> [] then intro\<lparr>ci_last_endpoint_id := Some last_endpoint_id\<rparr>
         else intro)"

definition for_bwu_introduction ::
    "(offline_frame \<Rightarrow> bytes) \<Rightarrow> string \<Rightarrow> string \<Rightarrow> bool \<Rightarrow> bytes" where
  "for_bwu_introduction enc endpoint_id last_endpoint_id supports_disabling_encryption =
     encode_bwu enc ((bwu_event ClientIntroduction)\<lparr>bwu_client_introduction :=
       Some (bwu_introduction endpoint_id last_endpoint_id supports_disabling_encryption)\<rparr>)"

definition for_bwu_introduction_ack :: "(offline_frame \<Rightarrow> bytes) \<Rightarrow> bytes" where
  "for_bwu_introduction_ack enc = encode_bwu enc (bwu_event ClientIntroductionAck)"

definition for_bwu_path_request ::
    "(offline_frame \<Rightarrow> bytes) \<Rightarrow> medium \<Rightarrow> medium list \<Rightarrow> medium_role \<Rightarrow> bytes" where
  "for_bwu_path_request enc medium mediums medium_role =
     (let request = \<lparr>upr_mediums = map (\<lambda>m. upi_medium_pb_as_i32 (medium_to_upgrade_path_info_medium m)) mediums,
                     upr_medium_meta_data =
                       Some (medium_metadata_default\<lparr>mm_medium_role := Some medium_role\<rparr>)\<rparr>;
          info = upgrade_path_info_default\<lparr>
                   upi_medium := Some (upi_medium_pb_as_i32 (medium_to_upgrade_path_info_medium medium)),
                   upi_upgrade_path_request := Some request\<rparr>
      in encode_bwu enc ((bwu_event UpgradePathRequest)\<lparr>bwu_upgrade_path_info := Some info\<rparr>))"

definition for_keep_alive :: "(offline_frame \<Rightarrow> bytes) \<Rightarrow> bytes" where
  "for_keep_alive enc =
     encode_v1 enc KeepAlive (\<lambda>v1. v1\<lparr>v1_keep_alive := Some keep_alive_frame_default\<rparr>)"

definition for_keep_alive_ack :: "(offline_frame \<Rightarrow> bytes) \<Rightarrow> bool \<Rightarrow> nat \<Rightarrow> bytes" where
  "for_keep_alive_ack enc ack seq_num =
     encode_v1 enc KeepAlive
       (\<lambda>v1. v1\<lparr>v1_keep_alive := Some \<lparr>ka_ack = Some ack, ka_seq_num = Some seq_num\<rparr>\<rparr>)"

definition for_disconnection :: "(offline_frame \<Rightarrow> bytes) \<Rightarrow> bool \<Rightarrow> bool \<Rightarrow> bytes" where
  "for_disconnection enc request_safe_to_disconnect ack_safe_to_disconnect =
     encode_v1 enc Disconnection
       (\<lambda>v1. v1\<lparr>v1_disconnection := Some
          \<lparr>dis_request_safe_to_disconnect = Some request_safe_to_disconnect,
           dis_ack_safe_to_disconnect = Some ack_safe_to_disconnect\<rparr>\<rparr>)"

section \<open>Lemmas\<close>

lemma get_frame_type_v1_offline_frame:
  "(\<And>v1. v1_type (fill v1) = v1_type v1) \<Longrightarrow> get_frame_type (v1_offline_frame t fill) = t"
  by (simp add: get_frame_type_def v1_offline_frame_def)

lemma get_frame_type_bwu [simp]: "get_frame_type (bwu_offline_frame sub) = BandwidthUpgradeNegotiation"
  by (simp add: bwu_offline_frame_def get_frame_type_v1_offline_frame)

lemma encode_bwu_frame: "encode_bwu enc sub = enc (bwu_offline_frame sub)"
  by (simp add: encode_bwu_def bwu_offline_frame_def encode_v1_def)

lemma bwu_offline_frame_v1:
  "of_v1 (bwu_offline_frame sub) =
     Some (v1_frame_default\<lparr>v1_type := Some (frame_type_as_i32 BandwidthUpgradeNegotiation),
       v1_bandwidth_upgrade_negotiation := Some sub\<rparr>)"
  by (simp add: bwu_offline_frame_def v1_offline_frame_def)

lemma bwu_event_fields [simp]:
  "bwu_event_type (bwu_event e) = Some (event_type_as_i32 e)"
  "bwu_upgrade_path_info (bwu_event e) = None"
  "bwu_client_introduction (bwu_event e) = None"
  by (simp_all add: bwu_event_def bandwidth_upgrade_negotiation_frame_default_def)

lemma connection_request_medium_inverse [simp]:
  "connection_request_medium_to_medium (medium_to_connection_request_medium m) = m"
  by (cases m) simp_all

lemma medium_upgrade_path_info_inverse:
  "m \<noteq> BleL2cap \<Longrightarrow> upgrade_path_info_medium_to_medium (medium_to_upgrade_path_info_medium m) = m"
  by (cases m) simp_all

lemma common_medium_metadata:
  "\<exists>mm. crf_medium_metadata (build_connection_request_common info) = Some mm"
  by (simp add: build_connection_request_common_def Let_def)

end
