(* ===== verification/Validator.thy ===== *)
theory Validator
  imports Frames
begin

text \<open>
  \<^verbatim>\<open>src/validator.rs\<close>, check by check, and \<^verbatim>\<open>from_bytes\<close> of \<^verbatim>\<open>src/frames.rs\<close>, which
  decodes with prost (the parameter \<^verbatim>\<open>dec\<close>, \<^verbatim>\<open>None\<close> a decode error) and validates.
  The lemmas give the exact grammar of the two string matchers, what a validated frame is
  guaranteed to satisfy, and that the frames the crate builds pass its own validator.
\<close>

unbundle bit_operations_syntax

section \<open>Constants and string checks\<close>

definition ILLEGAL_FILE_NAME_PATTERNS :: "string list" where
  "ILLEGAL_FILE_NAME_PATTERNS = ['':'', ''/'', [CHR 0x5C]]"

definition ILLEGAL_PARENT_FOLDER_PATTERNS :: "string list" where
  "ILLEGAL_PARENT_FOLDER_PATTERNS = ['':'', ''..'']"

definition WIFI_DIRECT_SSID_MAX_LENGTH :: nat where
  "WIFI_DIRECT_SSID_MAX_LENGTH = 32"

definition WIFI_PASSWORD_SSID_MIN_LENGTH :: nat where
  "WIFI_PASSWORD_SSID_MIN_LENGTH = 8"

definition WIFI_PASSWORD_SSID_MAX_LENGTH :: nat where
  "WIFI_PASSWORD_SSID_MAX_LENGTH = 64"

definition WIFI_DIRECT_PIN_MIN_LENGTH :: nat where
  "WIFI_DIRECT_PIN_MIN_LENGTH = 0"

definition WIFI_DIRECT_PIN_MAX_LENGTH :: nat where
  "WIFI_DIRECT_PIN_MAX_LENGTH = 16"

definition within_range :: "nat \<Rightarrow> nat \<Rightarrow> nat \<Rightarrow> bool" where
  "within_range v mn mx \<longleftrightarrow> v \<ge> mn \<and> v < mx"

definition octet_rejected :: "string \<Rightarrow> bool" where
  "octet_rejected octet \<longleftrightarrow>
     octet = [] \<or> length octet > 3 \<or> \<not> list_all is_ascii_digit octet
     \<or> (case parse_unsigned 65535 octet of Some n \<Rightarrow> n > 255 | None \<Rightarrow> True)"

text \<open>The loop over the octets, \<^verbatim>\<open>parts\<close> its counter.\<close>

fun is_valid_ipv4_loop :: "nat \<Rightarrow> string list \<Rightarrow> bool" where
  "is_valid_ipv4_loop parts [] = (parts = 4)"
| "is_valid_ipv4_loop parts (octet # octets) =
     (let parts = parts + 1
      in if parts > 4 then False
         else if octet_rejected octet then False
         else is_valid_ipv4_loop parts octets)"

definition is_valid_ipv4 :: "string \<Rightarrow> bool" where
  "is_valid_ipv4 s = is_valid_ipv4_loop 0 (str_split (CHR ''.'') s)"

text \<open>
  The source walks \<^verbatim>\<open>char\<close>s where this walks bytes. The two agree: a byte of a multi-byte
  character is not alphanumeric, and neither CR nor LF occurs inside one.
\<close>

definition matches_wifi_direct_ssid :: "string \<Rightarrow> bool" where
  "matches_wifi_direct_ssid s =
     (case str_strip_prefix s ''DIRECT-'' of
        None \<Rightarrow> False
      | Some rest \<Rightarrow>
          (case rest of
             a # b # chars \<Rightarrow>
               (if \<not> (is_ascii_alphanumeric a \<and> is_ascii_alphanumeric b) then False
                else \<not> list_ex (\<lambda>c. c = CHR 0x0A \<or> c = CHR 0x0D) chars)
           | _ \<Rightarrow> False))"

definition has_illegal_characters :: "string \<Rightarrow> string list \<Rightarrow> bool" where
  "has_illegal_characters to_validate illegal_patterns =
     (if to_validate = [] then False
      else list_ex (\<lambda>pat. str_contains to_validate pat) illegal_patterns)"

section \<open>The checks\<close>

definition ensure_valid_connection_request_frame :: "connection_request_frame \<Rightarrow> exception" where
  "ensure_valid_connection_request_frame frame =
     (if unwrap_or (crf_endpoint_id frame) [] = [] then InvalidProtocolBuffer
      else if unwrap_or (crf_endpoint_name frame) [] = [] then InvalidProtocolBuffer
      else Success)"

definition ensure_valid_connection_response_frame :: "connection_response_frame \<Rightarrow> exception" where
  "ensure_valid_connection_response_frame _ = Success"

text \<open>The flags word is a 32-bit integer; on integers AND is the same bit operation.\<close>

definition LAST_CHUNK :: i32 where
  "LAST_CHUNK = 1"

definition ensure_valid_payload_transfer_data_frame :: "payload_chunk \<Rightarrow> i64 \<Rightarrow> exception" where
  "ensure_valid_payload_transfer_data_frame payload_chunk total_size =
     (if pc_flags payload_chunk = None then InvalidProtocolBuffer
      else
        (let is_last_chunk = ((unwrap_or (pc_flags payload_chunk) 0 AND LAST_CHUNK) \<noteq> 0)
         in if pc_body payload_chunk = None \<and> \<not> is_last_chunk then InvalidProtocolBuffer
            else
              (let offset = unwrap_or (pc_offset payload_chunk) 0
               in if pc_offset payload_chunk = None \<or> offset < 0 then InvalidProtocolBuffer
                  else if total_size \<noteq> INDETERMINATE_SIZE \<and> total_size < offset
                  then InvalidProtocolBuffer
                  else Success)))"

definition ensure_valid_payload_transfer_control_frame :: "control_message \<Rightarrow> i64 \<Rightarrow> exception" where
  "ensure_valid_payload_transfer_control_frame control_message total_size =
     (let offset = unwrap_or (cm_offset control_message) 0
      in if cm_offset control_message = None \<or> offset < 0 then InvalidProtocolBuffer
         else if total_size \<noteq> INDETERMINATE_SIZE \<and> total_size < offset then InvalidProtocolBuffer
         else Success)"

definition packet_type_of :: "payload_transfer_frame \<Rightarrow> packet_type option" where
  "packet_type_of frame = Option.bind (pt_packet_type frame) packet_type_try_from"

definition illegal_file_header :: "payload_header \<Rightarrow> bool" where
  "illegal_file_header header \<longleftrightarrow>
     ph_type header = Some (payload_type_as_i32 File) \<and>
     ((case ph_file_name header of
         Some file_name \<Rightarrow> has_illegal_characters file_name ILLEGAL_FILE_NAME_PATTERNS
       | None \<Rightarrow> False)
      \<or> (case ph_parent_folder header of
           Some parent_folder \<Rightarrow> has_illegal_characters parent_folder ILLEGAL_PARENT_FOLDER_PATTERNS
         | None \<Rightarrow> False))"

definition ensure_valid_payload_transfer_frame :: "payload_transfer_frame \<Rightarrow> exception" where
  "ensure_valid_payload_transfer_frame frame =
     (case pt_payload_header frame of
        None \<Rightarrow> InvalidProtocolBuffer
      | Some header \<Rightarrow>
          (let packet_type = unwrap_or (packet_type_of frame) UnknownPacketType
           in if packet_type = PayloadAck then Success
              else
                (let total_size = unwrap_or (ph_total_size header) 0
                 in if ph_total_size header = None
                       \<or> (total_size < 0 \<and> total_size \<noteq> INDETERMINATE_SIZE)
                    then InvalidProtocolBuffer
                    else if illegal_file_header header then IllegalCharacters
                    else if packet_type_of frame = None then InvalidProtocolBuffer
                    else
                      (case packet_type of
                         Data \<Rightarrow>
                           (case pt_payload_chunk frame of
                              Some chunk \<Rightarrow> ensure_valid_payload_transfer_data_frame chunk total_size
                            | None \<Rightarrow> InvalidProtocolBuffer)
                       | Control \<Rightarrow>
                           (case pt_control_message frame of
                              Some control \<Rightarrow>
                                ensure_valid_payload_transfer_control_frame control total_size
                            | None \<Rightarrow> InvalidProtocolBuffer)
                       | _ \<Rightarrow> Success))))"

definition candidate_rejected :: "pb_service_address \<Rightarrow> bool" where
  "candidate_rejected candidate \<longleftrightarrow>
     sa_ip_address candidate = None \<or> sa_port candidate = None
     \<or> (let len = (case sa_ip_address candidate of Some v \<Rightarrow> length v | None \<Rightarrow> 0)
        in len \<noteq> 4 \<and> len \<noteq> 16)"

definition ensure_valid_bwu_wifi_hotspot_path_available :: "wifi_hotspot_credentials \<Rightarrow> exception" where
  "ensure_valid_bwu_wifi_hotspot_path_available creds =
     (if wh_ssid creds = None then InvalidProtocolBuffer
      else
        (case wh_password creds of
           None \<Rightarrow> InvalidProtocolBuffer
         | Some p \<Rightarrow>
             (if \<not> within_range (length p) WIFI_PASSWORD_SSID_MIN_LENGTH WIFI_PASSWORD_SSID_MAX_LENGTH
              then InvalidProtocolBuffer
              else if wh_gateway creds = None \<and> wh_address_candidates creds = []
              then InvalidProtocolBuffer
              else
                (let gateway = unwrap_or (wh_gateway creds) ''0.0.0.0''
                 in if gateway \<noteq> [] \<and> \<not> is_valid_ipv4 gateway then InvalidProtocolBuffer
                    else if list_ex candidate_rejected (wh_address_candidates creds)
                    then InvalidProtocolBuffer
                    else Success))))"

definition ensure_valid_bwu_wifi_lan_path_available :: "wifi_lan_socket \<Rightarrow> exception" where
  "ensure_valid_bwu_wifi_lan_path_available socket =
     (let wifi_port = unwrap_or (wl_wifi_port socket) 0
      in if (wl_ip_address socket = None \<or> wifi_port \<le> 0) \<and> wl_address_candidates socket = []
         then InvalidProtocolBuffer
         else Success)"

definition ensure_valid_bwu_wifi_aware_path_available :: "wifi_aware_credentials \<Rightarrow> exception" where
  "ensure_valid_bwu_wifi_aware_path_available creds =
     (if wa_service_id creds = None then InvalidProtocolBuffer
      else if wa_service_info creds = None then InvalidProtocolBuffer
      else Success)"

definition ensure_valid_bwu_wifi_direct_path_available :: "wifi_direct_credentials \<Rightarrow> exception" where
  "ensure_valid_bwu_wifi_direct_path_available creds =
     (if (case wd_frequency creds of None \<Rightarrow> True | Some f \<Rightarrow> f < -1) then InvalidProtocolBuffer
      else
        (let ssid_valid = (case wd_ssid creds of
                Some ssid \<Rightarrow> length ssid < WIFI_DIRECT_SSID_MAX_LENGTH \<and> matches_wifi_direct_ssid ssid
              | None \<Rightarrow> False);
             password_valid = (case wd_password creds of
                Some p \<Rightarrow> within_range (length p) WIFI_PASSWORD_SSID_MIN_LENGTH WIFI_PASSWORD_SSID_MAX_LENGTH
              | None \<Rightarrow> False);
             device_name_valid = (case wd_device_name creds of
                Some d \<Rightarrow> length d < WIFI_DIRECT_SSID_MAX_LENGTH
              | None \<Rightarrow> False);
             pin_valid = (case wd_pin creds of
                Some p \<Rightarrow> within_range (length p) WIFI_DIRECT_PIN_MIN_LENGTH WIFI_DIRECT_PIN_MAX_LENGTH
              | None \<Rightarrow> False)
         in if (ssid_valid \<and> password_valid) \<or> (device_name_valid \<and> pin_valid) then Success
            else InvalidProtocolBuffer))"

definition ensure_valid_bwu_bluetooth_path_available :: "bluetooth_credentials \<Rightarrow> exception" where
  "ensure_valid_bwu_bluetooth_path_available creds =
     (if bt_service_name creds = None then InvalidProtocolBuffer
      else if bt_mac_address creds = None then InvalidProtocolBuffer
      else Success)"

definition ensure_valid_bwu_web_rtc_path_available :: "web_rtc_credentials \<Rightarrow> exception" where
  "ensure_valid_bwu_web_rtc_path_available creds =
     (if wr_peer_id creds = None then InvalidProtocolBuffer else Success)"

definition ensure_valid_bwu_path_available_frame :: "upgrade_path_info \<Rightarrow> exception" where
  "ensure_valid_bwu_path_available_frame info =
     (case Option.bind (upi_medium info) upi_medium_pb_try_from of
        None \<Rightarrow> InvalidProtocolBuffer
      | Some medium \<Rightarrow>
          (case medium of
             UpiWifiHotspot \<Rightarrow> (case upi_wifi_hotspot_credentials info of
                 Some c \<Rightarrow> ensure_valid_bwu_wifi_hotspot_path_available c
               | None \<Rightarrow> InvalidProtocolBuffer)
           | UpiWifiLan \<Rightarrow> (case upi_wifi_lan_socket info of
                 Some s \<Rightarrow> ensure_valid_bwu_wifi_lan_path_available s
               | None \<Rightarrow> InvalidProtocolBuffer)
           | UpiWifiAware \<Rightarrow> (case upi_wifi_aware_credentials info of
                 Some c \<Rightarrow> ensure_valid_bwu_wifi_aware_path_available c
               | None \<Rightarrow> InvalidProtocolBuffer)
           | UpiWifiDirect \<Rightarrow> (case upi_wifi_direct_credentials info of
                 Some c \<Rightarrow> ensure_valid_bwu_wifi_direct_path_available c
               | None \<Rightarrow> InvalidProtocolBuffer)
           | UpiBluetooth \<Rightarrow> (case upi_bluetooth_credentials info of
                 Some c \<Rightarrow> ensure_valid_bwu_bluetooth_path_available c
               | None \<Rightarrow> InvalidProtocolBuffer)
           | UpiWebRtc \<Rightarrow> (case upi_web_rtc_credentials info of
                 Some c \<Rightarrow> ensure_valid_bwu_web_rtc_path_available c
               | None \<Rightarrow> InvalidProtocolBuffer)
           | _ \<Rightarrow> Success))"

definition ensure_valid_bwu_client_introduction_frame :: "client_introduction \<Rightarrow> exception" where
  "ensure_valid_bwu_client_introduction_frame client_introduction =
     (if ci_endpoint_id client_introduction = None then InvalidProtocolBuffer else Success)"

definition ensure_valid_bwu_negotiation_frame :: "bandwidth_upgrade_negotiation_frame \<Rightarrow> exception" where
  "ensure_valid_bwu_negotiation_frame frame =
     (case Option.bind (bwu_event_type frame) event_type_try_from of
        None \<Rightarrow> InvalidProtocolBuffer
      | Some event_type \<Rightarrow>
          (case event_type of
             UpgradePathAvailable \<Rightarrow> (case bwu_upgrade_path_info frame of
                 Some info \<Rightarrow> ensure_valid_bwu_path_available_frame info
               | None \<Rightarrow> InvalidProtocolBuffer)
           | ClientIntroduction \<Rightarrow> (case bwu_client_introduction frame of
                 Some intro \<Rightarrow> ensure_valid_bwu_client_introduction_frame intro
               | None \<Rightarrow> InvalidProtocolBuffer)
           | _ \<Rightarrow> Success))"

definition ensure_valid_offline_frame :: "offline_frame \<Rightarrow> exception" where
  "ensure_valid_offline_frame offline_frame =
     (case get_frame_type offline_frame of
        ConnectionRequest \<Rightarrow> (case Option.bind (of_v1 offline_frame) v1_connection_request of
            Some req \<Rightarrow> ensure_valid_connection_request_frame req
          | None \<Rightarrow> InvalidProtocolBuffer)
      | ConnectionResponse \<Rightarrow> (case Option.bind (of_v1 offline_frame) v1_connection_response of
            Some resp \<Rightarrow> ensure_valid_connection_response_frame resp
          | None \<Rightarrow> InvalidProtocolBuffer)
      | PayloadTransfer \<Rightarrow> (case Option.bind (of_v1 offline_frame) v1_payload_transfer of
            Some pt \<Rightarrow> ensure_valid_payload_transfer_frame pt
          | None \<Rightarrow> InvalidProtocolBuffer)
      | BandwidthUpgradeNegotiation \<Rightarrow>
          (case Option.bind (of_v1 offline_frame) v1_bandwidth_upgrade_negotiation of
             Some bwu \<Rightarrow> ensure_valid_bwu_negotiation_frame bwu
           | None \<Rightarrow> InvalidProtocolBuffer)
      | _ \<Rightarrow> Success)"

definition from_bytes :: "(bytes \<Rightarrow> offline_frame option) \<Rightarrow> bytes \<Rightarrow> exception + offline_frame" where
  "from_bytes dec bs =
     (case dec bs of
        Some frame \<Rightarrow>
          (let ex = ensure_valid_offline_frame frame
           in if exception_ok ex then Inr frame else Inl ex)
      | None \<Rightarrow> Inl InvalidProtocolBuffer)"

section \<open>The string matchers\<close>

definition octet_ok :: "string \<Rightarrow> bool" where
  "octet_ok s \<longleftrightarrow> s \<noteq> [] \<and> length s \<le> 3 \<and> list_all is_ascii_digit s \<and> decimal_value s \<le> 255"

lemma octet_rejected_iff: "octet_rejected s \<longleftrightarrow> \<not> octet_ok s"
  by (auto simp: octet_rejected_def octet_ok_def parse_unsigned_digits split: if_splits)

lemma is_valid_ipv4_loop_iff:
  "is_valid_ipv4_loop n xs \<longleftrightarrow> n + length xs = 4 \<and> list_all octet_ok xs"
  by (induction n xs rule: is_valid_ipv4_loop.induct) (auto simp: Let_def octet_rejected_iff)

lemma octet_ok_no_dot: "octet_ok s \<Longrightarrow> CHR ''.'' \<notin> set s"
  using plus_not_digit(2) by (auto simp: octet_ok_def list_all_iff)

lemma length_4_conv: "length xs = 4 \<longleftrightarrow> (\<exists>a b c d. xs = [a, b, c, d])"
  by (auto simp: length_Suc_conv numeral_eq_Suc)

lemma is_valid_ipv4_iff:
  "is_valid_ipv4 s \<longleftrightarrow>
     (\<exists>a b c d. s = str_join (CHR ''.'') [a, b, c, d]
        \<and> octet_ok a \<and> octet_ok b \<and> octet_ok c \<and> octet_ok d)"
proof -
  have "is_valid_ipv4 s \<longleftrightarrow>
      (\<exists>a b c d. str_split (CHR ''.'') s = [a, b, c, d]
        \<and> octet_ok a \<and> octet_ok b \<and> octet_ok c \<and> octet_ok d)"
    by (auto simp: is_valid_ipv4_def is_valid_ipv4_loop_iff length_4_conv)
  moreover have "str_split (CHR ''.'') s = [a, b, c, d] \<longleftrightarrow> s = str_join (CHR ''.'') [a, b, c, d]"
    if "octet_ok a" "octet_ok b" "octet_ok c" "octet_ok d" for a b c d
  proof
    assume "str_split (CHR ''.'') s = [a, b, c, d]"
    then show "s = str_join (CHR ''.'') [a, b, c, d]" by (metis str_join_split)
  next
    assume "s = str_join (CHR ''.'') [a, b, c, d]"
    then show "str_split (CHR ''.'') s = [a, b, c, d]"
      using that by (simp only:) (rule str_split_join; auto dest: octet_ok_no_dot)
  qed
  ultimately show ?thesis by blast
qed

lemma octet_ok_show: "octet_ok (show_nat (unat (b :: byte)))"
  using unat_byte_le [of b]
  by (auto simp: octet_ok_def show_nat_digits decimal_value_show_nat intro!: show_nat_length)

lemma is_valid_ipv4_to_string: "is_valid_ipv4 (ipv4_to_string ip)"
proof -
  obtain a b c d where ip: "ip = (a, b, c, d)" by (metis surj_pair)
  show ?thesis
    unfolding ip is_valid_ipv4_iff ipv4_to_string.simps list.map using octet_ok_show by blast
qed

lemma ipv4_to_string_nonempty: "ipv4_to_string ip \<noteq> []"
  using show_nat_digits by (cases ip) auto

lemma matches_wifi_direct_ssid_iff:
  "matches_wifi_direct_ssid s \<longleftrightarrow>
     (\<exists>a b rest. s = ''DIRECT-'' @ a # b # rest
        \<and> is_ascii_alphanumeric a \<and> is_ascii_alphanumeric b
        \<and> CHR 0x0A \<notin> set rest \<and> CHR 0x0D \<notin> set rest)" (is "?l \<longleftrightarrow> ?r")
proof
  assume ?l
  then obtain r where r: "str_strip_prefix s ''DIRECT-'' = Some r"
    by (auto simp: matches_wifi_direct_ssid_def split: option.splits)
  with \<open>?l\<close> obtain a b rest where "r = a # b # rest"
    by (auto simp: matches_wifi_direct_ssid_def split: list.splits)
  with \<open>?l\<close> r show ?r
    by (auto simp: matches_wifi_direct_ssid_def str_strip_prefix_Some list_ex_iff split: if_splits)
next
  assume ?r
  then show ?l
    by (auto simp: matches_wifi_direct_ssid_def str_strip_prefix_def list_ex_iff)
qed

lemma sublist_single: "sublist [c] s \<longleftrightarrow> c \<in> set s"
  by (auto simp: sublist_def in_set_conv_decomp)

lemma file_name_legal:
  "\<not> has_illegal_characters s ILLEGAL_FILE_NAME_PATTERNS \<longleftrightarrow>
     CHR '':'' \<notin> set s \<and> CHR ''/'' \<notin> set s \<and> CHR 0x5C \<notin> set s"
  by (auto simp: has_illegal_characters_def ILLEGAL_FILE_NAME_PATTERNS_def sublist_single)

lemma parent_folder_legal:
  "\<not> has_illegal_characters s ILLEGAL_PARENT_FOLDER_PATTERNS \<longleftrightarrow>
     CHR '':'' \<notin> set s \<and> \<not> str_contains s ''..''"
  by (auto simp: has_illegal_characters_def ILLEGAL_PARENT_FOLDER_PATTERNS_def sublist_single)

section \<open>What the validator returns\<close>

lemma payload_data_exception:
  "ensure_valid_payload_transfer_data_frame c t \<in> {Success, InvalidProtocolBuffer}"
  by (simp add: ensure_valid_payload_transfer_data_frame_def Let_def)

lemma payload_control_exception:
  "ensure_valid_payload_transfer_control_frame c t \<in> {Success, InvalidProtocolBuffer}"
  by (simp add: ensure_valid_payload_transfer_control_frame_def Let_def)

lemma payload_transfer_exception:
  "ensure_valid_payload_transfer_frame f \<in> {Success, InvalidProtocolBuffer, IllegalCharacters}"
  using payload_data_exception payload_control_exception
  by (fastforce simp: ensure_valid_payload_transfer_frame_def Let_def split: option.splits packet_type.splits)

lemma credential_exceptions [simp]:
  "ensure_valid_bwu_wifi_hotspot_path_available h \<in> {Success, InvalidProtocolBuffer}"
  "ensure_valid_bwu_wifi_lan_path_available l \<in> {Success, InvalidProtocolBuffer}"
  "ensure_valid_bwu_wifi_aware_path_available a \<in> {Success, InvalidProtocolBuffer}"
  "ensure_valid_bwu_wifi_direct_path_available d \<in> {Success, InvalidProtocolBuffer}"
  "ensure_valid_bwu_bluetooth_path_available b \<in> {Success, InvalidProtocolBuffer}"
  "ensure_valid_bwu_web_rtc_path_available w \<in> {Success, InvalidProtocolBuffer}"
  by (simp_all add: ensure_valid_bwu_wifi_hotspot_path_available_def
      ensure_valid_bwu_wifi_lan_path_available_def ensure_valid_bwu_wifi_aware_path_available_def
      ensure_valid_bwu_wifi_direct_path_available_def ensure_valid_bwu_bluetooth_path_available_def
      ensure_valid_bwu_web_rtc_path_available_def Let_def split: option.split)

lemma path_available_exception:
  "ensure_valid_bwu_path_available_frame i \<in> {Success, InvalidProtocolBuffer}"
proof (cases "Option.bind (upi_medium i) upi_medium_pb_try_from")
  case (Some m)
  then show ?thesis
    using credential_exceptions
    by (cases m) (simp_all add: ensure_valid_bwu_path_available_frame_def split: option.split)
qed (simp add: ensure_valid_bwu_path_available_frame_def)

lemma bwu_negotiation_exception:
  "ensure_valid_bwu_negotiation_frame f \<in> {Success, InvalidProtocolBuffer}"
  using path_available_exception
  by (auto simp: ensure_valid_bwu_negotiation_frame_def ensure_valid_bwu_client_introduction_frame_def
      split: option.splits event_type.splits)

lemma ensure_valid_exception:
  "ensure_valid_offline_frame f \<in> {Success, InvalidProtocolBuffer, IllegalCharacters}"
  using payload_transfer_exception bwu_negotiation_exception
  by (auto simp: ensure_valid_offline_frame_def ensure_valid_connection_request_frame_def
      ensure_valid_connection_response_frame_def split: option.splits frame_type.splits)

section \<open>Frames the crate builds\<close>

lemma from_bytes_Inr_iff:
  "from_bytes dec bs = Inr f \<longleftrightarrow> dec bs = Some f \<and> ensure_valid_offline_frame f = Success"
  by (auto simp: from_bytes_def Let_def exception_ok_def split: option.splits)

lemma ensure_valid_bwu_offline_frame:
  "ensure_valid_offline_frame (bwu_offline_frame sub) = ensure_valid_bwu_negotiation_frame sub"
  by (simp add: ensure_valid_offline_frame_def bwu_offline_frame_v1)

lemma negotiation_event_valid [simp]:
  "e \<noteq> UpgradePathAvailable \<Longrightarrow> e \<noteq> ClientIntroduction \<Longrightarrow>
   ensure_valid_bwu_negotiation_frame ((bwu_event e)\<lparr>bwu_upgrade_path_info := i\<rparr>) = Success"
  "e \<noteq> UpgradePathAvailable \<Longrightarrow> e \<noteq> ClientIntroduction \<Longrightarrow>
   ensure_valid_bwu_negotiation_frame (bwu_event e) = Success"
  by (cases e; simp add: ensure_valid_bwu_negotiation_frame_def)+

lemma introduction_valid [simp]:
  "ensure_valid_bwu_negotiation_frame
     ((bwu_event ClientIntroduction)\<lparr>bwu_client_introduction := Some (bwu_introduction e l s)\<rparr>) = Success"
  by (simp add: ensure_valid_bwu_negotiation_frame_def ensure_valid_bwu_client_introduction_frame_def
      bwu_introduction_def Let_def)

lemma path_available_valid:
  "ensure_valid_bwu_negotiation_frame
     ((bwu_event UpgradePathAvailable)\<lparr>bwu_upgrade_path_info := Some i\<rparr>)
   = ensure_valid_bwu_path_available_frame i"
  by (simp add: ensure_valid_bwu_negotiation_frame_def)

text \<open>An offered path that is valid reaches the other side as it is.\<close>

lemma path_available_parses:
  assumes "dec (enc (bwu_offline_frame ((bwu_event UpgradePathAvailable)\<lparr>bwu_upgrade_path_info := Some i\<rparr>)))
      = Some (bwu_offline_frame ((bwu_event UpgradePathAvailable)\<lparr>bwu_upgrade_path_info := Some i\<rparr>))"
    and "ensure_valid_bwu_path_available_frame i = Success"
  shows "from_bytes dec (bwu_upgrade_path_available enc i)
    = Inr (bwu_offline_frame ((bwu_event UpgradePathAvailable)\<lparr>bwu_upgrade_path_info := Some i\<rparr>))"
  using assms
  by (simp add: from_bytes_Inr_iff bwu_upgrade_path_available_def encode_bwu_frame
      ensure_valid_bwu_offline_frame path_available_valid)

lemma wifi_lan_path_info_valid:
  "ensure_valid_bwu_path_available_frame (wifi_lan_path_info addresses) = Success \<longleftrightarrow> addresses \<noteq> []"
  by (auto simp: ensure_valid_bwu_path_available_frame_def wifi_lan_path_info_def Let_def
      ensure_valid_bwu_wifi_lan_path_available_def wifi_lan_socket_default_def)

lemma wifi_hotspot_path_info_valid:
  "ensure_valid_bwu_path_available_frame (wifi_hotspot_path_info c sd)
   = ensure_valid_bwu_wifi_hotspot_path_available c"
  by (simp add: ensure_valid_bwu_path_available_frame_def wifi_hotspot_path_info_def)

lemma bluetooth_webrtc_path_info_valid:
  "ensure_valid_bwu_path_available_frame (bluetooth_path_info sid mac) = Success"
  "ensure_valid_bwu_path_available_frame (webrtc_path_info peer hint) = Success"
  by (simp_all add: ensure_valid_bwu_path_available_frame_def bluetooth_path_info_def webrtc_path_info_def
      ensure_valid_bwu_bluetooth_path_available_def ensure_valid_bwu_web_rtc_path_available_def)

lemma wifi_direct_path_info_valid:
  "ensure_valid_bwu_path_available_frame (wifi_direct_path_info ssid pw port freq sd gw dn pin) = Success
   \<longleftrightarrow> -1 \<le> freq \<and>
     (length ssid < 32 \<and> matches_wifi_direct_ssid ssid \<and> 8 \<le> length pw \<and> length pw < 64
      \<or> length dn < 32 \<and> length pin < 16)"
  by (auto simp: ensure_valid_bwu_path_available_frame_def wifi_direct_path_info_def Let_def
      ensure_valid_bwu_wifi_direct_path_available_def within_range_def
      WIFI_DIRECT_SSID_MAX_LENGTH_def WIFI_PASSWORD_SSID_MIN_LENGTH_def
      WIFI_PASSWORD_SSID_MAX_LENGTH_def WIFI_DIRECT_PIN_MIN_LENGTH_def WIFI_DIRECT_PIN_MAX_LENGTH_def)

lemma not_illegal_characters [simp]:
  "ensure_valid_bwu_negotiation_frame b \<noteq> IllegalCharacters"
  "ensure_valid_connection_request_frame q \<noteq> IllegalCharacters"
  "ensure_valid_connection_response_frame r \<noteq> IllegalCharacters"
  using bwu_negotiation_exception [of b]
  by (auto simp: ensure_valid_connection_request_frame_def ensure_valid_connection_response_frame_def)

lemma illegal_characters_payload:
  "ensure_valid_offline_frame f = IllegalCharacters \<Longrightarrow> get_frame_type f = PayloadTransfer"
  by (cases "get_frame_type f") (simp_all add: ensure_valid_offline_frame_def split: option.splits)

section \<open>Properties\<close>



definition file_header_example :: payload_header where
  "file_header_example = payload_header_default\<lparr>
     ph_type := Some (payload_type_as_i32 File), ph_total_size := Some 1024,
     ph_file_name := Some ''photo.jpg'', ph_parent_folder := Some ''trip/2024''\<rparr>"

definition file_transfer_example :: payload_transfer_frame where
  "file_transfer_example = payload_transfer_frame_default\<lparr>
     pt_packet_type := Some (packet_type_as_i32 Data),
     pt_payload_header := Some file_header_example,
     pt_payload_chunk := Some \<lparr>pc_flags = Some 0, pc_offset = Some 100, pc_body = Some [1, 2],
       pc_index = None\<rparr>\<rparr>"

definition file_frame_example :: offline_frame where
  "file_frame_example =
     v1_offline_frame PayloadTransfer (\<lambda>v1. v1\<lparr>v1_payload_transfer := Some file_transfer_example\<rparr>)"

lemma file_frame_example_parses:
  "from_bytes (\<lambda>_. Some file_frame_example) [] = Inr file_frame_example"
  "get_frame_type file_frame_example = PayloadTransfer"
  "\<exists>v1. of_v1 file_frame_example = Some v1 \<and> v1_payload_transfer v1 = Some file_transfer_example"
  "packet_type_of file_transfer_example = Some Data"
  "pt_payload_header file_transfer_example = Some file_header_example"
proof -
  show t: "get_frame_type file_frame_example = PayloadTransfer"
    by (simp add: file_frame_example_def get_frame_type_v1_offline_frame)
  show v: "\<exists>v1. of_v1 file_frame_example = Some v1
      \<and> v1_payload_transfer v1 = Some file_transfer_example"
    by (simp add: file_frame_example_def v1_offline_frame_def)
  show p: "packet_type_of file_transfer_example = Some Data"
    "pt_payload_header file_transfer_example = Some file_header_example"
    by (simp_all add: packet_type_of_def file_transfer_example_def)
  have "\<not> illegal_file_header file_header_example"
    by (simp add: illegal_file_header_def file_header_example_def has_illegal_characters_def
        ILLEGAL_FILE_NAME_PATTERNS_def ILLEGAL_PARENT_FOLDER_PATTERNS_def sublist_code)
  then have "ensure_valid_payload_transfer_frame file_transfer_example = Success"
    using p
    by (simp add: ensure_valid_payload_transfer_frame_def file_header_example_def
        file_transfer_example_def ensure_valid_payload_transfer_data_frame_def INDETERMINATE_SIZE_def)
  then show "from_bytes (\<lambda>_. Some file_frame_example) [] = Inr file_frame_example"
    using t v by (auto simp: from_bytes_Inr_iff ensure_valid_offline_frame_def)
qed




text \<open>
  C32. The two hand-written matchers. The gateway check accepts exactly the strings of four octets
  separated by dots, each of one to three digits with a value of at most 255, in particular every
  printed \<^verbatim>\<open>Ipv4Addr\<close>; the Wi-Fi Direct SSID check accepts exactly \<^verbatim>\<open>DIRECT-\<close>, two alphanumeric
  characters, and anything without a line terminator.
\<close>

theorem matchers_accept_their_grammar:
  "(is_valid_ipv4 s \<longleftrightarrow>
     (\<exists>a b c d. s = a @ ''.'' @ b @ ''.'' @ c @ ''.'' @ d
        \<and> octet_ok a \<and> octet_ok b \<and> octet_ok c \<and> octet_ok d))
   \<and> is_valid_ipv4 (ipv4_to_string ip)
   \<and> (matches_wifi_direct_ssid ssid \<longleftrightarrow>
     (\<exists>a b rest. ssid = ''DIRECT-'' @ [a, b] @ rest
        \<and> is_ascii_alphanumeric a \<and> is_ascii_alphanumeric b
        \<and> CHR 0x0A \<notin> set rest \<and> CHR 0x0D \<notin> set rest))"
  using is_valid_ipv4_iff [of s] is_valid_ipv4_to_string [of ip]
  by (simp add: matches_wifi_direct_ssid_iff)




end
