(* ===== verification/Frame_Typing.thy ===== *)
theory Frame_Typing
  imports Frames
begin

text \<open>
  The shape of the frames the crate sends. On the wire a frame is a message whose fields are all
  optional; a receiver finds the payload by the type number. A frame is well typed when it has the
  version, a type number and exactly the one sub-message that belongs to the type, and an upgrade
  frame when its event number, its sub-messages and the credentials of its path go together.
\<close>

text \<open>The types whose sub-message is present.\<close>

definition carried :: "v1_frame \<Rightarrow> frame_type list" where
  "carried v1 = concat
     [if v1_connection_request v1 = None then [] else [ConnectionRequest],
      if v1_connection_response v1 = None then [] else [ConnectionResponse],
      if v1_payload_transfer v1 = None then [] else [PayloadTransfer],
      if v1_bandwidth_upgrade_negotiation v1 = None then [] else [BandwidthUpgradeNegotiation],
      if v1_keep_alive v1 = None then [] else [KeepAlive],
      if v1_disconnection v1 = None then [] else [Disconnection],
      if v1_paired_key_encryption v1 = None then [] else [PairedKeyEncryption],
      if v1_authentication_message v1 = None then [] else [AuthenticationMessage],
      if v1_authentication_result v1 = None then [] else [AuthenticationResult],
      if v1_auto_resume v1 = None then [] else [AutoResume],
      if v1_auto_reconnect v1 = None then [] else [AutoReconnect],
      if v1_bandwidth_upgrade_retry v1 = None then [] else [BandwidthUpgradeRetry]]"

definition frame_typed :: "frame_type \<Rightarrow> offline_frame \<Rightarrow> bool" where
  "frame_typed ty f \<longleftrightarrow> of_version f = Some (version_as_i32 V1)
     \<and> (case of_v1 f of None \<Rightarrow> False
        | Some v1 \<Rightarrow> v1_type v1 = Some (frame_type_as_i32 ty) \<and> carried v1 = [ty])"

text \<open>The mediums whose credentials a path carries.\<close>

definition path_credentials :: "upgrade_path_info \<Rightarrow> upi_medium_pb list" where
  "path_credentials info = concat
     [if upi_wifi_hotspot_credentials info = None then [] else [UpiWifiHotspot],
      if upi_wifi_lan_socket info = None then [] else [UpiWifiLan],
      if upi_bluetooth_credentials info = None then [] else [UpiBluetooth],
      if upi_wifi_aware_credentials info = None then [] else [UpiWifiAware],
      if upi_wifi_direct_credentials info = None then [] else [UpiWifiDirect],
      if upi_web_rtc_credentials info = None then [] else [UpiWebRtc],
      if upi_awdl_credentials info = None then [] else [UpiAwdl]]"

definition path_typed :: "upi_medium_pb \<Rightarrow> upgrade_path_info \<Rightarrow> bool" where
  "path_typed m info \<longleftrightarrow> upi_medium info = Some (upi_medium_pb_as_i32 m) \<and> path_credentials info = [m]
     \<and> upi_upgrade_path_request info = None"

text \<open>The sub-messages of an upgrade frame are those of its event.\<close>

definition event_typed :: "event_type \<Rightarrow> bandwidth_upgrade_negotiation_frame \<Rightarrow> bool" where
  "event_typed e b \<longleftrightarrow> bwu_event_type b = Some (event_type_as_i32 e)
     \<and> (bwu_upgrade_path_info b \<noteq> None) = (e \<in> {UpgradePathAvailable, UpgradeFailure, UpgradePathRequest})
     \<and> (bwu_client_introduction b \<noteq> None) = (e = ClientIntroduction)
     \<and> bwu_client_introduction_ack b = None \<and> bwu_safe_to_close_prior_channel b = None"

text \<open>A builder of a frame of a type, of an upgrade event, and of an offered path.\<close>

definition builds :: "frame_type \<Rightarrow> ((offline_frame \<Rightarrow> bytes) \<Rightarrow> bytes) \<Rightarrow> bool" where
  "builds ty b \<longleftrightarrow> (\<exists>f. (\<forall>enc. b enc = enc f) \<and> frame_typed ty f \<and> get_frame_type f = ty)"

definition builds_event :: "event_type \<Rightarrow> ((offline_frame \<Rightarrow> bytes) \<Rightarrow> bytes) \<Rightarrow> bool" where
  "builds_event e b \<longleftrightarrow> builds BandwidthUpgradeNegotiation b
     \<and> (\<exists>sub. (\<forall>enc. b enc = enc (bwu_offline_frame sub)) \<and> event_typed e sub)"

definition builds_path :: "upi_medium_pb \<Rightarrow> ((offline_frame \<Rightarrow> bytes) \<Rightarrow> bytes) \<Rightarrow> bool" where
  "builds_path m b \<longleftrightarrow> builds_event UpgradePathAvailable b
     \<and> (\<exists>info. (\<forall>enc. b enc = bwu_upgrade_path_available enc info) \<and> path_typed m info
          \<and> upi_supports_client_introduction_ack info = Some True)"

lemma builds_v1:
  assumes "\<And>v1. v1_type (fill v1) = v1_type v1" and "\<And>t. carried (fill (v1_frame_default\<lparr>v1_type := t\<rparr>)) = [ty]"
  shows "builds ty (\<lambda>enc. encode_v1 enc ty fill)"
  unfolding builds_def
  by (rule exI [of _ "v1_offline_frame ty fill"])
    (simp add: encode_v1_def frame_typed_def v1_offline_frame_def assms get_frame_type_def)

lemma builds_bwu: "builds BandwidthUpgradeNegotiation (\<lambda>enc. encode_bwu enc sub)"
  unfolding encode_bwu_def by (rule builds_v1) (simp_all add: carried_def v1_frame_default_def)

lemma builds_event_intro: "event_typed e sub \<Longrightarrow> builds_event e (\<lambda>enc. encode_bwu enc sub)"
  unfolding builds_event_def using builds_bwu by (auto simp: encode_bwu_frame)

lemma builds_path_intro:
  assumes "path_typed m info" and "upi_supports_client_introduction_ack info = Some True"
  shows "builds_path m (\<lambda>enc. bwu_upgrade_path_available enc info)"
  unfolding builds_path_def bwu_upgrade_path_available_def
  by (intro conjI exI [of _ info] builds_event_intro allI refl assms)
    (simp add: event_typed_def bwu_event_def bandwidth_upgrade_negotiation_frame_default_def)

lemma v1_builders:
  "builds ConnectionRequest (\<lambda>enc. for_connection_request_presence enc pdev info)"
  "builds ConnectionResponse (\<lambda>enc. for_connection_response enc status os std)"
  "builds PayloadTransfer (\<lambda>enc. encode_payload_transfer enc sub)"
  "builds KeepAlive for_keep_alive" "builds KeepAlive (\<lambda>enc. for_keep_alive_ack enc ack seq)"
  "builds Disconnection (\<lambda>enc. for_disconnection enc req_safe ack_safe)"
  unfolding for_connection_request_presence_def for_connection_response_def encode_payload_transfer_def
    for_keep_alive_def for_keep_alive_ack_def for_disconnection_def Let_def
  by (rule builds_v1; simp add: carried_def v1_frame_default_def)+

lemma connection_request_builder:
  "\<exists>b. (\<forall>enc. for_connection_request_connections enc dev info sw = Some (b enc)) \<and> builds ConnectionRequest b"
proof -
  obtain req where req: "connection_request_connections dev info sw = Some req"
    using common_medium_metadata [of info] by (auto simp: connection_request_connections_def Let_def)
  have "builds ConnectionRequest
      (\<lambda>enc. encode_v1 enc ConnectionRequest (\<lambda>v1. v1\<lparr>v1_connection_request := Some req\<rparr>))"
    by (rule builds_v1) (simp_all add: carried_def v1_frame_default_def)
  with req show ?thesis by (auto simp: for_connection_request_connections_def)
qed

lemmas path_builder_defs = for_bwu_wifi_hotspot_path_available_def for_bwu_wifi_lan_path_available_def
  for_bwu_awdl_path_available_def for_bwu_wifi_aware_path_available_def for_bwu_wifi_direct_path_available_def
  for_bwu_bluetooth_path_available_def for_bwu_webrtc_path_available_def

lemmas path_info_defs = wifi_hotspot_path_info_def wifi_lan_path_info_def wifi_direct_path_info_def
  bluetooth_path_info_def webrtc_path_info_def upgrade_path_info_default_def

lemma path_builders:
  "builds_path UpiWifiHotspot (\<lambda>enc. for_bwu_wifi_hotspot_path_available enc creds sd)"
  "builds_path UpiWifiLan (\<lambda>enc. for_bwu_wifi_lan_path_available enc addrs)"
  "builds_path UpiAwdl (\<lambda>enc. for_bwu_awdl_path_available enc name ty pw sd)"
  "builds_path UpiWifiAware (\<lambda>enc. for_bwu_wifi_aware_path_available enc name si pw sd)"
  "builds_path UpiWifiDirect (\<lambda>enc. for_bwu_wifi_direct_path_available enc ssid pw port freq sd gw name pin)"
  "builds_path UpiBluetooth (\<lambda>enc. for_bwu_bluetooth_path_available enc name mac)"
  "builds_path UpiWebRtc (\<lambda>enc. for_bwu_webrtc_path_available enc peer hint)"
  unfolding path_builder_defs Let_def
  by (rule builds_path_intro; simp add: path_typed_def path_credentials_def path_info_defs Let_def)+

lemma event_builders:
  "builds_event UpgradeFailure (\<lambda>enc. for_bwu_failure enc path)"
  "builds_event LastWriteToPriorChannel for_bwu_last_write"
  "builds_event SafeToClosePriorChannel for_bwu_safe_to_close"
  "builds_event ClientIntroduction (\<lambda>enc. for_bwu_introduction enc ep lid sd)"
  "builds_event ClientIntroductionAck for_bwu_introduction_ack"
  "builds_event UpgradePathRequest (\<lambda>enc. for_bwu_path_request enc m ms role)"
  unfolding for_bwu_failure_def for_bwu_last_write_def [abs_def] for_bwu_safe_to_close_def [abs_def]
    for_bwu_introduction_def for_bwu_introduction_ack_def [abs_def] for_bwu_path_request_def Let_def
    bwu_failure_frame_def
  by (rule builds_event_intro; simp add: event_typed_def bwu_event_def
      bandwidth_upgrade_negotiation_frame_default_def)+

text \<open>
  C34. Every frame the crate builds is well typed, whatever the arguments: each builder encodes one
  frame, with the version, the type number of its kind and exactly the sub-message of that kind, so
  that the receiver reads that type back; an upgrade frame has the number of its event and exactly
  the sub-messages of the event; an offered path names exactly the medium whose credentials it
  carries, and asks for an acknowledged introduction.
\<close>

theorem builders_well_typed:
  "(\<exists>b. (\<forall>enc. for_connection_request_connections enc dev info sw = Some (b enc)) \<and> builds ConnectionRequest b)
   \<and> builds ConnectionRequest (\<lambda>enc. for_connection_request_presence enc pdev info)
   \<and> builds ConnectionResponse (\<lambda>enc. for_connection_response enc status os std)
   \<and> builds PayloadTransfer (\<lambda>enc. for_data_payload_transfer enc header chunk)
   \<and> builds PayloadTransfer (\<lambda>enc. for_control_payload_transfer enc header control)
   \<and> builds PayloadTransfer (\<lambda>enc. for_payload_ack_payload_transfer enc payload_id)
   \<and> builds_path UpiWifiHotspot (\<lambda>enc. for_bwu_wifi_hotspot_path_available enc creds sd)
   \<and> builds_path UpiWifiLan (\<lambda>enc. for_bwu_wifi_lan_path_available enc addrs)
   \<and> builds_path UpiAwdl (\<lambda>enc. for_bwu_awdl_path_available enc name ty pw sd)
   \<and> builds_path UpiWifiAware (\<lambda>enc. for_bwu_wifi_aware_path_available enc name si pw sd)
   \<and> builds_path UpiWifiDirect (\<lambda>enc. for_bwu_wifi_direct_path_available enc ssid pw port freq sd gw name pin)
   \<and> builds_path UpiBluetooth (\<lambda>enc. for_bwu_bluetooth_path_available enc name mac)
   \<and> builds_path UpiWebRtc (\<lambda>enc. for_bwu_webrtc_path_available enc peer hint)
   \<and> builds_event UpgradeFailure (\<lambda>enc. for_bwu_failure enc path)
   \<and> builds_event LastWriteToPriorChannel for_bwu_last_write
   \<and> builds_event SafeToClosePriorChannel for_bwu_safe_to_close
   \<and> builds_event ClientIntroduction (\<lambda>enc. for_bwu_introduction enc ep lid sd)
   \<and> builds_event ClientIntroductionAck for_bwu_introduction_ack
   \<and> builds_event UpgradePathRequest (\<lambda>enc. for_bwu_path_request enc m ms role)
   \<and> builds KeepAlive for_keep_alive
   \<and> builds KeepAlive (\<lambda>enc. for_keep_alive_ack enc ack seq)
   \<and> builds Disconnection (\<lambda>enc. for_disconnection enc req_safe ack_safe)"
  using v1_builders path_builders event_builders connection_request_builder
  by (simp add: for_data_payload_transfer_def for_control_payload_transfer_def
      for_payload_ack_payload_transfer_def Let_def)

end
