(* ===== verification/Service_Id.thy ===== *)
theory Service_Id
  imports Nearby_Prelude
begin

text \<open>
  \<^verbatim>\<open>src/bwu/service_id.rs\<close>: the initiator of an upgrade keeps its state under the service
  id with a postfix, the responder under the raw id.
\<close>

definition UNKNOWN_SERVICE_ID :: string where
  "UNKNOWN_SERVICE_ID = ''UNKNOWN_SERVICE''"

definition INITIATOR_UPGRADE_SERVICE_ID_POSTFIX :: string where
  "INITIATOR_UPGRADE_SERVICE_ID_POSTFIX = ''_UPGRADE''"

definition is_initiator_upgrade_service_id :: "string \<Rightarrow> bool" where
  "is_initiator_upgrade_service_id service_id \<longleftrightarrow>
     service_id \<noteq> [] \<and> str_ends_with service_id INITIATOR_UPGRADE_SERVICE_ID_POSTFIX"

definition wrap_initiator_upgrade_service_id :: "string \<Rightarrow> string" where
  "wrap_initiator_upgrade_service_id service_id =
     (if service_id = [] \<or> is_initiator_upgrade_service_id service_id then service_id
      else service_id @ INITIATOR_UPGRADE_SERVICE_ID_POSTFIX)"

definition unwrap_initiator_upgrade_service_id :: "string \<Rightarrow> string" where
  "unwrap_initiator_upgrade_service_id service_id =
     (if service_id = [] \<or> \<not> is_initiator_upgrade_service_id service_id then service_id
      else unwrap_or (str_strip_suffix service_id INITIATOR_UPGRADE_SERVICE_ID_POSTFIX) service_id)"

lemma is_initiator_wrap:
  "is_initiator_upgrade_service_id (wrap_initiator_upgrade_service_id s) \<longleftrightarrow> s \<noteq> []"
  by (auto simp: wrap_initiator_upgrade_service_id_def is_initiator_upgrade_service_id_def suffix_def)

lemma wrap_idem:
  "wrap_initiator_upgrade_service_id (wrap_initiator_upgrade_service_id s)
     = wrap_initiator_upgrade_service_id s"
  using is_initiator_wrap [of s]
  by (cases "s = []") (simp_all add: wrap_initiator_upgrade_service_id_def)

lemma unwrap_wrap:
  "\<not> is_initiator_upgrade_service_id s \<Longrightarrow>
     unwrap_initiator_upgrade_service_id (wrap_initiator_upgrade_service_id s) = s"
  using is_initiator_wrap [of s]
  by (auto simp: unwrap_initiator_upgrade_service_id_def wrap_initiator_upgrade_service_id_def)

lemma wrap_inj:
  assumes "\<not> is_initiator_upgrade_service_id s" and "\<not> is_initiator_upgrade_service_id t"
    and "wrap_initiator_upgrade_service_id s = wrap_initiator_upgrade_service_id t"
  shows "s = t"
  using assms unwrap_wrap by metis

text \<open>
  Wrapping a service id is idempotent, is recognised for every id but the empty one, and
  is undone by unwrapping for every id that does not already carry the postfix; so two raw
  ids never share a wrapped one.
\<close>

theorem service_id_wrapping:
  "wrap_initiator_upgrade_service_id (wrap_initiator_upgrade_service_id s)
     = wrap_initiator_upgrade_service_id s
   \<and> (is_initiator_upgrade_service_id (wrap_initiator_upgrade_service_id s) \<longleftrightarrow> s \<noteq> [])
   \<and> (is_initiator_upgrade_service_id s
      \<or> unwrap_initiator_upgrade_service_id (wrap_initiator_upgrade_service_id s) = s)"
  using wrap_idem is_initiator_wrap unwrap_wrap by blast

end
