(* ===== verification/Client_Proxy.thy ===== *)
theory Client_Proxy
  imports Mediums
begin

text \<open>
  \<^verbatim>\<open>src/bwu/client.rs\<close>: the connection state per endpoint that the upgrade state machine
  queries, and the success events it reports back.
\<close>

record endpoint_state =
  initiated :: bool
  connected :: bool
  local_accepted :: bool
  remote_accepted :: bool
  is_incoming :: bool
  auto_upgrade_bandwidth_flag :: bool
  upgrade_mediums :: "medium list"

definition endpoint_state_default :: endpoint_state where
  "endpoint_state_default = \<lparr>initiated = False, connected = False, local_accepted = False,
     remote_accepted = False, is_incoming = False, auto_upgrade_bandwidth_flag = False,
     upgrade_mediums = []\<rparr>"

record client_proxy =
  client_id :: i64
  cp_local_endpoint_id :: string
  cp_last_local_endpoint_id :: string
  cp_endpoints :: "(string, endpoint_state) hash_map"
  bandwidth_changed :: "(string \<times> medium) list"

definition client_proxy_new :: "i64 \<Rightarrow> string \<Rightarrow> client_proxy" where
  "client_proxy_new cid local_id = \<lparr>client_id = cid, cp_local_endpoint_id = local_id,
     cp_last_local_endpoint_id = local_id, cp_endpoints = [], bandwidth_changed = []\<rparr>"

definition client_proxy_default :: client_proxy where
  "client_proxy_default = client_proxy_new 0 ''LOCAL''"

definition client_entry_update ::
    "client_proxy \<Rightarrow> string \<Rightarrow> (endpoint_state \<Rightarrow> endpoint_state) \<Rightarrow> client_proxy" where
  "client_entry_update c ep f =
     c\<lparr>cp_endpoints := hm_insert ep
         (f (unwrap_or (hm_get (cp_endpoints c) ep) endpoint_state_default)) (cp_endpoints c)\<rparr>"

definition on_connection_initiated :: "client_proxy \<Rightarrow> string \<Rightarrow> bool \<Rightarrow> bool \<Rightarrow> client_proxy" where
  "on_connection_initiated c ep incoming auto =
     client_entry_update c ep (\<lambda>e. e\<lparr>initiated := True, is_incoming := incoming,
       auto_upgrade_bandwidth_flag := auto\<rparr>)"

definition local_endpoint_accepted_connection :: "client_proxy \<Rightarrow> string \<Rightarrow> client_proxy" where
  "local_endpoint_accepted_connection c ep = client_entry_update c ep (\<lambda>e. e\<lparr>local_accepted := True\<rparr>)"

definition remote_endpoint_accepted_connection :: "client_proxy \<Rightarrow> string \<Rightarrow> client_proxy" where
  "remote_endpoint_accepted_connection c ep = client_entry_update c ep (\<lambda>e. e\<lparr>remote_accepted := True\<rparr>)"

definition on_connection_accepted :: "client_proxy \<Rightarrow> string \<Rightarrow> client_proxy" where
  "on_connection_accepted c ep = client_entry_update c ep (\<lambda>e. e\<lparr>connected := True\<rparr>)"

definition on_disconnected :: "client_proxy \<Rightarrow> string \<Rightarrow> client_proxy" where
  "on_disconnected c ep = c\<lparr>cp_endpoints := hm_remove ep (cp_endpoints c)\<rparr>"

definition is_connection_accepted :: "client_proxy \<Rightarrow> string \<Rightarrow> bool" where
  "is_connection_accepted c ep =
     unwrap_or (map_option (\<lambda>e. local_accepted e \<and> remote_accepted e) (hm_get (cp_endpoints c) ep)) False"

definition is_connected_to_endpoint :: "client_proxy \<Rightarrow> string \<Rightarrow> bool" where
  "is_connected_to_endpoint c ep =
     unwrap_or (map_option connected (hm_get (cp_endpoints c) ep)) False"

definition is_incoming_connection :: "client_proxy \<Rightarrow> string \<Rightarrow> bool" where
  "is_incoming_connection c ep =
     unwrap_or (map_option is_incoming (hm_get (cp_endpoints c) ep)) False"

definition auto_upgrade_bandwidth :: "client_proxy \<Rightarrow> string \<Rightarrow> bool" where
  "auto_upgrade_bandwidth c ep =
     unwrap_or (map_option auto_upgrade_bandwidth_flag (hm_get (cp_endpoints c) ep)) False"

definition set_upgrade_mediums :: "client_proxy \<Rightarrow> string \<Rightarrow> medium list \<Rightarrow> client_proxy" where
  "set_upgrade_mediums c ep ms = client_entry_update c ep (\<lambda>e. e\<lparr>upgrade_mediums := ms\<rparr>)"

definition get_upgrade_mediums :: "client_proxy \<Rightarrow> string \<Rightarrow> medium list" where
  "get_upgrade_mediums c ep =
     unwrap_or (map_option upgrade_mediums (hm_get (cp_endpoints c) ep)) []"

definition on_bandwidth_changed :: "client_proxy \<Rightarrow> string \<Rightarrow> medium \<Rightarrow> client_proxy" where
  "on_bandwidth_changed c ep m = c\<lparr>bandwidth_changed := bandwidth_changed c @ [(ep, m)]\<rparr>"

lemmas client_queries = is_connection_accepted_def is_connected_to_endpoint_def
  is_incoming_connection_def auto_upgrade_bandwidth_def get_upgrade_mediums_def

lemmas client_updates = client_entry_update_def on_connection_initiated_def
  local_endpoint_accepted_connection_def remote_endpoint_accepted_connection_def
  on_connection_accepted_def on_disconnected_def set_upgrade_mediums_def on_bandwidth_changed_def

lemma on_bandwidth_changed_queries [simp]:
  "is_connected_to_endpoint (on_bandwidth_changed c ep m) = is_connected_to_endpoint c"
  "is_incoming_connection (on_bandwidth_changed c ep m) = is_incoming_connection c"
  "get_upgrade_mediums (on_bandwidth_changed c ep m) = get_upgrade_mediums c"
  "bandwidth_changed (on_bandwidth_changed c ep m) = bandwidth_changed c @ [(ep, m)]"
  "cp_endpoints (on_bandwidth_changed c ep m) = cp_endpoints c"
  by (auto simp: client_queries on_bandwidth_changed_def)

definition endpoint_queries ::
    "client_proxy \<Rightarrow> string \<Rightarrow> bool \<times> bool \<times> bool \<times> bool \<times> medium list" where
  "endpoint_queries c ep = (is_connection_accepted c ep, is_connected_to_endpoint c ep,
     is_incoming_connection c ep, auto_upgrade_bandwidth c ep, get_upgrade_mediums c ep)"

lemma endpoint_queries_cong:
  "hm_get (cp_endpoints c') ep = hm_get (cp_endpoints c) ep \<Longrightarrow>
     endpoint_queries c' ep = endpoint_queries c ep"
  by (simp add: endpoint_queries_def client_queries)

text \<open>
  The connection lifecycle: a disconnected endpoint has no state left (every query gives
  the answer for an unknown endpoint), an accepted one is connected whatever happened before
  and both acceptances make it accepted, the mediums set are the mediums read, and no
  operation on one endpoint is seen by the queries about another.
\<close>

theorem client_lifecycle:
  "endpoint_queries (on_disconnected c ep) ep = (False, False, False, False, [])
   \<and> is_connected_to_endpoint (on_connection_accepted c ep) ep
   \<and> get_upgrade_mediums (set_upgrade_mediums c ep ms) ep = ms
   \<and> is_connection_accepted (local_endpoint_accepted_connection
        (remote_endpoint_accepted_connection c ep) ep) ep
   \<and> (ep' = ep \<or>
        (endpoint_queries (on_disconnected c ep) ep' = endpoint_queries c ep'
        \<and> endpoint_queries (on_connection_initiated c ep i a) ep' = endpoint_queries c ep'
        \<and> endpoint_queries (on_connection_accepted c ep) ep' = endpoint_queries c ep'
        \<and> endpoint_queries (local_endpoint_accepted_connection c ep) ep' = endpoint_queries c ep'
        \<and> endpoint_queries (remote_endpoint_accepted_connection c ep) ep' = endpoint_queries c ep'
        \<and> endpoint_queries (set_upgrade_mediums c ep ms) ep' = endpoint_queries c ep'))"
proof (cases "ep' = ep")
  case True
  then show ?thesis by (simp add: endpoint_queries_def client_queries client_updates)
next
  case False
  then have "\<And>f. endpoint_queries (client_entry_update c ep f) ep' = endpoint_queries c ep'"
    by (intro endpoint_queries_cong) (simp add: client_entry_update_def)
  moreover from False have "endpoint_queries (on_disconnected c ep) ep' = endpoint_queries c ep'"
    by (intro endpoint_queries_cong) (simp add: on_disconnected_def)
  ultimately show ?thesis
    by (simp add: client_updates(2-5,7)) (simp add: endpoint_queries_def client_queries client_updates)
qed

end
