(* ===== verification/Channel.thy ===== *)
theory Channel
  imports Frames
begin

text \<open>
  \<^verbatim>\<open>src/bwu/channel.rs\<close>: the channel trait and its enums. A value of type
  \<^verbatim>\<open>dyn EndpointChannel\<close> is its state together with a record of methods, the trait's vtable.
  A method takes \<^verbatim>\<open>&self\<close> and mutates through a lock, so it maps the state before to the
  state after; \<^verbatim>\<open>read\<close> and \<^verbatim>\<open>write\<close> may block, which is the value \<^verbatim>\<open>None\<close>: the call
  does not return unless another thread acts on the channel.

  The locale \<^verbatim>\<open>endpoint_channel\<close> is what the state machine relies on; it is interpreted
  on the two implementations of the crate, in the theories \<^verbatim>\<open>Bwu_Testing\<close> and
  \<^verbatim>\<open>Stream_Channel\<close>.
\<close>

datatype disconnection_reason =
    UnknownDisconnectionReason | LocalDisconnection | RemoteDisconnection | IoError | Upgraded
  | Shutdown | Unfinished | PrevChannelDisconnectionInReconnect | AuthenticationFailure

datatype safe_disconnection_result = SafeDisconnection | UnsafeDisconnection

text \<open>
  \<^verbatim>\<open>trait Cipher\<close> of \<^verbatim>\<open>src/bwu/stream_channel.rs\<close>. A cipher has hidden state (the
  sequence numbers of the session behind it), so it is its behaviour: the result of a call
  and the cipher after it.
\<close>

codatatype cipher = Cipher
  (c_encode: "bytes \<Rightarrow> bytes option \<times> cipher")
  (c_decode: "bytes \<Rightarrow> bytes option \<times> cipher")

record 'ch channel_ops =
  op_read :: "'ch \<Rightarrow> ((exception + bytes) \<times> 'ch) option"
  op_write :: "'ch \<Rightarrow> bytes \<Rightarrow> (exception \<times> 'ch) option"
  op_close :: "'ch \<Rightarrow> 'ch"
  op_close_with_reason :: "'ch \<Rightarrow> disconnection_reason \<Rightarrow> 'ch"
  op_medium :: "'ch \<Rightarrow> medium"
  op_service_id :: "'ch \<Rightarrow> string"
  op_name :: "'ch \<Rightarrow> string"
  op_channel_type :: "'ch \<Rightarrow> string"
  op_local_endpoint_id :: "'ch \<Rightarrow> string"
  op_set_local_endpoint_id :: "'ch \<Rightarrow> string \<Rightarrow> 'ch"
  op_pause :: "'ch \<Rightarrow> 'ch"
  op_resume :: "'ch \<Rightarrow> 'ch"
  op_is_paused :: "'ch \<Rightarrow> bool"
  op_enable_encryption :: "'ch \<Rightarrow> cipher \<Rightarrow> 'ch"
  op_disable_encryption :: "'ch \<Rightarrow> 'ch"

text \<open>One call of a method, whoever makes it.\<close>

inductive chan_step :: "'ch channel_ops \<Rightarrow> 'ch \<Rightarrow> 'ch \<Rightarrow> bool" for ops where
  step_read: "op_read ops c = Some (r, c') \<Longrightarrow> chan_step ops c c'"
| step_write: "op_write ops c bs = Some (e, c') \<Longrightarrow> chan_step ops c c'"
| step_close: "chan_step ops c (op_close ops c)"
| step_close_with_reason: "chan_step ops c (op_close_with_reason ops c r)"
| step_set_local_endpoint_id: "chan_step ops c (op_set_local_endpoint_id ops c s)"
| step_pause: "chan_step ops c (op_pause ops c)"
| step_resume: "chan_step ops c (op_resume ops c)"
| step_enable_encryption: "chan_step ops c (op_enable_encryption ops c k)"
| step_disable_encryption: "chan_step ops c (op_disable_encryption ops c)"

inductive_cases chan_stepE: "chan_step ops c c'"

abbreviation chan_steps :: "'ch channel_ops \<Rightarrow> 'ch \<Rightarrow> 'ch \<Rightarrow> bool" where
  "chan_steps ops \<equiv> (chan_step ops)\<^sup>*\<^sup>*"

text \<open>
  The contract of the trait: what identifies a channel never changes, a closed channel stays
  closed, and the pause flag is moved only by \<^verbatim>\<open>pause\<close>, \<^verbatim>\<open>resume\<close> and the two closing
  calls.
\<close>

locale endpoint_channel =
  fixes ops :: "'ch channel_ops" and closed :: "'ch \<Rightarrow> bool"
  assumes identity_step: "chan_step ops c c' \<Longrightarrow>
      op_medium ops c' = op_medium ops c \<and> op_service_id ops c' = op_service_id ops c
      \<and> op_name ops c' = op_name ops c"
    and closed_step: "chan_step ops c c' \<Longrightarrow> closed c \<Longrightarrow> closed c'"
    and closed_close: "closed (op_close ops c)"
    and closed_close_with_reason: "closed (op_close_with_reason ops c r)"
    and paused_pause: "op_is_paused ops (op_pause ops c)"
    and paused_resume: "\<not> op_is_paused ops (op_resume ops c)"
    and paused_read: "op_read ops c = Some (rr, c') \<Longrightarrow> op_is_paused ops c' = op_is_paused ops c"
    and paused_write: "op_write ops c bs = Some (e, c') \<Longrightarrow> op_is_paused ops c' = op_is_paused ops c"
    and paused_set_local: "op_is_paused ops (op_set_local_endpoint_id ops c s) = op_is_paused ops c"
    and paused_enable: "op_is_paused ops (op_enable_encryption ops c k) = op_is_paused ops c"
    and paused_disable: "op_is_paused ops (op_disable_encryption ops c) = op_is_paused ops c"
    and local_set_local: "op_local_endpoint_id ops (op_set_local_endpoint_id ops c s) = s"
    and local_pause: "op_local_endpoint_id ops (op_pause ops c) = op_local_endpoint_id ops c"
    and closed_pause: "closed (op_pause ops c) = closed c"
    and closed_resume: "closed (op_resume ops c) = closed c"
    and closed_set_local: "closed (op_set_local_endpoint_id ops c s) = closed c"
begin

lemma identity_steps:
  "chan_steps ops c c' \<Longrightarrow>
     op_medium ops c' = op_medium ops c \<and> op_service_id ops c' = op_service_id ops c
     \<and> op_name ops c' = op_name ops c"
  by (induction rule: rtranclp_induct) (use identity_step in fastforce)+

lemma closed_steps: "chan_steps ops c c' \<Longrightarrow> closed c \<Longrightarrow> closed c'"
  by (induction rule: rtranclp_induct) (use closed_step in auto)

text \<open>What \<^verbatim>\<open>run_upgrade_protocol\<close> makes of a new channel before it registers it.\<close>

lemma fresh_paused:
  "let c' = op_pause ops (op_set_local_endpoint_id ops c s) in
     op_is_paused ops c' \<and> op_local_endpoint_id ops c' = s
     \<and> op_medium ops c' = op_medium ops c \<and> op_service_id ops c' = op_service_id ops c
     \<and> closed c' = closed c"
  using identity_step [OF step_pause] identity_step [OF step_set_local_endpoint_id]
  by (simp add: Let_def paused_pause local_pause local_set_local closed_pause closed_set_local)

text \<open>A channel that was paused and is not any more has been resumed or closed.\<close>

lemma unpause_step:
  assumes "chan_step ops c c'" and "op_is_paused ops c" and "\<not> op_is_paused ops c'"
  shows "c' = op_resume ops c \<or> c' = op_close ops c \<or> (\<exists>r. c' = op_close_with_reason ops c r)"
  using assms
  by (cases rule: chan_step.cases)
    (auto simp: paused_read paused_write paused_set_local paused_pause paused_enable paused_disable)

end

end
