(* ===== verification/Stream_Channel.thy ===== *)
theory Stream_Channel
  imports Channel Validator
begin

text \<open>
  \<^verbatim>\<open>src/bwu/stream_channel.rs\<close>: the length-framed channel over a byte stream, and the
  in-memory stream \<^verbatim>\<open>Pipe\<close>. A call that waits on a condition variable, or on the peer, is
  the value \<^verbatim>\<open>None\<close>. The trait \<^verbatim>\<open>DuplexStream\<close> is a record of methods; its reading and its
  writing half have the locales \<^verbatim>\<open>reader_stream\<close> and \<^verbatim>\<open>writer_stream\<close>, in which the two halves
  of the framing are proved. A stream that returns the bytes written to it in order satisfies
  \<^verbatim>\<open>loopback_stream\<close>, which joins them and is interpreted on \<^verbatim>\<open>Pipe\<close>; a socket with separate
  buffers satisfies the two halves, in theory \<^verbatim>\<open>Frame_Link\<close>.
\<close>

record 's stream_ops =
  st_read_exact :: "'s \<Rightarrow> nat \<Rightarrow> ((exception + bytes) \<times> 's) option"
  st_write_all :: "'s \<Rightarrow> bytes \<Rightarrow> ((exception + unit) \<times> 's) option"
  st_flush :: "'s \<Rightarrow> ((exception + unit) \<times> 's) option"
  st_close :: "'s \<Rightarrow> 's"

definition DEFAULT_MAX_ALLOWED_READ_BYTES :: nat where
  "DEFAULT_MAX_ALLOWED_READ_BYTES = 2147483647"

record pause_state =
  paused :: bool
  ps_closed :: bool

record 's stream_channel =
  sc_service_id :: string
  sc_name :: string
  sc_medium :: medium
  max_allowed_read_bytes :: nat
  sc_stream :: 's
  sc_cipher :: "cipher option"
  sc_pause :: pause_state
  sc_local_endpoint_id :: string

definition stream_channel_new :: "string \<Rightarrow> string \<Rightarrow> medium \<Rightarrow> 's \<Rightarrow> 's stream_channel" where
  "stream_channel_new sid name m s =
     \<lparr>sc_service_id = sid, sc_name = name, sc_medium = m,
      max_allowed_read_bytes = DEFAULT_MAX_ALLOWED_READ_BYTES, sc_stream = s, sc_cipher = None,
      sc_pause = \<lparr>paused = False, ps_closed = False\<rparr>, sc_local_endpoint_id = []\<rparr>"

definition enable_encryption :: "'s stream_channel \<Rightarrow> cipher \<Rightarrow> 's stream_channel" where
  "enable_encryption c k = c\<lparr>sc_cipher := Some k\<rparr>"

definition disable_encryption :: "'s stream_channel \<Rightarrow> 's stream_channel" where
  "disable_encryption c = c\<lparr>sc_cipher := None\<rparr>"

definition is_encrypted :: "'s stream_channel \<Rightarrow> bool" where
  "is_encrypted c \<longleftrightarrow> sc_cipher c \<noteq> None"

definition try_decrypt :: "'s stream_channel \<Rightarrow> bytes \<Rightarrow> (exception + bytes) \<times> 's stream_channel" where
  "try_decrypt c data =
     (case sc_cipher c of
        None \<Rightarrow> (Inl Failed, c)
      | Some k \<Rightarrow>
          (let (r, k') = c_decode k data; c = c\<lparr>sc_cipher := Some k'\<rparr>
           in (case r of Some p \<Rightarrow> (Inr p, c) | None \<Rightarrow> (Inl Execution, c))))"

definition do_close :: "'s stream_ops \<Rightarrow> 's stream_channel \<Rightarrow> 's stream_channel" where
  "do_close sops c =
     (if ps_closed (sc_pause c) then c
      else (let c = c\<lparr>sc_pause := (sc_pause c)\<lparr>ps_closed := True, paused := False\<rparr>\<rparr>
            in c\<lparr>sc_stream := st_close sops (sc_stream c)\<rparr>))"

section \<open>Reading and writing a frame\<close>

text \<open>The part of \<^verbatim>\<open>read\<close> under the reader lock: four bytes of length, then the payload.\<close>

definition read_raw ::
    "'s stream_ops \<Rightarrow> nat \<Rightarrow> 's \<Rightarrow> ((exception + bytes) \<times> 's) option" where
  "read_raw sops max_bytes s =
     do {
       (r, s) \<leftarrow> st_read_exact sops s 4;
       (case r of
          Inl e \<Rightarrow> Some (Inl e, s)
        | Inr len_buf \<Rightarrow>
            (let len = sint (from_be_bytes (len_buf ! 0) (len_buf ! 1) (len_buf ! 2) (len_buf ! 3))
             in if len < 0 \<or> nat len > max_bytes then Some (Inl Io, s)
                else st_read_exact sops s (nat len)))
     }"

text \<open>What \<^verbatim>\<open>read\<close> makes of the payload.\<close>

definition open_raw ::
    "(bytes \<Rightarrow> offline_frame option) \<Rightarrow> cipher option \<Rightarrow> bytes
      \<Rightarrow> (exception + bytes) \<times> cipher option" where
  "open_raw dec k raw =
     (case k of
        None \<Rightarrow> (Inr raw, None)
      | Some k \<Rightarrow>
          (case c_decode k raw of
             (Some plaintext, k') \<Rightarrow>
               (if plaintext = [] then (Inl InvalidProtocolBuffer, Some k')
                else (Inr plaintext, Some k'))
           | (None, k') \<Rightarrow>
               (case from_bytes dec raw of
                  Inr frame \<Rightarrow>
                    (if get_frame_type frame = KeepAlive then (Inr raw, Some k')
                     else (Inl InvalidProtocolBuffer, Some k'))
                | Inl ex \<Rightarrow> (Inl ex, Some k'))))"

definition stream_read ::
    "'s stream_ops \<Rightarrow> (bytes \<Rightarrow> offline_frame option) \<Rightarrow> 's stream_channel
      \<Rightarrow> ((exception + bytes) \<times> 's stream_channel) option" where
  "stream_read sops dec c =
     do {
       (r, s) \<leftarrow> read_raw sops (max_allowed_read_bytes c) (sc_stream c);
       let c = c\<lparr>sc_stream := s\<rparr>;
       (case r of
          Inl e \<Rightarrow> Some (Inl e, c)
        | Inr raw \<Rightarrow>
            (let (res, k) = open_raw dec (sc_cipher c) raw
             in Some (res, c\<lparr>sc_cipher := k\<rparr>)))
     }"

definition seal_payload :: "cipher option \<Rightarrow> bytes \<Rightarrow> bytes option \<times> cipher option" where
  "seal_payload k data =
     (case k of
        None \<Rightarrow> (Some data, None)
      | Some k \<Rightarrow> (let (r, k') = c_encode k data in (r, Some k')))"

text \<open>The part of \<^verbatim>\<open>write\<close> that touches the stream: length, payload, flush.\<close>

definition write_framed :: "'s stream_ops \<Rightarrow> bytes \<Rightarrow> 's \<Rightarrow> (exception \<times> 's) option" where
  "write_framed sops payload s =
     do {
       (r, s) \<leftarrow> st_write_all sops s (to_be_bytes (of_nat (length payload)));
       (case r of Inl _ \<Rightarrow> Some (Io, s)
        | Inr _ \<Rightarrow> do {
            (r, s) \<leftarrow> st_write_all sops s payload;
            (case r of Inl _ \<Rightarrow> Some (Io, s)
             | Inr _ \<Rightarrow> do {
                 (r, s) \<leftarrow> st_flush sops s;
                 (case r of Inl _ \<Rightarrow> Some (Io, s) | Inr _ \<Rightarrow> Some (Success, s))
               })
          })
     }"

definition stream_write ::
    "'s stream_ops \<Rightarrow> 's stream_channel \<Rightarrow> bytes \<Rightarrow> (exception \<times> 's stream_channel) option" where
  "stream_write sops c data =
     (if paused (sc_pause c) then None
      else
        (let (payload, k) = seal_payload (sc_cipher c) data; c = c\<lparr>sc_cipher := k\<rparr>
         in (case payload of
               None \<Rightarrow> Some (Io, c)
             | Some payload \<Rightarrow>
                 if length payload > max_allowed_read_bytes c then Some (Io, c)
                 else do {
                   (e, s) \<leftarrow> write_framed sops payload (sc_stream c);
                   Some (e, c\<lparr>sc_stream := s\<rparr>)
                 })))"

fun medium_debug :: "medium \<Rightarrow> string" where
  "medium_debug UnknownMedium = ''UnknownMedium''"
| "medium_debug Mdns = ''Mdns''"
| "medium_debug Bluetooth = ''Bluetooth''"
| "medium_debug WifiHotspot = ''WifiHotspot''"
| "medium_debug Ble = ''Ble''"
| "medium_debug WifiLan = ''WifiLan''"
| "medium_debug WifiAware = ''WifiAware''"
| "medium_debug Nfc = ''Nfc''"
| "medium_debug WifiDirect = ''WifiDirect''"
| "medium_debug WebRtc = ''WebRtc''"
| "medium_debug BleL2cap = ''BleL2cap''"
| "medium_debug Usb = ''Usb''"
| "medium_debug WebRtcNonCellular = ''WebRtcNonCellular''"
| "medium_debug Awdl = ''Awdl''"

definition stream_channel_type :: "'s stream_channel \<Rightarrow> string" where
  "stream_channel_type c = (if is_encrypted c then ''ENCRYPTED_'' else []) @ medium_debug (sc_medium c)"

definition stream_pause :: "'s stream_channel \<Rightarrow> 's stream_channel" where
  "stream_pause c = c\<lparr>sc_pause := (sc_pause c)\<lparr>paused := True\<rparr>\<rparr>"

definition stream_resume :: "'s stream_channel \<Rightarrow> 's stream_channel" where
  "stream_resume c = c\<lparr>sc_pause := (sc_pause c)\<lparr>paused := False\<rparr>\<rparr>"

definition stream_channel_ops ::
    "'s stream_ops \<Rightarrow> (bytes \<Rightarrow> offline_frame option) \<Rightarrow> 's stream_channel channel_ops" where
  "stream_channel_ops sops dec =
     \<lparr>op_read = stream_read sops dec,
      op_write = stream_write sops,
      op_close = do_close sops,
      op_close_with_reason = (\<lambda>c reason. do_close sops c),
      op_medium = sc_medium,
      op_service_id = sc_service_id,
      op_name = sc_name,
      op_channel_type = stream_channel_type,
      op_local_endpoint_id = sc_local_endpoint_id,
      op_set_local_endpoint_id = (\<lambda>c s. c\<lparr>sc_local_endpoint_id := s\<rparr>),
      op_pause = stream_pause,
      op_resume = stream_resume,
      op_is_paused = (\<lambda>c. paused (sc_pause c)),
      op_enable_encryption = enable_encryption,
      op_disable_encryption = disable_encryption\<rparr>"

section \<open>The in-memory stream\<close>

record pipe =
  pp_buf :: bytes
  pp_closed :: bool

definition pipe_new :: pipe where
  "pipe_new = \<lparr>pp_buf = [], pp_closed = False\<rparr>"

text \<open>The loop of \<^verbatim>\<open>read_exact\<close>: \<^verbatim>\<open>n\<close> bytes are missing, \<^verbatim>\<open>filled\<close> is the buffer so far.\<close>

fun pipe_read_loop :: "nat \<Rightarrow> bytes \<Rightarrow> pipe \<Rightarrow> ((exception + bytes) \<times> pipe) option" where
  "pipe_read_loop 0 filled p = Some (Inr filled, p)"
| "pipe_read_loop (Suc n) filled p =
     (case pp_buf p of
        [] \<Rightarrow> (if pp_closed p then Some (Inl NoData, p) else None)
      | byte # rest \<Rightarrow> pipe_read_loop n (filled @ [byte]) (p\<lparr>pp_buf := rest\<rparr>))"

definition pipe_read_exact :: "pipe \<Rightarrow> nat \<Rightarrow> ((exception + bytes) \<times> pipe) option" where
  "pipe_read_exact p n = pipe_read_loop n [] p"

definition pipe_write_all :: "pipe \<Rightarrow> bytes \<Rightarrow> ((exception + unit) \<times> pipe) option" where
  "pipe_write_all p bs =
     (if pp_closed p then Some (Inl Io, p) else Some (Inr (), p\<lparr>pp_buf := pp_buf p @ bs\<rparr>))"

definition pipe_flush :: "pipe \<Rightarrow> ((exception + unit) \<times> pipe) option" where
  "pipe_flush p = Some (Inr (), p)"

definition pipe_close :: "pipe \<Rightarrow> pipe" where
  "pipe_close p = p\<lparr>pp_closed := True\<rparr>"

definition pipe_ops :: "pipe stream_ops" where
  "pipe_ops = \<lparr>st_read_exact = pipe_read_exact, st_write_all = pipe_write_all,
     st_flush = pipe_flush, st_close = pipe_close\<rparr>"

section \<open>The channel contract\<close>

lemma stream_read_keeps:
  assumes "stream_read sops dec c = Some (r, c')"
  shows "\<exists>s k. c' = c\<lparr>sc_stream := s, sc_cipher := k\<rparr>"
proof -
  have "\<exists>s k. c\<lparr>sc_stream := s0\<rparr> = c\<lparr>sc_stream := s, sc_cipher := k\<rparr>" for s0
    by (rule exI [of _ s0], rule exI [of _ "sc_cipher c"]) simp
  then show ?thesis using assms unfolding stream_read_def
    by (elim bind_SomeE) (auto simp: Let_def split: sum.splits prod.splits)
qed

lemma stream_write_keeps:
  assumes "stream_write sops c bs = Some (e, c')"
  shows "\<exists>s k. c' = c\<lparr>sc_cipher := k, sc_stream := s\<rparr> \<and> \<not> paused (sc_pause c)"
proof -
  have "\<exists>s k. c\<lparr>sc_cipher := k0\<rparr> = c\<lparr>sc_cipher := k, sc_stream := s\<rparr>" for k0
    by (rule exI [of _ "sc_stream c"], rule exI [of _ k0]) simp
  with assms show ?thesis
    by (auto simp: stream_write_def Let_def elim!: bind_SomeE
        split: if_splits option.splits prod.splits)
qed

lemma stream_channel_ops_sel [simp]:
  "op_read (stream_channel_ops sops dec) = stream_read sops dec"
  "op_write (stream_channel_ops sops dec) = stream_write sops"
  "op_close (stream_channel_ops sops dec) = do_close sops"
  "op_close_with_reason (stream_channel_ops sops dec) = (\<lambda>c reason. do_close sops c)"
  "op_medium (stream_channel_ops sops dec) = sc_medium"
  "op_service_id (stream_channel_ops sops dec) = sc_service_id"
  "op_name (stream_channel_ops sops dec) = sc_name"
  "op_channel_type (stream_channel_ops sops dec) = stream_channel_type"
  "op_local_endpoint_id (stream_channel_ops sops dec) = sc_local_endpoint_id"
  "op_set_local_endpoint_id (stream_channel_ops sops dec) = (\<lambda>c s. c\<lparr>sc_local_endpoint_id := s\<rparr>)"
  "op_pause (stream_channel_ops sops dec) = stream_pause"
  "op_resume (stream_channel_ops sops dec) = stream_resume"
  "op_is_paused (stream_channel_ops sops dec) = (\<lambda>c. paused (sc_pause c))"
  "op_enable_encryption (stream_channel_ops sops dec) = enable_encryption"
  "op_disable_encryption (stream_channel_ops sops dec) = disable_encryption"
  by (simp_all add: stream_channel_ops_def)

lemmas stream_simple_defs = do_close_def stream_pause_def stream_resume_def
  enable_encryption_def disable_encryption_def Let_def

lemma stream_chan_step:
  assumes "chan_step (stream_channel_ops sops dec) c c'"
  shows "sc_medium c' = sc_medium c \<and> sc_service_id c' = sc_service_id c \<and> sc_name c' = sc_name c
    \<and> max_allowed_read_bytes c' = max_allowed_read_bytes c
    \<and> (ps_closed (sc_pause c) \<longrightarrow> ps_closed (sc_pause c'))"
  using assms
proof (cases rule: chan_step.cases)
  case (step_read r)
  then show ?thesis by (auto dest!: stream_read_keeps)
next
  case (step_write bs e)
  then show ?thesis by (auto dest!: stream_write_keeps)
qed (auto simp: stream_simple_defs)

interpretation stream_channel: endpoint_channel "stream_channel_ops sops dec"
  "\<lambda>c. ps_closed (sc_pause c)" for sops :: "'s stream_ops" and dec
  by unfold_locales
    (auto simp: stream_simple_defs dest: stream_chan_step dest!: stream_read_keeps stream_write_keeps)

section \<open>Framing\<close>

definition frame_bytes :: "bytes \<Rightarrow> bytes" where
  "frame_bytes payload = to_be_bytes (of_nat (length payload)) @ payload"

lemma sint_length: "n \<le> 2147483647 \<Longrightarrow> sint (of_nat n :: 32 word) = int n"
  by (simp add: signed_of_nat signed_take_bit_int_eq_self)

lemma from_be_bytes_length:
  "n \<le> 2147483647 \<Longrightarrow> bs = to_be_bytes (of_nat n) \<Longrightarrow>
     sint (from_be_bytes (bs ! 0) (bs ! 1) (bs ! 2) (bs ! 3)) = int n"
  by (simp add: to_be_bytes_def numeral_2_eq_2 numeral_3_eq_3 from_to_be_bytes sint_length)

text \<open>
  The reading and the writing half of a stream. \<^verbatim>\<open>incoming\<close> are the bytes not yet read,
  \<^verbatim>\<open>outgoing\<close> the bytes written so far; each half says what it leaves alone.
\<close>

locale reader_stream =
  fixes sops :: "'s stream_ops" and incoming :: "'s \<Rightarrow> bytes" and unread :: "'s \<Rightarrow> 'x"
  assumes read_enough: "n \<le> length (incoming s) \<Longrightarrow>
      \<exists>s'. st_read_exact sops s n = Some (Inr (take n (incoming s)), s')
         \<and> incoming s' = drop n (incoming s) \<and> unread s' = unread s"
begin

lemma read_raw_framed:
  assumes "incoming s = frame_bytes payload @ rest" and "length payload \<le> mx" and "mx \<le> 2147483647"
  shows "\<exists>s'. read_raw sops mx s = Some (Inr payload, s') \<and> incoming s' = rest \<and> unread s' = unread s"
proof -
  let ?len = "to_be_bytes (of_nat (length payload))"
  obtain s1 where 1: "st_read_exact sops s 4 = Some (Inr ?len, s1)"
    "incoming s1 = payload @ rest" "unread s1 = unread s"
    using read_enough [of 4 s] assms(1) by (auto simp: frame_bytes_def)
  obtain s2 where "st_read_exact sops s1 (length payload) = Some (Inr payload, s2)"
    "incoming s2 = rest" "unread s2 = unread s1"
    using read_enough [of "length payload" s1] 1(2) by auto
  with 1 assms(2,3) show ?thesis
    using from_be_bytes_length [of "length payload" ?len] by (simp add: read_raw_def)
qed

lemma stream_read_framed:
  assumes "incoming (sc_stream c) = frame_bytes payload @ rest"
    and "length payload \<le> max_allowed_read_bytes c" and "max_allowed_read_bytes c \<le> 2147483647"
  shows "\<exists>s. stream_read sops dec c = Some (fst (open_raw dec (sc_cipher c) payload),
        c\<lparr>sc_stream := s, sc_cipher := snd (open_raw dec (sc_cipher c) payload)\<rparr>)
    \<and> incoming s = rest \<and> unread s = unread (sc_stream c)"
  using read_raw_framed [OF assms]
  by (auto simp: stream_read_def Let_def split: prod.split)

end

locale writer_stream =
  fixes sops :: "'s stream_ops" and outgoing :: "'s \<Rightarrow> bytes" and is_open :: "'s \<Rightarrow> bool"
    and unwritten :: "'s \<Rightarrow> 'y"
  assumes write_open: "is_open s \<Longrightarrow>
      \<exists>s'. st_write_all sops s bs = Some (Inr (), s') \<and> outgoing s' = outgoing s @ bs \<and> is_open s'
         \<and> unwritten s' = unwritten s"
    and flush_open: "is_open s \<Longrightarrow>
      \<exists>s'. st_flush sops s = Some (Inr (), s') \<and> outgoing s' = outgoing s \<and> is_open s'
         \<and> unwritten s' = unwritten s"
begin

lemma write_framed_open:
  assumes "is_open s"
  shows "\<exists>s'. write_framed sops payload s = Some (Success, s')
    \<and> outgoing s' = outgoing s @ frame_bytes payload \<and> is_open s' \<and> unwritten s' = unwritten s"
proof -
  let ?len = "to_be_bytes (of_nat (length payload))"
  obtain s1 where 1: "st_write_all sops s ?len = Some (Inr (), s1)"
    "outgoing s1 = outgoing s @ ?len" "is_open s1" "unwritten s1 = unwritten s"
    using write_open [OF assms] by blast
  obtain s2 where 2: "st_write_all sops s1 payload = Some (Inr (), s2)"
    "outgoing s2 = outgoing s1 @ payload" "is_open s2" "unwritten s2 = unwritten s1"
    using write_open [OF 1(3)] by blast
  obtain s3 where "st_flush sops s2 = Some (Inr (), s3)"
    "outgoing s3 = outgoing s2" "is_open s3" "unwritten s3 = unwritten s2" using flush_open [OF 2(3)] by blast
  with 1 2 show ?thesis by (simp add: write_framed_def frame_bytes_def)
qed

lemma stream_write_open:
  assumes "is_open (sc_stream c)" and "\<not> paused (sc_pause c)"
    and "seal_payload (sc_cipher c) data = (Some payload, k)"
    and "length payload \<le> max_allowed_read_bytes c"
  shows "\<exists>s. stream_write sops c data = Some (Success, c\<lparr>sc_cipher := k, sc_stream := s\<rparr>)
    \<and> outgoing s = outgoing (sc_stream c) @ frame_bytes payload \<and> is_open s
    \<and> unwritten s = unwritten (sc_stream c)"
  using write_framed_open [OF assms(1), of payload] assms(2-4)
  by (auto simp: stream_write_def)

end

text \<open>
  A stream whose reader gets the bytes its writer wrote, in order, and that says so when it
  is closed.
\<close>

locale loopback_stream =
  reader_stream sops contents is_open + writer_stream sops contents is_open "\<lambda>_. ()"
  for sops :: "'s stream_ops" and contents :: "'s \<Rightarrow> bytes" and is_open :: "'s \<Rightarrow> bool" +
  assumes write_shut: "\<not> is_open s \<Longrightarrow> \<exists>s'. st_write_all sops s bs = Some (Inl Io, s')"
    and read_blocks: "length (contents s) < n \<Longrightarrow> is_open s \<Longrightarrow> st_read_exact sops s n = None"
    and read_eof: "length (contents s) < n \<Longrightarrow> \<not> is_open s \<Longrightarrow>
      \<exists>s'. st_read_exact sops s n = Some (Inl NoData, s')"
    and close_shuts: "\<not> is_open (st_close sops s)"
    and close_contents: "contents (st_close sops s) = contents s"
begin

lemma write_after_close:
  assumes "\<not> ps_closed (sc_pause c)" and "sc_cipher c = None"
    and "length data \<le> max_allowed_read_bytes c"
  shows "\<exists>c'. stream_write sops (do_close sops c) data = Some (Io, c')"
proof -
  obtain s' where "st_write_all sops (st_close sops (sc_stream c))
      (to_be_bytes (of_nat (length data))) = Some (Inl Io, s')"
    using write_shut [OF close_shuts] by blast
  then show ?thesis using assms
    by (simp add: stream_write_def do_close_def Let_def seal_payload_def write_framed_def)
qed

end

section \<open>The pipe is a loopback stream\<close>

lemma pipe_read_loop_enough:
  "n \<le> length (pp_buf p) \<Longrightarrow>
     pipe_read_loop n filled p =
       Some (Inr (filled @ take n (pp_buf p)), p\<lparr>pp_buf := drop n (pp_buf p)\<rparr>)"
  by (induction n filled p rule: pipe_read_loop.induct) (auto split: list.splits)

lemma pipe_read_loop_short:
  "length (pp_buf p) < n \<Longrightarrow>
     pipe_read_loop n filled p =
       (if pp_closed p then Some (Inl NoData, p\<lparr>pp_buf := []\<rparr>) else None)"
  by (induction n filled p rule: pipe_read_loop.induct) (auto split: list.splits)

lemmas pipe_defs = pipe_ops_def pipe_read_exact_def pipe_write_all_def pipe_flush_def pipe_close_def

interpretation pipe_stream: loopback_stream pipe_ops pp_buf "\<lambda>p. \<not> pp_closed p"
  by unfold_locales (auto simp: pipe_defs pipe_read_loop_enough pipe_read_loop_short)

text \<open>Writing a list of frames, and reading that many.\<close>

fun stream_write_list :: "'s stream_ops \<Rightarrow> 's stream_channel \<Rightarrow> bytes list \<Rightarrow> 's stream_channel option" where
  "stream_write_list sops c [] = Some c"
| "stream_write_list sops c (p # ps) =
     do {
       (e, c) \<leftarrow> stream_write sops c p;
       (if e = Success then stream_write_list sops c ps else None)
     }"

fun stream_read_list :: "'s stream_ops \<Rightarrow> (bytes \<Rightarrow> offline_frame option) \<Rightarrow> 's stream_channel \<Rightarrow> nat
    \<Rightarrow> ((exception + bytes) list \<times> 's stream_channel) option" where
  "stream_read_list sops dec c 0 = Some ([], c)"
| "stream_read_list sops dec c (Suc n) =
     do {
       (r, c) \<leftarrow> stream_read sops dec c;
       (rs, c) \<leftarrow> stream_read_list sops dec c n;
       Some (r # rs, c)
     }"

abbreviation plain_pipe_channel :: "pipe stream_channel \<Rightarrow> bool" where
  "plain_pipe_channel c \<equiv> \<not> pp_closed (sc_stream c) \<and> \<not> paused (sc_pause c) \<and> sc_cipher c = None
     \<and> max_allowed_read_bytes c = DEFAULT_MAX_ALLOWED_READ_BYTES"

lemma pipe_write_list:
  assumes "plain_pipe_channel c" and "\<forall>p \<in> set ps. length p \<le> DEFAULT_MAX_ALLOWED_READ_BYTES"
  shows "\<exists>c'. stream_write_list pipe_ops c ps = Some c' \<and> plain_pipe_channel c'
    \<and> pp_buf (sc_stream c') = pp_buf (sc_stream c) @ concat (map frame_bytes ps)"
  using assms
proof (induction ps arbitrary: c)
  case (Cons p ps)
  obtain s where s: "stream_write pipe_ops c p = Some (Success, c\<lparr>sc_cipher := None, sc_stream := s\<rparr>)"
    "pp_buf s = pp_buf (sc_stream c) @ frame_bytes p" "\<not> pp_closed s"
    using pipe_stream.stream_write_open [of c p p None] Cons.prems by (auto simp: seal_payload_def)
  with Cons.prems Cons.IH [of "c\<lparr>sc_cipher := None, sc_stream := s\<rparr>"] show ?case by auto
qed auto

lemma pipe_read_list:
  assumes "plain_pipe_channel c" and "\<forall>p \<in> set ps. length p \<le> DEFAULT_MAX_ALLOWED_READ_BYTES"
    and "pp_buf (sc_stream c) = concat (map frame_bytes ps) @ rest"
  shows "\<exists>c'. stream_read_list pipe_ops dec c (length ps) = Some (map Inr ps, c')
    \<and> pp_buf (sc_stream c') = rest"
  using assms
proof (induction ps arbitrary: c)
  case (Cons p ps)
  obtain s where s: "stream_read pipe_ops dec c = Some (Inr p, c\<lparr>sc_stream := s, sc_cipher := None\<rparr>)"
    "pp_buf s = concat (map frame_bytes ps) @ rest" "\<not> pp_closed s"
    using pipe_stream.stream_read_framed [of c p _ dec] Cons.prems
    by (auto simp: open_raw_def DEFAULT_MAX_ALLOWED_READ_BYTES_def)
  with Cons.prems Cons.IH [of "c\<lparr>sc_stream := s, sc_cipher := None\<rparr>"] show ?case by auto
qed auto

text \<open>
  C28. Framing is a FIFO round trip: on a fresh channel over a pipe, any list of frames that
  fit the length limit can be written, and as many reads return exactly those frames in
  order and leave the stream empty.
\<close>

theorem stream_fifo_roundtrip:
  assumes "\<forall>p \<in> set ps. length p \<le> DEFAULT_MAX_ALLOWED_READ_BYTES"
  shows "\<exists>c c'. stream_write_list pipe_ops (stream_channel_new sid name m pipe_new) ps = Some c
    \<and> stream_read_list pipe_ops dec c (length ps) = Some (map Inr ps, c')
    \<and> pp_buf (sc_stream c') = []"
proof -
  have "plain_pipe_channel (stream_channel_new sid name m pipe_new)"
    by (simp add: stream_channel_new_def pipe_new_def)
  from pipe_write_list [OF this assms] obtain c where
    "stream_write_list pipe_ops (stream_channel_new sid name m pipe_new) ps = Some c"
    "plain_pipe_channel c" "pp_buf (sc_stream c) = concat (map frame_bytes ps) @ []"
    by (auto simp: stream_channel_new_def pipe_new_def)
  with pipe_read_list [OF _ assms, of c "[]" dec] show ?thesis by blast
qed

theorem stream_fifo_roundtrip_witness:
  "\<exists>c c'. stream_write_list pipe_ops (stream_channel_new ''S'' ''n'' WifiLan pipe_new) [[1, 2], [], [3]] = Some c
    \<and> stream_read_list pipe_ops (\<lambda>bs. None) c 3 = Some ([Inr [1, 2], Inr [], Inr [3]], c')
    \<and> pp_buf (sc_stream c') = []"
  using stream_fifo_roundtrip [of "[[1, 2], [], [3]]" "''S''" "''n''" WifiLan "\<lambda>bs. None"]
  by (simp add: DEFAULT_MAX_ALLOWED_READ_BYTES_def numeral_3_eq_3)

lemma pipe_encrypted_roundtrip:
  assumes "plain_pipe_channel c" and "pp_buf (sc_stream c) = []"
    and "c_encode k p = (Some e, k1)" and "c_decode k1 e = (Some p, k2)" and "p \<noteq> []"
    and "length e \<le> DEFAULT_MAX_ALLOWED_READ_BYTES"
  shows "\<exists>c1 c2. stream_write pipe_ops (enable_encryption c k) p = Some (Success, c1)
         \<and> stream_read pipe_ops dec c1 = Some (Inr p, c2) \<and> sc_cipher c2 = Some k2"
proof -
  let ?c = "enable_encryption c k"
  obtain s where s: "stream_write pipe_ops ?c p
      = Some (Success, ?c\<lparr>sc_cipher := Some k1, sc_stream := s\<rparr>)"
    "pp_buf s = frame_bytes e"
    using pipe_stream.stream_write_open [of ?c p e "Some k1"] assms
    by (auto simp: seal_payload_def enable_encryption_def)
  with pipe_stream.stream_read_framed [of "?c\<lparr>sc_cipher := Some k1, sc_stream := s\<rparr>" e "[]" dec] assms
  show ?thesis
    by (auto simp: open_raw_def enable_encryption_def DEFAULT_MAX_ALLOWED_READ_BYTES_def)
qed

lemma pipe_undecodable:
  assumes "plain_pipe_channel c" and "pp_buf (sc_stream c) = []"
    and "c_decode k p = (None, k1)" and "length p \<le> DEFAULT_MAX_ALLOWED_READ_BYTES"
  shows "\<exists>c1 c2. stream_write pipe_ops c p = Some (Success, c1)
      \<and> stream_read pipe_ops dec (enable_encryption c1 k) =
          Some (case from_bytes dec p of
                  Inr f \<Rightarrow> (if get_frame_type f = KeepAlive then Inr p else Inl InvalidProtocolBuffer)
                | Inl e \<Rightarrow> Inl e, c2)"
proof -
  obtain s where s: "stream_write pipe_ops c p = Some (Success, c\<lparr>sc_cipher := None, sc_stream := s\<rparr>)"
    "pp_buf s = frame_bytes p"
    using pipe_stream.stream_write_open [of c p p None] assms by (auto simp: seal_payload_def)
  with pipe_stream.stream_read_framed [of "enable_encryption
      (c\<lparr>sc_cipher := None, sc_stream := s\<rparr>) k" p "[]" dec] assms
  show ?thesis
    by (auto simp: open_raw_def enable_encryption_def DEFAULT_MAX_ALLOWED_READ_BYTES_def
        split: sum.splits)
qed

text \<open>
  C29. The encrypted path: what the cipher encoded and decodes again comes back as the
  plaintext; and a frame the cipher cannot decode is let through exactly when it is a valid
  plaintext KEEP_ALIVE, the frame a peer may send just before it switches encryption on,
  every other one being reported as an error.
\<close>

theorem stream_encrypted_read:
  assumes "plain_pipe_channel c" and "pp_buf (sc_stream c) = []"
    and "c_encode k p = (Some e, k1)" and "c_decode k1 e = (Some p, k2)" and "p \<noteq> []"
    and "length e \<le> DEFAULT_MAX_ALLOWED_READ_BYTES"
    and "c_decode k q = (None, k3)" and "length q \<le> DEFAULT_MAX_ALLOWED_READ_BYTES"
  shows "(\<exists>c1 c2. stream_write pipe_ops (enable_encryption c k) p = Some (Success, c1)
         \<and> stream_read pipe_ops dec c1 = Some (Inr p, c2) \<and> sc_cipher c2 = Some k2)
    \<and> (\<exists>c1 r c2. stream_write pipe_ops c q = Some (Success, c1)
         \<and> stream_read pipe_ops dec (enable_encryption c1 k) = Some (r, c2)
         \<and> (r = Inr q \<longleftrightarrow> (\<exists>f. from_bytes dec q = Inr f \<and> get_frame_type f = KeepAlive))
         \<and> (r \<noteq> Inr q \<longleftrightarrow> isl r))"
proof (intro conjI)
  obtain c1 r c2 where "stream_write pipe_ops c q = Some (Success, c1)"
    "stream_read pipe_ops dec (enable_encryption c1 k) = Some (r, c2)"
    "r = (case from_bytes dec q of
        Inr f \<Rightarrow> (if get_frame_type f = KeepAlive then Inr q else Inl InvalidProtocolBuffer)
      | Inl e \<Rightarrow> Inl e)"
    using pipe_undecodable [OF assms(1,2,7,8)] by blast
  then show "\<exists>c1 r c2. stream_write pipe_ops c q = Some (Success, c1)
         \<and> stream_read pipe_ops dec (enable_encryption c1 k) = Some (r, c2)
         \<and> (r = Inr q \<longleftrightarrow> (\<exists>f. from_bytes dec q = Inr f \<and> get_frame_type f = KeepAlive))
         \<and> (r \<noteq> Inr q \<longleftrightarrow> isl r)"
    by (intro exI [of _ c1] exI [of _ r] exI [of _ c2]) (auto split: sum.splits if_splits)
qed (rule pipe_encrypted_roundtrip [OF assms(1-6)])

text \<open>A cipher that shifts bytes and rejects frames that start with a zero.\<close>

primcorec shift_cipher :: "byte \<Rightarrow> cipher" where
  "c_encode (shift_cipher n) = (\<lambda>bs. (Some (map (\<lambda>b. b + n) bs), shift_cipher n))"
| "c_decode (shift_cipher n) = (\<lambda>bs.
     (if bs = [] \<or> hd bs = 0 then None else Some (map (\<lambda>b. b - n) bs), shift_cipher n))"

theorem stream_encrypted_read_witness:
  "\<exists>c1 c2. stream_write pipe_ops
        (enable_encryption (stream_channel_new ''S'' ''n'' WifiLan pipe_new) (shift_cipher 1)) [5]
      = Some (Success, c1)
    \<and> stream_read pipe_ops (\<lambda>bs. None) c1 = Some (Inr [5], c2)
    \<and> sc_cipher c2 = Some (shift_cipher 1)"
  using stream_encrypted_read [of "stream_channel_new ''S'' ''n'' WifiLan pipe_new" "shift_cipher 1"
      "[5]" "[6]" "shift_cipher 1" "shift_cipher 1" "[0]" "shift_cipher 1" "\<lambda>bs. None"]
  by (simp add: DEFAULT_MAX_ALLOWED_READ_BYTES_def stream_channel_new_def pipe_new_def)


text \<open>
  C40. Closing is idempotent, and for that very reason it does not release a writer when the
  channel was paused after a first close: the second close returns early and the channel
  stays paused, so a write never returns although the channel is closed.
\<close>

theorem stream_close_idempotent_but_stays_paused:
  "do_close sops (do_close sops c) = do_close sops c
   \<and> \<not> paused (sc_pause (do_close sops (stream_pause c))) = (\<not> ps_closed (sc_pause c))
   \<and> stream_write sops (do_close sops (stream_pause (do_close sops c))) data = None"
  by (simp add: do_close_def stream_pause_def stream_write_def Let_def)

end
