(* ===== verification/Channel_Manager.thy ===== *)
theory Channel_Manager
  imports Channel Client_Proxy
begin

text \<open>
  \<^verbatim>\<open>src/bwu/channel_manager.rs\<close>: the registry from endpoint ids to their active channel.
  An \<^verbatim>\<open>Arc<dyn EndpointChannel>\<close> is a reference into a heap of channels, so that a clone
  parked elsewhere and the registered one are the same channel; the heap is an argument of
  the one operation that looks at the channels. The registry's contract is the locale
  \<^verbatim>\<open>channel_registry\<close>.
\<close>

type_synonym chan_ref = nat

record endpoint_channel_manager =
  endpoints :: "(string, chan_ref) hash_map"

definition endpoint_channel_manager_new :: endpoint_channel_manager where
  "endpoint_channel_manager_new = \<lparr>endpoints = []\<rparr>"

definition register_channel_for_endpoint ::
    "client_proxy \<Rightarrow> string \<Rightarrow> chan_ref \<Rightarrow> endpoint_channel_manager \<Rightarrow> endpoint_channel_manager" where
  "register_channel_for_endpoint _ ep ch m = m\<lparr>endpoints := hm_insert ep ch (endpoints m)\<rparr>"

definition replace_channel_for_endpoint ::
    "client_proxy \<Rightarrow> string \<Rightarrow> chan_ref \<Rightarrow> bool \<Rightarrow> endpoint_channel_manager
      \<Rightarrow> endpoint_channel_manager" where
  "replace_channel_for_endpoint _ ep ch _ m = m\<lparr>endpoints := hm_insert ep ch (endpoints m)\<rparr>"

definition get_channel_for_endpoint :: "endpoint_channel_manager \<Rightarrow> string \<Rightarrow> chan_ref option" where
  "get_channel_for_endpoint m ep = hm_get (endpoints m) ep"

definition unregister_channel_for_endpoint ::
    "string \<Rightarrow> disconnection_reason \<Rightarrow> safe_disconnection_result \<Rightarrow> endpoint_channel_manager
      \<Rightarrow> bool \<times> endpoint_channel_manager" where
  "unregister_channel_for_endpoint ep _ _ m =
     (hm_contains (endpoints m) ep, m\<lparr>endpoints := hm_remove ep (endpoints m)\<rparr>)"

definition get_connected_endpoints_count :: "endpoint_channel_manager \<Rightarrow> nat" where
  "get_connected_endpoints_count m = length (endpoints m)"

definition is_wifi_lan_connected ::
    "'ch channel_ops \<Rightarrow> 'ch list \<Rightarrow> endpoint_channel_manager \<Rightarrow> bool" where
  "is_wifi_lan_connected ops hp m =
     list_ex (\<lambda>(ep, c). op_medium ops (hp ! c) = WifiLan) (endpoints m)"

section \<open>The contract of the registry\<close>

locale channel_registry =
  fixes empty_reg :: 'r
    and get :: "'r \<Rightarrow> string \<Rightarrow> chan_ref option"
    and put :: "string \<Rightarrow> chan_ref \<Rightarrow> 'r \<Rightarrow> 'r"
    and del :: "string \<Rightarrow> 'r \<Rightarrow> bool \<times> 'r"
    and count :: "'r \<Rightarrow> nat"
    and reg_inv :: "'r \<Rightarrow> bool"
  assumes get_empty: "get empty_reg ep = None"
    and get_put: "get (put ep c r) = (get r)(ep \<mapsto> c)"
    and get_del: "get (snd (del ep r)) = (get r)(ep := None)"
    and del_found: "fst (del ep r) \<longleftrightarrow> get r ep \<noteq> None"
    and count_dom: "reg_inv r \<Longrightarrow> count r = card (dom (get r))"
    and finite_dom: "finite (dom (get r))"
    and inv_empty: "reg_inv empty_reg"
    and inv_put: "reg_inv r \<Longrightarrow> reg_inv (put ep c r)"
    and inv_del: "reg_inv r \<Longrightarrow> reg_inv (snd (del ep r))"
begin

lemma swap_keeps_count: "reg_inv r \<Longrightarrow> get r ep \<noteq> None \<Longrightarrow> count (put ep c r) = count r"
  by (simp add: count_dom inv_put get_put insert_absorb domIff)

lemma register_new_counts: "reg_inv r \<Longrightarrow> get r ep = None \<Longrightarrow> count (put ep c r) = Suc (count r)"
  using finite_dom [of r] by (simp add: count_dom inv_put get_put domIff)

lemma unregister_counts:
  "reg_inv r \<Longrightarrow> count (snd (del ep r)) = (if fst (del ep r) then count r - 1 else count r)"
  using finite_dom [of r]
  by (auto simp: count_dom inv_del get_del del_found domIff insert_absorb)

lemma at_most_one: "reg_inv r \<Longrightarrow> count r \<le> 1 \<Longrightarrow> get r a = Some x \<Longrightarrow> get r b = Some y \<Longrightarrow> a = b"
  using finite_dom [of r] by (auto simp: count_dom card_le_Suc0_iff_eq dom_def)

end

abbreviation ecm_wf :: "endpoint_channel_manager \<Rightarrow> bool" where
  "ecm_wf m \<equiv> hm_wf (endpoints m)"

interpretation ecm_reg: channel_registry endpoint_channel_manager_new get_channel_for_endpoint
  "\<lambda>ep c. replace_channel_for_endpoint cl ep c enc"
  "\<lambda>ep. unregister_channel_for_endpoint ep why res" get_connected_endpoints_count ecm_wf
  for cl enc why res
proof unfold_locales
  fix r :: endpoint_channel_manager
  have "distinct (map fst xs) \<Longrightarrow> length xs = card (fst ` set xs)" for xs :: "(string \<times> nat) list"
    by (metis distinct_card image_set length_map)
  moreover have "get_channel_for_endpoint r = hm_get (endpoints r)"
    by (rule ext) (simp add: get_channel_for_endpoint_def)
  ultimately show "ecm_wf r \<Longrightarrow>
      get_connected_endpoints_count r = card (dom (get_channel_for_endpoint r))"
    by (simp add: get_connected_endpoints_count_def dom_map_of_conv_image_fst)
  show "finite (dom (get_channel_for_endpoint r))"
    using finite_dom_map_of [of "endpoints r"]
    by (simp add: get_channel_for_endpoint_def [abs_def])
qed (auto simp: endpoint_channel_manager_new_def get_channel_for_endpoint_def
    replace_channel_for_endpoint_def unregister_channel_for_endpoint_def map_of_eq_None_iff
    fun_eq_iff)

lemma register_is_replace:
  "register_channel_for_endpoint cl ep c m = replace_channel_for_endpoint cl ep c enc m"
  by (simp add: register_channel_for_endpoint_def replace_channel_for_endpoint_def)

lemma is_wifi_lan_connected_iff:
  "ecm_wf m \<Longrightarrow> is_wifi_lan_connected ops hp m \<longleftrightarrow>
     (\<exists>ep c. get_channel_for_endpoint m ep = Some c \<and> op_medium ops (hp ! c) = WifiLan)"
  unfolding is_wifi_lan_connected_def get_channel_for_endpoint_def list_ex_iff
  by (auto intro: map_of_SomeD dest: map_of_is_SomeI)

text \<open>
  The registry: replacing the channel of a registered endpoint keeps the number of
  connected endpoints, registering a new one adds one, and unregistering takes one away and
  reports whether there was one.
\<close>

theorem registry_counts:
  assumes "ecm_wf m"
  shows "get_connected_endpoints_count (replace_channel_for_endpoint cl ep c enc m)
      = (if get_channel_for_endpoint m ep = None then Suc (get_connected_endpoints_count m)
         else get_connected_endpoints_count m)
    \<and> get_connected_endpoints_count (register_channel_for_endpoint cl ep c m)
      = get_connected_endpoints_count (replace_channel_for_endpoint cl ep c enc m)
    \<and> get_connected_endpoints_count (snd (unregister_channel_for_endpoint ep why res m))
      = (if fst (unregister_channel_for_endpoint ep why res m)
         then get_connected_endpoints_count m - 1 else get_connected_endpoints_count m)"
  using assms register_is_replace [of cl ep c m enc] ecm_reg.swap_keeps_count [of m ep]
    ecm_reg.register_new_counts [of m ep] ecm_reg.unregister_counts [of m] by simp

theorem registry_counts_witness:
  "get_connected_endpoints_count (replace_channel_for_endpoint (client_proxy_new 0 ''me'') ''a'' 1
     True \<lparr>endpoints = [(''a'', 0)]\<rparr>) = 1"
  using registry_counts [of "\<lparr>endpoints = [(''a'', 0)]\<rparr>" "client_proxy_new 0 ''me''" "''a''" 1 True]
  by (simp add: get_channel_for_endpoint_def get_connected_endpoints_count_def)

end
