(* ===== verification/Bwu_Handler.thy ===== *)
theory Bwu_Handler
  imports Channel_Manager Service_Id
begin

text \<open>
  \<^verbatim>\<open>src/bwu/handler.rs\<close>: the handler traits and \<^verbatim>\<open>BaseBwuHandler\<close>, the bookkeeping around
  a medium-specific handler. The traits are records of methods, as for channels; a method
  that may not return (it joins a thread, or it talks to the platform) is option valued.
  A handler that creates a channel returns the new channel's state, which the caller puts
  on the heap.

  \<^verbatim>\<open>BaseBwuHandler\<close> is proved to implement an abstract handler that keeps the set of
  (service, endpoint) pairs with an initiated upgrade; the locale \<^verbatim>\<open>upgrade_handler\<close> is that
  contract as the manager sees it.
\<close>

record ('ch, 'h) handler_ops =
  h_initialize_upgraded_medium_for_endpoint ::
    "client_proxy \<Rightarrow> string \<Rightarrow> string \<Rightarrow> 'h \<Rightarrow> (bytes \<times> 'h) option"
  h_revert_initiator_state :: "'h \<Rightarrow> 'h option"
  h_revert_initiator_state_for_endpoint :: "string \<Rightarrow> string \<Rightarrow> 'h \<Rightarrow> 'h option"
  h_revert_responder_state :: "string \<Rightarrow> 'h \<Rightarrow> 'h option"
  h_create_upgraded_endpoint_channel ::
    "client_proxy \<Rightarrow> string \<Rightarrow> string \<Rightarrow> upgrade_path_info \<Rightarrow> 'h \<Rightarrow> ('ch option \<times> 'h) option"
  h_get_upgrade_medium :: "'h \<Rightarrow> medium"
  h_on_endpoint_disconnect :: "client_proxy \<Rightarrow> string \<Rightarrow> 'h \<Rightarrow> 'h option"

record ('ch, 'm) medium_handler_ops =
  m_handle_initialize_upgraded_medium_for_endpoint ::
    "client_proxy \<Rightarrow> string \<Rightarrow> string \<Rightarrow> 'm \<Rightarrow> (bytes \<times> 'm) option"
  m_handle_revert_initiator_state_for_service :: "string \<Rightarrow> 'm \<Rightarrow> 'm option"
  m_create_upgraded_endpoint_channel ::
    "client_proxy \<Rightarrow> string \<Rightarrow> string \<Rightarrow> upgrade_path_info \<Rightarrow> 'm \<Rightarrow> ('ch option \<times> 'm) option"
  m_get_upgrade_medium :: "'m \<Rightarrow> medium"
  m_on_endpoint_disconnect :: "client_proxy \<Rightarrow> string \<Rightarrow> 'm \<Rightarrow> 'm option"

text \<open>One call of a handler method.\<close>

inductive hand_step :: "('ch, 'h) handler_ops \<Rightarrow> 'h \<Rightarrow> 'h \<Rightarrow> bool" for ops where
  "h_initialize_upgraded_medium_for_endpoint ops cl sid ep h = Some (bs, h') \<Longrightarrow> hand_step ops h h'"
| "h_revert_initiator_state ops h = Some h' \<Longrightarrow> hand_step ops h h'"
| "h_revert_initiator_state_for_endpoint ops sid ep h = Some h' \<Longrightarrow> hand_step ops h h'"
| "h_revert_responder_state ops sid h = Some h' \<Longrightarrow> hand_step ops h h'"
| "h_create_upgraded_endpoint_channel ops cl sid ep info h = Some (c, h') \<Longrightarrow> hand_step ops h h'"
| "h_on_endpoint_disconnect ops cl ep h = Some h' \<Longrightarrow> hand_step ops h h'"

section \<open>The bookkeeping handler\<close>

record 'm base_bwu_handler =
  inner :: 'm
  upgrade_service_id_to_active_endpoint_ids :: "(string, string hash_set) hash_map"

definition base_bwu_handler_new :: "'m \<Rightarrow> 'm base_bwu_handler" where
  "base_bwu_handler_new m = \<lparr>inner = m, upgrade_service_id_to_active_endpoint_ids = []\<rparr>"

definition base_initialize_upgraded_medium_for_endpoint ::
    "('ch, 'm) medium_handler_ops \<Rightarrow> client_proxy \<Rightarrow> string \<Rightarrow> string \<Rightarrow> 'm base_bwu_handler
      \<Rightarrow> (bytes \<times> 'm base_bwu_handler) option" where
  "base_initialize_upgraded_medium_for_endpoint mops cl service_id endpoint_id h =
     (let upgrade_service_id = wrap_initiator_upgrade_service_id service_id in
      do {
        (frame, m) \<leftarrow> m_handle_initialize_upgraded_medium_for_endpoint mops cl
                        upgrade_service_id endpoint_id (inner h);
        let h = h\<lparr>inner := m\<rparr>;
        Some (frame,
          if frame \<noteq> [] then
            h\<lparr>upgrade_service_id_to_active_endpoint_ids :=
                hm_insert upgrade_service_id
                  (hs_insert endpoint_id (unwrap_or
                     (hm_get (upgrade_service_id_to_active_endpoint_ids h) upgrade_service_id) []))
                  (upgrade_service_id_to_active_endpoint_ids h)\<rparr>
          else h)
      })"

fun base_revert_services ::
    "('ch, 'm) medium_handler_ops \<Rightarrow> string list \<Rightarrow> 'm \<Rightarrow> 'm option" where
  "base_revert_services mops [] m = Some m"
| "base_revert_services mops (service_id # service_ids) m =
     do {
       m \<leftarrow> m_handle_revert_initiator_state_for_service mops service_id m;
       base_revert_services mops service_ids m
     }"

definition base_revert_initiator_state ::
    "('ch, 'm) medium_handler_ops \<Rightarrow> 'm base_bwu_handler \<Rightarrow> 'm base_bwu_handler option" where
  "base_revert_initiator_state mops h =
     do {
       m \<leftarrow> base_revert_services mops
              (hm_keys (upgrade_service_id_to_active_endpoint_ids h)) (inner h);
       Some (h\<lparr>inner := m, upgrade_service_id_to_active_endpoint_ids := []\<rparr>)
     }"

definition base_revert_initiator_state_for_endpoint ::
    "('ch, 'm) medium_handler_ops \<Rightarrow> string \<Rightarrow> string \<Rightarrow> 'm base_bwu_handler
      \<Rightarrow> 'm base_bwu_handler option" where
  "base_revert_initiator_state_for_endpoint mops upgrade_service_id endpoint_id h =
     (if \<not> is_initiator_upgrade_service_id upgrade_service_id then Some h
      else
        (case hm_get (upgrade_service_id_to_active_endpoint_ids h) upgrade_service_id of
           None \<Rightarrow> Some h
         | Some eps \<Rightarrow>
             if eps = [] then Some h
             else
               (let eps' = hs_remove endpoint_id eps;
                    h = h\<lparr>upgrade_service_id_to_active_endpoint_ids :=
                          hm_insert upgrade_service_id eps'
                            (upgrade_service_id_to_active_endpoint_ids h)\<rparr>
                in if eps' = [] then
                     (let h = h\<lparr>upgrade_service_id_to_active_endpoint_ids :=
                            hm_remove upgrade_service_id
                              (upgrade_service_id_to_active_endpoint_ids h)\<rparr>
                      in do {
                        m \<leftarrow> m_handle_revert_initiator_state_for_service mops
                               upgrade_service_id (inner h);
                        Some (h\<lparr>inner := m\<rparr>)
                      })
                   else Some h)))"

definition base_revert_responder_state ::
    "('ch, 'm) medium_handler_ops \<Rightarrow> string \<Rightarrow> 'm base_bwu_handler \<Rightarrow> 'm base_bwu_handler option" where
  "base_revert_responder_state mops service_id h =
     do {
       m \<leftarrow> m_handle_revert_initiator_state_for_service mops service_id (inner h);
       Some (h\<lparr>inner := m\<rparr>)
     }"

definition base_create_upgraded_endpoint_channel ::
    "('ch, 'm) medium_handler_ops \<Rightarrow> client_proxy \<Rightarrow> string \<Rightarrow> string \<Rightarrow> upgrade_path_info
      \<Rightarrow> 'm base_bwu_handler \<Rightarrow> ('ch option \<times> 'm base_bwu_handler) option" where
  "base_create_upgraded_endpoint_channel mops cl service_id endpoint_id info h =
     do {
       (c, m) \<leftarrow> m_create_upgraded_endpoint_channel mops cl service_id endpoint_id info (inner h);
       Some (c, h\<lparr>inner := m\<rparr>)
     }"

definition base_get_upgrade_medium ::
    "('ch, 'm) medium_handler_ops \<Rightarrow> 'm base_bwu_handler \<Rightarrow> medium" where
  "base_get_upgrade_medium mops h = m_get_upgrade_medium mops (inner h)"

definition base_on_endpoint_disconnect ::
    "('ch, 'm) medium_handler_ops \<Rightarrow> client_proxy \<Rightarrow> string \<Rightarrow> 'm base_bwu_handler
      \<Rightarrow> 'm base_bwu_handler option" where
  "base_on_endpoint_disconnect mops cl endpoint_id h =
     do {
       m \<leftarrow> m_on_endpoint_disconnect mops cl endpoint_id (inner h);
       Some (h\<lparr>inner := m\<rparr>)
     }"

definition base_handler_ops ::
    "('ch, 'm) medium_handler_ops \<Rightarrow> ('ch, 'm base_bwu_handler) handler_ops" where
  "base_handler_ops mops =
     \<lparr>h_initialize_upgraded_medium_for_endpoint = base_initialize_upgraded_medium_for_endpoint mops,
      h_revert_initiator_state = base_revert_initiator_state mops,
      h_revert_initiator_state_for_endpoint = base_revert_initiator_state_for_endpoint mops,
      h_revert_responder_state = base_revert_responder_state mops,
      h_create_upgraded_endpoint_channel = base_create_upgraded_endpoint_channel mops,
      h_get_upgrade_medium = base_get_upgrade_medium mops,
      h_on_endpoint_disconnect = base_on_endpoint_disconnect mops\<rparr>"

lemmas base_ops_defs = base_initialize_upgraded_medium_for_endpoint_def
  base_revert_initiator_state_def base_revert_initiator_state_for_endpoint_def
  base_revert_responder_state_def base_create_upgraded_endpoint_channel_def
  base_get_upgrade_medium_def base_on_endpoint_disconnect_def

section \<open>The abstract handler\<close>

text \<open>
  The medium handler and the set of pairs of a wrapped service id and an endpoint with an
  initiated upgrade.
\<close>

type_synonym 'm abstract_handler = "'m \<times> (string \<times> string) set"

definition active_pairs :: "'m base_bwu_handler \<Rightarrow> (string \<times> string) set" where
  "active_pairs h = {(sid, ep). \<exists>eps.
     hm_get (upgrade_service_id_to_active_endpoint_ids h) sid = Some eps \<and> ep \<in> set eps}"

definition base_abs :: "'m base_bwu_handler \<Rightarrow> 'm abstract_handler" where
  "base_abs h = (inner h, active_pairs h)"

definition base_wf :: "'m base_bwu_handler \<Rightarrow> bool" where
  "base_wf h \<longleftrightarrow> hm_wf (upgrade_service_id_to_active_endpoint_ids h)
     \<and> (\<forall>(sid, eps) \<in> set (upgrade_service_id_to_active_endpoint_ids h).
          distinct eps \<and> eps \<noteq> [])"

definition spec_initialize ::
    "('ch, 'm) medium_handler_ops \<Rightarrow> client_proxy \<Rightarrow> string \<Rightarrow> string \<Rightarrow> 'm abstract_handler
      \<Rightarrow> (bytes \<times> 'm abstract_handler) option" where
  "spec_initialize mops cl service_id ep = (\<lambda>(m, pairs).
     map_option (\<lambda>(frame, m'). (frame, m',
         if frame = [] then pairs else insert (wrap_initiator_upgrade_service_id service_id, ep) pairs))
       (m_handle_initialize_upgraded_medium_for_endpoint mops cl
          (wrap_initiator_upgrade_service_id service_id) ep m))"

definition spec_revert_for_endpoint ::
    "('ch, 'm) medium_handler_ops \<Rightarrow> string \<Rightarrow> string \<Rightarrow> 'm abstract_handler
      \<Rightarrow> 'm abstract_handler option" where
  "spec_revert_for_endpoint mops sid ep = (\<lambda>(m, pairs).
     if is_initiator_upgrade_service_id sid \<and> sid \<in> fst ` pairs \<and> sid \<notin> fst ` (pairs - {(sid, ep)})
     then map_option (\<lambda>m'. (m', pairs - {(sid, ep)}))
            (m_handle_revert_initiator_state_for_service mops sid m)
     else Some (m, if is_initiator_upgrade_service_id sid then pairs - {(sid, ep)} else pairs))"

lemma active_pairs_inner [simp]: "active_pairs (h\<lparr>inner := m\<rparr>) = active_pairs h"
  by (simp add: active_pairs_def)

lemma base_wf_inner [simp]: "base_wf (h\<lparr>inner := m\<rparr>) = base_wf h"
  by (simp add: base_wf_def)

lemma base_wf_new [simp]: "base_wf (base_bwu_handler_new m)"
  by (simp add: base_wf_def base_bwu_handler_new_def)

lemma base_wf_get:
  "base_wf h \<Longrightarrow> hm_get (upgrade_service_id_to_active_endpoint_ids h) sid = Some eps \<Longrightarrow>
     distinct eps \<and> eps \<noteq> []"
  by (auto simp: base_wf_def dest: map_of_SomeD)

lemma base_wf_insert:
  assumes "base_wf h" and "distinct eps" and "eps \<noteq> []"
  shows "base_wf (h\<lparr>upgrade_service_id_to_active_endpoint_ids :=
           hm_insert sid eps (upgrade_service_id_to_active_endpoint_ids h)\<rparr>)"
proof -
  have "set (hm_insert sid eps m) \<subseteq> insert (sid, eps) (set m)" for m :: "(string, string list) hash_map"
    by (induction m) auto
  with assms show ?thesis by (fastforce simp: base_wf_def)
qed

lemma base_wf_remove:
  "base_wf h \<Longrightarrow> base_wf (h\<lparr>upgrade_service_id_to_active_endpoint_ids :=
     hm_remove sid (upgrade_service_id_to_active_endpoint_ids h)\<rparr>)"
  by (auto simp: base_wf_def AList.delete_eq distinct_map_filter)

lemma hs_insert_nonempty [simp]: "hs_insert a xs \<noteq> []"
  by (auto simp: List.insert_def)

lemma bind_Some_map: "Option.bind x (\<lambda>y. Some (f y)) = map_option f x"
  by (cases x) simp_all

lemma base_initialize_map:
  "base_initialize_upgraded_medium_for_endpoint mops cl sid ep h =
     map_option (\<lambda>(frame, m). (frame,
         if frame \<noteq> [] then h\<lparr>inner := m, upgrade_service_id_to_active_endpoint_ids :=
             hm_insert (wrap_initiator_upgrade_service_id sid)
               (hs_insert ep (unwrap_or (hm_get (upgrade_service_id_to_active_endpoint_ids h)
                  (wrap_initiator_upgrade_service_id sid)) []))
               (upgrade_service_id_to_active_endpoint_ids h)\<rparr>
         else h\<lparr>inner := m\<rparr>))
       (m_handle_initialize_upgraded_medium_for_endpoint mops cl
          (wrap_initiator_upgrade_service_id sid) ep (inner h))"
  by (cases "m_handle_initialize_upgraded_medium_for_endpoint mops cl
        (wrap_initiator_upgrade_service_id sid) ep (inner h)")
    (simp_all add: base_initialize_upgraded_medium_for_endpoint_def Let_def split: prod.split)

lemma base_wf_initialize:
  assumes "base_initialize_upgraded_medium_for_endpoint mops cl sid ep h = Some (bs, h')" "base_wf h"
  shows "base_wf h'"
proof -
  have "distinct (hs_insert e (unwrap_or (hm_get (upgrade_service_id_to_active_endpoint_ids h) k) []))"
    for k e using base_wf_get [OF assms(2), of k]
    by (cases "hm_get (upgrade_service_id_to_active_endpoint_ids h) k") simp_all
  then have "base_wf (h\<lparr>inner := m, upgrade_service_id_to_active_endpoint_ids := hm_insert k
      (hs_insert e (unwrap_or (hm_get (upgrade_service_id_to_active_endpoint_ids h) k) []))
      (upgrade_service_id_to_active_endpoint_ids h)\<rparr>)" for m k e
    using base_wf_insert [of "h\<lparr>inner := m\<rparr>" "hs_insert e (unwrap_or (hm_get
      (upgrade_service_id_to_active_endpoint_ids h) k) [])" k] assms(2)
    by (simp only: base_wf_inner hs_insert_nonempty not_False_eq_True) simp
  with assms show ?thesis
    by (auto simp: base_initialize_map split: if_splits)
qed

lemma hm_remove_insert_same [simp]: "hm_remove k (hm_insert k v m) = hm_remove k m"
  by (induction m) auto

text \<open>
  The three outcomes of reverting an endpoint: nothing is tracked for the service, the last
  endpoint goes and the medium is told, or others remain.
\<close>

lemma base_revert_ignored:
  "\<not> is_initiator_upgrade_service_id sid
     \<or> hm_get (upgrade_service_id_to_active_endpoint_ids h) sid = None \<Longrightarrow>
   base_revert_initiator_state_for_endpoint mops sid ep h = Some h"
  by (auto simp: base_revert_initiator_state_for_endpoint_def)

lemma base_revert_last:
  assumes "is_initiator_upgrade_service_id sid" "eps \<noteq> []"
    "hm_get (upgrade_service_id_to_active_endpoint_ids h) sid = Some eps" "hs_remove ep eps = []"
  shows "base_revert_initiator_state_for_endpoint mops sid ep h =
         map_option (\<lambda>m. h\<lparr>upgrade_service_id_to_active_endpoint_ids :=
             hm_remove sid (upgrade_service_id_to_active_endpoint_ids h), inner := m\<rparr>)
           (m_handle_revert_initiator_state_for_service mops sid (inner h))"
  using assms by (simp add: base_revert_initiator_state_for_endpoint_def bind_Some_map)

lemma base_revert_remaining:
  assumes "is_initiator_upgrade_service_id sid" "eps \<noteq> []"
    "hm_get (upgrade_service_id_to_active_endpoint_ids h) sid = Some eps" "hs_remove ep eps \<noteq> []"
  shows "base_revert_initiator_state_for_endpoint mops sid ep h =
         Some (h\<lparr>upgrade_service_id_to_active_endpoint_ids :=
             hm_insert sid (hs_remove ep eps) (upgrade_service_id_to_active_endpoint_ids h)\<rparr>)"
  using assms by (simp add: base_revert_initiator_state_for_endpoint_def)

lemma base_revert_cases:
  assumes "base_wf h"
  obtains
    (ignored) "\<not> is_initiator_upgrade_service_id sid
        \<or> hm_get (upgrade_service_id_to_active_endpoint_ids h) sid = None"
  | (last) eps where "is_initiator_upgrade_service_id sid" "eps \<noteq> []"
      "hm_get (upgrade_service_id_to_active_endpoint_ids h) sid = Some eps" "hs_remove ep eps = []"
  | (remaining) eps where "is_initiator_upgrade_service_id sid" "eps \<noteq> []" "distinct eps"
      "hm_get (upgrade_service_id_to_active_endpoint_ids h) sid = Some eps" "hs_remove ep eps \<noteq> []"
  using base_wf_get [OF assms, of sid] by blast

lemma base_wf_revert_for_endpoint:
  assumes "base_revert_initiator_state_for_endpoint mops sid ep h = Some h'" "base_wf h"
  shows "base_wf h'"
  using assms(2)
proof (cases rule: base_revert_cases [where sid = sid and ep = ep])
  case ignored
  with assms show ?thesis by (simp add: base_revert_ignored)
next
  case (last eps)
  with assms(1) base_revert_last [of sid eps h ep mops] obtain m where
    "h' = h\<lparr>upgrade_service_id_to_active_endpoint_ids :=
            hm_remove sid (upgrade_service_id_to_active_endpoint_ids h), inner := m\<rparr>" by auto
  with base_wf_remove [OF assms(2), of sid] show ?thesis by simp
next
  case (remaining eps)
  with assms show ?thesis
    using base_revert_remaining [of sid eps h ep mops] base_wf_insert [OF assms(2), of "hs_remove ep eps" sid]
    by (simp add: distinct_removeAll)
qed

lemma base_wf_step:
  assumes "hand_step (base_handler_ops mops) h h'" and "base_wf h"
  shows "base_wf h'"
proof -
  have "base_wf (h\<lparr>inner := m, upgrade_service_id_to_active_endpoint_ids := []\<rparr>)" for m
    by (simp add: base_wf_def)
  with assms show ?thesis
    by (cases rule: hand_step.cases)
      (auto simp: base_handler_ops_def base_revert_initiator_state_def base_revert_responder_state_def
        base_create_upgraded_endpoint_channel_def base_on_endpoint_disconnect_def bind_Some_map
        bind_eq_Some_conv intro: base_wf_initialize base_wf_revert_for_endpoint)
qed

lemma active_pairs_services:
  assumes "base_wf h"
  shows "set (hm_keys (upgrade_service_id_to_active_endpoint_ids h)) = fst ` active_pairs h"
proof (rule set_eqI)
  fix sid
  have "hm_contains (upgrade_service_id_to_active_endpoint_ids h) sid \<longleftrightarrow>
      (\<exists>eps. hm_get (upgrade_service_id_to_active_endpoint_ids h) sid = Some eps)"
    by (rule hm_contains_get)
  also have "\<dots> \<longleftrightarrow> (\<exists>ep. (sid, ep) \<in> active_pairs h)"
    unfolding active_pairs_def using base_wf_get [OF assms, of sid] last_in_set by fast
  finally show "hm_contains (upgrade_service_id_to_active_endpoint_ids h) sid \<longleftrightarrow>
      sid \<in> fst ` active_pairs h" by force
qed

section \<open>Refinement\<close>

lemma base_initialize_refines:
  "map_option (\<lambda>(frame, h'). (frame, base_abs h'))
       (base_initialize_upgraded_medium_for_endpoint mops cl sid ep h)
     = spec_initialize mops cl sid ep (base_abs h)"
  by (cases "m_handle_initialize_upgraded_medium_for_endpoint mops cl
        (wrap_initiator_upgrade_service_id sid) ep (inner h)")
    (auto simp: base_initialize_map spec_initialize_def base_abs_def active_pairs_def
      split: option.splits if_splits)

lemma active_pairs_clear:
  "active_pairs (h\<lparr>upgrade_service_id_to_active_endpoint_ids :=
      hm_remove sid (upgrade_service_id_to_active_endpoint_ids h)\<rparr>)
    = {(s, e). (s, e) \<in> active_pairs h \<and> s \<noteq> sid}"
  by (auto simp: active_pairs_def split: if_splits)

lemma active_pairs_remove:
  "hm_get (upgrade_service_id_to_active_endpoint_ids h) sid = Some eps \<Longrightarrow>
   active_pairs (h\<lparr>upgrade_service_id_to_active_endpoint_ids :=
      hm_insert sid (hs_remove ep eps) (upgrade_service_id_to_active_endpoint_ids h)\<rparr>)
    = active_pairs h - {(sid, ep)}"
  by (auto simp: active_pairs_def split: if_splits)

lemma active_pairs_service:
  "hm_get (upgrade_service_id_to_active_endpoint_ids h) sid = Some eps \<Longrightarrow>
     (sid, e) \<in> active_pairs h \<longleftrightarrow> e \<in> set eps"
  by (simp add: active_pairs_def)

lemma base_revert_for_endpoint_refines:
  assumes "base_wf h"
  shows "map_option base_abs (base_revert_initiator_state_for_endpoint mops sid ep h)
     = spec_revert_for_endpoint mops sid ep (base_abs h)"
  using assms
proof (cases rule: base_revert_cases [where sid = sid and ep = ep])
  case ignored
  then have "\<not> is_initiator_upgrade_service_id sid \<or> sid \<notin> fst ` active_pairs h"
    by (auto simp: active_pairs_def)
  with ignored show ?thesis
    by (auto simp: base_revert_ignored spec_revert_for_endpoint_def base_abs_def image_iff)
next
  case (last eps)
  then have "set eps - {ep} = {}" by (metis empty_set set_removeAll)
  with last(2) have *: "set eps = {ep}" by (cases eps) auto
  have **: "(sid, e) \<in> active_pairs h \<longleftrightarrow> e = ep" for e
    using active_pairs_service [OF last(3)] * by simp
  from ** have "(sid, ep) \<in> active_pairs h" by blast
  then have "sid \<in> fst ` active_pairs h" by (metis fst_conv imageI)
  moreover from ** have "active_pairs h - {(sid, ep)} = {(s, e). (s, e) \<in> active_pairs h \<and> s \<noteq> sid}"
    by blast
  moreover have "sid \<notin> fst ` {(s, e). (s, e) \<in> active_pairs h \<and> s \<noteq> sid}" by force
  ultimately show ?thesis using last
    by (simp add: base_revert_last spec_revert_for_endpoint_def base_abs_def active_pairs_clear
        option.map_comp o_def)
next
  case (remaining eps)
  then obtain e where "e \<in> set eps" "e \<noteq> ep"
    by (metis list.set_intros(1) neq_Nil_conv set_removeAll Diff_iff singletonI)
  then have "sid \<in> fst ` (active_pairs h - {(sid, ep)})"
    using active_pairs_service [OF remaining(4), of e] by force
  with remaining show ?thesis
    by (simp add: base_revert_remaining spec_revert_for_endpoint_def base_abs_def active_pairs_remove)
qed

text \<open>Reverting everything tells the medium once per service, in some order.\<close>

lemma base_revert_all_refines:
  assumes "base_wf h"
  shows "\<exists>sids. distinct sids \<and> set sids = fst ` active_pairs h
    \<and> map_option base_abs (base_revert_initiator_state mops h)
      = map_option (\<lambda>m. (m, {})) (base_revert_services mops sids (inner h))"
proof (intro exI conjI)
  show "distinct (hm_keys (upgrade_service_id_to_active_endpoint_ids h))"
    using assms by (simp add: base_wf_def)
  show "set (hm_keys (upgrade_service_id_to_active_endpoint_ids h)) = fst ` active_pairs h"
    by (rule active_pairs_services [OF assms])
  show "map_option base_abs (base_revert_initiator_state mops h) = map_option (\<lambda>m. (m, {}))
      (base_revert_services mops (hm_keys (upgrade_service_id_to_active_endpoint_ids h)) (inner h))"
    by (simp add: base_revert_initiator_state_def bind_Some_map option.map_comp o_def base_abs_def
        active_pairs_def)
qed

section \<open>The contract the manager relies on\<close>

locale upgrade_handler =
  fixes ops :: "('ch, 'h) handler_ops"
    and tracked :: "'h \<Rightarrow> (string \<times> string) set"
    and handler_inv :: "'h \<Rightarrow> bool"
  assumes inv_hand_step: "hand_step ops h h' \<Longrightarrow> handler_inv h \<Longrightarrow> handler_inv h'"
    and tracked_initialize:
      "h_initialize_upgraded_medium_for_endpoint ops cl sid ep h = Some (frame, h') \<Longrightarrow>
       tracked h' = (if frame = [] then tracked h
                     else insert (wrap_initiator_upgrade_service_id sid, ep) (tracked h))"
    and tracked_revert_for_endpoint:
      "h_revert_initiator_state_for_endpoint ops sid ep h = Some h' \<Longrightarrow> handler_inv h \<Longrightarrow>
       tracked h' = (if is_initiator_upgrade_service_id sid then tracked h - {(sid, ep)}
                     else tracked h)"
    and tracked_revert: "h_revert_initiator_state ops h = Some h' \<Longrightarrow> tracked h' = {}"
    and tracked_responder: "h_revert_responder_state ops sid h = Some h' \<Longrightarrow> tracked h' = tracked h"
    and tracked_create: "h_create_upgraded_endpoint_channel ops cl sid ep info h = Some (c, h') \<Longrightarrow>
       tracked h' = tracked h"
    and tracked_disconnect: "h_on_endpoint_disconnect ops cl ep h = Some h' \<Longrightarrow> tracked h' = tracked h"
begin

text \<open>An endpoint gets tracked only by a successful initialisation for it.\<close>

lemma tracked_grows_only_by_initialize:
  assumes "hand_step ops h h'" and "handler_inv h" and "p \<in> tracked h'" and "p \<notin> tracked h"
  shows "\<exists>cl sid ep frame. p = (wrap_initiator_upgrade_service_id sid, ep) \<and> frame \<noteq> []
    \<and> h_initialize_upgraded_medium_for_endpoint ops cl sid ep h = Some (frame, h')"
  using assms(1)
proof (cases rule: hand_step.cases)
  case (1 cl sid ep bs)
  with assms(3,4) tracked_initialize [OF 1] show ?thesis by (auto split: if_splits)
next
  case (3 sid ep)
  with assms(2-4) tracked_revert_for_endpoint [OF 3] show ?thesis by (auto split: if_splits)
qed (use assms(3,4) in \<open>auto dest: tracked_revert tracked_responder tracked_create
    tracked_disconnect\<close>)

text \<open>What initialisation tracks, the revert with the wrapped id takes back.\<close>

lemma initialize_then_revert:
  assumes "h_initialize_upgraded_medium_for_endpoint ops cl sid ep h = Some (frame, h1)"
    and "h_revert_initiator_state_for_endpoint ops (wrap_initiator_upgrade_service_id sid) ep h1
          = Some h2"
    and "handler_inv h" and "sid \<noteq> []"
  shows "tracked h2 = tracked h - {(wrap_initiator_upgrade_service_id sid, ep)}"
proof -
  have "handler_inv h1" by (rule inv_hand_step [OF hand_step.intros(1) [OF assms(1)] assms(3)])
  with assms show ?thesis
    using tracked_initialize [OF assms(1)] tracked_revert_for_endpoint [OF assms(2)]
    by (simp add: is_initiator_wrap)
qed

end

lemma base_tracked_revert_for_endpoint:
  assumes "base_revert_initiator_state_for_endpoint mops sid ep h = Some h'" and "base_wf h"
  shows "active_pairs h' = (if is_initiator_upgrade_service_id sid then active_pairs h - {(sid, ep)}
                            else active_pairs h)"
  using base_revert_for_endpoint_refines [OF assms(2), of mops sid ep, symmetric] assms(1)
  by (force simp: spec_revert_for_endpoint_def base_abs_def split: if_splits)

lemma base_tracked_initialize:
  assumes "base_initialize_upgraded_medium_for_endpoint mops cl sid ep h = Some (frame, h')"
  shows "active_pairs h' = (if frame = [] then active_pairs h
            else insert (wrap_initiator_upgrade_service_id sid, ep) (active_pairs h))"
  using base_initialize_refines [of mops cl sid ep h, symmetric] assms
  by (auto simp: spec_initialize_def base_abs_def)

interpretation base_handler: upgrade_handler "base_handler_ops mops" active_pairs base_wf
  for mops :: "('ch, 'm) medium_handler_ops"
proof unfold_locales
  show "base_wf h'" if "hand_step (base_handler_ops mops) h h'" "base_wf h" for h h'
    using base_wf_step that .
  show "active_pairs h' = (if frame = [] then active_pairs h
      else insert (wrap_initiator_upgrade_service_id sid, ep) (active_pairs h))"
    if "h_initialize_upgraded_medium_for_endpoint (base_handler_ops mops) cl sid ep h
      = Some (frame, h')" for cl sid ep h frame h'
    using that by (intro base_tracked_initialize [of mops cl]) (simp add: base_handler_ops_def)
  show "active_pairs h' = (if is_initiator_upgrade_service_id sid then active_pairs h - {(sid, ep)}
      else active_pairs h)"
    if "h_revert_initiator_state_for_endpoint (base_handler_ops mops) sid ep h = Some h'" "base_wf h"
    for sid ep h h' using that
    by (intro base_tracked_revert_for_endpoint [of mops]) (simp_all add: base_handler_ops_def)
  show "active_pairs h' = {}" if "h_revert_initiator_state (base_handler_ops mops) h = Some h'"
    for h h' using that
    by (auto simp: base_handler_ops_def base_revert_initiator_state_def bind_eq_Some_conv
        active_pairs_def)
qed (auto simp: base_handler_ops_def base_revert_responder_state_def bind_eq_Some_conv
    base_create_upgraded_endpoint_channel_def base_on_endpoint_disconnect_def)

text \<open>
  C11. \<^verbatim>\<open>BaseBwuHandler\<close> implements the abstract handler that keeps the set of (service,
  endpoint) pairs: initialising adds the pair under the wrapped service id exactly when the
  medium produced a frame, reverting an endpoint takes its pair away and tells the medium
  exactly when it was the last one of its service, and reverting everything tells the medium
  exactly once per service with a pair and leaves none.
\<close>

theorem base_handler_refinement:
  assumes "base_wf h"
  shows "map_option (\<lambda>(frame, h'). (frame, base_abs h'))
       (base_initialize_upgraded_medium_for_endpoint mops cl sid ep h)
     = spec_initialize mops cl sid ep (base_abs h)
    \<and> map_option base_abs (base_revert_initiator_state_for_endpoint mops sid ep h)
     = spec_revert_for_endpoint mops sid ep (base_abs h)
    \<and> (\<exists>sids. distinct sids \<and> set sids = fst ` active_pairs h
       \<and> map_option base_abs (base_revert_initiator_state mops h)
         = map_option (\<lambda>m. (m, {})) (base_revert_services mops sids (inner h)))"
  using base_initialize_refines base_revert_for_endpoint_refines [OF assms]
    base_revert_all_refines [OF assms] by (intro conjI)

end
