(* ===== verification/Bwu_Manager.thy ===== *)
theory Bwu_Manager
  imports Bwu_Handler Validator
begin

text \<open>
  \<^verbatim>\<open>src/bwu/manager.rs\<close>: the upgrade state machine. Its state is the struct, and with it
  what the methods are given or share: the channel registry, the client proxy and the heap of
  channels that every \<^verbatim>\<open>Arc\<close> points into. A method maps the state before to the state after,
  or to \<^verbatim>\<open>None\<close> when it does not return: it blocks in a channel or handler, it panics, or it
  runs out of stack. \<^verbatim>\<open>initiate_bwu_for_endpoint\<close> calls itself through the failure path; the
  depth of the stack is its first argument.

  What the code calls but does not define is the environment: the methods of the channels and
  of the handlers, and the protobuf codec.
\<close>

section \<open>State\<close>

record bwu_config =
  support_multiple_bwu_mediums :: bool
  use_exp_backoff_in_bwu_retry :: bool
  bandwidth_upgrade_retry_delay :: duration
  bandwidth_upgrade_retry_max_delay :: duration

definition bwu_config_default :: bwu_config where
  "bwu_config_default = \<lparr>support_multiple_bwu_mediums = True, use_exp_backoff_in_bwu_retry = True,
     bandwidth_upgrade_retry_delay = 0, bandwidth_upgrade_retry_max_delay = 0\<rparr>"

record 'h bwu_manager =
  config :: bwu_config
  handlers :: "(medium, 'h) hash_map"
  bwu_medium :: medium
  endpoint_id_to_bwu_medium :: "(string, medium) hash_map"
  in_progress_upgrades :: "string hash_set"
  previous_endpoint_channels :: "(string, chan_ref) hash_map"
  successfully_upgraded_endpoints :: "string hash_set"
  retry_upgrade_alarms :: "(string, duration) hash_map"
  retry_delays :: "(string, duration) hash_map"

record ('ch, 'h) bwu_state = "'h bwu_manager" +
  ecm :: endpoint_channel_manager
  client :: client_proxy
  heap :: "'ch list"

record ('ch, 'h) bwu_env =
  chan_ops :: "'ch channel_ops"
  hand_ops :: "('ch, 'h) handler_ops"
  encode_frame :: "offline_frame \<Rightarrow> bytes"
  decode_frame :: "bytes \<Rightarrow> offline_frame option"

definition resolve_config :: "bwu_config \<Rightarrow> bwu_config" where
  "resolve_config c =
     (let c = (if bandwidth_upgrade_retry_delay c = 0
               then c\<lparr>bandwidth_upgrade_retry_delay :=
                        if use_exp_backoff_in_bwu_retry c then from_secs 3 else from_secs 5\<rparr>
               else c)
      in if bandwidth_upgrade_retry_max_delay c = 0
         then c\<lparr>bandwidth_upgrade_retry_max_delay :=
                  if use_exp_backoff_in_bwu_retry c then from_secs 300 else from_secs 10\<rparr>
         else c)"

definition bwu_manager_new ::
    "endpoint_channel_manager \<Rightarrow> client_proxy \<Rightarrow> 'ch list \<Rightarrow> (medium, 'h) hash_map \<Rightarrow> bwu_config
      \<Rightarrow> ('ch, 'h) bwu_state" where
  "bwu_manager_new r cl hp hs cfg =
     \<lparr>config = resolve_config cfg, handlers = hs, bwu_medium = UnknownMedium,
      endpoint_id_to_bwu_medium = [], in_progress_upgrades = [], previous_endpoint_channels = [],
      successfully_upgraded_endpoints = [], retry_upgrade_alarms = [], retry_delays = [],
      ecm = r, client = cl, heap = hp\<rparr>"

section \<open>Calls through a reference\<close>

abbreviation chan_at :: "('ch, 'h) bwu_state \<Rightarrow> chan_ref \<Rightarrow> 'ch" where
  "chan_at s i \<equiv> heap s ! i"

definition set_chan :: "chan_ref \<Rightarrow> 'ch \<Rightarrow> ('ch, 'h) bwu_state \<Rightarrow> ('ch, 'h) bwu_state" where
  "set_chan i c s = s\<lparr>heap := (heap s)[i := c]\<rparr>"

definition ch_apply :: "('ch \<Rightarrow> 'ch) \<Rightarrow> chan_ref \<Rightarrow> ('ch, 'h) bwu_state \<Rightarrow> ('ch, 'h) bwu_state" where
  "ch_apply f i s = set_chan i (f (chan_at s i)) s"

definition ch_read ::
    "('ch, 'h) bwu_env \<Rightarrow> chan_ref \<Rightarrow> ('ch, 'h) bwu_state
      \<Rightarrow> ((exception + bytes) \<times> ('ch, 'h) bwu_state) option" where
  "ch_read E i s =
     do { (r, c) \<leftarrow> op_read (chan_ops E) (chan_at s i); Some (r, set_chan i c s) }"

definition ch_write ::
    "('ch, 'h) bwu_env \<Rightarrow> chan_ref \<Rightarrow> bytes \<Rightarrow> ('ch, 'h) bwu_state
      \<Rightarrow> (exception \<times> ('ch, 'h) bwu_state) option" where
  "ch_write E i bs s =
     do { (e, c) \<leftarrow> op_write (chan_ops E) (chan_at s i) bs; Some (e, set_chan i c s) }"

definition alloc_chan :: "'ch \<Rightarrow> ('ch, 'h) bwu_state \<Rightarrow> chan_ref \<times> ('ch, 'h) bwu_state" where
  "alloc_chan c s = (length (heap s), s\<lparr>heap := heap s @ [c]\<rparr>)"

text \<open>\<^verbatim>\<open>self.handlers.get_mut(&medium).unwrap()\<close> and the call on it.\<close>

definition handler_call ::
    "medium \<Rightarrow> ('h \<Rightarrow> ('a \<times> 'h) option) \<Rightarrow> ('ch, 'h) bwu_state
      \<Rightarrow> ('a \<times> ('ch, 'h) bwu_state) option" where
  "handler_call m f s =
     do {
       h \<leftarrow> hm_get (handlers s) m;
       (r, h') \<leftarrow> f h;
       Some (r, s\<lparr>handlers := hm_insert m h' (handlers s)\<rparr>)
     }"

definition handler_do ::
    "medium \<Rightarrow> ('h \<Rightarrow> 'h option) \<Rightarrow> ('ch, 'h) bwu_state \<Rightarrow> ('ch, 'h) bwu_state option" where
  "handler_do m f s =
     do {
       h \<leftarrow> hm_get (handlers s) m;
       h' \<leftarrow> f h;
       Some (s\<lparr>handlers := hm_insert m h' (handlers s)\<rparr>)
     }"

section \<open>Updates of the bookkeeping\<close>

definition insert_in_progress :: "string \<Rightarrow> ('ch, 'h) bwu_state \<Rightarrow> ('ch, 'h) bwu_state" where
  "insert_in_progress ep s = s\<lparr>in_progress_upgrades := hs_insert ep (in_progress_upgrades s)\<rparr>"

definition remove_in_progress :: "string \<Rightarrow> ('ch, 'h) bwu_state \<Rightarrow> ('ch, 'h) bwu_state" where
  "remove_in_progress ep s = s\<lparr>in_progress_upgrades := hs_remove ep (in_progress_upgrades s)\<rparr>"

definition park_channel :: "string \<Rightarrow> chan_ref \<Rightarrow> ('ch, 'h) bwu_state \<Rightarrow> ('ch, 'h) bwu_state" where
  "park_channel ep i s =
     s\<lparr>previous_endpoint_channels := hm_insert ep i (previous_endpoint_channels s)\<rparr>"

definition unpark_channel :: "string \<Rightarrow> ('ch, 'h) bwu_state \<Rightarrow> ('ch, 'h) bwu_state" where
  "unpark_channel ep s =
     s\<lparr>previous_endpoint_channels := hm_remove ep (previous_endpoint_channels s)\<rparr>"

definition latch_last_write :: "string \<Rightarrow> ('ch, 'h) bwu_state \<Rightarrow> ('ch, 'h) bwu_state" where
  "latch_last_write ep s =
     s\<lparr>successfully_upgraded_endpoints := hs_insert ep (successfully_upgraded_endpoints s)\<rparr>"

definition unlatch_last_write :: "string \<Rightarrow> ('ch, 'h) bwu_state \<Rightarrow> ('ch, 'h) bwu_state" where
  "unlatch_last_write ep s =
     s\<lparr>successfully_upgraded_endpoints := hs_remove ep (successfully_upgraded_endpoints s)\<rparr>"

abbreviation registered :: "('ch, 'h) bwu_state \<Rightarrow> string \<Rightarrow> chan_ref option" where
  "registered s ep \<equiv> get_channel_for_endpoint (ecm s) ep"

definition replace_channel ::
    "string \<Rightarrow> chan_ref \<Rightarrow> bool \<Rightarrow> ('ch, 'h) bwu_state \<Rightarrow> ('ch, 'h) bwu_state" where
  "replace_channel ep i enc s =
     s\<lparr>ecm := replace_channel_for_endpoint (client s) ep i enc (ecm s)\<rparr>"

definition report_bandwidth_changed :: "string \<Rightarrow> medium \<Rightarrow> ('ch, 'h) bwu_state \<Rightarrow> ('ch, 'h) bwu_state" where
  "report_bandwidth_changed ep m s = s\<lparr>client := on_bandwidth_changed (client s) ep m\<rparr>"

abbreviation channel_medium :: "('ch, 'h) bwu_env \<Rightarrow> ('ch, 'h) bwu_state \<Rightarrow> string \<Rightarrow> medium" where
  "channel_medium E s ep \<equiv>
     unwrap_or (map_option (\<lambda>i. op_medium (chan_ops E) (chan_at s i)) (registered s ep)) UnknownMedium"

abbreviation wifi_lan_connected :: "('ch, 'h) bwu_env \<Rightarrow> ('ch, 'h) bwu_state \<Rightarrow> bool" where
  "wifi_lan_connected E s \<equiv> is_wifi_lan_connected (chan_ops E) (heap s) (ecm s)"

definition is_upgrade_ongoing :: "('ch, 'h) bwu_state \<Rightarrow> string \<Rightarrow> bool" where
  "is_upgrade_ongoing s ep \<longleftrightarrow> ep \<in> set (in_progress_upgrades s)"

definition get_bwu_medium_for_endpoint :: "('ch, 'h) bwu_state \<Rightarrow> string \<Rightarrow> medium" where
  "get_bwu_medium_for_endpoint s ep =
     (if support_multiple_bwu_mediums (config s)
      then unwrap_or (hm_get (endpoint_id_to_bwu_medium s) ep) UnknownMedium
      else bwu_medium s)"

definition set_bwu_medium_for_endpoint ::
    "string \<Rightarrow> medium \<Rightarrow> ('ch, 'h) bwu_state \<Rightarrow> ('ch, 'h) bwu_state" where
  "set_bwu_medium_for_endpoint ep m s =
     (if support_multiple_bwu_mediums (config s)
      then s\<lparr>endpoint_id_to_bwu_medium := hm_insert ep m (endpoint_id_to_bwu_medium s)\<rparr>
      else s\<lparr>bwu_medium := m\<rparr>)"

text \<open>The first lines of \<^verbatim>\<open>revert_bwu_medium_for_endpoint\<close>, in both branches of the flag.\<close>

definition clear_bwu_medium_for_endpoint :: "string \<Rightarrow> ('ch, 'h) bwu_state \<Rightarrow> ('ch, 'h) bwu_state" where
  "clear_bwu_medium_for_endpoint ep s =
     (if support_multiple_bwu_mediums (config s)
      then s\<lparr>endpoint_id_to_bwu_medium := hm_remove ep (endpoint_id_to_bwu_medium s)\<rparr>
      else s\<lparr>bwu_medium := UnknownMedium\<rparr>)"

definition has_handler_for_medium :: "('ch, 'h) bwu_state \<Rightarrow> medium \<Rightarrow> bool" where
  "has_handler_for_medium s m \<longleftrightarrow> m \<noteq> UnknownMedium \<and> hm_contains (handlers s) m"

section \<open>Free helpers\<close>

definition upi_medium_of :: "upgrade_path_info \<Rightarrow> medium" where
  "upi_medium_of info =
     upgrade_path_info_medium_to_medium
       (unwrap_or (Option.bind (upi_medium info) upi_medium_pb_try_from) UpiUnknownMedium)"

definition upgrade_path_info_for_medium :: "medium \<Rightarrow> upgrade_path_info" where
  "upgrade_path_info_for_medium m = upgrade_path_info_default\<lparr>
     upi_medium := Some (upi_medium_pb_as_i32 (medium_to_upgrade_path_info_medium m))\<rparr>"

definition introduction_of_frame :: "offline_frame \<Rightarrow> client_introduction option" where
  "introduction_of_frame frame =
     do {
       v1 \<leftarrow> of_v1 frame;
       bwu \<leftarrow> v1_bandwidth_upgrade_negotiation v1;
       (if bwu_event_type bwu \<noteq> Some (event_type_as_i32 ClientIntroduction) then None
        else bwu_client_introduction bwu)
     }"

definition read_client_introduction_frame ::
    "('ch, 'h) bwu_env \<Rightarrow> chan_ref \<Rightarrow> ('ch, 'h) bwu_state
      \<Rightarrow> (client_introduction option \<times> ('ch, 'h) bwu_state) option" where
  "read_client_introduction_frame E i s =
     do {
       (r, s) \<leftarrow> ch_read E i s;
       Some (case r of
          Inl _ \<Rightarrow> None
        | Inr data \<Rightarrow>
            (case from_bytes (decode_frame E) data of
               Inl _ \<Rightarrow> None
             | Inr frame \<Rightarrow> introduction_of_frame frame), s)
     }"

definition is_introduction_ack :: "offline_frame \<Rightarrow> bool" where
  "is_introduction_ack frame \<longleftrightarrow>
     do {
       v1 \<leftarrow> of_v1 frame;
       bwu \<leftarrow> v1_bandwidth_upgrade_negotiation v1;
       bwu_event_type bwu
     } = Some (event_type_as_i32 ClientIntroductionAck)"

definition read_client_introduction_ack_frame ::
    "('ch, 'h) bwu_env \<Rightarrow> chan_ref \<Rightarrow> ('ch, 'h) bwu_state \<Rightarrow> (bool \<times> ('ch, 'h) bwu_state) option" where
  "read_client_introduction_ack_frame E i s =
     do {
       (r, s) \<leftarrow> ch_read E i s;
       Some (case r of
          Inl _ \<Rightarrow> False
        | Inr data \<Rightarrow>
            (case from_bytes (decode_frame E) data of
               Inl _ \<Rightarrow> False
             | Inr frame \<Rightarrow> is_introduction_ack frame), s)
     }"

definition write_client_introduction_ack_frame ::
    "('ch, 'h) bwu_env \<Rightarrow> chan_ref \<Rightarrow> ('ch, 'h) bwu_state \<Rightarrow> (bool \<times> ('ch, 'h) bwu_state) option" where
  "write_client_introduction_ack_frame E i s =
     do {
       (e, s) \<leftarrow> ch_write E i (for_bwu_introduction_ack (encode_frame E)) s;
       Some (exception_ok e, s)
     }"

section \<open>Retries\<close>

definition calculate_next_retry_delay :: "('ch, 'h) bwu_state \<Rightarrow> string \<Rightarrow> duration option" where
  "calculate_next_retry_delay s ep =
     (let initial_delay = bandwidth_upgrade_retry_delay (config s) in
      case hm_get (retry_delays s) ep of
        None \<Rightarrow> Some initial_delay
      | Some last_delay \<Rightarrow>
          do {
            delay \<leftarrow> (if use_exp_backoff_in_bwu_retry (config s) then duration_mul last_delay 2
                      else duration_add last_delay initial_delay);
            Some (min delay (bandwidth_upgrade_retry_max_delay (config s)))
          })"

definition cancel_retry_upgrade_alarm :: "string \<Rightarrow> ('ch, 'h) bwu_state \<Rightarrow> ('ch, 'h) bwu_state" where
  "cancel_retry_upgrade_alarm ep s =
     s\<lparr>retry_upgrade_alarms := hm_remove ep (retry_upgrade_alarms s)\<rparr>"

definition cancel_all_retry_upgrade_alarms :: "('ch, 'h) bwu_state \<Rightarrow> ('ch, 'h) bwu_state" where
  "cancel_all_retry_upgrade_alarms s = s\<lparr>retry_upgrade_alarms := [], retry_delays := []\<rparr>"

definition schedule_retry :: "string \<Rightarrow> duration \<Rightarrow> ('ch, 'h) bwu_state \<Rightarrow> ('ch, 'h) bwu_state" where
  "schedule_retry ep delay s =
     s\<lparr>retry_upgrade_alarms := hm_insert ep delay (retry_upgrade_alarms s),
       retry_delays := hm_insert ep delay (retry_delays s)\<rparr>"

definition retry_upgrades_after_delay ::
    "string \<Rightarrow> ('ch, 'h) bwu_state \<Rightarrow> ('ch, 'h) bwu_state option" where
  "retry_upgrades_after_delay ep s =
     do {
       delay \<leftarrow> calculate_next_retry_delay s ep;
       Some (schedule_retry ep delay (cancel_retry_upgrade_alarm ep s))
     }"

definition pending_retry_delay :: "('ch, 'h) bwu_state \<Rightarrow> string \<Rightarrow> duration option" where
  "pending_retry_delay s ep = hm_get (retry_upgrade_alarms s) ep"

definition pending_retry_delays :: "('ch, 'h) bwu_state \<Rightarrow> (string \<times> duration) list" where
  "pending_retry_delays s = retry_upgrade_alarms s"

section \<open>Reverting\<close>

definition revert_bwu_medium_for_endpoint ::
    "('ch, 'h) bwu_env \<Rightarrow> string \<Rightarrow> string \<Rightarrow> ('ch, 'h) bwu_state \<Rightarrow> ('ch, 'h) bwu_state option" where
  "revert_bwu_medium_for_endpoint E service_id ep s =
     (let m = get_bwu_medium_for_endpoint s ep; s = clear_bwu_medium_for_endpoint ep s in
      if \<not> support_multiple_bwu_mediums (config s) then
        (if has_handler_for_medium s m then handler_do m (h_revert_initiator_state (hand_ops E)) s
         else Some s)
      else if \<not> has_handler_for_medium s m then Some s
      else if \<not> is_initiator_upgrade_service_id service_id then
        (if m = WifiHotspot \<or> m = WifiDirect
         then handler_do m (h_revert_responder_state (hand_ops E) service_id) s
         else Some s)
      else handler_do m (h_revert_initiator_state_for_endpoint (hand_ops E) service_id ep) s)"

section \<open>Initiating, failing and trying the next medium\<close>

text \<open>\<^verbatim>\<open>untried.remove(0)\<close>, which panics on an empty vector, in the loop over all mediums.\<close>

fun remove_first :: "'a list \<Rightarrow> 'a list option" where
  "remove_first [] = None"
| "remove_first (x # xs) = Some xs"

fun untried_mediums :: "medium \<Rightarrow> medium list \<Rightarrow> medium list \<Rightarrow> medium list option" where
  "untried_mediums last_medium [] untried = Some untried"
| "untried_mediums last_medium (m # ms) untried =
     do {
       untried \<leftarrow> remove_first untried;
       (if m = last_medium then Some untried else untried_mediums last_medium ms untried)
     }"

definition strip_out_unavailable_mediums :: "('ch, 'h) bwu_state \<Rightarrow> medium list \<Rightarrow> medium list" where
  "strip_out_unavailable_mediums s ms = filter (has_handler_for_medium s) ms"

definition choose_best_upgrade_medium :: "('ch, 'h) bwu_state \<Rightarrow> string \<Rightarrow> medium list \<Rightarrow> medium" where
  "choose_best_upgrade_medium s ep ms =
     (let available = strip_out_unavailable_mediums s ms;
          current = get_bwu_medium_for_endpoint s ep
      in if current = UnknownMedium then
           (case available of first # _ \<Rightarrow> first | [] \<Rightarrow> UnknownMedium)
         else if current \<in> set available then current
         else UnknownMedium)"

definition try_next_best_upgrade_mediums ::
    "('ch, 'h) bwu_env
      \<Rightarrow> (string \<Rightarrow> medium \<Rightarrow> ('ch, 'h) bwu_state \<Rightarrow> ('ch, 'h) bwu_state option)
      \<Rightarrow> string \<Rightarrow> medium list \<Rightarrow> ('ch, 'h) bwu_state \<Rightarrow> ('ch, 'h) bwu_state option" where
  "try_next_best_upgrade_mediums E initiate ep ms s =
     (let next_medium = choose_best_upgrade_medium s ep ms;
          current_medium = channel_medium E s ep
      in if current_medium \<noteq> WifiLan
            \<and> (next_medium = current_medium \<or> next_medium = UnknownMedium \<or> ms = [])
         then retry_upgrades_after_delay ep s
         else if \<not> has_handler_for_medium s next_medium then Some s
         else initiate ep next_medium (set_bwu_medium_for_endpoint ep next_medium s))"

definition process_upgrade_failure_event ::
    "('ch, 'h) bwu_env
      \<Rightarrow> (string \<Rightarrow> medium \<Rightarrow> ('ch, 'h) bwu_state \<Rightarrow> ('ch, 'h) bwu_state option)
      \<Rightarrow> string \<Rightarrow> upgrade_path_info \<Rightarrow> ('ch, 'h) bwu_state \<Rightarrow> ('ch, 'h) bwu_state option" where
  "process_upgrade_failure_event E initiate ep info s =
     (let s = remove_in_progress ep s in
      if \<not> support_multiple_bwu_mediums (config s) \<and> get_connected_endpoints_count (ecm s) > 1
      then Some s
      else do {
        let service_id = unwrap_or (map_option (\<lambda>i. op_service_id (chan_ops E) (chan_at s i))
                           (registered s ep)) UNKNOWN_SERVICE_ID;
        s \<leftarrow> (if get_bwu_medium_for_endpoint s ep \<noteq> UnknownMedium
              then revert_bwu_medium_for_endpoint E
                     (wrap_initiator_upgrade_service_id service_id) ep s
              else Some s);
        let last_medium = upi_medium_of info;
        let all_possible = get_upgrade_mediums (client s) ep;
        untried \<leftarrow> untried_mediums last_medium all_possible all_possible;
        try_next_best_upgrade_mediums E initiate ep untried s
      })"

text \<open>The body of \<^verbatim>\<open>initiate_bwu_for_endpoint\<close>, given itself for the call in the failure path.\<close>

definition initiate_body ::
    "('ch, 'h) bwu_env
      \<Rightarrow> (string \<Rightarrow> medium \<Rightarrow> ('ch, 'h) bwu_state \<Rightarrow> ('ch, 'h) bwu_state option)
      \<Rightarrow> string \<Rightarrow> medium \<Rightarrow> ('ch, 'h) bwu_state \<Rightarrow> ('ch, 'h) bwu_state option" where
  "initiate_body E initiate ep proposed_medium s =
     (if wifi_lan_connected E s \<and> proposed_medium = WifiHotspot then Some s
      else
        (let s = set_bwu_medium_for_endpoint ep proposed_medium s in
         if \<not> has_handler_for_medium s proposed_medium then Some s
         else if ep \<in> set (in_progress_upgrades s) then Some s
         else
           (let s = cancel_retry_upgrade_alarm ep s in
            if proposed_medium = channel_medium E s ep then Some s
            else
              (case registered s ep of
                 None \<Rightarrow> Some s
               | Some i \<Rightarrow>
                   do {
                     let service_id = op_service_id (chan_ops E) (chan_at s i);
                     (bytes, s) \<leftarrow> handler_call proposed_medium
                       (h_initialize_upgraded_medium_for_endpoint (hand_ops E) (client s)
                          service_id ep) s;
                     (if bytes = [] then
                        process_upgrade_failure_event E initiate ep
                          (upgrade_path_info_for_medium proposed_medium) s
                      else do {
                        (e, s) \<leftarrow> ch_write E i bytes s;
                        (if \<not> exception_ok e then
                           process_upgrade_failure_event E initiate ep
                             (upgrade_path_info_for_medium proposed_medium) s
                         else Some (insert_in_progress ep s))
                      })
                   }))))"

primrec initiate_bwu_for_endpoint ::
    "('ch, 'h) bwu_env \<Rightarrow> nat \<Rightarrow> string \<Rightarrow> medium \<Rightarrow> ('ch, 'h) bwu_state
      \<Rightarrow> ('ch, 'h) bwu_state option" where
  "initiate_bwu_for_endpoint E 0 = (\<lambda>ep m s. None)"
| "initiate_bwu_for_endpoint E (Suc n) = initiate_body E (initiate_bwu_for_endpoint E n)"

definition reset_upgrade_for_endpoint :: "string \<Rightarrow> ('ch, 'h) bwu_state \<Rightarrow> ('ch, 'h) bwu_state" where
  "reset_upgrade_for_endpoint ep s = remove_in_progress ep s"

definition fire_retry_alarm ::
    "('ch, 'h) bwu_env \<Rightarrow> nat \<Rightarrow> string \<Rightarrow> ('ch, 'h) bwu_state \<Rightarrow> ('ch, 'h) bwu_state option" where
  "fire_retry_alarm E n ep s =
     (if \<not> hm_contains (retry_upgrade_alarms s) ep then Some s
      else
        (let s = cancel_retry_upgrade_alarm ep s in
         if \<not> is_connected_to_endpoint (client s) ep then Some s
         else try_next_best_upgrade_mediums E (initiate_bwu_for_endpoint E n) ep
                (get_upgrade_mediums (client s) ep) s))"

section \<open>The converged upgrade protocol\<close>

definition process_last_write_to_prior_channel_event ::
    "('ch, 'h) bwu_env \<Rightarrow> string \<Rightarrow> ('ch, 'h) bwu_state \<Rightarrow> ('ch, 'h) bwu_state option" where
  "process_last_write_to_prior_channel_event E ep s =
     (case hm_get (previous_endpoint_channels s) ep of
        None \<Rightarrow> Some (latch_last_write ep s)
      | Some prev \<Rightarrow>
          do {
            (e, s) \<leftarrow> ch_write E prev (for_bwu_safe_to_close (encode_frame E)) s;
            (if \<not> exception_ok e then
               (let s = ch_apply (\<lambda>c. op_close_with_reason (chan_ops E) c IoError) prev s
                in Some (unpark_channel ep s))
             else Some s)
          })"

definition run_upgrade_protocol ::
    "('ch, 'h) bwu_env \<Rightarrow> string \<Rightarrow> chan_ref \<Rightarrow> bool \<Rightarrow> ('ch, 'h) bwu_state
      \<Rightarrow> ('ch, 'h) bwu_state option" where
  "run_upgrade_protocol E ep new_channel enable_encryption s =
     (let s = ch_apply (\<lambda>c. op_set_local_endpoint_id (chan_ops E) c
                (cp_local_endpoint_id (client s))) new_channel s;
          s = ch_apply (op_pause (chan_ops E)) new_channel s
      in case registered s ep of
           None \<Rightarrow> Some s
         | Some old_channel \<Rightarrow>
             do {
               let s = replace_channel ep new_channel enable_encryption s;
               (e, s) \<leftarrow> ch_write E old_channel (for_bwu_last_write (encode_frame E)) s;
               (if \<not> exception_ok e then Some s
                else
                  (let s = park_channel ep old_channel s in
                   if ep \<in> set (successfully_upgraded_endpoints s)
                   then process_last_write_to_prior_channel_event E ep (unlatch_last_write ep s)
                   else Some s))
             })"

text \<open>
  The completion of an upgrade, in two parts: up to the write of the disconnection frame, and from
  the read that drains the old channel on.
\<close>

definition safe_to_close_write ::
    "('ch, 'h) bwu_env \<Rightarrow> string \<Rightarrow> chan_ref \<Rightarrow> ('ch, 'h) bwu_state \<Rightarrow> ('ch, 'h) bwu_state option" where
  "safe_to_close_write E ep prev s =
     do {
       let s = unpark_channel ep s;
       let s = ch_apply (op_disable_encryption (chan_ops E)) prev s;
       (_, s) \<leftarrow> ch_write E prev (for_disconnection (encode_frame E) False False) s;
       Some s
     }"

definition safe_to_close_drain ::
    "('ch, 'h) bwu_env \<Rightarrow> string \<Rightarrow> chan_ref \<Rightarrow> ('ch, 'h) bwu_state \<Rightarrow> ('ch, 'h) bwu_state option" where
  "safe_to_close_drain E ep prev s =
     do {
       (_, s) \<leftarrow> ch_read E prev s;
       let s = ch_apply (\<lambda>c. op_close_with_reason (chan_ops E) c Upgraded) prev s;
       (case registered s ep of
          None \<Rightarrow> Some s
        | Some channel \<Rightarrow>
            (let s = ch_apply (op_resume (chan_ops E)) channel s;
                 medium = op_medium (chan_ops E) (chan_at s channel)
             in Some (remove_in_progress ep (report_bandwidth_changed ep medium s))))
     }"

definition process_safe_to_close_prior_channel_event ::
    "('ch, 'h) bwu_env \<Rightarrow> string \<Rightarrow> ('ch, 'h) bwu_state \<Rightarrow> ('ch, 'h) bwu_state option" where
  "process_safe_to_close_prior_channel_event E ep s =
     (case hm_get (previous_endpoint_channels s) ep of
        None \<Rightarrow> Some s
      | Some prev \<Rightarrow>
          do {
            s \<leftarrow> safe_to_close_write E ep prev s;
            safe_to_close_drain E ep prev s
          })"

lemmas safe_to_close_defs = process_safe_to_close_prior_channel_event_def safe_to_close_write_def
  safe_to_close_drain_def

definition run_upgrade_failed_protocol ::
    "('ch, 'h) bwu_env \<Rightarrow> string \<Rightarrow> upgrade_path_info \<Rightarrow> ('ch, 'h) bwu_state
      \<Rightarrow> ('ch, 'h) bwu_state option" where
  "run_upgrade_failed_protocol E ep info s =
     (case registered s ep of
        None \<Rightarrow> Some s
      | Some channel \<Rightarrow>
          do {
            (e, s) \<leftarrow> ch_write E channel (for_bwu_failure (encode_frame E) info) s;
            (if \<not> exception_ok e then
               Some (ch_apply (\<lambda>c. op_close_with_reason (chan_ops E) c IoError) channel s)
             else do {
               s \<leftarrow> (if get_bwu_medium_for_endpoint s ep \<noteq> UnknownMedium
                     then revert_bwu_medium_for_endpoint E
                            (op_service_id (chan_ops E) (chan_at s channel)) ep s
                     else Some s);
               Some (remove_in_progress ep s)
             })
          })"

section \<open>The responder path\<close>

definition process_bwu_path_available_event_internal ::
    "('ch, 'h) bwu_env \<Rightarrow> string \<Rightarrow> upgrade_path_info \<Rightarrow> ('ch, 'h) bwu_state
      \<Rightarrow> (chan_ref option \<times> ('ch, 'h) bwu_state) option" where
  "process_bwu_path_available_event_internal E ep info s =
     (let m = upi_medium_of info in
      if m \<noteq> get_bwu_medium_for_endpoint s ep then Some (None, s)
      else if \<not> has_handler_for_medium s m then Some (None, s)
      else
        (case registered s ep of
           None \<Rightarrow> Some (None, s)
         | Some old_channel \<Rightarrow>
             do {
               let service_id = op_service_id (chan_ops E) (chan_at s old_channel);
               let last_local = op_local_endpoint_id (chan_ops E) (chan_at s old_channel);
               let last_local = (if last_local = [] then cp_last_local_endpoint_id (client s)
                                 else last_local);
               (created, s) \<leftarrow> handler_call m
                 (h_create_upgraded_endpoint_channel (hand_ops E) (client s) service_id ep info) s;
               (case created of
                  None \<Rightarrow> Some (None, s)
                | Some c \<Rightarrow>
                    do {
                      let (new_channel, s) = alloc_chan c s;
                      let intro = for_bwu_introduction (encode_frame E)
                            (cp_local_endpoint_id (client s)) last_local
                            (unwrap_or (upi_supports_disabling_encryption info) False);
                      (e, s) \<leftarrow> ch_write E new_channel intro s;
                      (if \<not> exception_ok e then
                         Some (None, ch_apply (op_close (chan_ops E)) new_channel s)
                       else if unwrap_or (upi_supports_client_introduction_ack info) False then
                         do {
                           (acked, s) \<leftarrow> read_client_introduction_ack_frame E new_channel s;
                           (if \<not> acked then
                              Some (None, ch_apply (op_close (chan_ops E)) new_channel s)
                            else Some (Some new_channel, s))
                         }
                       else Some (Some new_channel, s))
                    })
             }))"

text \<open>The duplicate or out-of-sync guard: close everything.\<close>

definition close_unfinished ::
    "('ch, 'h) bwu_env \<Rightarrow> string \<Rightarrow> ('ch, 'h) bwu_state \<Rightarrow> ('ch, 'h) bwu_state" where
  "close_unfinished E ep s =
     (let s = (case hm_get (previous_endpoint_channels s) ep of
                 None \<Rightarrow> s
               | Some prev \<Rightarrow>
                   ch_apply (\<lambda>c. op_close_with_reason (chan_ops E) c Unfinished) prev
                     (unpark_channel ep s))
      in case registered s ep of
           None \<Rightarrow> s
         | Some cur \<Rightarrow>
             ch_apply (\<lambda>c. op_close_with_reason (chan_ops E) c Unfinished) cur
               (ch_apply (op_resume (chan_ops E)) cur s))"

definition process_bwu_path_available_event ::
    "('ch, 'h) bwu_env \<Rightarrow> string \<Rightarrow> upgrade_path_info \<Rightarrow> ('ch, 'h) bwu_state
      \<Rightarrow> ('ch, 'h) bwu_state option" where
  "process_bwu_path_available_event E ep info s =
     (let upgrade_medium = upi_medium_of info in
      if wifi_lan_connected E s \<and> upgrade_medium = WifiHotspot
      then run_upgrade_failed_protocol E ep info s
      else if is_incoming_connection (client s) ep then Some s
      else if ep \<in> set (in_progress_upgrades s) then Some (close_unfinished E ep s)
      else
        (let s = (if get_bwu_medium_for_endpoint s ep = UnknownMedium
                  then set_bwu_medium_for_endpoint ep upgrade_medium s else s)
         in if upgrade_medium \<noteq> get_bwu_medium_for_endpoint s ep
            then run_upgrade_failed_protocol E ep info s
            else do {
              (channel, s) \<leftarrow> process_bwu_path_available_event_internal E ep info s;
              (case channel of
                 None \<Rightarrow> run_upgrade_failed_protocol E ep info s
               | Some channel \<Rightarrow>
                   run_upgrade_protocol E ep channel
                     (\<not> unwrap_or (upi_supports_disabling_encryption info) False)
                     (insert_in_progress ep s))
            }))"

section \<open>The initiator's incoming connection\<close>

definition introduced_endpoint :: "client_introduction \<Rightarrow> ('ch, 'h) bwu_state \<Rightarrow> string option" where
  "introduced_endpoint intro s =
     (let introduced_id = unwrap_or (ci_endpoint_id intro) [] in
      if introduced_id \<in> set (in_progress_upgrades s) then Some introduced_id
      else if length (in_progress_upgrades s) = 1 then Some (hd (in_progress_upgrades s))
      else None)"

definition on_incoming_connection ::
    "('ch, 'h) bwu_env \<Rightarrow> chan_ref \<Rightarrow> ('ch, 'h) bwu_state \<Rightarrow> ('ch, 'h) bwu_state option" where
  "on_incoming_connection E channel s =
     do {
       (intro, s) \<leftarrow> read_client_introduction_frame E channel s;
       (case intro of
          None \<Rightarrow> Some (ch_apply (op_close (chan_ops E)) channel s)
        | Some intro \<Rightarrow>
            do {
              (written, s) \<leftarrow> write_client_introduction_ack_frame E channel s;
              (if \<not> written then Some (ch_apply (op_close (chan_ops E)) channel s)
               else
                 (case introduced_endpoint intro s of
                    None \<Rightarrow> Some s
                  | Some ep \<Rightarrow>
                      run_upgrade_protocol E ep channel
                        (\<not> unwrap_or (ci_supports_disabling_encryption intro) False)
                        (cancel_retry_upgrade_alarm ep s)))
            })
     }"

definition invoke_on_incoming_connection_for_testing ::
    "('ch, 'h) bwu_env \<Rightarrow> chan_ref \<Rightarrow> ('ch, 'h) bwu_state \<Rightarrow> ('ch, 'h) bwu_state option" where
  "invoke_on_incoming_connection_for_testing = on_incoming_connection"

section \<open>Dispatch\<close>

definition on_bwu_negotiation_frame ::
    "('ch, 'h) bwu_env \<Rightarrow> nat \<Rightarrow> bandwidth_upgrade_negotiation_frame \<Rightarrow> string
      \<Rightarrow> ('ch, 'h) bwu_state \<Rightarrow> ('ch, 'h) bwu_state option" where
  "on_bwu_negotiation_frame E n frame ep s =
     (let event = unwrap_or (Option.bind (bwu_event_type frame) event_type_try_from)
                    UnknownEventType in
      if \<not> is_connected_to_endpoint (client s) ep then
        (if event = UpgradePathAvailable then
           (case bwu_upgrade_path_info frame of
              Some info \<Rightarrow> run_upgrade_failed_protocol E ep info s
            | None \<Rightarrow> Some s)
         else Some s)
      else
        (case event of
           UpgradePathAvailable \<Rightarrow>
             (case bwu_upgrade_path_info frame of
                Some info \<Rightarrow> process_bwu_path_available_event E ep info s
              | None \<Rightarrow> Some s)
         | UpgradeFailure \<Rightarrow>
             (case bwu_upgrade_path_info frame of
                Some info \<Rightarrow>
                  process_upgrade_failure_event E (initiate_bwu_for_endpoint E n) ep info s
              | None \<Rightarrow> Some s)
         | LastWriteToPriorChannel \<Rightarrow>
             (if ep \<notin> set (in_progress_upgrades s) then Some s
              else process_last_write_to_prior_channel_event E ep s)
         | SafeToClosePriorChannel \<Rightarrow>
             (if ep \<notin> set (in_progress_upgrades s) then Some s
              else process_safe_to_close_prior_channel_event E ep s)
         | _ \<Rightarrow> Some s))"

definition on_incoming_frame ::
    "('ch, 'h) bwu_env \<Rightarrow> nat \<Rightarrow> offline_frame \<Rightarrow> string \<Rightarrow> medium \<Rightarrow> ('ch, 'h) bwu_state
      \<Rightarrow> ('ch, 'h) bwu_state option" where
  "on_incoming_frame E n frame ep _ s =
     (if get_frame_type frame \<noteq> BandwidthUpgradeNegotiation then Some s
      else
        (case Option.bind (of_v1 frame) v1_bandwidth_upgrade_negotiation of
           None \<Rightarrow> Some s
         | Some bwu \<Rightarrow> on_bwu_negotiation_frame E n bwu ep s))"

section \<open>Disconnect and shutdown\<close>

definition forget_retries :: "string \<Rightarrow> ('ch, 'h) bwu_state \<Rightarrow> ('ch, 'h) bwu_state" where
  "forget_retries ep s =
     cancel_retry_upgrade_alarm ep (s\<lparr>retry_delays := hm_remove ep (retry_delays s)\<rparr>)"

definition on_endpoint_disconnect ::
    "('ch, 'h) bwu_env \<Rightarrow> string \<Rightarrow> string \<Rightarrow> disconnection_reason \<Rightarrow> ('ch, 'h) bwu_state
      \<Rightarrow> ('ch, 'h) bwu_state option" where
  "on_endpoint_disconnect E service_id ep _ s =
     do {
       let m = get_bwu_medium_for_endpoint s ep;
       s \<leftarrow> (if has_handler_for_medium s m
             then handler_do m (h_on_endpoint_disconnect (hand_ops E) (client s) ep) s
             else Some s);
       let s = (case hm_get (previous_endpoint_channels s) ep of
                  None \<Rightarrow> s
                | Some old_channel \<Rightarrow>
                    ch_apply (\<lambda>c. op_close_with_reason (chan_ops E) c Shutdown) old_channel
                      (unpark_channel ep s));
       let s = unlatch_last_write ep (forget_retries ep (remove_in_progress ep s));
       (if support_multiple_bwu_mediums (config s) \<or> get_connected_endpoints_count (ecm s) \<le> 1
        then revert_bwu_medium_for_endpoint E service_id ep s
        else Some s)
     }"

fun revert_all_handlers ::
    "('ch, 'h) bwu_env \<Rightarrow> (medium, 'h) hash_map \<Rightarrow> (medium, 'h) hash_map option" where
  "revert_all_handlers E [] = Some []"
| "revert_all_handlers E ((m, h) # hs) =
     do {
       h \<leftarrow> h_revert_initiator_state (hand_ops E) h;
       hs \<leftarrow> revert_all_handlers E hs;
       Some ((m, h) # hs)
     }"

definition shutdown :: "('ch, 'h) bwu_env \<Rightarrow> ('ch, 'h) bwu_state \<Rightarrow> ('ch, 'h) bwu_state option" where
  "shutdown E s =
     do {
       let s = cancel_all_retry_upgrade_alarms s;
       hs \<leftarrow> revert_all_handlers E (handlers s);
       Some (s\<lparr>handlers := hs, in_progress_upgrades := [], previous_endpoint_channels := [],
               successfully_upgraded_endpoints := []\<rparr>)
     }"

end
