(* ===== verification/Bwu_Actions.thy ===== *)
theory Bwu_Actions
  imports Bwu_Manager
begin

text \<open>
  Every operation of the upgrade manager is a sequence of primitive actions on one endpoint:
  a channel or handler method, the allocation of a channel, or one update of the bookkeeping.
  The relation \<^verbatim>\<open>bwu_act\<close> is that set of actions; each operation is shown to be a path of it
  once, and every invariant and frame property is then proved once, by induction along the
  path, instead of once per operation.
\<close>

section \<open>Well-formed states\<close>

definition bwu_wf :: "('ch, 'h) bwu_state \<Rightarrow> bool" where
  "bwu_wf s \<longleftrightarrow>
     hm_wf (handlers s) \<and> hm_wf (endpoint_id_to_bwu_medium s) \<and> distinct (in_progress_upgrades s)
     \<and> hm_wf (previous_endpoint_channels s) \<and> distinct (successfully_upgraded_endpoints s)
     \<and> hm_wf (retry_upgrade_alarms s) \<and> hm_wf (retry_delays s) \<and> hm_wf (endpoints (ecm s))
     \<and> (\<forall>ep i. registered s ep = Some i \<longrightarrow> i < length (heap s))
     \<and> (\<forall>ep i. hm_get (previous_endpoint_channels s) ep = Some i \<longrightarrow> i < length (heap s))"

section \<open>Actions\<close>

inductive bwu_act ::
    "('ch, 'h) bwu_env \<Rightarrow> string \<Rightarrow> ('ch, 'h) bwu_state \<Rightarrow> ('ch, 'h) bwu_state \<Rightarrow> bool" for E ep where
  act_chan: "chan_step (chan_ops E) (chan_at s i) c \<Longrightarrow> bwu_act E ep s (set_chan i c s)"
| act_alloc: "bwu_act E ep s (s\<lparr>heap := heap s @ [c]\<rparr>)"
| act_handler: "hm_get (handlers s) m = Some h \<Longrightarrow> hand_step (hand_ops E) h h' \<Longrightarrow>
    bwu_act E ep s (s\<lparr>handlers := hm_insert m h' (handlers s)\<rparr>)"
| act_replace: "i < length (heap s) \<Longrightarrow> bwu_act E ep s (replace_channel ep i enc s)"
| act_set_medium: "bwu_act E ep s (set_bwu_medium_for_endpoint ep m s)"
| act_clear_medium: "bwu_act E ep s (clear_bwu_medium_for_endpoint ep s)"
| act_insert_in_progress: "bwu_act E ep s (insert_in_progress ep s)"
| act_remove_in_progress: "bwu_act E ep s (remove_in_progress ep s)"
| act_park: "i < length (heap s) \<Longrightarrow> bwu_act E ep s (park_channel ep i s)"
| act_unpark: "bwu_act E ep s (unpark_channel ep s)"
| act_latch: "bwu_act E ep s (latch_last_write ep s)"
| act_unlatch: "bwu_act E ep s (unlatch_last_write ep s)"
| act_cancel: "bwu_act E ep s (cancel_retry_upgrade_alarm ep s)"
| act_schedule: "calculate_next_retry_delay s ep = Some d \<Longrightarrow> bwu_act E ep s (schedule_retry ep d s)"
| act_forget: "bwu_act E ep s (forget_retries ep s)"
| act_report: "bwu_act E ep s (report_bandwidth_changed ep m s)"

abbreviation bwu_acts ::
    "('ch, 'h) bwu_env \<Rightarrow> string \<Rightarrow> ('ch, 'h) bwu_state \<Rightarrow> ('ch, 'h) bwu_state \<Rightarrow> bool" where
  "bwu_acts E ep \<equiv> (bwu_act E ep)\<^sup>*\<^sup>*"

lemmas act_state_defs = set_chan_def alloc_chan_def replace_channel_def
  set_bwu_medium_for_endpoint_def clear_bwu_medium_for_endpoint_def insert_in_progress_def
  remove_in_progress_def park_channel_def unpark_channel_def latch_last_write_def
  unlatch_last_write_def cancel_retry_upgrade_alarm_def schedule_retry_def forget_retries_def
  report_bandwidth_changed_def

text \<open>One more action at the end of a path; these rules build the path of an operation.\<close>

lemma acts_snoc: "bwu_acts E ep s0 s \<Longrightarrow> bwu_act E ep s s' \<Longrightarrow> bwu_acts E ep s0 s'"
  by (rule rtranclp.rtrancl_into_rtrancl)

lemmas acts_simple =
  acts_snoc [OF _ act_set_medium] acts_snoc [OF _ act_clear_medium]
  acts_snoc [OF _ act_insert_in_progress] acts_snoc [OF _ act_remove_in_progress]
  acts_snoc [OF _ act_unpark] acts_snoc [OF _ act_latch] acts_snoc [OF _ act_unlatch]
  acts_snoc [OF _ act_cancel] acts_snoc [OF _ act_forget] acts_snoc [OF _ act_report]
  acts_snoc [OF _ act_alloc] rtranclp.rtrancl_refl

lemma acts_ch_apply:
  "bwu_acts E ep s0 s \<Longrightarrow> (\<And>c. chan_step (chan_ops E) c (f c)) \<Longrightarrow>
     bwu_acts E ep s0 (ch_apply f i s)"
  unfolding ch_apply_def by (rule acts_snoc [OF _ act_chan])

lemmas acts_methods =
  acts_ch_apply [OF _ step_close] acts_ch_apply [OF _ step_close_with_reason]
  acts_ch_apply [OF _ step_set_local_endpoint_id] acts_ch_apply [OF _ step_pause]
  acts_ch_apply [OF _ step_resume] acts_ch_apply [OF _ step_disable_encryption]

lemma acts_ch_read: "ch_read E i s = Some (r, s') \<Longrightarrow> bwu_acts E ep s0 s \<Longrightarrow> bwu_acts E ep s0 s'"
  by (auto simp: ch_read_def intro: acts_snoc [OF _ act_chan [OF step_read]])

lemma acts_ch_write: "ch_write E i bs s = Some (e, s') \<Longrightarrow> bwu_acts E ep s0 s \<Longrightarrow> bwu_acts E ep s0 s'"
  by (auto simp: ch_write_def intro: acts_snoc [OF _ act_chan [OF step_write]])

lemma acts_handler_call:
  "handler_call m f s = Some (r, s') \<Longrightarrow>
   (\<And>h r h'. f h = Some (r, h') \<Longrightarrow> hand_step (hand_ops E) h h') \<Longrightarrow>
   bwu_acts E ep s0 s \<Longrightarrow> bwu_acts E ep s0 s'"
  by (auto simp: handler_call_def elim!: bind_SomeE intro: acts_snoc [OF _ act_handler])

lemma acts_handler_do:
  "handler_do m f s = Some s' \<Longrightarrow>
   (\<And>h h'. f h = Some h' \<Longrightarrow> hand_step (hand_ops E) h h') \<Longrightarrow>
   bwu_acts E ep s0 s \<Longrightarrow> bwu_acts E ep s0 s'"
  by (auto simp: handler_do_def elim!: bind_SomeE intro: acts_snoc [OF _ act_handler])

section \<open>What every path keeps\<close>

lemma act_heap:
  assumes "bwu_act E ep s s'"
  shows "length (heap s) \<le> length (heap s')
    \<and> (\<forall>i < length (heap s). chan_steps (chan_ops E) (chan_at s i) (chan_at s' i))"
  using assms
proof (cases rule: bwu_act.cases)
  case (act_chan i c)
  then show ?thesis by (cases "i < length (heap s)") (auto simp: set_chan_def nth_list_update)
qed (auto simp: act_state_defs nth_append)

lemma acts_heap:
  assumes "bwu_acts E ep s s'"
  shows "length (heap s) \<le> length (heap s')
    \<and> (\<forall>i < length (heap s). chan_steps (chan_ops E) (chan_at s i) (chan_at s' i))"
  using assms
proof (induction rule: rtranclp_induct)
  case (step y z)
  with act_heap [OF step.hyps(2)] show ?case
    by (meson le_trans order_less_le_trans rtranclp_trans)
qed simp

lemma act_wf:
  assumes "bwu_act E ep s s'" and "bwu_wf s"
  shows "bwu_wf s'"
  using assms
  by (cases rule: bwu_act.cases)
    (simp_all add: bwu_wf_def act_state_defs get_channel_for_endpoint_def
      replace_channel_for_endpoint_def less_SucI distinct_removeAll)

lemma acts_wf: "bwu_acts E ep s s' \<Longrightarrow> bwu_wf s \<Longrightarrow> bwu_wf s'"
  by (induction rule: rtranclp_induct) (auto intro: act_wf)

text \<open>What the bookkeeping says about one endpoint.\<close>

definition endpoint_view :: "('ch, 'h) bwu_state \<Rightarrow> string \<Rightarrow>
    medium option \<times> bool \<times> chan_ref option \<times> bool \<times> duration option \<times> duration option
    \<times> chan_ref option \<times> bool \<times> medium list" where
  "endpoint_view s ep =
     (hm_get (endpoint_id_to_bwu_medium s) ep, ep \<in> set (in_progress_upgrades s),
      hm_get (previous_endpoint_channels s) ep, ep \<in> set (successfully_upgraded_endpoints s),
      hm_get (retry_upgrade_alarms s) ep, hm_get (retry_delays s) ep, registered s ep,
      is_connected_to_endpoint (client s) ep, get_upgrade_mediums (client s) ep)"

lemma act_other_endpoint:
  assumes "bwu_act E ep s s'" and "ep' \<noteq> ep"
  shows "endpoint_view s' ep' = endpoint_view s ep'"
  using assms
  by (cases rule: bwu_act.cases)
    (simp_all add: endpoint_view_def act_state_defs get_channel_for_endpoint_def
      replace_channel_for_endpoint_def)

lemma acts_other_endpoint:
  "bwu_acts E ep s s' \<Longrightarrow> ep' \<noteq> ep \<Longrightarrow> endpoint_view s' ep' = endpoint_view s ep'"
  by (induction rule: rtranclp_induct) (auto simp: act_other_endpoint)

lemma act_config:
  assumes "bwu_act E ep s s'"
  shows "config s' = config s \<and> set (hm_keys (handlers s')) = set (hm_keys (handlers s))
    \<and> cp_endpoints (client s') = cp_endpoints (client s)"
  using assms
proof (cases rule: bwu_act.cases)
  case (act_handler m h h')
  then have "hm_contains (handlers s) m" by (simp only: hm_contains_get) blast
  with act_handler show ?thesis by (simp add: insert_absorb del: set_map)
qed (simp_all add: act_state_defs)

lemma acts_config:
  "bwu_acts E ep s s' \<Longrightarrow> config s' = config s \<and> set (hm_keys (handlers s')) = set (hm_keys (handlers s))
    \<and> cp_endpoints (client s') = cp_endpoints (client s)"
  by (induction rule: rtranclp_induct) (use act_config in \<open>simp, metis\<close>)

section \<open>Every operation is a path of actions\<close>

lemma acts_revert:
  assumes "revert_bwu_medium_for_endpoint E sid ep s = Some s'" and "bwu_acts E ep s0 s"
  shows "bwu_acts E ep s0 s'"
  using assms(1) acts_simple(2) [OF assms(2)] unfolding revert_bwu_medium_for_endpoint_def Let_def
  by (auto split: if_splits elim!: acts_handler_do intro: hand_step.intros)

lemma acts_retry:
  assumes "retry_upgrades_after_delay ep s = Some s'" and "bwu_acts E ep s0 s"
  shows "bwu_acts E ep s0 s'"
proof -
  have "calculate_next_retry_delay (cancel_retry_upgrade_alarm ep s) ep = calculate_next_retry_delay s ep"
    by (simp add: calculate_next_retry_delay_def cancel_retry_upgrade_alarm_def Let_def
        cong: option.case_cong)
  with assms show ?thesis
    by (auto simp: retry_upgrades_after_delay_def intro!: acts_snoc [OF _ act_schedule] acts_simple)
qed

text \<open>A function that stands for the recursive call is a path of actions itself.\<close>

abbreviation acts_call :: "('ch, 'h) bwu_env
    \<Rightarrow> (string \<Rightarrow> medium \<Rightarrow> ('ch, 'h) bwu_state \<Rightarrow> ('ch, 'h) bwu_state option) \<Rightarrow> bool" where
  "acts_call E init \<equiv> \<forall>ep m s s'. init ep m s = Some s' \<longrightarrow> bwu_acts E ep s s'"

lemma acts_failure:
  assumes init: "acts_call E init"
  shows "process_upgrade_failure_event E init ep info s = Some s' \<Longrightarrow> bwu_acts E ep s0 s \<Longrightarrow>
      bwu_acts E ep s0 s'"
    and "try_next_best_upgrade_mediums E init ep ms s = Some s' \<Longrightarrow> bwu_acts E ep s0 s \<Longrightarrow>
      bwu_acts E ep s0 s'"
proof -
  have init': "init ep m s = Some s' \<Longrightarrow> bwu_acts E ep s0 s \<Longrightarrow> bwu_acts E ep s0 s'" for ep m s s' s0
    using init by (meson rtranclp_trans)
  show next_best: "bwu_acts E ep s0 s'"
    if "try_next_best_upgrade_mediums E init ep ms s = Some s'" "bwu_acts E ep s0 s" for ms s s' s0
    using that unfolding try_next_best_upgrade_mediums_def Let_def
    by (auto split: if_splits intro: acts_retry init' acts_simple)
  show "process_upgrade_failure_event E init ep info s = Some s' \<Longrightarrow> bwu_acts E ep s0 s \<Longrightarrow>
      bwu_acts E ep s0 s'"
    unfolding process_upgrade_failure_event_def Let_def
    by (auto split: if_splits elim!: bind_SomeE
        intro: next_best [OF _ acts_revert [OF _ acts_simple(4)]] next_best [OF _ acts_simple(4)]
          acts_simple)
qed

lemma acts_initialize:
  "handler_call m (h_initialize_upgraded_medium_for_endpoint (hand_ops E) cl sid ep') s = Some (r, s') \<Longrightarrow>
   bwu_acts E ep s0 s \<Longrightarrow> bwu_acts E ep s0 s'"
  by (erule acts_handler_call) (rule hand_step.intros)

lemma acts_create:
  "handler_call m (h_create_upgraded_endpoint_channel (hand_ops E) cl sid ep' info) s = Some (r, s') \<Longrightarrow>
   bwu_acts E ep s0 s \<Longrightarrow> bwu_acts E ep s0 s'"
  by (erule acts_handler_call) (rule hand_step.intros)

lemma acts_disconnect:
  "handler_do m (h_on_endpoint_disconnect (hand_ops E) cl ep') s = Some s' \<Longrightarrow>
   bwu_acts E ep s0 s \<Longrightarrow> bwu_acts E ep s0 s'"
  by (erule acts_handler_do) (rule hand_step.intros)

lemma acts_eq: "t = s' \<Longrightarrow> bwu_acts E ep s0 t \<Longrightarrow> bwu_acts E ep s0 s'"
  by simp

lemma acts_initiate_body:
  assumes init: "acts_call E init"
    and "initiate_body E init ep m s = Some s'" and "bwu_acts E ep s0 s"
  shows "bwu_acts E ep s0 s'"
  using assms(2,3) unfolding initiate_body_def Let_def
  by (auto split: if_splits option.splits elim!: bind_SomeE)
    (assumption | rule acts_simple | erule acts_ch_write acts_initialize acts_eq acts_failure(1) [OF init])+

lemma acts_initiate: "acts_call E (initiate_bwu_for_endpoint E n)"
proof (induction n)
  case (Suc n)
  show ?case
  proof (intro allI impI)
    fix ep m s s'
    assume "initiate_bwu_for_endpoint E (Suc n) ep m s = Some s'"
    with acts_initiate_body [OF Suc.IH] show "bwu_acts E ep s s'" by simp
  qed
qed simp

lemma acts_fire_retry_alarm: "fire_retry_alarm E n ep s = Some s' \<Longrightarrow> bwu_acts E ep s s'"
  unfolding fire_retry_alarm_def Let_def
  by (auto split: if_splits)
    (assumption | rule acts_simple | erule acts_failure(2) [OF acts_initiate])+

lemma acts_last_write:
  "process_last_write_to_prior_channel_event E ep s = Some s' \<Longrightarrow> bwu_acts E ep s0 s \<Longrightarrow>
   bwu_acts E ep s0 s'"
  unfolding process_last_write_to_prior_channel_event_def Let_def
  by (auto split: if_splits option.splits elim!: bind_SomeE)
    (assumption | rule acts_simple acts_methods | erule acts_ch_write)+

lemma acts_safe_to_close:
  "process_safe_to_close_prior_channel_event E ep s = Some s' \<Longrightarrow> bwu_acts E ep s0 s \<Longrightarrow>
   bwu_acts E ep s0 s'"
  unfolding safe_to_close_defs Let_def
  by (auto split: if_splits option.splits elim!: bind_SomeE)
    (assumption | rule acts_simple acts_methods | erule acts_ch_write acts_ch_read)+

lemma acts_failed:
  "run_upgrade_failed_protocol E ep info s = Some s' \<Longrightarrow> bwu_acts E ep s0 s \<Longrightarrow> bwu_acts E ep s0 s'"
  unfolding run_upgrade_failed_protocol_def Let_def
  by (auto split: if_splits option.splits elim!: bind_SomeE)
    (assumption | rule acts_simple acts_methods | erule acts_ch_write acts_revert)+

lemma acts_run_upgrade_protocol:
  assumes "run_upgrade_protocol E ep i enc s = Some s'" and "bwu_acts E ep s0 s"
    and "bwu_wf s" and "i < length (heap s)"
  shows "bwu_acts E ep s0 s'"
proof -
  let ?s1 = "ch_apply (op_pause (chan_ops E)) i (ch_apply
      (\<lambda>c. op_set_local_endpoint_id (chan_ops E) c (cp_local_endpoint_id (client s))) i s)"
  have len: "length (heap ?s1) = length (heap s)" and reg: "registered ?s1 ep = registered s ep"
    by (simp_all add: ch_apply_def set_chan_def)
  have s1: "bwu_acts E ep s0 ?s1" by (intro acts_methods assms(2))
  show ?thesis
  proof (cases "registered s ep")
    case None
    with assms(1) reg s1 show ?thesis by (simp add: run_upgrade_protocol_def Let_def)
  next
    case (Some old)
    with assms(3) have old: "old < length (heap s)" by (auto simp: bwu_wf_def)
    have s2: "bwu_acts E ep s0 (replace_channel ep i enc ?s1)"
      using s1 by (rule acts_snoc [OF _ act_replace]) (simp add: len assms(4))
    from assms(1) Some reg obtain e s3 where
      w: "ch_write E old (for_bwu_last_write (encode_frame E)) (replace_channel ep i enc ?s1) = Some (e, s3)"
      and rest: "(if \<not> exception_ok e then Some s3
                else let s = park_channel ep old s3 in
                   if ep \<in> set (successfully_upgraded_endpoints s)
                   then process_last_write_to_prior_channel_event E ep (unlatch_last_write ep s)
                   else Some s) = Some s'"
      by (auto simp: run_upgrade_protocol_def Let_def elim!: bind_SomeE)
    have s3: "bwu_acts E ep s0 s3" by (rule acts_ch_write [OF w s2])
    have "length (heap s3) = length (heap s)"
      using w len by (auto simp: ch_write_def set_chan_def replace_channel_def)
    then have s4: "bwu_acts E ep s0 (park_channel ep old s3)"
      using s3 old by (intro acts_snoc [OF _ act_park]) simp_all
    from rest s3 s4 show ?thesis
      by (auto simp: Let_def split: if_splits) (erule acts_last_write, rule acts_simple)
  qed
qed

lemma acts_read_introduction:
  "read_client_introduction_frame E i s = Some (r, s') \<Longrightarrow> bwu_acts E ep s0 s \<Longrightarrow> bwu_acts E ep s0 s'"
  by (auto simp: read_client_introduction_frame_def elim!: bind_SomeE intro: acts_ch_read)

lemma acts_read_ack:
  "read_client_introduction_ack_frame E i s = Some (r, s') \<Longrightarrow> bwu_acts E ep s0 s \<Longrightarrow> bwu_acts E ep s0 s'"
  by (auto simp: read_client_introduction_ack_frame_def elim!: bind_SomeE intro: acts_ch_read)

lemma acts_write_ack:
  "write_client_introduction_ack_frame E i s = Some (r, s') \<Longrightarrow> bwu_acts E ep s0 s \<Longrightarrow> bwu_acts E ep s0 s'"
  by (auto simp: write_client_introduction_ack_frame_def elim!: bind_SomeE intro: acts_ch_write)

lemma acts_path_available_internal:
  "process_bwu_path_available_event_internal E ep info s = Some (r, s') \<Longrightarrow> bwu_acts E ep s0 s \<Longrightarrow>
   bwu_acts E ep s0 s'"
  unfolding process_bwu_path_available_event_internal_def Let_def alloc_chan_def
  by (auto split: if_splits option.splits elim!: bind_SomeE)
    (assumption | rule acts_simple acts_methods | erule acts_ch_write acts_create acts_read_ack)+

text \<open>The channel the responder gets is a fresh one.\<close>

lemma path_available_internal_ref:
  assumes "process_bwu_path_available_event_internal E ep info s = Some (Some i, s')"
  shows "i < length (heap s')"
proof -
  have w: "ch_write E j bs s = Some (e, s') \<Longrightarrow> length (heap s') = length (heap s)" for j bs e s s'
    by (auto simp: ch_write_def set_chan_def)
  have r: "read_client_introduction_ack_frame E j s = Some (a, s') \<Longrightarrow> length (heap s') = length (heap s)"
    for j a s s'
    by (auto simp: read_client_introduction_ack_frame_def ch_read_def set_chan_def elim!: bind_SomeE)
  show ?thesis
    using assms unfolding process_bwu_path_available_event_internal_def Let_def alloc_chan_def
    by (auto split: if_splits option.splits elim!: bind_SomeE dest!: w r)
qed

lemma acts_close_unfinished: "bwu_acts E ep s0 s \<Longrightarrow> bwu_acts E ep s0 (close_unfinished E ep s)"
  unfolding close_unfinished_def Let_def
  by (auto split: option.splits) (assumption | rule acts_simple acts_methods)+

lemma acts_path_available:
  assumes "process_bwu_path_available_event E ep info s = Some s'" and "bwu_wf s"
  shows "bwu_acts E ep s s'"
proof -
  define s1 where "s1 = (if get_bwu_medium_for_endpoint s ep = UnknownMedium
                  then set_bwu_medium_for_endpoint ep (upi_medium_of info) s else s)"
  have s1: "bwu_acts E ep s s1" by (simp add: s1_def acts_simple)
  have run: "bwu_acts E ep s s'"
    if "process_bwu_path_available_event_internal E ep info s1 = Some (Some i, s2)"
      "run_upgrade_protocol E ep i enc (insert_in_progress ep s2) = Some s'" for i s2 enc
  proof -
    have s2: "bwu_acts E ep s (insert_in_progress ep s2)"
      using acts_path_available_internal [OF that(1) s1] by (rule acts_simple)
    moreover have "i < length (heap (insert_in_progress ep s2))"
      using path_available_internal_ref [OF that(1)] by (simp add: insert_in_progress_def)
    ultimately show ?thesis
      using acts_run_upgrade_protocol [OF that(2)] acts_wf [OF s2 assms(2)] by blast
  qed
  show ?thesis
    using assms(1) s1 unfolding process_bwu_path_available_event_def Let_def s1_def [symmetric]
    by (auto split: if_splits option.splits elim!: bind_SomeE)
      (assumption | rule acts_close_unfinished acts_simple
        | erule acts_failed acts_path_available_internal | erule (1) run)+
qed

lemma acts_incoming_connection:
  assumes "on_incoming_connection E i s = Some s'" and "bwu_wf s" and "i < length (heap s)"
  shows "\<exists>ep. bwu_acts E ep s s'"
proof -
  have run: "bwu_acts E ep s s'"
    if "read_client_introduction_frame E i s = Some (r, s1)"
      "write_client_introduction_ack_frame E i s1 = Some (w, s2)"
      "run_upgrade_protocol E ep i enc (cancel_retry_upgrade_alarm ep s2) = Some s'" for r s1 w s2 ep enc
  proof -
    have s2: "bwu_acts E ep s (cancel_retry_upgrade_alarm ep s2)"
      by (rule acts_simple acts_write_ack [OF that(2)] acts_read_introduction [OF that(1)])+
    with assms(2,3) show ?thesis
      using acts_run_upgrade_protocol [OF that(3)] acts_wf [OF s2] acts_heap [OF s2] by fastforce
  qed
  show ?thesis
    using assms(1) unfolding on_incoming_connection_def
    by (auto split: if_splits option.splits elim!: bind_SomeE)
      (rule exI, (assumption | rule acts_methods acts_simple
        | erule acts_write_ack acts_read_introduction | erule (2) run)+)+
qed

lemma acts_frame:
  assumes "on_incoming_frame E n frame ep m s = Some s'" and "bwu_wf s"
  shows "bwu_acts E ep s s'"
  using assms unfolding on_incoming_frame_def on_bwu_negotiation_frame_def Let_def
  by (auto split: if_splits option.splits event_type.splits)
    (assumption | rule acts_simple | erule acts_failed acts_path_available
      acts_failure(1) [OF acts_initiate] acts_last_write acts_safe_to_close)+

lemma acts_endpoint_disconnect:
  "on_endpoint_disconnect E sid ep r s = Some s' \<Longrightarrow> bwu_acts E ep s s'"
  unfolding on_endpoint_disconnect_def Let_def
  by (auto split: if_splits option.splits elim!: bind_SomeE)
    (assumption | rule acts_simple acts_methods | erule acts_revert acts_disconnect)+

end
