(* ===== verification/Bwu_Testing.thy ===== *)
theory Bwu_Testing
  imports Bwu_Handler Validator
begin

text \<open>
  \<^verbatim>\<open>src/bwu/testing.rs\<close>: the test doubles the crate ships. They are complete
  implementations of the two traits, so they instantiate every contract of the development:
  \<^verbatim>\<open>FakeEndpointChannel\<close> the locale \<^verbatim>\<open>endpoint_channel\<close>, \<^verbatim>\<open>FakeBwuHandler\<close> inside a
  \<^verbatim>\<open>BaseBwuHandler\<close> the locale \<^verbatim>\<open>upgrade_handler\<close>.
\<close>

section \<open>The fake channel\<close>

record fake_endpoint_channel =
  fc_medium :: medium
  fc_service_id :: string
  read_output :: "exception + bytes"
  write_output :: exception
  is_closed :: bool
  disconnection_reason_of :: disconnection_reason
  fc_is_paused :: bool
  fc_local_endpoint_id :: string
  wrote_anything :: bool

definition fake_endpoint_channel_new :: "medium \<Rightarrow> string \<Rightarrow> fake_endpoint_channel" where
  "fake_endpoint_channel_new m sid =
     \<lparr>fc_medium = m, fc_service_id = sid, read_output = Inl Failed, write_output = Success,
      is_closed = False, disconnection_reason_of = UnknownDisconnectionReason,
      fc_is_paused = False, fc_local_endpoint_id = [], wrote_anything = False\<rparr>"

definition set_read_output :: "exception + bytes \<Rightarrow> fake_endpoint_channel \<Rightarrow> fake_endpoint_channel" where
  "set_read_output out c = c\<lparr>read_output := out\<rparr>"

definition set_write_output :: "exception \<Rightarrow> fake_endpoint_channel \<Rightarrow> fake_endpoint_channel" where
  "set_write_output out c = c\<lparr>write_output := out\<rparr>"

definition fake_channel_ops :: "fake_endpoint_channel channel_ops" where
  "fake_channel_ops =
     \<lparr>op_read = \<lambda>c. Some (read_output c, c),
      op_write = \<lambda>c data. (let c = c\<lparr>wrote_anything := True\<rparr> in Some (write_output c, c)),
      op_close = \<lambda>c. c\<lparr>is_closed := True\<rparr>,
      op_close_with_reason = \<lambda>c reason. c\<lparr>is_closed := True, disconnection_reason_of := reason\<rparr>,
      op_medium = fc_medium,
      op_service_id = fc_service_id,
      op_name = \<lambda>c. ''fake-channel-'' @ fc_service_id c,
      op_channel_type = \<lambda>c. ''fake-channel-type'',
      op_local_endpoint_id = fc_local_endpoint_id,
      op_set_local_endpoint_id = \<lambda>c s. c\<lparr>fc_local_endpoint_id := s\<rparr>,
      op_pause = \<lambda>c. c\<lparr>fc_is_paused := True\<rparr>,
      op_resume = \<lambda>c. c\<lparr>fc_is_paused := False\<rparr>,
      op_is_paused = fc_is_paused,
      op_enable_encryption = \<lambda>c k. c,
      op_disable_encryption = \<lambda>c. c\<rparr>"

interpretation fake_channel: endpoint_channel fake_channel_ops is_closed
  by unfold_locales (auto simp: fake_channel_ops_def Let_def elim!: chan_stepE)

section \<open>The fake handler\<close>

record input_data =
  in_client_id :: i64
  in_service_id :: "string option"
  in_endpoint_id :: "string option"

definition input_data_default :: input_data where
  "input_data_default = \<lparr>in_client_id = 0, in_service_id = None, in_endpoint_id = None\<rparr>"

record fake_bwu_handler =
  fh_medium :: medium
  create_calls :: "input_data list"
  disconnect_calls :: "input_data list"
  handle_initialize_calls :: "input_data list"
  handle_revert_calls :: "input_data list"

definition fake_bwu_handler_new :: "medium \<Rightarrow> fake_bwu_handler" where
  "fake_bwu_handler_new m = \<lparr>fh_medium = m, create_calls = [], disconnect_calls = [],
     handle_initialize_calls = [], handle_revert_calls = []\<rparr>"

definition fake_hotspot_credentials :: wifi_hotspot_credentials where
  "fake_hotspot_credentials = wifi_hotspot_credentials_default\<lparr>
     wh_ssid := Some ''Direct-357a2d8c'', wh_password := Some ''b592f7d3'', wh_port := Some 1234,
     wh_frequency := Some 2412, wh_gateway := Some ''123.234.23.1'',
     wh_address_candidates :=
       [\<lparr>sa_ip_address = Some [0xfe, 0x80, 0x00, 0x00, 0x00, 0x00, 0x00, 0x00, 0x4d, 0xb2, 0xb3,
           0x5c, 0x22, 0x03, 0x98, 0xa1], sa_port = Some 1234\<rparr>,
        \<lparr>sa_ip_address = Some [0x7b, 0xea, 0x17, 0x01], sa_port = Some 2412\<rparr>]\<rparr>"

fun path_available_bytes :: "(offline_frame \<Rightarrow> bytes) \<Rightarrow> medium \<Rightarrow> string \<Rightarrow> bytes" where
  "path_available_bytes enc Bluetooth sid =
     for_bwu_bluetooth_path_available enc sid ''01:02:03:04:05:06''"
| "path_available_bytes enc WifiLan sid =
     for_bwu_wifi_lan_path_available enc [\<lparr>address = [0x41, 0x42, 0x43, 0x44], addr_port = 1234\<rparr>]"
| "path_available_bytes enc WebRtc sid =
     for_bwu_webrtc_path_available enc ''peer-id'' location_hint_default"
| "path_available_bytes enc WebRtcNonCellular sid =
     for_bwu_webrtc_path_available enc ''peer-id'' location_hint_default"
| "path_available_bytes enc WifiHotspot sid =
     for_bwu_wifi_hotspot_path_available enc fake_hotspot_credentials False"
| "path_available_bytes enc WifiDirect sid =
     for_bwu_wifi_direct_path_available enc [] [] 2143 2412 False ''123.234.23.1''
       ''NC-WifiDirectTest'' ''b592f7d3''"
| "path_available_bytes enc _ sid = []"

definition fake_handle_initialize_upgraded_medium_for_endpoint ::
    "(offline_frame \<Rightarrow> bytes) \<Rightarrow> client_proxy \<Rightarrow> string \<Rightarrow> string \<Rightarrow> fake_bwu_handler
      \<Rightarrow> (bytes \<times> fake_bwu_handler) option" where
  "fake_handle_initialize_upgraded_medium_for_endpoint enc cl sid ep h =
     Some (path_available_bytes enc (fh_medium h) sid,
       h\<lparr>handle_initialize_calls := handle_initialize_calls h @
           [\<lparr>in_client_id = client_id cl, in_service_id = Some sid, in_endpoint_id = Some ep\<rparr>]\<rparr>)"

definition fake_handle_revert_initiator_state_for_service ::
    "string \<Rightarrow> fake_bwu_handler \<Rightarrow> fake_bwu_handler option" where
  "fake_handle_revert_initiator_state_for_service sid h =
     Some (h\<lparr>handle_revert_calls := handle_revert_calls h @
                [input_data_default\<lparr>in_service_id := Some sid\<rparr>]\<rparr>)"

definition fake_create_upgraded_endpoint_channel ::
    "client_proxy \<Rightarrow> string \<Rightarrow> string \<Rightarrow> upgrade_path_info \<Rightarrow> fake_bwu_handler
      \<Rightarrow> (fake_endpoint_channel option \<times> fake_bwu_handler) option" where
  "fake_create_upgraded_endpoint_channel cl sid ep info h =
     Some (Some (fake_endpoint_channel_new (fh_medium h) sid),
       h\<lparr>create_calls := create_calls h @
           [\<lparr>in_client_id = client_id cl, in_service_id = Some sid, in_endpoint_id = Some ep\<rparr>]\<rparr>)"

definition fake_on_endpoint_disconnect ::
    "client_proxy \<Rightarrow> string \<Rightarrow> fake_bwu_handler \<Rightarrow> fake_bwu_handler option" where
  "fake_on_endpoint_disconnect cl ep h =
     Some (h\<lparr>disconnect_calls := disconnect_calls h @
       [input_data_default\<lparr>in_client_id := client_id cl, in_endpoint_id := Some ep\<rparr>]\<rparr>)"

definition fake_medium_ops ::
    "(offline_frame \<Rightarrow> bytes) \<Rightarrow> (fake_endpoint_channel, fake_bwu_handler) medium_handler_ops" where
  "fake_medium_ops enc =
     \<lparr>m_handle_initialize_upgraded_medium_for_endpoint =
        fake_handle_initialize_upgraded_medium_for_endpoint enc,
      m_handle_revert_initiator_state_for_service = fake_handle_revert_initiator_state_for_service,
      m_create_upgraded_endpoint_channel = fake_create_upgraded_endpoint_channel,
      m_get_upgrade_medium = fh_medium,
      m_on_endpoint_disconnect = fake_on_endpoint_disconnect\<rparr>"

type_synonym fake_handler = "fake_bwu_handler base_bwu_handler"

definition fake_handler_ops ::
    "(offline_frame \<Rightarrow> bytes) \<Rightarrow> (fake_endpoint_channel, fake_handler) handler_ops" where
  "fake_handler_ops enc = base_handler_ops (fake_medium_ops enc)"

lemmas fake_defs = fake_channel_ops_def fake_endpoint_channel_new_def fake_medium_ops_def
  fake_handler_ops_def fake_bwu_handler_new_def
  fake_handle_initialize_upgraded_medium_for_endpoint_def
  fake_handle_revert_initiator_state_for_service_def fake_create_upgraded_endpoint_channel_def
  fake_on_endpoint_disconnect_def input_data_default_def

theorem base_handler_refinement_witness:
  "base_wf (base_bwu_handler_new (fake_bwu_handler_new WifiLan))
   \<and> map_option base_abs (base_revert_initiator_state_for_endpoint (fake_medium_ops (\<lambda>f. [1]))
        ''S_UPGRADE'' ''e'' (base_bwu_handler_new (fake_bwu_handler_new WifiLan)))
     = spec_revert_for_endpoint (fake_medium_ops (\<lambda>f. [1])) ''S_UPGRADE'' ''e''
         (base_abs (base_bwu_handler_new (fake_bwu_handler_new WifiLan)))"
  using base_handler_refinement [OF base_wf_new, where mops = "fake_medium_ops (\<lambda>f. [1])"]
  by (intro conjI base_wf_new) metis

end
