(* ===== verification/Bwu_Invariants.thy ===== *)
theory Bwu_Invariants
  imports Bwu_Actions Bwu_Testing
begin

text \<open>
  The transition system of the manager under its owner: every operation the owner can call,
  the registrations and client updates it makes in between, and what other threads do to the
  channels. The invariants of the reachable states follow from the paths of actions of
  theory \<^verbatim>\<open>Bwu_Actions\<close>.
\<close>

section \<open>The backoff sequence\<close>

text \<open>The delay of the retry after \<^verbatim>\<open>k\<close> retries, from the configuration alone.\<close>

fun backoff :: "bwu_config \<Rightarrow> nat \<Rightarrow> duration" where
  "backoff c 0 = bandwidth_upgrade_retry_delay c"
| "backoff c (Suc k) =
     min (if use_exp_backoff_in_bwu_retry c then backoff c k * 2
          else backoff c k + bandwidth_upgrade_retry_delay c)
       (bandwidth_upgrade_retry_max_delay c)"

lemma backoff_closed_form:
  assumes "bandwidth_upgrade_retry_delay c \<le> bandwidth_upgrade_retry_max_delay c"
  shows "backoff c k =
    (if use_exp_backoff_in_bwu_retry c
     then min (bandwidth_upgrade_retry_delay c * 2 ^ k) (bandwidth_upgrade_retry_max_delay c)
     else min (bandwidth_upgrade_retry_delay c * Suc k) (bandwidth_upgrade_retry_max_delay c))"
  using assms by (induction k) (auto simp: min_def)

lemma backoff_bounded:
  "backoff c k \<le> max (bandwidth_upgrade_retry_delay c) (bandwidth_upgrade_retry_max_delay c)"
  by (cases k) auto

lemma calculate_next_backoff:
  assumes "hm_get (retry_delays s) ep = Some (backoff (config s) k)"
    and "calculate_next_retry_delay s ep = Some d"
  shows "d = backoff (config s) (Suc k)"
  using assms
  by (auto simp: calculate_next_retry_delay_def Let_def duration_mul_def duration_add_def
      split: if_splits)

section \<open>Invariants\<close>

definition retry_inv :: "('ch, 'h) bwu_state \<Rightarrow> bool" where
  "retry_inv s \<longleftrightarrow>
     (\<forall>ep d. hm_get (retry_upgrade_alarms s) ep = Some d \<longrightarrow> hm_get (retry_delays s) ep = Some d)
     \<and> (\<forall>ep d. hm_get (retry_delays s) ep = Some d \<longrightarrow> (\<exists>k. d = backoff (config s) k))"

definition flag_inv :: "('ch, 'h) bwu_state \<Rightarrow> bool" where
  "flag_inv s \<longleftrightarrow>
     (if support_multiple_bwu_mediums (config s) then bwu_medium s = UnknownMedium
      else endpoint_id_to_bwu_medium s = [])"

lemma act_retry_inv:
  assumes "bwu_act E ep s s'" and "retry_inv s"
  shows "retry_inv s'"
  using assms(1)
proof (cases rule: bwu_act.cases)
  case (act_schedule d)
  have "\<exists>k. d = backoff (config s) k"
  proof (cases "hm_get (retry_delays s) ep")
    case None
    with act_schedule have "d = backoff (config s) 0" by (simp add: calculate_next_retry_delay_def)
    then show ?thesis ..
  next
    case (Some l)
    with assms(2) obtain k where "l = backoff (config s) k" unfolding retry_inv_def by blast
    with Some act_schedule calculate_next_backoff [of s ep k d] show ?thesis by blast
  qed
  with act_schedule assms(2) show ?thesis by (auto simp: retry_inv_def schedule_retry_def)
qed (use assms(2) in \<open>simp_all add: retry_inv_def act_state_defs\<close>)

lemma act_flag_inv:
  assumes "bwu_act E ep s s'" and "flag_inv s"
  shows "flag_inv s'"
  using assms
  by (cases rule: bwu_act.cases) (simp_all add: flag_inv_def act_state_defs)

definition bwu_inv :: "('ch, 'h) bwu_state \<Rightarrow> bool" where
  "bwu_inv s \<longleftrightarrow> bwu_wf s \<and> retry_inv s \<and> flag_inv s"

lemma acts_inv: "bwu_acts E ep s s' \<Longrightarrow> bwu_inv s \<Longrightarrow> bwu_inv s'"
  unfolding bwu_inv_def
  by (induction rule: rtranclp_induct) (auto intro: act_wf act_retry_inv act_flag_inv)

section \<open>The transition system\<close>

inductive bwu_step ::
    "('ch, 'h) bwu_env \<Rightarrow> ('ch, 'h) bwu_state \<Rightarrow> ('ch, 'h) bwu_state \<Rightarrow> bool" for E where
  initiate: "initiate_bwu_for_endpoint E n ep m s = Some s' \<Longrightarrow> bwu_step E s s'"
| reset: "bwu_step E s (reset_upgrade_for_endpoint ep s)"
| frame: "on_incoming_frame E n f ep m s = Some s' \<Longrightarrow> bwu_step E s s'"
| connection: "on_incoming_connection E i s = Some s' \<Longrightarrow> i < length (heap s) \<Longrightarrow> bwu_step E s s'"
| disconnect: "on_endpoint_disconnect E sid ep r s = Some s' \<Longrightarrow> bwu_step E s s'"
| alarm: "fire_retry_alarm E n ep s = Some s' \<Longrightarrow> bwu_step E s s'"
| stop: "shutdown E s = Some s' \<Longrightarrow> bwu_step E s s'"
| register: "i < length (heap s) \<Longrightarrow>
    bwu_step E s (s\<lparr>ecm := register_channel_for_endpoint (client s) ep i (ecm s)\<rparr>)"
| unregister: "bwu_step E s (s\<lparr>ecm := snd (unregister_channel_for_endpoint ep r res (ecm s))\<rparr>)"
| client_update: "bandwidth_changed cl = bandwidth_changed (client s) \<Longrightarrow>
    bwu_step E s (s\<lparr>client := cl\<rparr>)"
| other_thread: "chan_step (chan_ops E) (chan_at s i) c \<Longrightarrow> bwu_step E s (set_chan i c s)"
| new_channel: "bwu_step E s (snd (alloc_chan c s))"

abbreviation bwu_reach ::
    "('ch, 'h) bwu_env \<Rightarrow> (medium, 'h) hash_map \<Rightarrow> bwu_config \<Rightarrow> client_proxy
      \<Rightarrow> ('ch, 'h) bwu_state \<Rightarrow> bool" where
  "bwu_reach E hs cfg cl \<equiv>
     (bwu_step E)\<^sup>*\<^sup>* (bwu_manager_new endpoint_channel_manager_new cl [] hs cfg)"

lemma revert_all_handlers_keys: "revert_all_handlers E hs = Some hs' \<Longrightarrow> hm_keys hs' = hm_keys hs"
  by (induction E hs arbitrary: hs' rule: revert_all_handlers.induct) (auto elim!: bind_SomeE)

lemma shutdown_state:
  assumes "shutdown E s = Some s'"
  obtains hs where "revert_all_handlers E (handlers s) = Some hs"
    and "s' = s\<lparr>handlers := hs, in_progress_upgrades := [], previous_endpoint_channels := [],
               successfully_upgraded_endpoints := [], retry_upgrade_alarms := [], retry_delays := []\<rparr>"
  using assms by (auto simp: shutdown_def cancel_all_retry_upgrade_alarms_def elim!: bind_SomeE)

text \<open>
  A step is a path of actions on one endpoint, the shutdown, or an update of the registry or
  the client by the owner.
\<close>

lemma step_kinds:
  assumes "bwu_step E s s'" and "bwu_wf s"
  obtains (path) ep where "bwu_acts E ep s s'"
  | (stopped) "shutdown E s = Some s'"
  | (unregistered) ep r res where "s' = s\<lparr>ecm := snd (unregister_channel_for_endpoint ep r res (ecm s))\<rparr>"
  | (client) cl where "s' = s\<lparr>client := cl\<rparr>"
  using assms(1)
proof (cases rule: bwu_step.cases)
  case (initiate n ep m)
  with acts_initiate show thesis by (blast intro: path)
next
  case (reset ep)
  then have "bwu_act E ep s s'" by (simp add: reset_upgrade_for_endpoint_def act_remove_in_progress)
  then show thesis by (blast intro: path)
next
  case (connection i)
  with acts_incoming_connection assms(2) show thesis by (blast intro: path)
next
  case (register i ep)
  then have "s' = replace_channel ep i True s"
    by (simp add: replace_channel_def register_is_replace [of _ _ _ _ True])
  moreover have "bwu_act E ep s (replace_channel ep i True s)" using register by (simp add: act_replace)
  ultimately show thesis by (intro path [of ep]) auto
next
  case (other_thread i c)
  then show thesis by (intro path [of "[]"]) (auto intro: act_chan)
next
  case (new_channel c)
  then show thesis by (intro path [of "[]"]) (auto simp: alloc_chan_def intro: act_alloc)
qed (use assms(2) in \<open>blast intro: path stopped unregistered client acts_frame
    acts_endpoint_disconnect acts_fire_retry_alarm\<close>)+

lemma unregister_fields:
  "endpoints (snd (unregister_channel_for_endpoint ep r res m)) = hm_remove ep (endpoints m)"
  by (simp add: unregister_channel_for_endpoint_def)

lemma step_inv:
  assumes "bwu_step E s s'" and "bwu_inv s"
  shows "bwu_inv s'"
proof -
  from assms(2) have "bwu_wf s" by (simp add: bwu_inv_def)
  with assms(1) show ?thesis
  proof (cases rule: step_kinds)
    case path
    with acts_inv assms(2) show ?thesis by blast
  next
    case stopped
    then obtain hs where "revert_all_handlers E (handlers s) = Some hs"
      and "s' = s\<lparr>handlers := hs, in_progress_upgrades := [], previous_endpoint_channels := [],
        successfully_upgraded_endpoints := [], retry_upgrade_alarms := [], retry_delays := []\<rparr>"
      by (rule shutdown_state)
    with assms(2) show ?thesis
      by (simp add: bwu_inv_def bwu_wf_def retry_inv_def flag_inv_def revert_all_handlers_keys)
  qed (use assms(2) in \<open>simp_all add: bwu_inv_def bwu_wf_def retry_inv_def flag_inv_def
      get_channel_for_endpoint_def unregister_fields\<close>)
qed

lemma new_inv: "hm_wf hs \<Longrightarrow> bwu_inv (bwu_manager_new endpoint_channel_manager_new cl [] hs cfg)"
  by (simp add: bwu_inv_def bwu_wf_def retry_inv_def flag_inv_def bwu_manager_new_def
      endpoint_channel_manager_new_def get_channel_for_endpoint_def)

lemma reach_inv:
  assumes "bwu_reach E hs cfg cl s" and "hm_wf hs"
  shows "bwu_inv s"
  using assms(1) by (induction rule: rtranclp_induct) (auto intro: new_inv step_inv assms(2))

section \<open>What never changes, and what only grows\<close>

lemma step_config:
  assumes "bwu_step E s s'" and "bwu_wf s"
  shows "config s' = config s \<and> set (hm_keys (handlers s')) = set (hm_keys (handlers s))"
  using assms
proof (cases rule: step_kinds)
  case path
  then show ?thesis using acts_config by blast
next
  case stopped
  then obtain hs where "revert_all_handlers E (handlers s) = Some hs" "handlers s' = hs"
    "config s' = config s" by (auto elim!: shutdown_state)
  then show ?thesis using revert_all_handlers_keys by metis
qed simp_all

lemma step_heap:
  assumes "bwu_step E s s'" and "bwu_wf s"
  shows "length (heap s) \<le> length (heap s')
    \<and> (\<forall>i < length (heap s). chan_steps (chan_ops E) (chan_at s i) (chan_at s' i))"
  using assms
proof (cases rule: step_kinds)
  case path
  then show ?thesis using acts_heap by blast
next
  case stopped
  then show ?thesis by (auto elim!: shutdown_state)
qed simp_all

lemma steps_heap:
  assumes "(bwu_step E)\<^sup>*\<^sup>* s s'" and "bwu_inv s"
  shows "bwu_inv s' \<and> length (heap s) \<le> length (heap s')
    \<and> (\<forall>i < length (heap s). chan_steps (chan_ops E) (chan_at s i) (chan_at s' i))"
  using assms
proof (induction rule: rtranclp_induct)
  case (step y z)
  then have y: "bwu_inv y" "length (heap s) \<le> length (heap y)"
    "\<forall>i < length (heap s). chan_steps (chan_ops E) (chan_at s i) (chan_at y i)" by auto
  with step_heap [OF step.hyps(2)] have "length (heap y) \<le> length (heap z)"
    "\<forall>i < length (heap y). chan_steps (chan_ops E) (chan_at y i) (chan_at z i)"
    by (auto simp: bwu_inv_def)
  with y step_inv [OF step.hyps(2)] show ?case
    by (meson le_trans order_less_le_trans rtranclp_trans)
qed simp

section \<open>Properties\<close>

text \<open>The environment of the crate's own tests: fake channels and fake handlers.\<close>

definition fake_env ::
    "(offline_frame \<Rightarrow> bytes) \<Rightarrow> (bytes \<Rightarrow> offline_frame option)
      \<Rightarrow> (fake_endpoint_channel, fake_handler) bwu_env" where
  "fake_env enc dec = \<lparr>chan_ops = fake_channel_ops, hand_ops = fake_handler_ops enc,
     encode_frame = enc, decode_frame = dec\<rparr>"

definition fake_handlers :: "medium list \<Rightarrow> (medium, fake_handler) hash_map" where
  "fake_handlers ms = map (\<lambda>m. (m, base_bwu_handler_new (fake_bwu_handler_new m))) ms"

definition fake_start :: "(fake_endpoint_channel, fake_handler) bwu_state" where
  "fake_start = bwu_manager_new endpoint_channel_manager_new (client_proxy_new 0 ''me'') []
     (fake_handlers [WifiLan]) bwu_config_default"

lemma fake_start_inv: "bwu_inv fake_start"
  unfolding fake_start_def by (rule new_inv) (simp add: fake_handlers_def)

text \<open>
  C6. In every reachable state, whatever frames, connections, timers, registrations and
  disconnects happened in whatever order and whatever other threads did to the channels: the
  maps have no duplicate keys and every channel reference is allocated, a pending retry alarm
  has exactly the delay recorded for its endpoint and that delay is a member of the backoff
  sequence, only the bookkeeping selected by the multiple-mediums flag is in use, and the
  configuration and the set of handlers are those of the start.
\<close>

theorem reachable_invariant:
  assumes "bwu_reach E hs cfg cl s" and "hm_wf hs"
  shows "bwu_wf s \<and> retry_inv s \<and> flag_inv s \<and> config s = resolve_config cfg
    \<and> set (hm_keys (handlers s)) = set (hm_keys hs)"
  using assms(1)
proof (induction rule: rtranclp_induct)
  case base
  then show ?case using new_inv [OF assms(2)] by (simp add: bwu_inv_def bwu_manager_new_def)
next
  case (step y z)
  then show ?case using step_inv [of E y z] step_config [of E y z] by (simp add: bwu_inv_def)
qed

theorem reachable_invariant_witness:
  "let s = reset_upgrade_for_endpoint ''e'' fake_start in
     bwu_wf s \<and> retry_inv s \<and> flag_inv s \<and> config s = resolve_config bwu_config_default
     \<and> set (hm_keys (handlers s)) = {WifiLan}"
proof -
  have "bwu_reach (fake_env (\<lambda>f. [1]) (\<lambda>bs. None)) (fake_handlers [WifiLan]) bwu_config_default
      (client_proxy_new 0 ''me'') (reset_upgrade_for_endpoint ''e'' fake_start)"
    unfolding fake_start_def by (rule r_into_rtranclp) (rule bwu_step.reset)
  from reachable_invariant [OF this] show ?thesis by (simp add: fake_handlers_def Let_def)
qed





text \<open>
  C31. The retry delays: with an initial delay that does not exceed the maximum, the delay
  after \<^verbatim>\<open>k\<close> scheduled retries is the initial delay doubled \<^verbatim>\<open>k\<close> times (or added \<^verbatim>\<open>k\<close> times,
  with linear backoff), capped at the maximum; scheduling records it as the pending alarm, and
  the next computed delay is the next member of that sequence, without overflow.
\<close>

theorem retry_backoff:
  assumes "bandwidth_upgrade_retry_delay (config s) \<le> bandwidth_upgrade_retry_max_delay (config s)"
    and "bandwidth_upgrade_retry_max_delay (config s) * 2 \<le> duration_max"
    and "hm_get (retry_delays s) ep = (if k = 0 then None else Some (backoff (config s) (k - 1)))"
  shows "calculate_next_retry_delay s ep = Some (backoff (config s) k)
    \<and> backoff (config s) k =
        min (bandwidth_upgrade_retry_delay (config s) *
             (if use_exp_backoff_in_bwu_retry (config s) then 2 ^ k else Suc k))
          (bandwidth_upgrade_retry_max_delay (config s))
    \<and> (\<exists>s'. retry_upgrades_after_delay ep s = Some s'
         \<and> pending_retry_delay s' ep = Some (backoff (config s) k)
         \<and> hm_get (retry_delays s') ep = Some (backoff (config s) k) \<and> config s' = config s)"
proof -
  have next_delay: "calculate_next_retry_delay s ep = Some (backoff (config s) k)"
  proof (cases k)
    case 0
    with assms(3) show ?thesis by (simp add: calculate_next_retry_delay_def)
  next
    case (Suc j)
    moreover have "backoff (config s) j \<le> bandwidth_upgrade_retry_max_delay (config s)"
      using backoff_bounded [of "config s" j] assms(1) by simp
    ultimately show ?thesis using assms
      by (simp add: calculate_next_retry_delay_def Let_def duration_mul_def duration_add_def)
  qed
  then show ?thesis
    using backoff_closed_form [OF assms(1), of k]
    by (simp add: retry_upgrades_after_delay_def pending_retry_delay_def schedule_retry_def
        cancel_retry_upgrade_alarm_def)
qed

theorem retry_backoff_witness:
  "calculate_next_retry_delay (fake_start\<lparr>retry_delays := [(''e'', from_secs 3)]\<rparr>) ''e''
     = Some (from_secs 6)"
  using retry_backoff [of "fake_start\<lparr>retry_delays := [(''e'', from_secs 3)]\<rparr>" "''e''" 1]
  by (simp add: fake_start_def bwu_manager_new_def resolve_config_def bwu_config_default_def
      from_secs_def duration_max_def)

end
