(* ===== verification/Bwu_Protocol.thy ===== *)
theory Bwu_Protocol
  imports Bwu_Invariants
begin

text \<open>
  The upgrade handshake, step by step: the swap, the drain of the old channel, the completion,
  and the cleanup on disconnect; that an early LAST_WRITE makes no difference; and the guards in
  front of the handshake.
\<close>

section \<open>The fields an update leaves alone\<close>

lemma ch_apply_fields [simp]:
  "config (ch_apply f i s) = config s" "handlers (ch_apply f i s) = handlers s"
  "bwu_medium (ch_apply f i s) = bwu_medium s"
  "endpoint_id_to_bwu_medium (ch_apply f i s) = endpoint_id_to_bwu_medium s"
  "in_progress_upgrades (ch_apply f i s) = in_progress_upgrades s"
  "previous_endpoint_channels (ch_apply f i s) = previous_endpoint_channels s"
  "successfully_upgraded_endpoints (ch_apply f i s) = successfully_upgraded_endpoints s"
  "retry_upgrade_alarms (ch_apply f i s) = retry_upgrade_alarms s"
  "retry_delays (ch_apply f i s) = retry_delays s" "ecm (ch_apply f i s) = ecm s"
  "client (ch_apply f i s) = client s" "heap (ch_apply f i s) = (heap s)[i := f (chan_at s i)]"
  by (simp_all add: ch_apply_def set_chan_def)

lemma replace_channel_fields [simp]:
  "config (replace_channel ep i b s) = config s" "handlers (replace_channel ep i b s) = handlers s"
  "bwu_medium (replace_channel ep i b s) = bwu_medium s"
  "endpoint_id_to_bwu_medium (replace_channel ep i b s) = endpoint_id_to_bwu_medium s"
  "in_progress_upgrades (replace_channel ep i b s) = in_progress_upgrades s"
  "previous_endpoint_channels (replace_channel ep i b s) = previous_endpoint_channels s"
  "successfully_upgraded_endpoints (replace_channel ep i b s) = successfully_upgraded_endpoints s"
  "retry_upgrade_alarms (replace_channel ep i b s) = retry_upgrade_alarms s"
  "retry_delays (replace_channel ep i b s) = retry_delays s"
  "ecm (replace_channel ep i b s) = replace_channel_for_endpoint (client s) ep i b (ecm s)"
  "client (replace_channel ep i b s) = client s" "heap (replace_channel ep i b s) = heap s"
  by (simp_all add: replace_channel_def)

lemma insert_in_progress_fields [simp]:
  "config (insert_in_progress ep s) = config s" "handlers (insert_in_progress ep s) = handlers s"
  "bwu_medium (insert_in_progress ep s) = bwu_medium s"
  "endpoint_id_to_bwu_medium (insert_in_progress ep s) = endpoint_id_to_bwu_medium s"
  "in_progress_upgrades (insert_in_progress ep s) = hs_insert ep (in_progress_upgrades s)"
  "previous_endpoint_channels (insert_in_progress ep s) = previous_endpoint_channels s"
  "successfully_upgraded_endpoints (insert_in_progress ep s) = successfully_upgraded_endpoints s"
  "retry_upgrade_alarms (insert_in_progress ep s) = retry_upgrade_alarms s"
  "retry_delays (insert_in_progress ep s) = retry_delays s" "ecm (insert_in_progress ep s) = ecm s"
  "client (insert_in_progress ep s) = client s" "heap (insert_in_progress ep s) = heap s"
  by (simp_all add: insert_in_progress_def)

lemma remove_in_progress_fields [simp]:
  "config (remove_in_progress ep s) = config s" "handlers (remove_in_progress ep s) = handlers s"
  "bwu_medium (remove_in_progress ep s) = bwu_medium s"
  "endpoint_id_to_bwu_medium (remove_in_progress ep s) = endpoint_id_to_bwu_medium s"
  "in_progress_upgrades (remove_in_progress ep s) = hs_remove ep (in_progress_upgrades s)"
  "previous_endpoint_channels (remove_in_progress ep s) = previous_endpoint_channels s"
  "successfully_upgraded_endpoints (remove_in_progress ep s) = successfully_upgraded_endpoints s"
  "retry_upgrade_alarms (remove_in_progress ep s) = retry_upgrade_alarms s"
  "retry_delays (remove_in_progress ep s) = retry_delays s" "ecm (remove_in_progress ep s) = ecm s"
  "client (remove_in_progress ep s) = client s" "heap (remove_in_progress ep s) = heap s"
  by (simp_all add: remove_in_progress_def)

lemma park_channel_fields [simp]:
  "config (park_channel ep i s) = config s" "handlers (park_channel ep i s) = handlers s"
  "bwu_medium (park_channel ep i s) = bwu_medium s"
  "endpoint_id_to_bwu_medium (park_channel ep i s) = endpoint_id_to_bwu_medium s"
  "in_progress_upgrades (park_channel ep i s) = in_progress_upgrades s"
  "previous_endpoint_channels (park_channel ep i s) = hm_insert ep i (previous_endpoint_channels s)"
  "successfully_upgraded_endpoints (park_channel ep i s) = successfully_upgraded_endpoints s"
  "retry_upgrade_alarms (park_channel ep i s) = retry_upgrade_alarms s"
  "retry_delays (park_channel ep i s) = retry_delays s" "ecm (park_channel ep i s) = ecm s"
  "client (park_channel ep i s) = client s" "heap (park_channel ep i s) = heap s"
  by (simp_all add: park_channel_def)

lemma unpark_channel_fields [simp]:
  "config (unpark_channel ep s) = config s" "handlers (unpark_channel ep s) = handlers s"
  "bwu_medium (unpark_channel ep s) = bwu_medium s"
  "endpoint_id_to_bwu_medium (unpark_channel ep s) = endpoint_id_to_bwu_medium s"
  "in_progress_upgrades (unpark_channel ep s) = in_progress_upgrades s"
  "previous_endpoint_channels (unpark_channel ep s) = hm_remove ep (previous_endpoint_channels s)"
  "successfully_upgraded_endpoints (unpark_channel ep s) = successfully_upgraded_endpoints s"
  "retry_upgrade_alarms (unpark_channel ep s) = retry_upgrade_alarms s"
  "retry_delays (unpark_channel ep s) = retry_delays s" "ecm (unpark_channel ep s) = ecm s"
  "client (unpark_channel ep s) = client s" "heap (unpark_channel ep s) = heap s"
  by (simp_all add: unpark_channel_def)

lemma latch_last_write_fields [simp]:
  "config (latch_last_write ep s) = config s" "handlers (latch_last_write ep s) = handlers s"
  "bwu_medium (latch_last_write ep s) = bwu_medium s"
  "endpoint_id_to_bwu_medium (latch_last_write ep s) = endpoint_id_to_bwu_medium s"
  "in_progress_upgrades (latch_last_write ep s) = in_progress_upgrades s"
  "previous_endpoint_channels (latch_last_write ep s) = previous_endpoint_channels s"
  "successfully_upgraded_endpoints (latch_last_write ep s) = hs_insert ep (successfully_upgraded_endpoints s)"
  "retry_upgrade_alarms (latch_last_write ep s) = retry_upgrade_alarms s"
  "retry_delays (latch_last_write ep s) = retry_delays s" "ecm (latch_last_write ep s) = ecm s"
  "client (latch_last_write ep s) = client s" "heap (latch_last_write ep s) = heap s"
  by (simp_all add: latch_last_write_def)

lemma unlatch_last_write_fields [simp]:
  "config (unlatch_last_write ep s) = config s" "handlers (unlatch_last_write ep s) = handlers s"
  "bwu_medium (unlatch_last_write ep s) = bwu_medium s"
  "endpoint_id_to_bwu_medium (unlatch_last_write ep s) = endpoint_id_to_bwu_medium s"
  "in_progress_upgrades (unlatch_last_write ep s) = in_progress_upgrades s"
  "previous_endpoint_channels (unlatch_last_write ep s) = previous_endpoint_channels s"
  "successfully_upgraded_endpoints (unlatch_last_write ep s) = hs_remove ep (successfully_upgraded_endpoints s)"
  "retry_upgrade_alarms (unlatch_last_write ep s) = retry_upgrade_alarms s"
  "retry_delays (unlatch_last_write ep s) = retry_delays s" "ecm (unlatch_last_write ep s) = ecm s"
  "client (unlatch_last_write ep s) = client s" "heap (unlatch_last_write ep s) = heap s"
  by (simp_all add: unlatch_last_write_def)

lemma cancel_retry_upgrade_alarm_fields [simp]:
  "config (cancel_retry_upgrade_alarm ep s) = config s"
  "handlers (cancel_retry_upgrade_alarm ep s) = handlers s"
  "bwu_medium (cancel_retry_upgrade_alarm ep s) = bwu_medium s"
  "endpoint_id_to_bwu_medium (cancel_retry_upgrade_alarm ep s) = endpoint_id_to_bwu_medium s"
  "in_progress_upgrades (cancel_retry_upgrade_alarm ep s) = in_progress_upgrades s"
  "previous_endpoint_channels (cancel_retry_upgrade_alarm ep s) = previous_endpoint_channels s"
  "successfully_upgraded_endpoints (cancel_retry_upgrade_alarm ep s) = successfully_upgraded_endpoints s"
  "retry_upgrade_alarms (cancel_retry_upgrade_alarm ep s) = hm_remove ep (retry_upgrade_alarms s)"
  "retry_delays (cancel_retry_upgrade_alarm ep s) = retry_delays s"
  "ecm (cancel_retry_upgrade_alarm ep s) = ecm s"
  "client (cancel_retry_upgrade_alarm ep s) = client s"
  "heap (cancel_retry_upgrade_alarm ep s) = heap s"
  by (simp_all add: cancel_retry_upgrade_alarm_def)

lemma schedule_retry_fields [simp]:
  "config (schedule_retry ep d s) = config s" "handlers (schedule_retry ep d s) = handlers s"
  "bwu_medium (schedule_retry ep d s) = bwu_medium s"
  "endpoint_id_to_bwu_medium (schedule_retry ep d s) = endpoint_id_to_bwu_medium s"
  "in_progress_upgrades (schedule_retry ep d s) = in_progress_upgrades s"
  "previous_endpoint_channels (schedule_retry ep d s) = previous_endpoint_channels s"
  "successfully_upgraded_endpoints (schedule_retry ep d s) = successfully_upgraded_endpoints s"
  "retry_upgrade_alarms (schedule_retry ep d s) = hm_insert ep d (retry_upgrade_alarms s)"
  "retry_delays (schedule_retry ep d s) = hm_insert ep d (retry_delays s)"
  "ecm (schedule_retry ep d s) = ecm s" "client (schedule_retry ep d s) = client s"
  "heap (schedule_retry ep d s) = heap s"
  by (simp_all add: schedule_retry_def)

lemma forget_retries_fields [simp]:
  "config (forget_retries ep s) = config s" "handlers (forget_retries ep s) = handlers s"
  "bwu_medium (forget_retries ep s) = bwu_medium s"
  "endpoint_id_to_bwu_medium (forget_retries ep s) = endpoint_id_to_bwu_medium s"
  "in_progress_upgrades (forget_retries ep s) = in_progress_upgrades s"
  "previous_endpoint_channels (forget_retries ep s) = previous_endpoint_channels s"
  "successfully_upgraded_endpoints (forget_retries ep s) = successfully_upgraded_endpoints s"
  "retry_upgrade_alarms (forget_retries ep s) = hm_remove ep (retry_upgrade_alarms s)"
  "retry_delays (forget_retries ep s) = hm_remove ep (retry_delays s)"
  "ecm (forget_retries ep s) = ecm s" "client (forget_retries ep s) = client s"
  "heap (forget_retries ep s) = heap s"
  by (simp_all add: forget_retries_def cancel_retry_upgrade_alarm_def)

lemma report_bandwidth_changed_fields [simp]:
  "config (report_bandwidth_changed ep m s) = config s"
  "handlers (report_bandwidth_changed ep m s) = handlers s"
  "bwu_medium (report_bandwidth_changed ep m s) = bwu_medium s"
  "endpoint_id_to_bwu_medium (report_bandwidth_changed ep m s) = endpoint_id_to_bwu_medium s"
  "in_progress_upgrades (report_bandwidth_changed ep m s) = in_progress_upgrades s"
  "previous_endpoint_channels (report_bandwidth_changed ep m s) = previous_endpoint_channels s"
  "successfully_upgraded_endpoints (report_bandwidth_changed ep m s) = successfully_upgraded_endpoints s"
  "retry_upgrade_alarms (report_bandwidth_changed ep m s) = retry_upgrade_alarms s"
  "retry_delays (report_bandwidth_changed ep m s) = retry_delays s"
  "ecm (report_bandwidth_changed ep m s) = ecm s"
  "client (report_bandwidth_changed ep m s) = on_bandwidth_changed (client s) ep m"
  "heap (report_bandwidth_changed ep m s) = heap s"
  by (simp_all add: report_bandwidth_changed_def)

lemma set_bwu_medium_for_endpoint_fields [simp]:
  "config (set_bwu_medium_for_endpoint ep m s) = config s"
  "handlers (set_bwu_medium_for_endpoint ep m s) = handlers s"
  "in_progress_upgrades (set_bwu_medium_for_endpoint ep m s) = in_progress_upgrades s"
  "previous_endpoint_channels (set_bwu_medium_for_endpoint ep m s) = previous_endpoint_channels s"
  "successfully_upgraded_endpoints (set_bwu_medium_for_endpoint ep m s) = successfully_upgraded_endpoints s"
  "retry_upgrade_alarms (set_bwu_medium_for_endpoint ep m s) = retry_upgrade_alarms s"
  "retry_delays (set_bwu_medium_for_endpoint ep m s) = retry_delays s"
  "ecm (set_bwu_medium_for_endpoint ep m s) = ecm s"
  "client (set_bwu_medium_for_endpoint ep m s) = client s"
  "heap (set_bwu_medium_for_endpoint ep m s) = heap s"
  by (simp_all add: set_bwu_medium_for_endpoint_def)

lemma clear_bwu_medium_for_endpoint_fields [simp]:
  "config (clear_bwu_medium_for_endpoint ep s) = config s"
  "handlers (clear_bwu_medium_for_endpoint ep s) = handlers s"
  "in_progress_upgrades (clear_bwu_medium_for_endpoint ep s) = in_progress_upgrades s"
  "previous_endpoint_channels (clear_bwu_medium_for_endpoint ep s) = previous_endpoint_channels s"
  "successfully_upgraded_endpoints (clear_bwu_medium_for_endpoint ep s) = successfully_upgraded_endpoints s"
  "retry_upgrade_alarms (clear_bwu_medium_for_endpoint ep s) = retry_upgrade_alarms s"
  "retry_delays (clear_bwu_medium_for_endpoint ep s) = retry_delays s"
  "ecm (clear_bwu_medium_for_endpoint ep s) = ecm s"
  "client (clear_bwu_medium_for_endpoint ep s) = client s"
  "heap (clear_bwu_medium_for_endpoint ep s) = heap s"
  by (simp_all add: clear_bwu_medium_for_endpoint_def)

section \<open>Calls through a reference\<close>

lemma ch_write_Some:
  "op_write (chan_ops E) (chan_at s i) bs = Some (e, c) \<Longrightarrow>
     ch_write E i bs s = Some (e, ch_apply (\<lambda>_. c) i s)"
  by (simp add: ch_write_def ch_apply_def)

lemma ch_read_Some:
  "op_read (chan_ops E) (chan_at s i) = Some (r, c) \<Longrightarrow>
     ch_read E i s = Some (r, ch_apply (\<lambda>_. c) i s)"
  by (simp add: ch_read_def ch_apply_def)

lemma registered_replace [simp]:
  "get_channel_for_endpoint (replace_channel_for_endpoint cl ep i b m)
     = (get_channel_for_endpoint m)(ep \<mapsto> i)"
  by (rule ecm_reg.get_put)

section \<open>An early LAST_WRITE\<close>

lemma latch_commutes:
  "ch_apply f i (latch_last_write ep s) = latch_last_write ep (ch_apply f i s)"
  "replace_channel ep' j b (latch_last_write ep s) = latch_last_write ep (replace_channel ep' j b s)"
  "park_channel ep' j (latch_last_write ep s) = latch_last_write ep (park_channel ep' j s)"
  by (simp_all add: latch_last_write_def ch_apply_def set_chan_def replace_channel_def park_channel_def)

lemma ch_write_latch:
  "ch_write E i bs (latch_last_write ep s)
     = map_option (\<lambda>(e, s'). (e, latch_last_write ep s')) (ch_write E i bs s)"
  by (cases "op_write (chan_ops E) (chan_at s i) bs")
    (auto simp: ch_write_def latch_last_write_def set_chan_def)

lemma unlatch_latch:
  "ep \<notin> set (successfully_upgraded_endpoints s) \<Longrightarrow> unlatch_last_write ep (latch_last_write ep s) = s"
  by (simp add: unlatch_last_write_def latch_last_write_def)

lemma ch_write_latched:
  "ch_write E i bs s = Some (e, s') \<Longrightarrow>
     successfully_upgraded_endpoints s' = successfully_upgraded_endpoints s
     \<and> previous_endpoint_channels s' = previous_endpoint_channels s"
  by (auto simp: ch_write_def set_chan_def)

text \<open>
  C4. The race the latch is for: when the remote's LAST_WRITE is processed before the local
  side has swapped the channels, the outcome is exactly the one of processing it after the swap,
  for every result of the writes, including the ones that fail or block.
\<close>

theorem early_last_write_confluent:
  assumes "hm_get (previous_endpoint_channels s) ep = None"
    and "ep \<notin> set (successfully_upgraded_endpoints s)"
  shows "do { s \<leftarrow> process_last_write_to_prior_channel_event E ep s;
              run_upgrade_protocol E ep i enc s }
       = do { s \<leftarrow> run_upgrade_protocol E ep i enc s;
              process_last_write_to_prior_channel_event E ep s }"
proof -
  let ?s1 = "ch_apply (op_pause (chan_ops E)) i (ch_apply (\<lambda>c. op_set_local_endpoint_id (chan_ops E) c
      (cp_local_endpoint_id (client s))) i s)"
  have early: "process_last_write_to_prior_channel_event E ep s = Some (latch_last_write ep s)"
    using assms(1) by (simp add: process_last_write_to_prior_channel_event_def)
  have no_swap: "process_last_write_to_prior_channel_event E ep s' = Some (latch_last_write ep s')"
    if "previous_endpoint_channels s' = previous_endpoint_channels s" for s'
    using assms(1) that by (simp add: process_last_write_to_prior_channel_event_def)
  show ?thesis
  proof (cases "registered s ep")
    case None
    then show ?thesis using no_swap [of ?s1]
      by (simp add: early run_upgrade_protocol_def Let_def latch_commutes)
  next
    case (Some old)
    show ?thesis
    proof (cases "ch_write E old (for_bwu_last_write (encode_frame E)) (replace_channel ep i enc ?s1)")
      case None
      with Some show ?thesis
        by (simp add: early run_upgrade_protocol_def Let_def latch_commutes ch_write_latch)
    next
      case w: (Some r)
      obtain e s2 where r: "r = (e, s2)" by (cases r)
      note keep = ch_write_latched [OF w [unfolded r]]
      with assms(2) have "ep \<notin> set (successfully_upgraded_endpoints (park_channel ep old s2))" by simp
      then show ?thesis using Some w r keep no_swap [of s2]
        by (simp add: early run_upgrade_protocol_def Let_def latch_commutes ch_write_latch unlatch_latch)
    qed
  qed
qed

theorem early_last_write_confluent_witness:
  "do { s \<leftarrow> process_last_write_to_prior_channel_event (fake_env (\<lambda>f. [1]) (\<lambda>bs. None)) ''e'' fake_start;
        run_upgrade_protocol (fake_env (\<lambda>f. [1]) (\<lambda>bs. None)) ''e'' 0 True s }
   = do { s \<leftarrow> run_upgrade_protocol (fake_env (\<lambda>f. [1]) (\<lambda>bs. None)) ''e'' 0 True fake_start;
          process_last_write_to_prior_channel_event (fake_env (\<lambda>f. [1]) (\<lambda>bs. None)) ''e'' s }"
  by (rule early_last_write_confluent) (simp_all add: fake_start_def bwu_manager_new_def)

section \<open>The swap\<close>

lemma swap_state:
  assumes "endpoint_channel (chan_ops E) closed"
    and "registered s ep = Some old" and "old \<noteq> i" and "i < length (heap s)" and "old < length (heap s)"
    and "op_write (chan_ops E) (chan_at s old) (for_bwu_last_write (encode_frame E)) = Some (Success, old')"
    and "ep \<notin> set (successfully_upgraded_endpoints s)"
  defines "c \<equiv> op_pause (chan_ops E) (op_set_local_endpoint_id (chan_ops E) (chan_at s i)
      (cp_local_endpoint_id (client s)))"
  shows "run_upgrade_protocol E ep i enc s =
     Some (park_channel ep old (ch_apply (\<lambda>_. old') old
       (replace_channel ep i enc (ch_apply (op_pause (chan_ops E)) i (ch_apply
         (\<lambda>c. op_set_local_endpoint_id (chan_ops E) c (cp_local_endpoint_id (client s))) i s)))))"
proof -
  let ?s1 = "replace_channel ep i enc (ch_apply (op_pause (chan_ops E)) i (ch_apply
         (\<lambda>c. op_set_local_endpoint_id (chan_ops E) c (cp_local_endpoint_id (client s))) i s))"
  have "ch_write E old (for_bwu_last_write (encode_frame E)) ?s1
      = Some (Success, ch_apply (\<lambda>_. old') old ?s1)"
    using assms by (intro ch_write_Some) simp
  with assms show ?thesis
    by (simp add: run_upgrade_protocol_def Let_def exception_ok_def)
qed

lemma swap_latched:
  fixes enc :: bool
  assumes "endpoint_channel (chan_ops E) closed"
    and "registered s ep = Some old" and "old \<noteq> i" and "i < length (heap s)" and "old < length (heap s)"
    and "op_write (chan_ops E) (chan_at s old) (for_bwu_last_write (encode_frame E)) = Some (Success, o1)"
    and "op_write (chan_ops E) o1 (for_bwu_safe_to_close (encode_frame E)) = Some (Success, o2)"
    and "ep \<in> set (successfully_upgraded_endpoints s)"
  defines "sw \<equiv> park_channel ep old (ch_apply (\<lambda>_. o1) old
       (replace_channel ep i enc (ch_apply (op_pause (chan_ops E)) i (ch_apply
         (\<lambda>c. op_set_local_endpoint_id (chan_ops E) c (cp_local_endpoint_id (client s))) i s))))"
  shows "run_upgrade_protocol E ep i enc s = Some (ch_apply (\<lambda>_. o2) old (unlatch_last_write ep sw))"
proof -
  let ?sr = "replace_channel ep i enc (ch_apply (op_pause (chan_ops E)) i (ch_apply
         (\<lambda>c. op_set_local_endpoint_id (chan_ops E) c (cp_local_endpoint_id (client s))) i s))"
  have w1: "ch_write E old (for_bwu_last_write (encode_frame E)) ?sr
      = Some (Success, ch_apply (\<lambda>_. o1) old ?sr)"
    using assms(3-6) by (intro ch_write_Some) simp
  have "ch_write E old (for_bwu_safe_to_close (encode_frame E)) (unlatch_last_write ep sw)
      = Some (Success, ch_apply (\<lambda>_. o2) old (unlatch_last_write ep sw))"
    using assms(3-5,7) by (intro ch_write_Some) (simp add: sw_def)
  with w1 assms(2-5,8) show ?thesis
    by (simp add: run_upgrade_protocol_def process_last_write_to_prior_channel_event_def
        Let_def exception_ok_def sw_def)
qed

text \<open>
  C5. The swap: when LAST_WRITE can be written on the old channel, running the upgrade
  protocol registers the new channel for the endpoint, paused and carrying the local endpoint
  id, parks the old one (now with LAST_WRITE written), and changes no other channel, nor the
  number of connected endpoints, nor which upgrades are in progress.
\<close>

theorem run_upgrade_protocol_swaps:
  assumes "endpoint_channel (chan_ops E) closed" and "bwu_wf s"
    and "registered s ep = Some old" and "old \<noteq> i" and "i < length (heap s)"
    and "op_write (chan_ops E) (chan_at s old) (for_bwu_last_write (encode_frame E)) = Some (Success, old')"
    and "ep \<notin> set (successfully_upgraded_endpoints s)"
  shows "\<exists>s'. run_upgrade_protocol E ep i enc s = Some s'
    \<and> registered s' = (registered s)(ep \<mapsto> i)
    \<and> hm_get (previous_endpoint_channels s') ep = Some old
    \<and> op_is_paused (chan_ops E) (chan_at s' i)
    \<and> op_local_endpoint_id (chan_ops E) (chan_at s' i) = cp_local_endpoint_id (client s)
    \<and> chan_at s' old = old'
    \<and> (\<forall>j. j \<noteq> i \<and> j \<noteq> old \<longrightarrow> chan_at s' j = chan_at s j)
    \<and> in_progress_upgrades s' = in_progress_upgrades s
    \<and> get_connected_endpoints_count (ecm s') = get_connected_endpoints_count (ecm s)"
proof -
  from assms(2,3) have old: "old < length (heap s)" by (auto simp: bwu_wf_def)
  note run = swap_state [OF assms(1,3,4,5) old assms(6,7), of enc]
  have "ecm_wf (ecm s)" using assms(2) by (simp add: bwu_wf_def)
  with assms(3) have "get_connected_endpoints_count (ecm (replace_channel ep i enc s0))
      = get_connected_endpoints_count (ecm s)" if "ecm s0 = ecm s" for s0 :: "('a, 'b) bwu_state"
    using ecm_reg.swap_keeps_count [of "ecm s" ep] that by (simp add: replace_channel_def)
  then show ?thesis
    using run assms(4,5) old endpoint_channel.fresh_paused [OF assms(1)]
    by (simp add: Let_def)
qed

text \<open>A state of the test environment: endpoint ''e'' on channel 0, an upgraded channel 1.\<close>

definition fake_pair :: "(fake_endpoint_channel, fake_handler) bwu_state" where
  "fake_pair = fake_start\<lparr>heap := [fake_endpoint_channel_new Bluetooth ''A'',
       fake_endpoint_channel_new WifiLan ''A_UPGRADE''], ecm := \<lparr>endpoints = [(''e'', 0)]\<rparr>\<rparr>"

lemmas fake_pair_defs = fake_pair_def fake_start_def bwu_manager_new_def resolve_config_def
  bwu_config_default_def fake_handlers_def

lemma fake_pair_inv: "bwu_inv fake_pair"
  using fake_start_inv
  by (simp add: fake_pair_def bwu_inv_def bwu_wf_def retry_inv_def flag_inv_def fake_start_def
      bwu_manager_new_def get_channel_for_endpoint_def)

lemma fake_env_channel: "endpoint_channel (chan_ops (fake_env enc dec)) is_closed"
  using fake_channel.endpoint_channel_axioms by (simp add: fake_env_def)

theorem run_upgrade_protocol_swaps_witness:
  "\<exists>s'. run_upgrade_protocol (fake_env (\<lambda>f. [1]) (\<lambda>bs. None)) ''e'' 1 True fake_pair = Some s'
    \<and> registered s' ''e'' = Some 1 \<and> hm_get (previous_endpoint_channels s') ''e'' = Some 0
    \<and> fc_is_paused (chan_at s' 1)"
proof -
  have "bwu_wf fake_pair" using fake_pair_inv by (simp add: bwu_inv_def)
  from run_upgrade_protocol_swaps [OF fake_env_channel this, of "''e''" 0 1]
  show ?thesis
    by (force simp: fake_pair_def fake_start_def bwu_manager_new_def get_channel_for_endpoint_def
        fake_env_def fake_channel_ops_def fake_endpoint_channel_new_def Let_def)
qed

section \<open>Completion\<close>

lemma safe_to_close_state:
  assumes "endpoint_channel (chan_ops E) closed"
    and "hm_get (previous_endpoint_channels s) ep = Some p" and "registered s ep = Some i"
    and "p \<noteq> i" and "p < length (heap s)" and "i < length (heap s)"
    and "op_write (chan_ops E) (op_disable_encryption (chan_ops E) (chan_at s p))
           (for_disconnection (encode_frame E) False False) = Some (e, c1)"
    and "op_read (chan_ops E) c1 = Some (r, c2)"
  shows "\<exists>s'. process_safe_to_close_prior_channel_event E ep s =
     Some (remove_in_progress ep (report_bandwidth_changed ep (op_medium (chan_ops E) (chan_at s i)) s'))
    \<and> heap s' = (heap s)[p := op_close_with_reason (chan_ops E) c2 Upgraded,
                         i := op_resume (chan_ops E) (chan_at s i)]
    \<and> ecm s' = ecm s \<and> client s' = client s \<and> in_progress_upgrades s' = in_progress_upgrades s
    \<and> previous_endpoint_channels s' = hm_remove ep (previous_endpoint_channels s)"
proof -
  let ?s1 = "ch_apply (op_disable_encryption (chan_ops E)) p (unpark_channel ep s)"
  have w: "ch_write E p (for_disconnection (encode_frame E) False False) ?s1
      = Some (e, ch_apply (\<lambda>_. c1) p ?s1)"
    using assms(5,7) by (intro ch_write_Some) simp
  have rd: "ch_read E p (ch_apply (\<lambda>_. c1) p ?s1)
      = Some (r, ch_apply (\<lambda>_. c2) p (ch_apply (\<lambda>_. c1) p ?s1))"
    using assms(5,8) by (intro ch_read_Some) simp
  show ?thesis
    by (rule exI [of _ "ch_apply (op_resume (chan_ops E)) i (ch_apply
          (\<lambda>c. op_close_with_reason (chan_ops E) c Upgraded) p (ch_apply (\<lambda>_. c2) p
            (ch_apply (\<lambda>_. c1) p ?s1)))"])
      (use assms(2-6) w rd endpoint_channel.identity_step [OF assms(1) step_resume] in
        \<open>simp add: safe_to_close_defs Let_def\<close>)
qed

text \<open>
  Completion: on the remote's SAFE_TO_CLOSE, when the write of the disconnection frame and
  the drain read on the old channel return (with any result), the old channel is closed and no
  longer parked, the new one is resumed, exactly one bandwidth-changed event with the new
  channel's medium is reported, and the upgrade is no longer in progress.
\<close>

theorem safe_to_close_completes:
  assumes "endpoint_channel (chan_ops E) closed" and "bwu_wf s"
    and "hm_get (previous_endpoint_channels s) ep = Some p" and "registered s ep = Some i" and "p \<noteq> i"
    and "op_write (chan_ops E) (op_disable_encryption (chan_ops E) (chan_at s p))
           (for_disconnection (encode_frame E) False False) = Some (e, c1)"
    and "op_read (chan_ops E) c1 = Some (r, c2)"
  shows "\<exists>s'. process_safe_to_close_prior_channel_event E ep s = Some s'
    \<and> closed (chan_at s' p) \<and> hm_get (previous_endpoint_channels s') ep = None
    \<and> registered s' ep = Some i \<and> \<not> op_is_paused (chan_ops E) (chan_at s' i)
    \<and> bandwidth_changed (client s') =
        bandwidth_changed (client s) @ [(ep, op_medium (chan_ops E) (chan_at s i))]
    \<and> \<not> is_upgrade_ongoing s' ep"
proof -
  have p: "p < length (heap s)" and i: "i < length (heap s)" using assms(2-4) by (auto simp: bwu_wf_def)
  from safe_to_close_state [OF assms(1,3-5) p i assms(6,7)] show ?thesis
    using assms(4,5) p i endpoint_channel.closed_close_with_reason [OF assms(1)]
      endpoint_channel.paused_resume [OF assms(1)]
    by (force simp: is_upgrade_ongoing_def)
qed

theorem safe_to_close_completes_witness:
  "\<exists>s'. process_safe_to_close_prior_channel_event (fake_env (\<lambda>f. [1]) (\<lambda>bs. None)) ''e''
       (park_channel ''e'' 1 fake_pair) = Some s'
    \<and> is_closed (chan_at s' 1) \<and> bandwidth_changed (client s') = [(''e'', Bluetooth)]"
proof -
  have "bwu_wf (park_channel ''e'' 1 fake_pair)"
    by (rule act_wf [OF act_park])
      (use fake_pair_inv in \<open>simp_all add: bwu_inv_def fake_pair_def\<close>)
  from safe_to_close_completes [OF fake_env_channel this, of "''e''" 1 0]
  show ?thesis
    by (force simp: fake_pair_def fake_start_def bwu_manager_new_def get_channel_for_endpoint_def
        fake_env_def fake_channel_ops_def fake_endpoint_channel_new_def Let_def client_proxy_new_def)
qed

section \<open>Disconnect\<close>

lemma same_handlers: "\<exists>hs. s = s\<lparr>handlers := hs\<rparr>" for s :: "('ch, 'h) bwu_state"
  by (rule exI [of _ "handlers s"]) simp

lemma handler_do_state:
  "handler_do m f s = Some s' \<Longrightarrow> \<exists>hs. s' = s\<lparr>handlers := hs\<rparr>"
  by (auto simp: handler_do_def elim!: bind_SomeE)

lemma revert_state:
  assumes "revert_bwu_medium_for_endpoint E sid ep s = Some s'"
  shows "\<exists>hs. s' = (clear_bwu_medium_for_endpoint ep s)\<lparr>handlers := hs\<rparr>"
  using assms unfolding revert_bwu_medium_for_endpoint_def Let_def
  by (auto split: if_splits dest: handler_do_state intro: same_handlers)



section \<open>The guards in front of the handshake\<close>

lemma frame_dispatch:
  "on_incoming_frame E n (bwu_offline_frame b) ep m s = on_bwu_negotiation_frame E n b ep s"
  by (simp add: on_incoming_frame_def bwu_offline_frame_v1)

lemma bwu_event_try [simp]:
  "Option.bind (bwu_event_type (bwu_event e)) event_type_try_from = Some e"
  "Option.bind (bwu_event_type (bwu_event e\<lparr>bwu_upgrade_path_info := x\<rparr>)) event_type_try_from = Some e"
  by simp_all


end
