(* ===== verification/Bwu_Retry.thy ===== *)
theory Bwu_Retry
  imports Bwu_Protocol
begin

text \<open>
  How far a failing upgrade falls through the list of mediums. \<^verbatim>\<open>initiate_bwu_for_endpoint\<close>
  calls itself through \<^verbatim>\<open>process_upgrade_failure_event\<close> and
  \<^verbatim>\<open>try_next_best_upgrade_mediums\<close>; the depth of that recursion is bounded by the number of
  mediums when they are pairwise different, and is not bounded otherwise.
\<close>

section \<open>The untried tail\<close>

definition untried_after :: "medium \<Rightarrow> medium list \<Rightarrow> medium list" where
  "untried_after m ms = tl (dropWhile (\<lambda>x. x \<noteq> m) ms)"

lemma untried_after_simps [simp]:
  "untried_after m [] = []"
  "untried_after m (a # ms) = (if a = m then ms else untried_after m ms)"
  by (simp_all add: untried_after_def)

text \<open>The loop never panics, and computes the tail after the first occurrence.\<close>

lemma untried_mediums_closed: "untried_mediums m ms ms = Some (untried_after m ms)"
  by (induction ms) auto

lemma untried_after_absent: "m \<notin> set ms \<Longrightarrow> untried_after m ms = []"
  by (induction ms) auto

lemma length_untried_after: "length (untried_after m ms) \<le> length ms"
  by (induction ms) auto

lemma length_untried_after_member: "m \<in> set ms \<Longrightarrow> length (untried_after m ms) < length ms"
  by (induction ms) (auto intro: less_SucI)

lemma untried_after_subset: "set (untried_after m ms) \<subseteq> set ms"
  by (induction ms) auto

lemma untried_after_decreases:
  "distinct ms \<Longrightarrow> m' \<in> set (untried_after m ms) \<Longrightarrow>
     length (untried_after m' ms) < length (untried_after m ms)"
  using untried_after_subset length_untried_after_member by (induction ms) (auto split: if_splits)

text \<open>The medium the failure path takes as the one last tried.\<close>

definition tried_medium :: "medium \<Rightarrow> medium" where
  "tried_medium m = upi_medium_of (upgrade_path_info_for_medium m)"

lemma tried_medium_eq: "tried_medium m = (if m = BleL2cap then UnknownMedium else m)"
  by (cases m) (simp_all add: tried_medium_def upi_medium_of_def upgrade_path_info_for_medium_def)

definition fall_depth :: "medium list \<Rightarrow> medium \<Rightarrow> nat" where
  "fall_depth ms m = length (untried_after (tried_medium m) ms)"

lemma fall_depth_decreases:
  assumes "distinct ms" and "UnknownMedium \<notin> set ms" and "m' \<in> set (untried_after t ms)"
  shows "fall_depth ms m' < length (untried_after t ms)"
proof (cases "m' = BleL2cap")
  case True
  with assms(2,3) show ?thesis
    by (auto simp: fall_depth_def tried_medium_eq untried_after_absent length_pos_if_in_set)
next
  case False
  with assms untried_after_decreases show ?thesis by (simp add: fall_depth_def tried_medium_eq)
qed

lemma fall_depth_le: "fall_depth ms m \<le> length ms"
  by (simp add: fall_depth_def length_untried_after)

section \<open>The recursion\<close>

text \<open>
  What the failure path hands to the recursive call: the next medium is one of the untried
  ones, and the state has the same client and only ran through actions.
\<close>

lemma choose_best_member:
  "choose_best_upgrade_medium s ep ms \<noteq> UnknownMedium \<Longrightarrow>
     choose_best_upgrade_medium s ep ms \<in> set ms"
  by (auto simp: choose_best_upgrade_medium_def strip_out_unavailable_mediums_def Let_def
      split: if_splits list.splits dest!: filter_eq_ConsD)

lemma try_next_best_cong:
  assumes "\<And>m. m \<in> set ms \<Longrightarrow> init1 ep m (set_bwu_medium_for_endpoint ep m s)
      = init2 ep m (set_bwu_medium_for_endpoint ep m s)"
  shows "try_next_best_upgrade_mediums E init1 ep ms s = try_next_best_upgrade_mediums E init2 ep ms s"
proof -
  have "has_handler_for_medium s (choose_best_upgrade_medium s ep ms) \<Longrightarrow>
      choose_best_upgrade_medium s ep ms \<in> set ms"
    by (rule choose_best_member) (simp add: has_handler_for_medium_def)
  with assms show ?thesis by (simp add: try_next_best_upgrade_mediums_def Let_def)
qed

lemma failure_event_cong:
  assumes "\<And>m s'. m \<in> set (untried_after (upi_medium_of info) (get_upgrade_mediums (client s) ep)) \<Longrightarrow>
      client s' = client s \<Longrightarrow> init1 ep m s' = init2 ep m s'"
  shows "process_upgrade_failure_event E init1 ep info s = process_upgrade_failure_event E init2 ep info s"
proof -
  have "try_next_best_upgrade_mediums E init1 ep
        (untried_after (upi_medium_of info) (get_upgrade_mediums (client s1) ep)) s1
      = try_next_best_upgrade_mediums E init2 ep
        (untried_after (upi_medium_of info) (get_upgrade_mediums (client s1) ep)) s1"
    if "client s1 = client s" for s1
    using that assms by (intro try_next_best_cong) simp
  moreover have "client s1 = client s"
    if "revert_bwu_medium_for_endpoint E sid ep (remove_in_progress ep s) = Some s1" for s1 sid
    using revert_state [OF that] by auto
  ultimately show ?thesis
    unfolding process_upgrade_failure_event_def Let_def untried_mediums_closed
    by (auto intro!: bind_option_cong split: if_splits)
qed

lemma handler_call_client: "handler_call m f s = Some (r, s') \<Longrightarrow> client s' = client s"
  by (auto simp: handler_call_def elim!: bind_SomeE)

lemma ch_write_client: "ch_write E i bs s = Some (e, s') \<Longrightarrow> client s' = client s"
  by (auto simp: ch_write_def set_chan_def)

lemma initiate_body_cong:
  assumes "\<And>m' s'. m' \<in> set (untried_after (tried_medium m) (get_upgrade_mediums (client s) ep)) \<Longrightarrow>
      client s' = client s \<Longrightarrow> init1 ep m' s' = init2 ep m' s'"
  shows "initiate_body E init1 ep m s = initiate_body E init2 ep m s"
proof -
  have fail: "process_upgrade_failure_event E init1 ep (upgrade_path_info_for_medium m) s'
      = process_upgrade_failure_event E init2 ep (upgrade_path_info_for_medium m) s'"
    if "client s' = client s" for s'
    using that assms by (intro failure_event_cong) (simp add: tried_medium_def)
  show ?thesis
    unfolding initiate_body_def Let_def
    by (auto intro!: bind_option_cong fail split: option.splits
        dest!: handler_call_client ch_write_client)
qed

lemma initiate_depth_stable:
  assumes "distinct ms" and "UnknownMedium \<notin> set ms" and "get_upgrade_mediums (client s) ep = ms"
    and "fall_depth ms m < n1" and "fall_depth ms m < n2"
  shows "initiate_bwu_for_endpoint E n1 ep m s = initiate_bwu_for_endpoint E n2 ep m s"
  using assms
proof (induction "fall_depth ms m" arbitrary: m s n1 n2 rule: less_induct)
  case less
  then obtain k1 k2 where k: "n1 = Suc k1" "n2 = Suc k2" by (metis less_nat_zero_code not0_implies_Suc)
  have "initiate_bwu_for_endpoint E k1 ep m' s' = initiate_bwu_for_endpoint E k2 ep m' s'"
    if "m' \<in> set (untried_after (tried_medium m) ms)" "client s' = client s" for m' s'
  proof -
    have "fall_depth ms m' < fall_depth ms m"
      using fall_depth_decreases [OF less.prems(1,2) that(1)] by (simp add: fall_depth_def)
    then show ?thesis using less.hyps [of m' s' k1 k2] less.prems k that(2) by simp
  qed
  then show ?case using less.prems(3) k by (auto intro!: initiate_body_cong)
qed

section \<open>Termination\<close>

text \<open>
  An environment in which every call returns: the channels accept a write or report an error,
  and the handlers return. (A paused channel that blocks, or a listener thread that is never
  joined, is what this excludes.)
\<close>

definition returning_env :: "('ch, 'h) bwu_env \<Rightarrow> bool" where
  "returning_env E \<longleftrightarrow>
     (\<forall>c bs. op_write (chan_ops E) c bs \<noteq> None)
     \<and> (\<forall>cl sid ep h. h_initialize_upgraded_medium_for_endpoint (hand_ops E) cl sid ep h \<noteq> None)
     \<and> (\<forall>h. h_revert_initiator_state (hand_ops E) h \<noteq> None)
     \<and> (\<forall>sid ep h. h_revert_initiator_state_for_endpoint (hand_ops E) sid ep h \<noteq> None)
     \<and> (\<forall>sid h. h_revert_responder_state (hand_ops E) sid h \<noteq> None)"

definition config_ok :: "bwu_config \<Rightarrow> bool" where
  "config_ok c \<longleftrightarrow> bandwidth_upgrade_retry_delay c \<le> bandwidth_upgrade_retry_max_delay c
     \<and> bandwidth_upgrade_retry_max_delay c * 2 \<le> duration_max"

lemma has_handler_get: "has_handler_for_medium s m \<Longrightarrow> \<exists>h. hm_get (handlers s) m = Some h"
  unfolding has_handler_for_medium_def hm_contains_get by simp

lemma has_handler_intro:
  "hm_get (handlers s) m = Some h \<Longrightarrow> m \<noteq> UnknownMedium \<Longrightarrow> has_handler_for_medium s m"
  unfolding has_handler_for_medium_def hm_contains_get by simp

lemma handler_do_returns:
  assumes "has_handler_for_medium s m" and "\<forall>h. f h \<noteq> None"
  shows "\<exists>s'. handler_do m f s = Some s'"
proof -
  from assms obtain h h' where "hm_get (handlers s) m = Some h" "f h = Some h'"
    by (metis has_handler_get not_None_eq)
  then show ?thesis by (simp add: handler_do_def)
qed

lemma handler_call_returns:
  assumes "has_handler_for_medium s m" and "\<forall>h. f h \<noteq> None"
  shows "\<exists>r s'. handler_call m f s = Some (r, s')"
proof -
  from assms obtain h r h' where "hm_get (handlers s) m = Some h" "f h = Some (r, h')"
    by (metis has_handler_get not_None_eq surj_pair)
  then show ?thesis by (simp add: handler_call_def)
qed

lemma ch_write_returns:
  assumes "returning_env E"
  shows "\<exists>e s'. ch_write E i bs s = Some (e, s')"
proof -
  from assms obtain e c where "op_write (chan_ops E) (chan_at s i) bs = Some (e, c)"
    by (metis returning_env_def not_None_eq surj_pair)
  then show ?thesis by (simp add: ch_write_def)
qed

lemma revert_returns:
  assumes "returning_env E"
  shows "\<exists>s'. revert_bwu_medium_for_endpoint E sid ep s = Some s'"
proof -
  have "\<forall>h. h_revert_initiator_state (hand_ops E) h \<noteq> None"
    "\<forall>h. h_revert_initiator_state_for_endpoint (hand_ops E) sid ep h \<noteq> None"
    "\<forall>h. h_revert_responder_state (hand_ops E) sid h \<noteq> None"
    using assms unfolding returning_env_def by blast+
  note returns = this [THEN handler_do_returns [rotated]]
  show ?thesis unfolding revert_bwu_medium_for_endpoint_def Let_def by (simp add: returns)
qed

lemma retry_returns:
  assumes "retry_inv s" and "config_ok (config s)"
  shows "\<exists>s'. retry_upgrades_after_delay ep s = Some s'"
proof (cases "hm_get (retry_delays s) ep")
  case None
  then show ?thesis by (simp add: retry_upgrades_after_delay_def calculate_next_retry_delay_def)
next
  case (Some d)
  with assms(1) obtain k where "d = backoff (config s) k" unfolding retry_inv_def by blast
  with assms(2) backoff_bounded [of "config s" k]
  have "d \<le> bandwidth_upgrade_retry_max_delay (config s)" by (simp add: config_ok_def)
  with Some assms(2) show ?thesis
    by (simp add: retry_upgrades_after_delay_def calculate_next_retry_delay_def duration_mul_def
        duration_add_def config_ok_def Let_def)
qed

lemma try_next_best_returns:
  assumes "retry_inv s" and "config_ok (config s)"
    and "\<And>m. m \<in> set ms \<Longrightarrow> \<exists>s'. init ep m (set_bwu_medium_for_endpoint ep m s) = Some s'"
  shows "\<exists>s'. try_next_best_upgrade_mediums E init ep ms s = Some s'"
proof -
  have "has_handler_for_medium s (choose_best_upgrade_medium s ep ms) \<Longrightarrow>
      choose_best_upgrade_medium s ep ms \<in> set ms"
    by (rule choose_best_member) (simp add: has_handler_for_medium_def)
  with assms(3) retry_returns [OF assms(1,2), of ep] show ?thesis
    by (simp add: try_next_best_upgrade_mediums_def Let_def)
qed

lemma acts_retry_inv: "bwu_acts E ep s s' \<Longrightarrow> retry_inv s \<Longrightarrow> retry_inv s'"
  by (induction rule: rtranclp_induct) (auto intro: act_retry_inv)

text \<open>What the recursive call may rely on.\<close>

abbreviation retry_ready :: "('ch, 'h) bwu_state \<Rightarrow> bool" where
  "retry_ready s \<equiv> retry_inv s \<and> config_ok (config s)"

lemma acts_retry_ready: "bwu_acts E ep s s' \<Longrightarrow> retry_ready s \<Longrightarrow> retry_ready s'"
  using acts_retry_inv acts_config by metis

lemma failure_event_returns:
  assumes "returning_env E" and "retry_ready s"
    and "\<And>m s'. m \<in> set (untried_after (upi_medium_of info) (get_upgrade_mediums (client s) ep)) \<Longrightarrow>
      client s' = client s \<Longrightarrow> retry_ready s' \<Longrightarrow> \<exists>s''. init ep m s' = Some s''"
  shows "\<exists>s'. process_upgrade_failure_event E init ep info s = Some s'"
proof -
  let ?s = "remove_in_progress ep s"
  have s: "bwu_acts E ep s ?s" by (rule acts_simple)+
  have next_best: "\<exists>s'. try_next_best_upgrade_mediums E init ep
        (untried_after (upi_medium_of info) (get_upgrade_mediums (client s1) ep)) s1 = Some s'"
    if "client s1 = client s" "bwu_acts E ep s s1" for s1
  proof (rule try_next_best_returns)
    fix m assume "m \<in> set (untried_after (upi_medium_of info) (get_upgrade_mediums (client s1) ep))"
    with that show "\<exists>s'. init ep m (set_bwu_medium_for_endpoint ep m s1) = Some s'"
      using acts_retry_ready [OF acts_simple(1) [OF that(2)] assms(2)] by (intro assms(3)) simp_all
  qed (use acts_retry_ready [OF that(2) assms(2)] in simp_all)
  have revert: "\<exists>s1. revert_bwu_medium_for_endpoint E sid ep ?s = Some s1 \<and> client s1 = client s
      \<and> bwu_acts E ep s s1" for sid
  proof -
    obtain s1 where s1: "revert_bwu_medium_for_endpoint E sid ep ?s = Some s1"
      using revert_returns [OF assms(1)] by blast
    then show ?thesis using revert_state [OF s1] acts_revert [OF s1 s] by auto
  qed
  define sid where "sid = wrap_initiator_upgrade_service_id (unwrap_or (map_option
      (\<lambda>i. op_service_id (chan_ops E) (chan_at ?s i)) (registered ?s ep)) UNKNOWN_SERVICE_ID)"
  obtain s1 where s1: "revert_bwu_medium_for_endpoint E sid ep ?s = Some s1" "client s1 = client s"
    "bwu_acts E ep s s1" using revert by blast
  show ?thesis
    using next_best [of ?s] next_best [of s1] s s1
    unfolding process_upgrade_failure_event_def Let_def untried_mediums_closed sid_def [symmetric]
    by simp
qed

lemma initiate_body_returns:
  assumes "returning_env E" and "retry_ready s"
    and "\<And>m' s'. m' \<in> set (untried_after (tried_medium m) (get_upgrade_mediums (client s) ep)) \<Longrightarrow>
      client s' = client s \<Longrightarrow> retry_ready s' \<Longrightarrow> \<exists>s''. init ep m' s' = Some s''"
  shows "\<exists>s'. initiate_body E init ep m s = Some s'"
proof -
  define s1 where "s1 = cancel_retry_upgrade_alarm ep (set_bwu_medium_for_endpoint ep m s)"
  have s1: "bwu_acts E ep s s1" "client s1 = client s"
    unfolding s1_def by ((rule acts_simple)+) simp
  have fail: "\<exists>s''. process_upgrade_failure_event E init ep (upgrade_path_info_for_medium m) s'
      = Some s''" if "client s' = client s" "bwu_acts E ep s s'" for s'
    using that assms acts_retry_ready [OF that(2) assms(2)]
    by (intro failure_event_returns) (simp_all add: tried_medium_def)
  have "\<exists>s'. do {
      (bytes, s) \<leftarrow> handler_call m (h_initialize_upgraded_medium_for_endpoint (hand_ops E) (client s1)
        (op_service_id (chan_ops E) (chan_at s1 i)) ep) s1;
      (if bytes = [] then process_upgrade_failure_event E init ep (upgrade_path_info_for_medium m) s
       else do {
         (e, s) \<leftarrow> ch_write E i bytes s;
         (if \<not> exception_ok e then
            process_upgrade_failure_event E init ep (upgrade_path_info_for_medium m) s
          else Some (insert_in_progress ep s))
       })
    } = Some s'" if "has_handler_for_medium s1 m" for i
  proof -
    have "\<forall>h. h_initialize_upgraded_medium_for_endpoint (hand_ops E) (client s1)
        (op_service_id (chan_ops E) (chan_at s1 i)) ep h \<noteq> None"
      using assms(1) unfolding returning_env_def by blast
    from handler_call_returns [OF that this] obtain bytes s2 where s2: "handler_call m
        (h_initialize_upgraded_medium_for_endpoint (hand_ops E) (client s1)
        (op_service_id (chan_ops E) (chan_at s1 i)) ep) s1 = Some (bytes, s2)" by blast
    obtain e s3 where s3: "ch_write E i bytes s2 = Some (e, s3)"
      using ch_write_returns [OF assms(1)] by blast
    have "client s2 = client s" "bwu_acts E ep s s2"
      using handler_call_client [OF s2] acts_initialize [OF s2 s1(1)] s1(2) by simp_all
    moreover from this have "client s3 = client s" "bwu_acts E ep s s3"
      using ch_write_client [OF s3] acts_ch_write [OF s3] by simp_all
    ultimately show ?thesis using s2 s3 fail by simp
  qed
  then show ?thesis
    unfolding initiate_body_def Let_def s1_def [symmetric]
    by (auto split: option.splits simp: s1_def has_handler_for_medium_def)
qed

lemma initiate_returns:
  assumes "returning_env E" and "distinct ms" and "UnknownMedium \<notin> set ms"
    and "get_upgrade_mediums (client s) ep = ms" and "retry_ready s" and "fall_depth ms m < n"
  shows "\<exists>s'. initiate_bwu_for_endpoint E n ep m s = Some s'"
  using assms(4-)
proof (induction "fall_depth ms m" arbitrary: m s n rule: less_induct)
  case less
  then obtain k where k: "n = Suc k" by (metis less_nat_zero_code not0_implies_Suc)
  have "\<exists>s''. initiate_bwu_for_endpoint E k ep m' s' = Some s''"
    if "m' \<in> set (untried_after (tried_medium m) ms)" "client s' = client s" "retry_ready s'" for m' s'
  proof -
    have "fall_depth ms m' < fall_depth ms m"
      using fall_depth_decreases [OF assms(2,3) that(1)] by (simp add: fall_depth_def)
    then show ?thesis using less.hyps [of m' s' k] less.prems k that(2,3) by simp
  qed
  then show ?case unfolding k initiate_bwu_for_endpoint.simps
    using less.prems(1,2) by (intro initiate_body_returns [OF assms(1)]) auto
qed


text \<open>The fake handlers return from every call and keep their medium.\<close>

lemma fake_revert_services: "\<exists>m'. base_revert_services (fake_medium_ops enc) sids m = Some m'"
  by (induction sids arbitrary: m)
    (simp_all add: fake_medium_ops_def fake_handle_revert_initiator_state_for_service_def)

lemma fake_initialize:
  "h_initialize_upgraded_medium_for_endpoint (fake_handler_ops enc) cl sid ep h = Some (bs, h') \<Longrightarrow>
     bs = path_available_bytes enc (fh_medium (inner h)) (wrap_initiator_upgrade_service_id sid)
     \<and> fh_medium (inner h') = fh_medium (inner h)"
  by (auto simp: fake_handler_ops_def base_handler_ops_def base_initialize_map fake_medium_ops_def
      fake_handle_initialize_upgraded_medium_for_endpoint_def split: if_splits)

lemma fake_revert_for_endpoint:
  "\<exists>h'. h_revert_initiator_state_for_endpoint (fake_handler_ops enc) sid ep h = Some h'
     \<and> fh_medium (inner h') = fh_medium (inner h)"
  by (auto simp: fake_handler_ops_def base_handler_ops_def fake_medium_ops_def Let_def
      base_revert_initiator_state_for_endpoint_def fake_handle_revert_initiator_state_for_service_def
      split: option.splits)

lemma fake_env_returns: "returning_env (fake_env enc dec)"
proof -
  have "\<exists>h'. h_revert_initiator_state (fake_handler_ops enc) h = Some h'" for h
    using fake_revert_services [of enc "hm_keys (upgrade_service_id_to_active_endpoint_ids h)" "inner h"]
    by (auto simp: fake_handler_ops_def base_handler_ops_def base_revert_initiator_state_def)
  moreover have "\<exists>h'. h_revert_initiator_state_for_endpoint (fake_handler_ops enc) sid ep h = Some h'"
    for sid ep h using fake_revert_for_endpoint by blast
  moreover have "\<exists>r. h_initialize_upgraded_medium_for_endpoint (fake_handler_ops enc) cl sid ep h = Some r"
    for cl sid ep h
    by (simp add: fake_handler_ops_def base_handler_ops_def base_initialize_map fake_medium_ops_def
        fake_handle_initialize_upgraded_medium_for_endpoint_def)
  moreover have "\<exists>h'. h_revert_responder_state (fake_handler_ops enc) sid h = Some h'" for sid h
    by (simp add: fake_handler_ops_def base_handler_ops_def base_revert_responder_state_def
        fake_medium_ops_def fake_handle_revert_initiator_state_for_service_def)
  ultimately show ?thesis
    by (simp add: returning_env_def fake_env_def fake_channel_ops_def Let_def)
qed


section \<open>Repeated mediums\<close>

text \<open>An endpoint whose list names a medium twice, and whose handler for it reports an error.\<close>

definition repeated_usb :: "string \<Rightarrow> (fake_endpoint_channel, fake_handler) bwu_state \<Rightarrow> bool" where
  "repeated_usb ep s \<longleftrightarrow> support_multiple_bwu_mediums (config s) \<and> ep \<notin> set (in_progress_upgrades s)
     \<and> (\<exists>i. registered s ep = Some i \<and> fc_medium (chan_at s i) = Bluetooth
          \<and> fc_service_id (chan_at s i) \<noteq> [])
     \<and> (\<exists>h. hm_get (handlers s) Usb = Some h \<and> fh_medium (inner h) = Usb)
     \<and> get_upgrade_mediums (client s) ep = [Usb, Usb]"

lemma repeated_usb_failure:
  assumes "repeated_usb ep s" and "get_bwu_medium_for_endpoint s ep = Usb"
  shows "\<exists>s'. repeated_usb ep s' \<and>
    process_upgrade_failure_event (fake_env enc dec) init ep (upgrade_path_info_for_medium Usb) s
      = init ep Usb s'"
proof -
  let ?E = "fake_env enc dec"
  have ops: "op_medium (chan_ops ?E) = fc_medium" "op_service_id (chan_ops ?E) = fc_service_id"
    "hand_ops ?E = fake_handler_ops enc" by (simp_all add: fake_env_def fake_channel_ops_def)
  obtain i h where s: "support_multiple_bwu_mediums (config s)" "registered s ep = Some i"
    "fc_medium (chan_at s i) = Bluetooth" "fc_service_id (chan_at s i) \<noteq> []"
    "hm_get (handlers s) Usb = Some h" "fh_medium (inner h) = Usb"
    "get_upgrade_mediums (client s) ep = [Usb, Usb]"
    using assms(1) by (auto simp: repeated_usb_def)
  let ?sid = "wrap_initiator_upgrade_service_id (fc_service_id (chan_at s i))"
  obtain h' where h': "h_revert_initiator_state_for_endpoint (fake_handler_ops enc) ?sid ep h = Some h'"
    "fh_medium (inner h') = Usb" using fake_revert_for_endpoint [of enc ?sid ep h] s(6) by auto
  let ?s1 = "clear_bwu_medium_for_endpoint ep (remove_in_progress ep s)"
  let ?s2 = "?s1\<lparr>handlers := hm_insert Usb h' (handlers s)\<rparr>"
  have usb: "has_handler_for_medium ?s1 Usb" "has_handler_for_medium ?s2 Usb"
    using s(5) by (auto intro!: has_handler_intro)
  have medium: "get_bwu_medium_for_endpoint (remove_in_progress ep s) ep = Usb"
    "get_bwu_medium_for_endpoint ?s2 ep = UnknownMedium"
    using assms(2) s(1) by (simp_all add: get_bwu_medium_for_endpoint_def clear_bwu_medium_for_endpoint_def)
  have "revert_bwu_medium_for_endpoint ?E ?sid ep (remove_in_progress ep s) = Some ?s2"
    using s h' usb(1) medium(1)
    by (simp add: revert_bwu_medium_for_endpoint_def is_initiator_wrap handler_do_def ops)
  moreover have "upi_medium_of (upgrade_path_info_for_medium Usb) = Usb"
    using tried_medium_eq [of Usb] by (simp add: tried_medium_def)
  moreover have "choose_best_upgrade_medium ?s2 ep [Usb] = Usb"
    using usb(2) medium(2) by (simp add: choose_best_upgrade_medium_def strip_out_unavailable_mediums_def)
  ultimately have "process_upgrade_failure_event ?E init ep (upgrade_path_info_for_medium Usb) s
      = init ep Usb (set_bwu_medium_for_endpoint ep Usb ?s2)"
    using s medium(1) usb(2)
    by (simp add: process_upgrade_failure_event_def untried_mediums_closed
        try_next_best_upgrade_mediums_def ops Let_def)
  moreover have "repeated_usb ep (set_bwu_medium_for_endpoint ep Usb ?s2)"
    using s h'(2) by (simp add: repeated_usb_def)
  ultimately show ?thesis by blast
qed

lemma repeated_usb_step:
  assumes "repeated_usb ep s"
  shows "\<exists>s'. repeated_usb ep s' \<and>
    initiate_body (fake_env enc dec) init ep Usb s = init ep Usb s'"
proof -
  let ?E = "fake_env enc dec"
  have ops: "op_medium (chan_ops ?E) = fc_medium" "hand_ops ?E = fake_handler_ops enc"
    by (simp_all add: fake_env_def fake_channel_ops_def)
  obtain i h where s: "support_multiple_bwu_mediums (config s)" "ep \<notin> set (in_progress_upgrades s)"
    "registered s ep = Some i" "fc_medium (chan_at s i) = Bluetooth"
    "hm_get (handlers s) Usb = Some h" "fh_medium (inner h) = Usb"
    using assms by (auto simp: repeated_usb_def)
  let ?s1 = "cancel_retry_upgrade_alarm ep (set_bwu_medium_for_endpoint ep Usb s)"
  let ?sid = "op_service_id (chan_ops ?E) (chan_at s i)"
  obtain h' where h': "h_initialize_upgraded_medium_for_endpoint (fake_handler_ops enc) (client s) ?sid ep h
      = Some ([], h')" "fh_medium (inner h') = Usb"
    using s(6) by (simp add: fake_handler_ops_def base_handler_ops_def base_initialize_map
        fake_medium_ops_def fake_handle_initialize_upgraded_medium_for_endpoint_def)
  let ?s2 = "?s1\<lparr>handlers := hm_insert Usb h' (handlers s)\<rparr>"
  have "has_handler_for_medium (set_bwu_medium_for_endpoint ep Usb s) Usb"
    using s(5) by (auto intro!: has_handler_intro)
  then have "initiate_body ?E init ep Usb s =
      process_upgrade_failure_event ?E init ep (upgrade_path_info_for_medium Usb) ?s2"
    using s h'(1) by (simp add: initiate_body_def handler_call_def ops Let_def)
  moreover have "repeated_usb ep ?s2" "get_bwu_medium_for_endpoint ?s2 ep = Usb"
    using assms h'(2) s(1)
    by (auto simp: repeated_usb_def get_bwu_medium_for_endpoint_def set_bwu_medium_for_endpoint_def)
  ultimately show ?thesis using repeated_usb_failure [of ep ?s2 enc dec init] by simp
qed



section \<open>The medium a failure is attributed to\<close>

text \<open>
  C38. Which mediums are left after a failed attempt: the loop that drops the tried ones never
  runs off the end of the list, and leaves exactly the tail after the first occurrence of the
  failed medium; but a failed BLE L2CAP attempt is attributed to the unknown medium, since the
  upgrade path info has no value for it, and then every remaining medium is dropped as well.
\<close>

theorem failed_medium_tail:
  "untried_mediums (upi_medium_of (upgrade_path_info_for_medium m)) ms ms
     = Some (untried_after (if m = BleL2cap then UnknownMedium else m) ms)
   \<and> untried_after m (ms1 @ m # ms2) = (if m \<in> set ms1 then untried_after m ms1 @ m # ms2 else ms2)
   \<and> untried_mediums (upi_medium_of (upgrade_path_info_for_medium BleL2cap))
        (BleL2cap # filter (\<lambda>x. x \<noteq> UnknownMedium) ms) (BleL2cap # filter (\<lambda>x. x \<noteq> UnknownMedium) ms)
      = Some []"
proof -
  have "untried_mediums (upi_medium_of (upgrade_path_info_for_medium m)) ms ms
     = Some (untried_after (if m = BleL2cap then UnknownMedium else m) ms)" for m ms
    using tried_medium_eq [of m] by (simp add: tried_medium_def untried_mediums_closed)
  moreover have "untried_after m (ms1 @ m # ms2)
      = (if m \<in> set ms1 then untried_after m ms1 @ m # ms2 else ms2)"
    by (induction ms1) auto
  moreover have "upi_medium_of (upgrade_path_info_for_medium BleL2cap) = UnknownMedium"
    using tried_medium_eq [of BleL2cap] by (simp add: tried_medium_def)
  ultimately show ?thesis by (simp add: untried_mediums_closed untried_after_absent)
qed

end
