(* ===== verification/Bwu_Actor.thy ===== *)
theory Bwu_Actor
  imports Bwu_Retry
begin

text \<open>
  \<^verbatim>\<open>src/bwu/actor.rs\<close>: the single owner of the manager. It takes one command at a time from a
  queue, and arms a timer for every pending retry. \<^verbatim>\<open>run\<close> is a loop over \<^verbatim>\<open>run_iteration\<close>, one
  round of its \<^verbatim>\<open>select!\<close>; the instants at which it reads the clock are arguments, in
  nanoseconds. A reply over a oneshot channel is a value.

  The timer bookkeeping is proved against the contract of a retry source, the locale
  \<^verbatim>\<open>retry_source\<close>, which the manager satisfies; a round of the actor is a sequence of steps of
  the manager's transition system, so every invariant of that system holds under the actor.
\<close>

type_synonym instant = nat

datatype bwu_command =
    ConnectionInitiated string bool bool
  | ConnectionAccepted string
  | LocalEndpointAccepted string
  | RemoteEndpointAccepted string
  | Disconnected string
  | SetUpgradeMediums string "medium list"
  | RegisterChannel string chan_ref
  | UnregisterChannel string disconnection_reason safe_disconnection_result
  | InitiateBwu string medium
  | ResetUpgrade string
  | IncomingFrame offline_frame string medium
  | IncomingConnection chan_ref
  | EndpointDisconnect string string disconnection_reason
  | ShutdownCommand
  | IsUpgradeOngoing string
  | PendingRetryDelay string
  | BandwidthChangedEvents
  | GetUpgradedChannel string

datatype bwu_reply =
    NoReply
  | OngoingReply bool
  | DelayReply "duration option"
  | EventsReply "(string \<times> medium) list"
  | ChannelReply "chan_ref option"

record ('ch, 'h) bwu_actor =
  machine :: "('ch, 'h) bwu_state"
  rx :: "bwu_command list"
  rx_capacity :: nat
  rx_closed :: bool
  armed :: "(string, instant) hash_map"
  stopped :: bool

definition bwu_actor_channel :: "nat \<Rightarrow> bwu_command list \<times> nat" where
  "bwu_actor_channel command_buffer = ([], max command_buffer 1)"

definition bwu_actor_build ::
    "bwu_command list \<times> nat \<Rightarrow> (medium, 'h) hash_map \<Rightarrow> bwu_config \<Rightarrow> string \<Rightarrow> ('ch, 'h) bwu_actor" where
  "bwu_actor_build receiver hs cfg local_id =
     \<lparr>machine = bwu_manager_new endpoint_channel_manager_new (client_proxy_new 0 local_id)
        [] hs cfg,
      rx = fst receiver, rx_capacity = snd receiver, rx_closed = False, armed = [], stopped = False\<rparr>"

definition bwu_actor_new ::
    "(medium, 'h) hash_map \<Rightarrow> bwu_config \<Rightarrow> string \<Rightarrow> nat \<Rightarrow> ('ch, 'h) bwu_actor" where
  "bwu_actor_new hs cfg local_id command_buffer =
     bwu_actor_build (bwu_actor_channel command_buffer) hs cfg local_id"

lemma bwu_actor_new_fields [simp]:
  "machine (bwu_actor_new hs cfg local_id k) =
     bwu_manager_new endpoint_channel_manager_new (client_proxy_new 0 local_id) [] hs cfg"
  "rx (bwu_actor_new hs cfg local_id k) = []" "rx_capacity (bwu_actor_new hs cfg local_id k) = max k 1"
  "\<not> rx_closed (bwu_actor_new hs cfg local_id k)" "armed (bwu_actor_new hs cfg local_id k) = []"
  "\<not> stopped (bwu_actor_new hs cfg local_id k)"
  by (simp_all add: bwu_actor_new_def bwu_actor_build_def bwu_actor_channel_def)

lemma config_new [simp]: "config (bwu_manager_new r cl hp hs cfg) = resolve_config cfg"
  by (simp add: bwu_manager_new_def)

section \<open>The handle\<close>

text \<open>
  A send waits (\<^verbatim>\<open>None\<close>) while the bounded queue is full, and is dropped when the actor has
  stopped. A query is a send and a reply; without a reply the handle answers with a default.
\<close>

definition bwu_handle_fire :: "bwu_command \<Rightarrow> ('ch, 'h) bwu_actor \<Rightarrow> ('ch, 'h) bwu_actor option" where
  "bwu_handle_fire cmd a =
     (if stopped a then Some a
      else if rx_capacity a \<le> length (rx a) then None
      else Some (a\<lparr>rx := rx a @ [cmd]\<rparr>))"

definition bwu_handle_connection_initiated where
  "bwu_handle_connection_initiated ep incoming auto = bwu_handle_fire (ConnectionInitiated ep incoming auto)"

definition bwu_handle_connection_accepted where
  "bwu_handle_connection_accepted ep = bwu_handle_fire (ConnectionAccepted ep)"

definition bwu_handle_local_endpoint_accepted where
  "bwu_handle_local_endpoint_accepted ep = bwu_handle_fire (LocalEndpointAccepted ep)"

definition bwu_handle_remote_endpoint_accepted where
  "bwu_handle_remote_endpoint_accepted ep = bwu_handle_fire (RemoteEndpointAccepted ep)"

definition bwu_handle_disconnected where
  "bwu_handle_disconnected ep = bwu_handle_fire (Disconnected ep)"

definition bwu_handle_set_upgrade_mediums where
  "bwu_handle_set_upgrade_mediums ep ms = bwu_handle_fire (SetUpgradeMediums ep ms)"

definition bwu_handle_register_channel where
  "bwu_handle_register_channel ep c = bwu_handle_fire (RegisterChannel ep c)"

definition bwu_handle_unregister_channel where
  "bwu_handle_unregister_channel ep reason result = bwu_handle_fire (UnregisterChannel ep reason result)"

definition bwu_handle_initiate_bwu where
  "bwu_handle_initiate_bwu ep m = bwu_handle_fire (InitiateBwu ep m)"

definition bwu_handle_reset_upgrade where
  "bwu_handle_reset_upgrade ep = bwu_handle_fire (ResetUpgrade ep)"

definition bwu_handle_incoming_frame where
  "bwu_handle_incoming_frame f ep m = bwu_handle_fire (IncomingFrame f ep m)"

definition bwu_handle_incoming_connection where
  "bwu_handle_incoming_connection c = bwu_handle_fire (IncomingConnection c)"

definition bwu_handle_endpoint_disconnect where
  "bwu_handle_endpoint_disconnect sid ep reason = bwu_handle_fire (EndpointDisconnect sid ep reason)"

definition bwu_handle_shutdown where
  "bwu_handle_shutdown = bwu_handle_fire ShutdownCommand"

definition bwu_handle_connection_sink where
  "bwu_handle_connection_sink c = bwu_handle_fire (IncomingConnection c)"

fun is_upgrade_ongoing_answer :: "bwu_reply option \<Rightarrow> bool" where
  "is_upgrade_ongoing_answer (Some (OngoingReply b)) = b"
| "is_upgrade_ongoing_answer _ = False"

fun pending_retry_delay_answer :: "bwu_reply option \<Rightarrow> duration option" where
  "pending_retry_delay_answer (Some (DelayReply d)) = d"
| "pending_retry_delay_answer _ = None"

fun bandwidth_changed_events_answer :: "bwu_reply option \<Rightarrow> (string \<times> medium) list" where
  "bandwidth_changed_events_answer (Some (EventsReply es)) = es"
| "bandwidth_changed_events_answer _ = []"

fun get_upgraded_channel_answer :: "bwu_reply option \<Rightarrow> chan_ref option" where
  "get_upgraded_channel_answer (Some (ChannelReply c)) = c"
| "get_upgraded_channel_answer _ = None"

section \<open>Commands\<close>

fun handle_command ::
    "('ch, 'h) bwu_env \<Rightarrow> nat \<Rightarrow> bwu_command \<Rightarrow> ('ch, 'h) bwu_state
      \<Rightarrow> (bwu_reply \<times> ('ch, 'h) bwu_state) option" where
  "handle_command E n (ConnectionInitiated ep incoming auto) s =
     Some (NoReply, s\<lparr>client := on_connection_initiated (client s) ep incoming auto\<rparr>)"
| "handle_command E n (ConnectionAccepted ep) s =
     Some (NoReply, s\<lparr>client := on_connection_accepted (client s) ep\<rparr>)"
| "handle_command E n (LocalEndpointAccepted ep) s =
     Some (NoReply, s\<lparr>client := local_endpoint_accepted_connection (client s) ep\<rparr>)"
| "handle_command E n (RemoteEndpointAccepted ep) s =
     Some (NoReply, s\<lparr>client := remote_endpoint_accepted_connection (client s) ep\<rparr>)"
| "handle_command E n (Disconnected ep) s =
     Some (NoReply, s\<lparr>client := on_disconnected (client s) ep\<rparr>)"
| "handle_command E n (SetUpgradeMediums ep ms) s =
     Some (NoReply, s\<lparr>client := set_upgrade_mediums (client s) ep ms\<rparr>)"
| "handle_command E n (RegisterChannel ep c) s =
     Some (NoReply, s\<lparr>ecm := register_channel_for_endpoint (client s) ep c (ecm s)\<rparr>)"
| "handle_command E n (UnregisterChannel ep reason result) s =
     Some (NoReply, s\<lparr>ecm := snd (unregister_channel_for_endpoint ep reason result (ecm s))\<rparr>)"
| "handle_command E n (InitiateBwu ep m) s =
     map_option (Pair NoReply) (initiate_bwu_for_endpoint E n ep m s)"
| "handle_command E n (ResetUpgrade ep) s = Some (NoReply, reset_upgrade_for_endpoint ep s)"
| "handle_command E n (IncomingFrame f ep m) s =
     map_option (Pair NoReply) (on_incoming_frame E n f ep m s)"
| "handle_command E n (IncomingConnection c) s =
     map_option (Pair NoReply) (on_incoming_connection E c s)"
| "handle_command E n (EndpointDisconnect sid ep reason) s =
     map_option (Pair NoReply) (on_endpoint_disconnect E sid ep reason s)"
| "handle_command E n (IsUpgradeOngoing ep) s = Some (OngoingReply (is_upgrade_ongoing s ep), s)"
| "handle_command E n (PendingRetryDelay ep) s = Some (DelayReply (pending_retry_delay s ep), s)"
| "handle_command E n BandwidthChangedEvents s = Some (EventsReply (bandwidth_changed (client s)), s)"
| "handle_command E n (GetUpgradedChannel ep) s = Some (ChannelReply (registered s ep), s)"
| "handle_command E n ShutdownCommand s = None"

section \<open>Timers\<close>

fun arm_missing ::
    "instant \<Rightarrow> (string \<times> duration) list \<Rightarrow> (string, instant) hash_map \<Rightarrow> (string, instant) hash_map" where
  "arm_missing now [] arm = arm"
| "arm_missing now ((ep, delay) # pending) arm =
     arm_missing now pending (if hm_contains arm ep then arm else hm_insert ep (now + delay) arm)"

definition reconcile ::
    "instant \<Rightarrow> (string \<times> duration) list \<Rightarrow> (string, instant) hash_map \<Rightarrow> (string, instant) hash_map" where
  "reconcile now pending arm =
     arm_missing now pending (filter (\<lambda>(ep, _). ep \<in> set (map fst pending)) arm)"

definition reconcile_timers :: "instant \<Rightarrow> ('ch, 'h) bwu_actor \<Rightarrow> ('ch, 'h) bwu_actor" where
  "reconcile_timers now a = a\<lparr>armed := reconcile now (pending_retry_delays (machine a)) (armed a)\<rparr>"

fun fire_each ::
    "(string \<Rightarrow> 's \<Rightarrow> 's option) \<Rightarrow> string list \<Rightarrow> (string, instant) hash_map \<Rightarrow> 's
      \<Rightarrow> ((string, instant) hash_map \<times> 's) option" where
  "fire_each fire [] arm s = Some (arm, s)"
| "fire_each fire (ep # eps) arm s =
     do {
       s \<leftarrow> fire ep s;
       fire_each fire eps (hm_remove ep arm) s
     }"

definition due_endpoints :: "instant \<Rightarrow> (string, instant) hash_map \<Rightarrow> string list" where
  "due_endpoints now arm = map fst (filter (\<lambda>(_, deadline). deadline \<le> now) arm)"

definition fire_due_retries ::
    "('ch, 'h) bwu_env \<Rightarrow> nat \<Rightarrow> instant \<Rightarrow> instant \<Rightarrow> ('ch, 'h) bwu_actor \<Rightarrow> ('ch, 'h) bwu_actor option" where
  "fire_due_retries E n t_due t_arm a =
     do {
       (arm, s) \<leftarrow> fire_each (fire_retry_alarm E n) (due_endpoints t_due (armed a)) (armed a) (machine a);
       Some (reconcile_timers t_arm (a\<lparr>armed := arm, machine := s\<rparr>))
     }"

text \<open>
  One round of the loop: the timer branch is polled first, then the queue. Without a due timer,
  a command or a closed queue, the round waits and nothing changes.
\<close>

definition run_iteration ::
    "('ch, 'h) bwu_env \<Rightarrow> nat \<Rightarrow> instant \<Rightarrow> instant \<Rightarrow> instant \<Rightarrow> ('ch, 'h) bwu_actor
      \<Rightarrow> (bwu_reply \<times> ('ch, 'h) bwu_actor) option" where
  "run_iteration E n t_poll t_due t_arm a =
     (if stopped a then Some (NoReply, a)
      else if list_ex (\<lambda>(_, deadline). deadline \<le> t_poll) (armed a)
      then map_option (Pair NoReply) (fire_due_retries E n t_due t_arm a)
      else
        (case rx a of
           [] \<Rightarrow> Some (NoReply, if rx_closed a then a\<lparr>stopped := True\<rparr> else a)
         | ShutdownCommand # cmds \<Rightarrow>
             do {
               s \<leftarrow> shutdown E (machine a);
               Some (NoReply, a\<lparr>machine := s, rx := cmds, stopped := True\<rparr>)
             }
         | cmd # cmds \<Rightarrow>
             do {
               (reply, s) \<leftarrow> handle_command E n cmd (machine a);
               Some (reply, reconcile_timers t_arm (a\<lparr>machine := s, rx := cmds\<rparr>))
             }))"

section \<open>Reconciling\<close>

lemma arm_missing_get:
  "hm_get (arm_missing now pending arm) ep =
     (case hm_get arm ep of
        Some t \<Rightarrow> Some t
      | None \<Rightarrow> map_option (\<lambda>d. now + d) (hm_get pending ep))"
proof (induction now pending arm rule: arm_missing.induct)
  case (2 now ep' delay pending arm)
  show ?case
  proof (cases "hm_get arm ep'")
    case None
    then have "\<not> hm_contains arm ep'" by (simp only: hm_contains_get) simp
    with 2 None show ?thesis by (auto split: option.splits)
  next
    case (Some t)
    then have "hm_contains arm ep'" by (simp only: hm_contains_get) blast
    with 2 Some show ?thesis by (auto split: option.splits)
  qed
qed (simp split: option.split)

lemma arm_missing_wf: "hm_wf arm \<Longrightarrow> hm_wf (arm_missing now pending arm)"
  by (induction now pending arm rule: arm_missing.induct) auto

lemma map_of_filter_fst: "map_of (filter (\<lambda>(k, _). P k) xs) k = (if P k then map_of xs k else None)"
  by (induction xs) auto

text \<open>After reconciling, exactly the pending retries are armed; the armed ones keep their deadline.\<close>

lemma reconcile_get:
  "hm_get (reconcile now pending arm) ep =
     (case hm_get pending ep of
        None \<Rightarrow> None
      | Some d \<Rightarrow> Some (case hm_get arm ep of Some t \<Rightarrow> t | None \<Rightarrow> now + d))"
proof -
  have "ep \<in> set (map fst pending) \<longleftrightarrow> hm_get pending ep \<noteq> None"
    using hm_contains_get [of ep pending] by simp
  then show ?thesis
    by (auto simp: reconcile_def arm_missing_get map_of_filter_fst simp del: set_map split: option.splits)
qed

lemma reconcile_wf: "hm_wf arm \<Longrightarrow> hm_wf (reconcile now pending arm)"
  unfolding reconcile_def by (rule arm_missing_wf) (simp add: distinct_map_filter)

section \<open>The contract of a retry source\<close>

locale retry_source =
  fixes pending :: "'s \<Rightarrow> (string \<times> duration) list"
    and fire :: "string \<Rightarrow> 's \<Rightarrow> 's option"
    and src_inv :: "'s \<Rightarrow> bool"
  assumes inv_fire: "src_inv s \<Longrightarrow> fire ep s = Some s' \<Longrightarrow> src_inv s'"
    and fire_absent: "hm_get (pending s) ep = None \<Longrightarrow> fire ep s = Some s"
    and fire_frame: "src_inv s \<Longrightarrow> fire ep s = Some s' \<Longrightarrow> ep' \<noteq> ep \<Longrightarrow>
      hm_get (pending s') ep' = hm_get (pending s) ep'"
begin

lemma fire_each_frame:
  assumes "fire_each fire eps arm s = Some (arm', s')" and "src_inv s"
  shows "src_inv s' \<and> hm_get arm' = (\<lambda>ep. if ep \<in> set eps then None else hm_get arm ep)
    \<and> (\<forall>ep. ep \<notin> set eps \<longrightarrow> hm_get (pending s') ep = hm_get (pending s) ep)"
  using assms
proof (induction eps arbitrary: arm s)
  case (Cons ep eps)
  from Cons.prems(1) obtain s1 where s1: "fire ep s = Some s1"
    "fire_each fire eps (hm_remove ep arm) s1 = Some (arm', s')" by (auto elim!: bind_SomeE)
  from Cons.IH [OF s1(2) inv_fire [OF Cons.prems(2) s1(1)]] fire_frame [OF Cons.prems(2) s1(1)]
  show ?case by (auto simp: fun_eq_iff)
qed auto

text \<open>
  One round of firing and reconciling: what was due is disarmed and, if the fire scheduled it
  again, armed anew; everything else keeps its deadline.
\<close>

lemma fire_then_reconcile:
  assumes "fire_each fire (due_endpoints t arm) arm s = Some (arm', s')" and "src_inv s"
    and "\<forall>ep. hm_get arm ep = None \<longleftrightarrow> hm_get (pending s) ep = None"
  shows "hm_get (reconcile t' (pending s') arm') ep =
     (if ep \<in> set (due_endpoints t arm) then map_option (\<lambda>d. t' + d) (hm_get (pending s') ep)
      else hm_get arm ep)"
  using fire_each_frame [OF assms(1,2)] assms(3) [rule_format, of ep]
  by (auto simp: reconcile_get split: option.splits)

end

lemma fire_alarm_inv: "bwu_inv s \<Longrightarrow> fire_retry_alarm E n ep s = Some s' \<Longrightarrow> bwu_inv s'"
  using acts_fire_retry_alarm acts_inv by blast

interpretation manager_retries: retry_source pending_retry_delays "fire_retry_alarm E n" bwu_inv
  for E :: "('ch, 'h) bwu_env" and n
proof unfold_locales
  fix s s' :: "('ch, 'h) bwu_state" and ep ep'
  show "bwu_inv s \<Longrightarrow> fire_retry_alarm E n ep s = Some s' \<Longrightarrow> bwu_inv s'" by (rule fire_alarm_inv)
  show "fire_retry_alarm E n ep s = Some s" if "hm_get (pending_retry_delays s) ep = None"
  proof -
    have "\<not> hm_contains (retry_upgrade_alarms s) ep"
      using that unfolding pending_retry_delays_def hm_contains_get by simp
    then show ?thesis by (simp add: fire_retry_alarm_def del: set_map)
  qed
  show "hm_get (pending_retry_delays s') ep' = hm_get (pending_retry_delays s) ep'"
    if "fire_retry_alarm E n ep s = Some s'" "ep' \<noteq> ep"
    using acts_other_endpoint [OF acts_fire_retry_alarm [OF that(1)] that(2)]
    by (simp add: endpoint_view_def pending_retry_delays_def)
qed

section \<open>The actor refines the manager's transition system\<close>

text \<open>A command that carries a channel carries a reference to an existing one.\<close>

fun command_ok :: "('ch, 'h) bwu_state \<Rightarrow> bwu_command \<Rightarrow> bool" where
  "command_ok s (RegisterChannel ep c) \<longleftrightarrow> c < length (heap s)"
| "command_ok s (IncomingConnection c) \<longleftrightarrow> c < length (heap s)"
| "command_ok s _ \<longleftrightarrow> True"

lemma client_updates_events:
  "bandwidth_changed (on_connection_initiated c ep i a) = bandwidth_changed c"
  "bandwidth_changed (on_connection_accepted c ep) = bandwidth_changed c"
  "bandwidth_changed (local_endpoint_accepted_connection c ep) = bandwidth_changed c"
  "bandwidth_changed (remote_endpoint_accepted_connection c ep) = bandwidth_changed c"
  "bandwidth_changed (on_disconnected c ep) = bandwidth_changed c"
  "bandwidth_changed (set_upgrade_mediums c ep ms) = bandwidth_changed c"
  by (simp_all add: client_updates)

lemma handle_command_steps:
  assumes "handle_command E n cmd s = Some (reply, s')" and "command_ok s cmd"
  shows "(bwu_step E)\<^sup>*\<^sup>* s s'"
  using assms
  by (cases cmd) (auto simp: client_updates_events intro!: r_into_rtranclp intro: bwu_step.intros)

lemma fire_each_steps:
  "fire_each (fire_retry_alarm E n) eps arm s = Some (arm', s') \<Longrightarrow> (bwu_step E)\<^sup>*\<^sup>* s s'"
proof (induction eps arbitrary: arm s)
  case (Cons ep eps)
  then obtain s1 where "fire_retry_alarm E n ep s = Some s1"
    "fire_each (fire_retry_alarm E n) eps (hm_remove ep arm) s1 = Some (arm', s')"
    by (auto elim!: bind_SomeE)
  with Cons.IH bwu_step.alarm show ?case by (metis converse_rtranclp_into_rtranclp)
qed auto

definition actor_ok :: "('ch, 'h) bwu_actor \<Rightarrow> bool" where
  "actor_ok a \<longleftrightarrow> list_all (command_ok (machine a)) (rx a)"

lemma command_ok_mono: "command_ok s cmd \<Longrightarrow> length (heap s) \<le> length (heap s') \<Longrightarrow> command_ok s' cmd"
  by (cases "(s, cmd)" rule: command_ok.cases) auto

abbreviation timer_due :: "instant \<Rightarrow> ('ch, 'h) bwu_actor \<Rightarrow> bool" where
  "timer_due t a \<equiv> list_ex (\<lambda>(_, deadline). deadline \<le> t) (armed a)"

lemma run_iteration_command:
  "\<not> stopped a \<Longrightarrow> \<not> timer_due t0 a \<Longrightarrow> rx a = cmd # cmds \<Longrightarrow> cmd \<noteq> ShutdownCommand \<Longrightarrow>
   run_iteration E n t0 t1 t2 a =
     do {
       (reply, s) \<leftarrow> handle_command E n cmd (machine a);
       Some (reply, reconcile_timers t2 (a\<lparr>machine := s, rx := cmds\<rparr>))
     }"
  by (cases cmd) (simp_all add: run_iteration_def)

lemma run_iteration_cases:
  assumes "run_iteration E n t0 t1 t2 a = Some (reply, a')"
  obtains (idle) "a' = a \<or> a' = a\<lparr>stopped := True\<rparr>"
  | (fired) arm s where "\<not> stopped a"
      "fire_each (fire_retry_alarm E n) (due_endpoints t1 (armed a)) (armed a) (machine a) = Some (arm, s)"
      "a' = reconcile_timers t2 (a\<lparr>armed := arm, machine := s\<rparr>)"
  | (stop) s cmds where "shutdown E (machine a) = Some s" "rx a = ShutdownCommand # cmds"
      "a' = a\<lparr>machine := s, rx := cmds, stopped := True\<rparr>"
  | (command) cmd cmds s where "\<not> stopped a" "rx a = cmd # cmds"
      "handle_command E n cmd (machine a) = Some (reply, s)"
      "a' = reconcile_timers t2 (a\<lparr>machine := s, rx := cmds\<rparr>)"
proof -
  consider (s) "stopped a" | (d) "\<not> stopped a" "timer_due t0 a"
    | (e) "\<not> stopped a" "\<not> timer_due t0 a" "rx a = []"
    | (c) cmd cmds where "\<not> stopped a" "\<not> timer_due t0 a" "rx a = cmd # cmds"
    by (cases "rx a") auto
  then show thesis
  proof cases
    case s
    with assms show thesis by (intro idle) (simp add: run_iteration_def)
  next
    case d
    with assms obtain arm s where
      "fire_each (fire_retry_alarm E n) (due_endpoints t1 (armed a)) (armed a) (machine a) = Some (arm, s)"
      "a' = reconcile_timers t2 (a\<lparr>armed := arm, machine := s\<rparr>)"
      by (auto simp: run_iteration_def fire_due_retries_def elim!: bind_SomeE)
    with d(1) show thesis by (rule fired)
  next
    case e
    with assms show thesis by (intro idle) (auto simp: run_iteration_def split: if_splits)
  next
    case (c cmd cmds)
    show thesis
    proof (cases "cmd = ShutdownCommand")
      case True
      with c assms obtain s where "shutdown E (machine a) = Some s"
        "a' = a\<lparr>machine := s, rx := cmds, stopped := True\<rparr>"
        by (auto simp: run_iteration_def elim!: bind_SomeE)
      with c True show thesis by (intro stop) simp_all
    next
      case False
      with c assms run_iteration_command [of a t0 cmd cmds E n t1 t2] obtain s where
        "handle_command E n cmd (machine a) = Some (reply, s)"
        "a' = reconcile_timers t2 (a\<lparr>machine := s, rx := cmds\<rparr>)" by (auto elim!: bind_SomeE)
      with c show thesis by (intro command) simp_all
    qed
  qed
qed

lemma run_iteration_steps:
  assumes "run_iteration E n t0 t1 t2 a = Some (reply, a')" and "actor_ok a"
  shows "(bwu_step E)\<^sup>*\<^sup>* (machine a) (machine a')"
  using assms(1)
proof (cases rule: run_iteration_cases)
  case (fired arm s)
  then show ?thesis using fire_each_steps by (simp add: reconcile_timers_def)
next
  case (stop s cmds)
  then have "bwu_step E (machine a) (machine a')" by (simp add: bwu_step.stop)
  then show ?thesis by blast
next
  case (command cmd cmds s)
  with assms(2) show ?thesis
    using handle_command_steps [of E n cmd "machine a"] by (simp add: actor_ok_def reconcile_timers_def)
qed auto

section \<open>Timers and pending retries agree\<close>

definition actor_inv :: "('ch, 'h) bwu_actor \<Rightarrow> bool" where
  "actor_inv a \<longleftrightarrow> bwu_inv (machine a) \<and> actor_ok a \<and> hm_wf (armed a) \<and>
     (if stopped a then True
      else (\<forall>ep. hm_get (armed a) ep = None \<longleftrightarrow> pending_retry_delay (machine a) ep = None))"

lemma pending_delays_get: "hm_get (pending_retry_delays s) ep = pending_retry_delay s ep"
  by (simp add: pending_retry_delays_def pending_retry_delay_def)

lemma actor_inv_new: "hm_wf hs \<Longrightarrow> actor_inv (bwu_actor_new hs cfg local_id k)"
  using new_inv [of hs] by (simp add: actor_inv_def actor_ok_def pending_retry_delay_def)
    (simp add: bwu_manager_new_def)

lemma reconcile_timers_fields [simp]:
  "machine (reconcile_timers t a) = machine a" "rx (reconcile_timers t a) = rx a"
  "rx_capacity (reconcile_timers t a) = rx_capacity a"
  "rx_closed (reconcile_timers t a) = rx_closed a" "stopped (reconcile_timers t a) = stopped a"
  "armed (reconcile_timers t a) = reconcile t (pending_retry_delays (machine a)) (armed a)"
  by (simp_all add: reconcile_timers_def)

lemma reconcile_timers_inv:
  "bwu_inv (machine a) \<Longrightarrow> actor_ok a \<Longrightarrow> hm_wf (armed a) \<Longrightarrow> actor_inv (reconcile_timers t a)"
  by (simp add: actor_inv_def actor_ok_def reconcile_get reconcile_wf pending_delays_get split: option.splits)

lemma fire_each_armed:
  "fire_each fire eps arm s = Some (arm', s') \<Longrightarrow> hm_wf arm \<Longrightarrow> hm_wf arm'"
  by (induction eps arbitrary: arm s) (auto elim!: bind_SomeE)

lemma run_iteration_machine:
  assumes "run_iteration E n t0 t1 t2 a = Some (reply, a')" and "actor_inv a"
  shows "(bwu_step E)\<^sup>*\<^sup>* (machine a) (machine a') \<and> bwu_inv (machine a')
    \<and> (\<forall>cmd. command_ok (machine a) cmd \<longrightarrow> command_ok (machine a') cmd)"
proof -
  from assms have steps: "(bwu_step E)\<^sup>*\<^sup>* (machine a) (machine a')"
    by (intro run_iteration_steps) (simp_all add: actor_inv_def)
  with steps_heap [OF steps] assms(2) command_ok_mono show ?thesis by (auto simp: actor_inv_def)
qed

lemma actor_inv_round:
  assumes "run_iteration E n t0 t1 t2 a = Some (reply, a')" and "actor_inv a"
  shows "actor_inv a'"
proof -
  note m = run_iteration_machine [OF assms]
  have ok: "list_all (command_ok (machine a')) (rx a)"
    using m assms(2) by (auto simp: actor_inv_def actor_ok_def list_all_iff)
  from assms(1) show ?thesis
  proof (cases rule: run_iteration_cases)
    case idle
    with assms(2) show ?thesis by (auto simp: actor_inv_def actor_ok_def)
  next
    case (stop s cmds)
    with m ok assms(2) show ?thesis by (auto simp: actor_inv_def actor_ok_def)
  next
    case (fired arm s)
    with fire_each_armed [OF fired(2)] m ok assms(2) show ?thesis
      unfolding fired(3) by (intro reconcile_timers_inv) (simp_all add: actor_inv_def actor_ok_def)
  next
    case (command cmd cmds s)
    with m ok assms(2) show ?thesis
      unfolding command(4) by (intro reconcile_timers_inv) (simp_all add: actor_inv_def actor_ok_def)
  qed
qed

section \<open>The actor among its handles\<close>

text \<open>
  What happens between two rounds: handles send commands and are dropped, and other threads
  create channels and use the ones they hold.
\<close>

inductive actor_step ::
    "('ch, 'h) bwu_env \<Rightarrow> ('ch, 'h) bwu_actor \<Rightarrow> ('ch, 'h) bwu_actor \<Rightarrow> bool" for E where
  round: "run_iteration E n t_poll t_due t_arm a = Some (reply, a') \<Longrightarrow> actor_step E a a'"
| send: "bwu_handle_fire cmd a = Some a' \<Longrightarrow> command_ok (machine a) cmd \<Longrightarrow> actor_step E a a'"
| hang_up: "actor_step E a (a\<lparr>rx_closed := True\<rparr>)"
| channel_use: "chan_step (chan_ops E) (chan_at (machine a) i) c \<Longrightarrow>
    actor_step E a (a\<lparr>machine := set_chan i c (machine a)\<rparr>)"
| channel_made: "actor_step E a (a\<lparr>machine := snd (alloc_chan c (machine a))\<rparr>)"

lemma machine_update_inv:
  assumes "bwu_step E (machine a) s" and "actor_inv a"
    and "\<And>ep. pending_retry_delay s ep = pending_retry_delay (machine a) ep"
  shows "actor_inv (a\<lparr>machine := s\<rparr>)"
  using steps_heap [OF r_into_rtranclp [of "bwu_step E", OF assms(1)]] assms(2,3)
  by (auto simp: actor_inv_def actor_ok_def list_all_iff intro: command_ok_mono)

lemma actor_step_sound:
  assumes "actor_step E a a'" and "actor_inv a"
  shows "actor_inv a' \<and> (bwu_step E)\<^sup>*\<^sup>* (machine a) (machine a')"
  using assms(1)
proof (cases rule: actor_step.cases)
  case round
  with assms(2) actor_inv_round run_iteration_machine show ?thesis by blast
next
  case (send cmd)
  with assms(2) show ?thesis
    by (auto simp: bwu_handle_fire_def actor_inv_def actor_ok_def split: if_splits)
next
  case hang_up
  with assms(2) show ?thesis by (simp add: actor_inv_def actor_ok_def)
next
  case (channel_use i c)
  then have "bwu_step E (machine a) (set_chan i c (machine a))" by (simp add: bwu_step.other_thread)
  with machine_update_inv [OF this assms(2)] channel_use show ?thesis
    by (auto simp: pending_retry_delay_def set_chan_def)
next
  case (channel_made c)
  have "bwu_step E (machine a) (snd (alloc_chan c (machine a)))" by (rule bwu_step.new_channel)
  with machine_update_inv [OF this assms(2)] channel_made show ?thesis
    by (auto simp: pending_retry_delay_def alloc_chan_def)
qed

lemma actor_reach_inv:
  assumes "(actor_step E)\<^sup>*\<^sup>* (bwu_actor_new hs cfg local_id k) a" and "hm_wf hs"
  shows "actor_inv a \<and> (bwu_step E)\<^sup>*\<^sup>* (machine (bwu_actor_new hs cfg local_id k)) (machine a)"
  using assms(1)
proof (induction rule: rtranclp_induct)
  case base
  then show ?case using actor_inv_new [OF assms(2)] by simp
next
  case (step y z)
  then show ?case using actor_step_sound by (meson rtranclp_trans)
qed

lemma steps_config:
  assumes "(bwu_step E)\<^sup>*\<^sup>* s s'" and "bwu_inv s"
  shows "config s' = config s"
  using assms
proof (induction rule: rtranclp_induct)
  case (step y z)
  moreover from step.hyps(1) assms(2) have "bwu_wf y" using steps_heap by (metis bwu_inv_def)
  ultimately show ?case using step_config [of E y z] by simp
qed simp

lemma actor_reach_config:
  assumes "(actor_step E)\<^sup>*\<^sup>* (bwu_actor_new hs cfg local_id k) a" and "hm_wf hs"
  shows "config (machine a) = resolve_config cfg"
proof -
  from actor_reach_inv [OF assms] have "(bwu_step E)\<^sup>*\<^sup>* (machine (bwu_actor_new hs cfg local_id k)) (machine a)"
    by blast
  from steps_config [OF this] show ?thesis by (simp add: new_inv assms(2))
qed



section \<open>Deadlines\<close>

lemma due_endpoints_iff:
  "hm_wf arm \<Longrightarrow> ep \<in> set (due_endpoints t arm) \<longleftrightarrow> (\<exists>d. hm_get arm ep = Some d \<and> d \<le> t)"
  by (force simp: due_endpoints_def image_iff)

lemma backoff_positive: "0 < backoff (resolve_config cfg) k"
  by (induction k) (auto simp: resolve_config_def Let_def from_secs_def)

lemma pending_delay_positive:
  assumes "bwu_inv s" and "config s = resolve_config cfg" and "pending_retry_delay s ep = Some d"
  shows "0 < d"
  using assms backoff_positive [of cfg] unfolding bwu_inv_def retry_inv_def pending_retry_delay_def
  by metis


text \<open>
  C37. A round that handles a command: exactly the retries pending afterwards are armed, a new
  one for its full delay. A retry that was armed before keeps its deadline, also when the
  command cancelled it and scheduled another one with a longer delay.
\<close>

theorem command_round_timers:
  assumes "\<not> stopped a" and "\<not> timer_due t_poll a" and "rx a = cmd # cmds" and "cmd \<noteq> ShutdownCommand"
    and "handle_command E n cmd (machine a) = Some (reply, s)"
  shows "\<exists>a'. run_iteration E n t_poll t_due t_arm a = Some (reply, a')
    \<and> machine a' = s \<and> rx a' = cmds \<and> \<not> stopped a'
    \<and> (\<forall>ep. hm_get (armed a') ep =
         (case pending_retry_delay s ep of
            None \<Rightarrow> None
          | Some d \<Rightarrow> Some (case hm_get (armed a) ep of Some deadline \<Rightarrow> deadline | None \<Rightarrow> t_arm + d)))"
  using assms(1,5) run_iteration_command [OF assms(1-4), of E n t_due t_arm]
  by (simp add: reconcile_get pending_delays_get)

text \<open>
  C36. Shutting down is final: the queued commands are dropped, no upgrade, parked channel or
  retry is left in the manager, no later round changes anything, and what a handle sends
  afterwards is discarded.
\<close>

theorem shutdown_is_final:
  assumes "\<not> stopped a" and "\<not> timer_due t_poll a" and "rx a = ShutdownCommand # cmds"
    and "run_iteration E n t_poll t_due t_arm a = Some (reply, a')"
  shows "stopped a' \<and> in_progress_upgrades (machine a') = []
    \<and> previous_endpoint_channels (machine a') = [] \<and> pending_retry_delays (machine a') = []
    \<and> run_iteration E n' t0 t1 t2 a' = Some (NoReply, a') \<and> bwu_handle_fire cmd a' = Some a'"
proof -
  from assms obtain s where s: "shutdown E (machine a) = Some s"
    "a' = a\<lparr>machine := s, rx := cmds, stopped := True\<rparr>"
    by (auto simp: run_iteration_def elim!: bind_SomeE)
  then show ?thesis
    by (auto simp: run_iteration_def bwu_handle_fire_def pending_retry_delays_def elim!: shutdown_state)
qed

section \<open>Instances\<close>

text \<open>
  An actor with a retry of the connected endpoint pending since the instant 0, and the frame
  with which the peer reports that an upgrade failed.
\<close>

definition retrying_state :: "(fake_endpoint_channel, fake_handler) bwu_state" where
  "retrying_state = fake_pair\<lparr>
     client := on_connection_accepted (on_connection_initiated (client_proxy_new 0 ''me'') ''e'' False True) ''e'',
     retry_upgrade_alarms := [(''e'', from_secs 3)], retry_delays := [(''e'', from_secs 3)]\<rparr>"

definition retrying_actor :: "bwu_command list \<Rightarrow> (fake_endpoint_channel, fake_handler) bwu_actor" where
  "retrying_actor cmds = \<lparr>machine = retrying_state, rx = cmds, rx_capacity = 4, rx_closed = False,
     armed = [(''e'', from_secs 3)], stopped = False\<rparr>"

definition failure_frame :: offline_frame where
  "failure_frame = bwu_offline_frame
     (bwu_event UpgradeFailure\<lparr>bwu_upgrade_path_info := Some (upgrade_path_info_for_medium WifiLan)\<rparr>)"

lemma retrying_state_fields:
  "is_connected_to_endpoint (client retrying_state) ''e''"
  "get_upgrade_mediums (client retrying_state) ''e'' = []"
  "get_bwu_medium_for_endpoint retrying_state ''e'' = UnknownMedium"
  "registered retrying_state ''e'' = Some 0" "fc_medium (chan_at retrying_state 0) = Bluetooth"
  "hm_get (retry_delays retrying_state) ''e'' = Some (from_secs 3)"
  "bandwidth_upgrade_retry_max_delay (config retrying_state) = from_secs 300"
  "use_exp_backoff_in_bwu_retry (config retrying_state)" "support_multiple_bwu_mediums (config retrying_state)"
  by (simp_all add: retrying_state_def fake_pair_defs client_queries client_updates get_channel_for_endpoint_def
      get_bwu_medium_for_endpoint_def fake_endpoint_channel_new_def client_proxy_new_def endpoint_state_default_def)

lemma failure_without_mediums:
  assumes "support_multiple_bwu_mediums (config s)" and "get_upgrade_mediums (client s) ep = []"
    and "get_bwu_medium_for_endpoint s ep = UnknownMedium" and "registered s ep = Some i"
    and "op_medium (chan_ops E) (chan_at s i) \<noteq> WifiLan"
  shows "process_upgrade_failure_event E init ep info s = retry_upgrades_after_delay ep (remove_in_progress ep s)"
proof -
  have "get_bwu_medium_for_endpoint (remove_in_progress ep s) ep = UnknownMedium"
    using assms(1,3) by (simp add: get_bwu_medium_for_endpoint_def)
  with assms show ?thesis
    by (simp add: process_upgrade_failure_event_def try_next_best_upgrade_mediums_def
        untried_mediums_closed Let_def)
qed

lemma failure_reschedules:
  "handle_command (fake_env (\<lambda>f. [1]) (\<lambda>bs. None)) 1 (IncomingFrame failure_frame ''e'' Bluetooth) retrying_state
   = Some (NoReply, schedule_retry ''e'' (from_secs 6)
       (cancel_retry_upgrade_alarm ''e'' (remove_in_progress ''e'' retrying_state)))"
proof -
  let ?E = "fake_env (\<lambda>f. [1]) (\<lambda>bs. None)"
  have "op_medium (chan_ops ?E) (chan_at retrying_state 0) \<noteq> WifiLan"
    by (simp add: fake_env_def fake_channel_ops_def retrying_state_fields)
  note fail = failure_without_mediums [OF retrying_state_fields(9,2,3,4) this]
  have "calculate_next_retry_delay (remove_in_progress ''e'' retrying_state) ''e'' = Some (from_secs 6)"
    by (simp add: calculate_next_retry_delay_def retrying_state_fields duration_mul_def duration_max_def
        from_secs_def)
  then show ?thesis
    by (simp add: failure_frame_def frame_dispatch on_bwu_negotiation_frame_def retrying_state_fields fail
        retry_upgrades_after_delay_def)
qed

lemma retrying_actor_inv: "actor_inv (retrying_actor [])"
proof -
  have "bwu_wf fake_pair" "flag_inv fake_pair" using fake_pair_inv by (simp_all add: bwu_inv_def)
  then have "bwu_wf retrying_state" "flag_inv retrying_state"
    by (simp_all add: retrying_state_def bwu_wf_def flag_inv_def fake_pair_defs)
  moreover have "backoff (config retrying_state) 0 = from_secs 3"
    by (simp add: retrying_state_def fake_pair_defs)
  then have "retry_inv retrying_state"
    by (auto simp: retry_inv_def retrying_state_fields retrying_state_def split: if_splits)
      (metis backoff.simps(1))
  ultimately show ?thesis
    by (simp add: actor_inv_def bwu_inv_def retrying_actor_def actor_ok_def pending_retry_delay_def)
      (simp add: retrying_state_def)
qed

lemma alarm_reschedules:
  "fire_retry_alarm (fake_env (\<lambda>f. [1]) (\<lambda>bs. None)) 1 ''e'' retrying_state
   = Some (schedule_retry ''e'' (from_secs 6)
       (cancel_retry_upgrade_alarm ''e'' (cancel_retry_upgrade_alarm ''e'' retrying_state)))"
proof -
  let ?E = "fake_env (\<lambda>f. [1]) (\<lambda>bs. None)"
  let ?s = "cancel_retry_upgrade_alarm ''e'' retrying_state"
  have "channel_medium ?E ?s ''e'' \<noteq> WifiLan"
    by (simp add: fake_env_def fake_channel_ops_def retrying_state_fields)
  moreover have "calculate_next_retry_delay ?s ''e'' = Some (from_secs 6)"
    by (simp add: calculate_next_retry_delay_def retrying_state_fields duration_mul_def duration_max_def
        from_secs_def)
  moreover have "hm_contains (retry_upgrade_alarms retrying_state) ''e''" by (simp add: retrying_state_def)
  ultimately show ?thesis
    by (simp add: fire_retry_alarm_def retrying_state_fields try_next_best_upgrade_mediums_def
        retry_upgrades_after_delay_def Let_def)
qed


theorem command_round_timers_witness:
  "\<exists>a'. run_iteration (fake_env (\<lambda>f. [1]) (\<lambda>bs. None)) 1 (from_secs 2) (from_secs 2) (from_secs 2)
       (retrying_actor [IncomingFrame failure_frame ''e'' Bluetooth]) = Some (NoReply, a')
     \<and> pending_retry_delay (machine a') ''e'' = Some (from_secs 6)
     \<and> hm_get (armed a') ''e'' = Some (from_secs 3)"
proof -
  let ?cmd = "IncomingFrame failure_frame ''e'' Bluetooth"
  have "\<not> stopped (retrying_actor [?cmd])" "\<not> timer_due (from_secs 2) (retrying_actor [?cmd])"
    "rx (retrying_actor [?cmd]) = [?cmd]" "machine (retrying_actor [?cmd]) = retrying_state"
    "armed (retrying_actor [?cmd]) = [(''e'', from_secs 3)]"
    by (simp_all add: retrying_actor_def from_secs_def)
  with command_round_timers [of "retrying_actor [?cmd]" "from_secs 2" ?cmd "[]"
      "fake_env (\<lambda>f. [1]) (\<lambda>bs. None)" 1 NoReply _ "from_secs 2" "from_secs 2"] failure_reschedules
  show ?thesis by (fastforce simp: pending_retry_delay_def)
qed

lemma revert_all_returns: "returning_env E \<Longrightarrow> \<exists>hs'. revert_all_handlers E hs = Some hs'"
proof (induction hs)
  case (Cons h hs)
  then obtain y hs' where "h_revert_initiator_state (hand_ops E) (snd h) = Some y"
    "revert_all_handlers E hs = Some hs'" unfolding returning_env_def by blast
  then show ?case by (cases h) simp
qed simp

lemma shutdown_returns: "returning_env E \<Longrightarrow> \<exists>s'. shutdown E s = Some s'"
  using revert_all_returns [of E "handlers s"]
  by (auto simp: shutdown_def cancel_all_retry_upgrade_alarms_def Let_def)

theorem shutdown_is_final_witness:
  "\<exists>a'. run_iteration (fake_env (\<lambda>f. [1]) (\<lambda>bs. None)) 1 0 0 0 (retrying_actor [ShutdownCommand, ResetUpgrade ''e''])
       = Some (NoReply, a')
     \<and> stopped a' \<and> pending_retry_delays (machine a') = [] \<and> bwu_handle_fire (ResetUpgrade ''e'') a' = Some a'"
proof -
  let ?E = "fake_env (\<lambda>f. [1]) (\<lambda>bs. None)"
  let ?a = "retrying_actor [ShutdownCommand, ResetUpgrade ''e'']"
  obtain s where "shutdown ?E (machine ?a) = Some s" using shutdown_returns [OF fake_env_returns] by blast
  then obtain a' where a': "run_iteration ?E 1 0 0 0 ?a = Some (NoReply, a')"
    by (simp add: run_iteration_def retrying_actor_def from_secs_def)
  have "\<not> stopped ?a" "\<not> timer_due 0 ?a" "rx ?a = [ShutdownCommand, ResetUpgrade ''e'']"
    by (simp_all add: retrying_actor_def from_secs_def)
  from shutdown_is_final [OF this a'] a' show ?thesis by blast
qed

end
