(* ===== verification/Bwu_Liveness.thy ===== *)
theory Bwu_Liveness
  imports Bwu_Actor
begin

text \<open>
  Nothing the actor does gets stuck, as long as the channels and the handlers return from their
  calls, the retry delays stay within a \<^verbatim>\<open>Duration\<close> and no endpoint names an upgrade medium
  twice: no \<^verbatim>\<open>unwrap\<close> panics, no arithmetic overflows, and a stack of as many frames as there
  are mediums is deep enough for the recursion through failing mediums.
\<close>

section \<open>Environments in which every call returns\<close>

definition responsive_env :: "('ch, 'h) bwu_env \<Rightarrow> bool" where
  "responsive_env E \<longleftrightarrow> returning_env E
     \<and> (\<forall>c. op_read (chan_ops E) c \<noteq> None)
     \<and> (\<forall>cl sid ep info h. h_create_upgraded_endpoint_channel (hand_ops E) cl sid ep info h \<noteq> None)
     \<and> (\<forall>cl ep h. h_on_endpoint_disconnect (hand_ops E) cl ep h \<noteq> None)"

text \<open>A call that returns, with the rules that follow the structure of an operation.\<close>

definition gives :: "'a option \<Rightarrow> bool" where
  "gives x \<longleftrightarrow> x \<noteq> None"

named_theorems returns "calls that return"

lemma gives_Some [returns]: "gives (Some x)"
  by (simp add: gives_def)

lemma gives_bind [returns]:
  "gives x \<Longrightarrow> (\<And>a. x = Some a \<Longrightarrow> gives (f a)) \<Longrightarrow> gives (Option.bind x f)"
  by (cases x) (simp_all add: gives_def)

lemma gives_if [returns]: "(b \<Longrightarrow> gives x) \<Longrightarrow> (\<not> b \<Longrightarrow> gives y) \<Longrightarrow> gives (if b then x else y)"
  by simp

lemma gives_option [returns]:
  "(x = None \<Longrightarrow> gives y) \<Longrightarrow> (\<And>a. x = Some a \<Longrightarrow> gives (f a)) \<Longrightarrow> gives (case x of None \<Rightarrow> y | Some a \<Rightarrow> f a)"
  by (cases x) simp_all

lemma gives_map [returns]: "gives x \<Longrightarrow> gives (map_option f x)"
  by (simp add: gives_def)

lemma gives_prod [returns]: "(\<And>a b. p = (a, b) \<Longrightarrow> gives (f a b)) \<Longrightarrow> gives (case p of (a, b) \<Rightarrow> f a b)"
  by (cases p) simp

lemma ch_write_return [returns]: "responsive_env E \<Longrightarrow> gives (ch_write E i bs s)"
  using ch_write_returns [of E i bs s] by (auto simp: responsive_env_def gives_def)

lemma ch_read_return [returns]:
  assumes "responsive_env E"
  shows "gives (ch_read E i s)"
proof -
  from assms obtain r where "op_read (chan_ops E) (chan_at s i) = Some r"
    unfolding responsive_env_def by (metis not_None_eq)
  then show ?thesis by (cases r) (simp add: ch_read_def gives_def)
qed

lemma revert_return [returns]: "responsive_env E \<Longrightarrow> gives (revert_bwu_medium_for_endpoint E sid ep s)"
  using revert_returns [of E sid ep s] by (auto simp: responsive_env_def gives_def)

lemma handler_create_return [returns]:
  "responsive_env E \<Longrightarrow> has_handler_for_medium s m \<Longrightarrow>
   gives (handler_call m (h_create_upgraded_endpoint_channel (hand_ops E) cl sid ep info) s)"
  using handler_call_returns [of s m "h_create_upgraded_endpoint_channel (hand_ops E) cl sid ep info"]
  by (auto simp: responsive_env_def gives_def)

lemma handler_disconnect_return [returns]:
  "responsive_env E \<Longrightarrow> has_handler_for_medium s m \<Longrightarrow>
   gives (handler_do m (h_on_endpoint_disconnect (hand_ops E) cl ep) s)"
  using handler_do_returns [of s m "h_on_endpoint_disconnect (hand_ops E) cl ep"]
  by (auto simp: responsive_env_def gives_def)

section \<open>The operations of the manager return\<close>

lemma last_write_return [returns]:
  "responsive_env E \<Longrightarrow> gives (process_last_write_to_prior_channel_event E ep s)"
  unfolding process_last_write_to_prior_channel_event_def Let_def
  by (intro returns; simp)

lemma run_upgrade_protocol_return [returns]:
  "responsive_env E \<Longrightarrow> gives (run_upgrade_protocol E ep i enc s)"
  unfolding run_upgrade_protocol_def Let_def
  by (intro returns; simp)

lemma safe_to_close_return [returns]:
  "responsive_env E \<Longrightarrow> gives (process_safe_to_close_prior_channel_event E ep s)"
  unfolding safe_to_close_defs Let_def
  by (intro returns; simp)

lemma upgrade_failed_return [returns]:
  "responsive_env E \<Longrightarrow> gives (run_upgrade_failed_protocol E ep info s)"
  unfolding run_upgrade_failed_protocol_def Let_def
  by (intro returns; simp)

lemma read_ack_return [returns]:
  "responsive_env E \<Longrightarrow> gives (read_client_introduction_ack_frame E i s)"
  unfolding read_client_introduction_ack_frame_def
  by (intro returns; simp)

lemma read_introduction_return [returns]:
  "responsive_env E \<Longrightarrow> gives (read_client_introduction_frame E i s)"
  unfolding read_client_introduction_frame_def
  by (intro returns; simp)

lemma write_ack_return [returns]:
  "responsive_env E \<Longrightarrow> gives (write_client_introduction_ack_frame E i s)"
  unfolding write_client_introduction_ack_frame_def
  by (intro returns; simp)

lemma path_internal_return [returns]:
  "responsive_env E \<Longrightarrow> gives (process_bwu_path_available_event_internal E ep info s)"
  unfolding process_bwu_path_available_event_internal_def Let_def alloc_chan_def
  by (intro returns; simp)

lemma path_available_return [returns]:
  "responsive_env E \<Longrightarrow> gives (process_bwu_path_available_event E ep info s)"
  unfolding process_bwu_path_available_event_def Let_def
  by (intro returns; simp)

lemma incoming_connection_return [returns]:
  "responsive_env E \<Longrightarrow> gives (on_incoming_connection E i s)"
  unfolding on_incoming_connection_def
  by (intro returns; simp)

lemma endpoint_disconnect_return [returns]:
  "responsive_env E \<Longrightarrow> gives (on_endpoint_disconnect E sid ep r s)"
  unfolding on_endpoint_disconnect_def Let_def
  by (intro returns; simp)

section \<open>The recursion through the mediums\<close>

definition mediums_ok :: "client_proxy \<Rightarrow> bool" where
  "mediums_ok cl \<longleftrightarrow> (\<forall>ep. distinct (get_upgrade_mediums cl ep)
     \<and> UnknownMedium \<notin> set (get_upgrade_mediums cl ep))"

text \<open>There are thirteen mediums to try.\<close>

lemma mediums_bound:
  assumes "distinct ms" and "UnknownMedium \<notin> set ms"
  shows "length ms \<le> 13"
proof -
  let ?all = "[Mdns, Bluetooth, WifiHotspot, Ble, WifiLan, WifiAware, Nfc, WifiDirect, WebRtc, BleL2cap,
    Usb, WebRtcNonCellular, Awdl]"
  have "set ms \<subseteq> set ?all"
  proof
    fix m assume "m \<in> set ms"
    with assms(2) have "m \<noteq> UnknownMedium" by blast
    then show "m \<in> set ?all" by (cases m) simp_all
  qed
  then have "card (set ms) \<le> card (set ?all)" by (rule card_mono [OF finite_set])
  also have "\<dots> \<le> length ?all" by (rule card_length)
  finally show ?thesis using distinct_card [OF assms(1)] by simp
qed

lemma initiate_return [returns]:
  assumes "responsive_env E" and "mediums_ok (client s)" and "retry_ready s" and "13 < n"
  shows "gives (initiate_bwu_for_endpoint E n ep m s)"
proof -
  let ?ms = "get_upgrade_mediums (client s) ep"
  have ms: "distinct ?ms" "UnknownMedium \<notin> set ?ms" using assms(2) by (simp_all add: mediums_ok_def)
  have "fall_depth ?ms m < n" using fall_depth_le [of ?ms m] mediums_bound [OF ms] assms(4) by linarith
  from initiate_returns [OF _ ms refl assms(3) this] assms(1) show ?thesis
    by (simp add: gives_def responsive_env_def)
qed

lemma failure_return [returns]:
  assumes "responsive_env E" and "mediums_ok (client s)" and "retry_ready s" and "13 < n"
  shows "gives (process_upgrade_failure_event E (initiate_bwu_for_endpoint E n) ep info s)"
proof -
  have "\<exists>s''. initiate_bwu_for_endpoint E n ep m s' = Some s''"
    if "client s' = client s" "retry_ready s'" for m s'
    using initiate_return [OF assms(1) _ that(2) assms(4)] that(1) assms(2) by (simp add: gives_def)
  with failure_event_returns [of E s info ep] assms(1,3) show ?thesis
    by (simp add: gives_def responsive_env_def)
qed

lemma alarm_return [returns]:
  assumes "responsive_env E" and "mediums_ok (client s)" and "retry_ready s" and "13 < n"
  shows "gives (fire_retry_alarm E n ep s)"
proof -
  let ?s = "cancel_retry_upgrade_alarm ep s"
  have acts: "bwu_acts E ep s ?s" by (rule acts_simple)+
  have "\<exists>s'. initiate_bwu_for_endpoint E n ep m (set_bwu_medium_for_endpoint ep m ?s) = Some s'" for m
    using initiate_return [OF assms(1) _ acts_retry_ready [OF acts_simple(1) [OF acts] assms(3)] assms(4)]
      assms(2) by (simp add: gives_def)
  with try_next_best_returns [of ?s] acts_retry_ready [OF acts assms(3)] show ?thesis
    unfolding fire_retry_alarm_def Let_def by (intro returns) (simp_all add: gives_def)
qed

lemma frame_return [returns]:
  assumes "responsive_env E" and "mediums_ok (client s)" and "retry_ready s" and "13 < n"
  shows "gives (on_incoming_frame E n f ep m s)"
proof -
  have "gives (on_bwu_negotiation_frame E n b ep s)" for b
    unfolding on_bwu_negotiation_frame_def Let_def using assms
    by (cases "unwrap_or (Option.bind (bwu_event_type b) event_type_try_from) UnknownEventType")
      (auto intro!: returns)
  then show ?thesis unfolding on_incoming_frame_def by (intro returns)
qed

lemma command_return [returns]:
  assumes "responsive_env E" and "mediums_ok (client s)" and "retry_ready s" and "13 < n"
    and "cmd \<noteq> ShutdownCommand"
  shows "gives (handle_command E n cmd s)"
  using assms by (cases cmd) (auto intro!: returns)

section \<open>The loop of the actor\<close>

text \<open>
  A query waits for the answer after the send; \<^verbatim>\<open>answered\<close> is what comes back over the oneshot
  channel, nothing when the actor has dropped it.
\<close>

definition bwu_handle_query ::
    "bwu_command \<Rightarrow> bwu_reply option \<Rightarrow> ('ch, 'h) bwu_actor
      \<Rightarrow> (bwu_reply option \<times> ('ch, 'h) bwu_actor) option" where
  "bwu_handle_query cmd answered a =
     do {
       a' \<leftarrow> bwu_handle_fire cmd a;
       Some (if stopped a then None else answered, a')
     }"

text \<open>
  \<^verbatim>\<open>run\<close>: the timers are reconciled once, then one round follows the other. For each round there
  are the commands whose send has completed before it and the instants at which it reads the clock.
  A round after the loop has ended changes nothing.
\<close>

fun run_rounds ::
    "('ch, 'h) bwu_env \<Rightarrow> nat \<Rightarrow> (bwu_command list \<times> instant \<times> instant \<times> instant) list
      \<Rightarrow> ('ch, 'h) bwu_actor \<Rightarrow> (bwu_reply list \<times> ('ch, 'h) bwu_actor) option" where
  "run_rounds E n [] a = Some ([], a)"
| "run_rounds E n ((cmds, t_poll, t_due, t_arm) # rounds) a =
     do {
       (reply, a) \<leftarrow> run_iteration E n t_poll t_due t_arm (if stopped a then a else a\<lparr>rx := rx a @ cmds\<rparr>);
       (replies, a) \<leftarrow> run_rounds E n rounds a;
       Some (reply # replies, a)
     }"

definition bwu_actor_run ::
    "('ch, 'h) bwu_env \<Rightarrow> nat \<Rightarrow> instant \<Rightarrow> (bwu_command list \<times> instant \<times> instant \<times> instant) list
      \<Rightarrow> ('ch, 'h) bwu_actor \<Rightarrow> (bwu_reply list \<times> ('ch, 'h) bwu_actor) option" where
  "bwu_actor_run E n t rounds a = run_rounds E n rounds (reconcile_timers t a)"

section \<open>The actor makes progress\<close>

text \<open>A command that names no medium twice.\<close>

fun command_fine :: "bwu_command \<Rightarrow> bool" where
  "command_fine (SetUpgradeMediums ep ms) \<longleftrightarrow> distinct ms \<and> UnknownMedium \<notin> set ms"
| "command_fine _ \<longleftrightarrow> True"

definition actor_live :: "('ch, 'h) bwu_actor \<Rightarrow> bool" where
  "actor_live a \<longleftrightarrow> actor_inv a \<and> config_ok (config (machine a)) \<and> mediums_ok (client (machine a))
     \<and> list_all command_fine (rx a)"

lemma mediums_ok_cong: "cp_endpoints cl' = cp_endpoints cl \<Longrightarrow> mediums_ok cl' = mediums_ok cl"
  by (simp add: mediums_ok_def client_queries)

lemma mediums_ok_acts: "bwu_acts E ep s s' \<Longrightarrow> mediums_ok (client s') = mediums_ok (client s)"
  using acts_config mediums_ok_cong by blast

lemma mediums_ok_new: "mediums_ok (client_proxy_new k local_id)"
  by (simp add: mediums_ok_def client_queries client_proxy_new_def)

lemma mediums_ok_updates:
  assumes "mediums_ok cl"
  shows "mediums_ok (on_connection_initiated cl ep i a)" "mediums_ok (on_connection_accepted cl ep)"
    "mediums_ok (local_endpoint_accepted_connection cl ep)"
    "mediums_ok (remote_endpoint_accepted_connection cl ep)" "mediums_ok (on_disconnected cl ep)"
    "distinct ms \<and> UnknownMedium \<notin> set ms \<Longrightarrow> mediums_ok (set_upgrade_mediums cl ep ms)"
proof -
  have "mediums_ok (client_entry_update cl ep f)"
    if "\<And>e. distinct (upgrade_mediums e) \<and> UnknownMedium \<notin> set (upgrade_mediums e) \<Longrightarrow>
      distinct (upgrade_mediums (f e)) \<and> UnknownMedium \<notin> set (upgrade_mediums (f e))" for f
    using assms that [of "unwrap_or (hm_get (cp_endpoints cl) ep) endpoint_state_default"]
    by (cases "hm_get (cp_endpoints cl) ep")
      (auto simp: mediums_ok_def client_queries client_entry_update_def endpoint_state_default_def
        dest: spec [of _ ep])
  then show "mediums_ok (on_connection_initiated cl ep i a)" "mediums_ok (on_connection_accepted cl ep)"
    "mediums_ok (local_endpoint_accepted_connection cl ep)"
    "mediums_ok (remote_endpoint_accepted_connection cl ep)"
    "distinct ms \<and> UnknownMedium \<notin> set ms \<Longrightarrow> mediums_ok (set_upgrade_mediums cl ep ms)"
    by (simp_all add: on_connection_initiated_def on_connection_accepted_def set_upgrade_mediums_def
        local_endpoint_accepted_connection_def remote_endpoint_accepted_connection_def)
  show "mediums_ok (on_disconnected cl ep)"
    using assms by (auto simp: mediums_ok_def client_queries on_disconnected_def)
qed

lemma mediums_ok_command:
  assumes "handle_command E n cmd s = Some (reply, s')" and "mediums_ok (client s)" and "command_fine cmd"
    and "command_ok s cmd" and "bwu_wf s"
  shows "mediums_ok (client s')"
  using assms
  by (cases cmd) (auto simp: mediums_ok_updates reset_upgrade_for_endpoint_def
      dest!: mediums_ok_acts [OF acts_initiate [rule_format]] mediums_ok_acts [OF acts_frame]
        mediums_ok_acts [OF acts_endpoint_disconnect] dest: acts_incoming_connection mediums_ok_acts)

lemma fire_each_return:
  assumes "responsive_env E" and "13 < n"
  shows "mediums_ok (client s) \<Longrightarrow> retry_ready s \<Longrightarrow> gives (fire_each (fire_retry_alarm E n) eps arm s)"
proof (induction eps arbitrary: arm s)
  case (Cons ep eps)
  have "gives (fire_retry_alarm E n ep s)" using assms Cons.prems by (intro returns)
  moreover have "mediums_ok (client s') \<and> retry_ready s'" if "fire_retry_alarm E n ep s = Some s'" for s'
    using acts_fire_retry_alarm [OF that] mediums_ok_acts acts_retry_ready Cons.prems by blast
  ultimately show ?case using Cons.IH by (auto intro!: gives_bind)
qed (simp add: gives_Some)

lemma fire_each_mediums:
  "fire_each (fire_retry_alarm E n) eps arm s = Some (arm', s') \<Longrightarrow>
     mediums_ok (client s') = mediums_ok (client s)"
proof (induction eps arbitrary: arm s)
  case (Cons ep eps)
  then obtain s1 where s1: "fire_retry_alarm E n ep s = Some s1"
    "fire_each (fire_retry_alarm E n) eps (hm_remove ep arm) s1 = Some (arm', s')"
    by (auto elim!: bind_SomeE)
  with Cons.IH mediums_ok_acts [OF acts_fire_retry_alarm [OF s1(1)]] show ?case by blast
qed simp

lemma round_returns:
  assumes "responsive_env E" and "13 < n" and "actor_live a"
  shows "\<exists>reply a'. run_iteration E n t0 t1 t2 a = Some (reply, a')
    \<and> (stopped a \<or> timer_due t0 a \<or> rx a' = tl (rx a))"
proof -
  have ready: "mediums_ok (client (machine a))" "retry_ready (machine a)"
    using assms(3) by (simp_all add: actor_live_def actor_inv_def bwu_inv_def)
  have fire: "gives (fire_due_retries E n t1 t2 a)"
    unfolding fire_due_retries_def using fire_each_return [OF assms(1,2) ready]
    by (auto intro!: gives_bind gives_Some)
  have stop: "gives (shutdown E (machine a))"
    using shutdown_returns [of E "machine a"] assms(1) by (auto simp: gives_def responsive_env_def)
  consider (stopped) "stopped a" | (due) "\<not> stopped a" "timer_due t0 a"
    | (idle) "\<not> stopped a" "\<not> timer_due t0 a" "rx a = []"
    | (shut) cmds where "\<not> stopped a" "\<not> timer_due t0 a" "rx a = ShutdownCommand # cmds"
    | (cmd) cmd cmds where "\<not> stopped a" "\<not> timer_due t0 a" "rx a = cmd # cmds" "cmd \<noteq> ShutdownCommand"
    by (metis neq_Nil_conv)
  then show ?thesis
  proof cases
    case due
    with fire show ?thesis by (auto simp: run_iteration_def gives_def)
  next
    case shut
    with stop show ?thesis by (auto simp: run_iteration_def gives_def)
  next
    case (cmd cmd cmds)
    obtain reply s where "handle_command E n cmd (machine a) = Some (reply, s)"
      using command_return [OF assms(1) ready assms(2) cmd(4)] by (auto simp: gives_def)
    with cmd run_iteration_command [OF cmd] show ?thesis by simp
  qed (auto simp: run_iteration_def)
qed

lemma round_mediums:
  assumes "run_iteration E n t0 t1 t2 a = Some (reply, a')" and "actor_live a"
  shows "mediums_ok (client (machine a')) \<and> list_all command_fine (rx a')"
  using assms(1)
proof (cases rule: run_iteration_cases)
  case (fired arm s)
  with fire_each_mediums [OF fired(2)] assms(2) show ?thesis by (simp add: actor_live_def)
next
  case (stop s cmds)
  then have "client s = client (machine a)" by (auto elim!: shutdown_state)
  with stop assms(2) show ?thesis by (simp add: actor_live_def)
next
  case (command cmd cmds s)
  with assms(2) have "mediums_ok (client s)"
    by (intro mediums_ok_command [OF command(3)])
      (simp_all add: actor_live_def actor_inv_def actor_ok_def bwu_inv_def)
  with command assms(2) show ?thesis by (simp add: actor_live_def)
qed (use assms(2) in \<open>auto simp: actor_live_def\<close>)

lemma live_round:
  assumes "run_iteration E n t0 t1 t2 a = Some (reply, a')" and "actor_live a"
  shows "actor_live a'"
proof -
  have inv: "actor_inv a" using assms(2) by (simp add: actor_live_def)
  then have "bwu_inv (machine a)" by (simp add: actor_inv_def)
  with steps_config run_iteration_machine [OF assms(1) inv]
  have "config (machine a') = config (machine a)" by blast
  with actor_inv_round [OF assms(1) inv] round_mediums [OF assms] assms(2) show ?thesis
    by (simp add: actor_live_def)
qed

lemma live_step:
  assumes "actor_step E a a'" and "actor_live a" and "list_all command_fine (rx a')"
  shows "actor_live a'"
  using assms(1)
proof (cases rule: actor_step.cases)
  case round
  with live_round assms(2) show ?thesis by blast
next
  case (send cmd)
  with assms actor_step_sound [OF assms(1)] show ?thesis
    by (auto simp: actor_live_def bwu_handle_fire_def split: if_splits)
qed (use assms actor_step_sound [OF assms(1)] in \<open>auto simp: actor_live_def set_chan_def alloc_chan_def\<close>)

lemma live_new:
  assumes "hm_wf hs" and "config_ok (resolve_config cfg)"
  shows "actor_live (bwu_actor_new hs cfg local_id k)"
  using actor_inv_new [OF assms(1)] assms(2) mediums_ok_new
  by (simp add: actor_live_def bwu_manager_new_def)

lemma live_arrivals:
  "actor_live a \<Longrightarrow> list_all command_fine cmds \<Longrightarrow> list_all (command_ok (machine a)) cmds \<Longrightarrow>
   actor_live (a\<lparr>rx := rx a @ cmds\<rparr>)"
  by (simp add: actor_live_def actor_inv_def actor_ok_def)

lemma live_reconcile:
  assumes "actor_live a"
  shows "actor_live (reconcile_timers t a)"
proof -
  have "actor_inv (reconcile_timers t a)"
    by (rule reconcile_timers_inv) (use assms in \<open>simp_all add: actor_live_def actor_inv_def\<close>)
  with assms show ?thesis by (simp add: actor_live_def)
qed

abbreviation rounds_fine :: "('ch, 'h) bwu_state
    \<Rightarrow> (bwu_command list \<times> instant \<times> instant \<times> instant) list \<Rightarrow> bool" where
  "rounds_fine s \<equiv> list_all (\<lambda>(cmds, _). list_all command_fine cmds \<and> list_all (command_ok s) cmds)"

lemma run_rounds_return:
  assumes "responsive_env E" and "13 < n"
  shows "actor_live a \<Longrightarrow> rounds_fine (machine a) rounds \<Longrightarrow>
    \<exists>replies a'. run_rounds E n rounds a = Some (replies, a') \<and> length replies = length rounds"
proof (induction rounds arbitrary: a)
  case (Cons r rounds)
  obtain cmds t0 t1 t2 where r: "r = (cmds, t0, t1, t2)" by (cases r)
  let ?a = "if stopped a then a else a\<lparr>rx := rx a @ cmds\<rparr>"
  have live: "actor_live ?a" and machine: "machine ?a = machine a"
    using Cons.prems live_arrivals [of a cmds] by (simp_all add: r)
  obtain reply a1 where a1: "run_iteration E n t0 t1 t2 ?a = Some (reply, a1)"
    using round_returns [OF assms live] by blast
  have "actor_inv ?a" using live by (simp add: actor_live_def)
  with run_iteration_machine [OF a1] machine have "\<forall>cmd. command_ok (machine a) cmd \<longrightarrow> command_ok (machine a1) cmd"
    by auto
  with Cons.prems(2) have "rounds_fine (machine a1) rounds" by (auto simp: list_all_iff)
  with Cons.IH [OF live_round [OF a1 live]] a1 show ?case by (auto simp: r)
qed simp

text \<open>The steps of an actor that is never told to use a medium twice.\<close>

abbreviation fine_step :: "('ch, 'h) bwu_env \<Rightarrow> ('ch, 'h) bwu_actor \<Rightarrow> ('ch, 'h) bwu_actor \<Rightarrow> bool" where
  "fine_step E a a' \<equiv> actor_step E a a' \<and> list_all command_fine (rx a')"

lemma live_reach:
  assumes "(fine_step E)\<^sup>*\<^sup>* (bwu_actor_new hs cfg local_id k) a" and "hm_wf hs"
    and "config_ok (resolve_config cfg)"
  shows "actor_live a"
  using assms(1) by (induction rule: rtranclp_induct) (auto intro: live_new assms(2,3) live_step)


lemma fake_env_responsive: "responsive_env (fake_env enc dec)"
  using fake_env_returns [of enc dec]
  by (simp add: responsive_env_def fake_env_def fake_channel_ops_def fake_handler_ops_def
      base_handler_ops_def base_create_upgraded_endpoint_channel_def base_on_endpoint_disconnect_def
      fake_medium_ops_def fake_create_upgraded_endpoint_channel_def fake_on_endpoint_disconnect_def)


end
