(* ===== verification/Tcp.thy ===== *)
theory Tcp
  imports Stream_Channel Rust_Std
begin

text \<open>
  \<^verbatim>\<open>src/bwu/tcp.rs\<close>: the byte stream over a TCP socket, the channel over it, and the accept
  loop with its listener. What the operating system answers is not in the sources: the calls of
  \<^verbatim>\<open>std::net\<close> are the fields of the record \<^verbatim>\<open>net_ops\<close>, over a state of the network, of a
  socket and of a bound listener, and every theorem holds for all of them. The handles that
  \<^verbatim>\<open>try_clone\<close> gives refer to one socket, so a stream has one socket state.
\<close>

type_synonym socket_addr = "ipv4 \<times> 16 word"

datatype io_error = UnexpectedEof | OtherIoError

record ('n, 'sock, 'l) net_ops =
  net_bind :: "socket_addr \<Rightarrow> 'n \<Rightarrow> 'l option \<times> 'n"
  net_local_addr :: "'l \<Rightarrow> socket_addr option"
  net_close :: "'l \<Rightarrow> 'n \<Rightarrow> 'n"
  net_connect :: "socket_addr \<Rightarrow> 'n \<Rightarrow> 'sock option \<times> 'n"
  sock_try_clone :: "'sock \<Rightarrow> bool \<times> 'sock"
  sock_read_exact :: "'sock \<Rightarrow> nat \<Rightarrow> ((io_error + bytes) \<times> 'sock) option"
  sock_write_all :: "'sock \<Rightarrow> bytes \<Rightarrow> ((io_error + unit) \<times> 'sock) option"
  sock_flush :: "'sock \<Rightarrow> ((io_error + unit) \<times> 'sock) option"
  sock_shutdown :: "'sock \<Rightarrow> 'sock"

section \<open>The stream over a socket\<close>

record 'sock tcp_duplex_stream =
  td_socket :: 'sock

definition tcp_duplex_stream_new ::
    "('n, 'sock, 'l) net_ops \<Rightarrow> 'sock \<Rightarrow> 'sock tcp_duplex_stream option" where
  "tcp_duplex_stream_new N stream =
     (let (reader, stream) = sock_try_clone N stream in
      if \<not> reader then None
      else
        (let (writer, stream) = sock_try_clone N stream in
         if \<not> writer then None else Some \<lparr>td_socket = stream\<rparr>))"

definition tcp_read_exact ::
    "('n, 'sock, 'l) net_ops \<Rightarrow> 'sock tcp_duplex_stream \<Rightarrow> nat
      \<Rightarrow> ((exception + bytes) \<times> 'sock tcp_duplex_stream) option" where
  "tcp_read_exact N d len =
     do {
       (r, s) \<leftarrow> sock_read_exact N (td_socket d) len;
       Some (case r of
               Inr bs \<Rightarrow> Inr bs
             | Inl e \<Rightarrow> Inl (if e = UnexpectedEof then NoData else Io), d\<lparr>td_socket := s\<rparr>)
     }"

definition tcp_write_all ::
    "('n, 'sock, 'l) net_ops \<Rightarrow> 'sock tcp_duplex_stream \<Rightarrow> bytes
      \<Rightarrow> ((exception + unit) \<times> 'sock tcp_duplex_stream) option" where
  "tcp_write_all N d bs =
     do {
       (r, s) \<leftarrow> sock_write_all N (td_socket d) bs;
       Some (map_sum (\<lambda>_. Io) id r, d\<lparr>td_socket := s\<rparr>)
     }"

definition tcp_flush ::
    "('n, 'sock, 'l) net_ops \<Rightarrow> 'sock tcp_duplex_stream
      \<Rightarrow> ((exception + unit) \<times> 'sock tcp_duplex_stream) option" where
  "tcp_flush N d =
     do {
       (r, s) \<leftarrow> sock_flush N (td_socket d);
       Some (map_sum (\<lambda>_. Io) id r, d\<lparr>td_socket := s\<rparr>)
     }"

definition tcp_close ::
    "('n, 'sock, 'l) net_ops \<Rightarrow> 'sock tcp_duplex_stream \<Rightarrow> 'sock tcp_duplex_stream" where
  "tcp_close N d = d\<lparr>td_socket := sock_shutdown N (td_socket d)\<rparr>"

definition tcp_stream_ops :: "('n, 'sock, 'l) net_ops \<Rightarrow> 'sock tcp_duplex_stream stream_ops" where
  "tcp_stream_ops N = \<lparr>st_read_exact = tcp_read_exact N, st_write_all = tcp_write_all N,
     st_flush = tcp_flush N, st_close = tcp_close N\<rparr>"

type_synonym 'sock tcp_channel = "'sock tcp_duplex_stream stream_channel"

definition tcp_channel ::
    "('n, 'sock, 'l) net_ops \<Rightarrow> 'sock \<Rightarrow> string \<Rightarrow> string \<Rightarrow> medium \<Rightarrow> 'sock tcp_channel option" where
  "tcp_channel N stream service_id channel_name m =
     do {
       duplex \<leftarrow> tcp_duplex_stream_new N stream;
       Some (stream_channel_new service_id channel_name m duplex)
     }"

section \<open>Listeners\<close>

text \<open>
  \<^verbatim>\<open>l_finished\<close>: the accept loop has ended, by itself, because accepting failed.
\<close>

record 'l listener =
  l_addr :: socket_addr
  l_socket :: 'l
  l_stop :: bool
  l_finished :: bool

text \<open>
  The accept loop over what it sees: for every connection or failure of the listening socket, the
  stop flag it then reads. The result is what it hands to the sink, in order, and whether it has
  ended (otherwise it waits for the next connection).
\<close>

fun accept_loop ::
    "('n, 'sock, 'l) net_ops \<Rightarrow> string \<Rightarrow> string \<Rightarrow> medium \<Rightarrow> (bool \<times> (io_error + 'sock)) list
      \<Rightarrow> 'sock tcp_channel list \<times> bool" where
  "accept_loop N service_id channel_name m [] = ([], False)"
| "accept_loop N service_id channel_name m ((stop, incoming) # rest) =
     (if stop then ([], True)
      else
        (case incoming of
           Inr stream \<Rightarrow>
             (let (sunk, ended) = accept_loop N service_id channel_name m rest in
              (case tcp_channel N stream service_id channel_name m of
                 Some channel \<Rightarrow> (channel # sunk, ended)
               | None \<Rightarrow> (sunk, ended)))
         | Inl _ \<Rightarrow> ([], True)))"

definition start_listener ::
    "('n, 'sock, 'l) net_ops \<Rightarrow> ipv4 \<Rightarrow> 'n \<Rightarrow> 'l listener option \<times> 'n" where
  "start_listener N bind_ip n =
     (case net_bind N (bind_ip, 0) n of
        (None, n) \<Rightarrow> (None, n)
      | (Some socket, n) \<Rightarrow>
          (case net_local_addr N socket of
             None \<Rightarrow> (None, net_close N socket n)
           | Some addr \<Rightarrow>
               (Some \<lparr>l_addr = addr, l_socket = socket, l_stop = False, l_finished = False\<rparr>, n)))"

text \<open>
  Stopping: the throwaway connection wakes the loop, which reads the stop flag and ends, and its
  listening socket is dropped. When the connection fails and the loop has not ended by itself,
  the join waits.
\<close>

definition stop_listener :: "('n, 'sock, 'l) net_ops \<Rightarrow> 'l listener \<Rightarrow> 'n \<Rightarrow> 'n option" where
  "stop_listener N l n =
     (let l = l\<lparr>l_stop := True\<rparr>; (woken, n) = net_connect N (l_addr l) n in
      if l_finished l then Some n
      else if woken = None then None
      else Some (net_close N (l_socket l) n))"

section \<open>Properties\<close>

text \<open>An open, unpaused, plaintext channel.\<close>

definition fresh_channel :: "string \<Rightarrow> string \<Rightarrow> medium \<Rightarrow> 's stream_channel \<Rightarrow> bool" where
  "fresh_channel sid name m c \<longleftrightarrow> sc_service_id c = sid \<and> sc_name c = name \<and> sc_medium c = m
     \<and> \<not> is_encrypted c \<and> \<not> paused (sc_pause c) \<and> \<not> ps_closed (sc_pause c)"

lemma tcp_channel_fresh: "tcp_channel N s sid name m = Some c \<Longrightarrow> fresh_channel sid name m c"
  by (auto simp: tcp_channel_def stream_channel_new_def is_encrypted_def fresh_channel_def elim!: bind_SomeE)

lemma in_map_filter: "c \<in> set (List.map_filter f xs) \<Longrightarrow> \<exists>x. f x = Some c"
  by (auto simp: List.map_filter_def)

text \<open>The sockets accepted before the loop is stopped or accepting fails.\<close>

fun accepted_sockets :: "(bool \<times> (io_error + 'sock)) list \<Rightarrow> 'sock list" where
  "accepted_sockets ((False, Inr s) # evs) = s # accepted_sockets evs"
| "accepted_sockets _ = []"

text \<open>
  C26. The accept loop: it hands over exactly the sockets accepted before it is told to stop or
  accepting fails, in order, leaving out those it cannot wrap, each as an open, unpaused,
  plaintext channel of the given service and medium; it ends exactly when it has seen a stop flag
  or a failure, so a connection made after the stop flag is set ends it and is never handed over.
\<close>

theorem accept_loop_delivers:
  "fst (accept_loop N sid name m evs) = List.map_filter (\<lambda>s. tcp_channel N s sid name m) (accepted_sockets evs)
   \<and> (snd (accept_loop N sid name m evs) \<longleftrightarrow> length (accepted_sockets evs) < length evs)
   \<and> list_all (fresh_channel sid name m) (fst (accept_loop N sid name m evs))
   \<and> accept_loop N sid name m (map (Pair True) (e # es)) = ([], True)"
proof -
  have "fst (accept_loop N sid name m evs) = List.map_filter (\<lambda>s. tcp_channel N s sid name m) (accepted_sockets evs)
    \<and> (snd (accept_loop N sid name m evs) \<longleftrightarrow> length (accepted_sockets evs) < length evs)"
    by (induction evs rule: accepted_sockets.induct)
      (auto simp: List.map_filter_simps split: prod.splits option.splits)
  moreover from this have "list_all (fresh_channel sid name m) (fst (accept_loop N sid name m evs))"
    by (auto simp: list_all_iff dest!: in_map_filter tcp_channel_fresh)
  ultimately show ?thesis by simp
qed

section \<open>A network in memory\<close>

text \<open>
  A network in which every call succeeds: listeners are numbered from 0 on and get the ports from
  4000 on, and a socket is the bytes that were written to it and not yet read.
\<close>

definition memory_net :: "(nat, bytes, nat) net_ops" where
  "memory_net =
     \<lparr>net_bind = (\<lambda>addr n. (Some n, Suc n)),
      net_local_addr = (\<lambda>l. Some (ipv4_localhost, of_nat (4000 + l))),
      net_close = (\<lambda>l n. n),
      net_connect = (\<lambda>addr n. (Some [], n)),
      sock_try_clone = (\<lambda>s. (True, s)),
      sock_read_exact = (\<lambda>s k. if k \<le> length s then Some (Inr (take k s), drop k s) else None),
      sock_write_all = (\<lambda>s bs. Some (Inr (), s @ bs)),
      sock_flush = (\<lambda>s. Some (Inr (), s)),
      sock_shutdown = (\<lambda>s. s)\<rparr>"

end
