(* ===== verification/Bwu_Serving.thy ===== *)
theory Bwu_Serving
  imports Bwu_Handler
begin

text \<open>
  The contract between \<^verbatim>\<open>BaseBwuHandler\<close> and a medium that serves incoming connections: the
  medium listens for a service from its first successful initialisation until the service is
  reverted. Under the bookkeeping of \<^verbatim>\<open>BaseBwuHandler\<close> the medium then listens exactly for the
  services that have an endpoint with an initiated upgrade: nothing leaks, and nothing is torn
  down too early. The Wi-Fi LAN and the hotspot handler satisfy the contract.
\<close>

section \<open>What the bookkeeping calls\<close>

text \<open>One call of a method of the medium handler.\<close>

inductive medium_step :: "('ch, 'm) medium_handler_ops \<Rightarrow> 'm \<Rightarrow> 'm \<Rightarrow> bool" for mops where
  initialize: "m_handle_initialize_upgraded_medium_for_endpoint mops cl sid ep m = Some (frame, m') \<Longrightarrow>
    medium_step mops m m'"
| revert: "m_handle_revert_initiator_state_for_service mops sid m = Some m' \<Longrightarrow> medium_step mops m m'"
| create: "m_create_upgraded_endpoint_channel mops cl sid ep info m = Some (c, m') \<Longrightarrow> medium_step mops m m'"
| disconnect: "m_on_endpoint_disconnect mops cl ep m = Some m' \<Longrightarrow> medium_step mops m m'"

lemma revert_services_steps:
  "base_revert_services mops sids m = Some m' \<Longrightarrow> (medium_step mops)\<^sup>*\<^sup>* m m'"
  by (induction sids arbitrary: m)
    (auto elim!: bind_SomeE intro: converse_rtranclp_into_rtranclp medium_step.revert)

lemma base_step_medium:
  assumes "hand_step (base_handler_ops mops) h h'"
  shows "(medium_step mops)\<^sup>*\<^sup>* (inner h) (inner h')"
  using assms
proof (cases rule: hand_step.cases)
  case (1 cl sid ep bs)
  then show ?thesis
    by (auto simp: base_handler_ops_def base_initialize_map intro!: r_into_rtranclp
        dest: medium_step.initialize)
next
  case 2
  then show ?thesis
    by (auto simp: base_handler_ops_def base_revert_initiator_state_def elim!: bind_SomeE
        dest: revert_services_steps)
next
  case (3 sid ep)
  then show ?thesis
    by (auto simp: base_handler_ops_def base_revert_initiator_state_for_endpoint_def Let_def elim!: bind_SomeE
        split: if_splits option.splits dest: medium_step.revert intro: r_into_rtranclp)
next
  case (4 sid)
  then show ?thesis
    by (auto simp: base_handler_ops_def base_revert_responder_state_def elim!: bind_SomeE
        dest: medium_step.revert intro: r_into_rtranclp)
next
  case (5 cl sid ep info c)
  then show ?thesis
    by (auto simp: base_handler_ops_def base_create_upgraded_endpoint_channel_def elim!: bind_SomeE
        dest: medium_step.create intro: r_into_rtranclp)
next
  case (6 cl ep)
  then show ?thesis
    by (auto simp: base_handler_ops_def base_on_endpoint_disconnect_def elim!: bind_SomeE
        dest: medium_step.disconnect intro: r_into_rtranclp)
qed

section \<open>Media that serve connections\<close>

lemma fst_remove_pair:
  "fst ` (A - {(s, e)}) = (if s \<in> fst ` (A - {(s, e)}) then fst ` A else fst ` A - {s})"
proof (cases "s \<in> fst ` (A - {(s, e)})")
  case True
  have "x \<in> fst ` (A - {(s, e)})" if x: "x \<in> fst ` A" for x
  proof (cases "x = s")
    case False
    from x obtain b where "(x, b) \<in> A" by auto
    with False have "(x, b) \<in> A - {(s, e)}" by simp
    then show ?thesis by (rule image_eqI [rotated]) simp
  qed (use True in simp)
  then have "fst ` A \<subseteq> fst ` (A - {(s, e)})" by (rule subsetI)
  moreover have "fst ` (A - {(s, e)}) \<subseteq> fst ` A" by (rule image_mono) (rule Diff_subset)
  ultimately show ?thesis using True by simp
next
  case False
  then have "x \<in> fst ` (A - {(s, e)})" if "x \<in> fst ` A - {s}" for x using that by force
  with False show ?thesis by auto
qed

locale serving_medium =
  fixes mops :: "('ch, 'm) medium_handler_ops" and listening :: "'m \<Rightarrow> string set"
  assumes listening_initialize:
      "m_handle_initialize_upgraded_medium_for_endpoint mops cl sid ep m = Some (frame, m') \<Longrightarrow>
       listening m' = (if frame = [] then listening m else insert sid (listening m))"
    and listening_revert:
      "m_handle_revert_initiator_state_for_service mops sid m = Some m' \<Longrightarrow>
       listening m' = listening m - {sid}"
    and listening_create:
      "m_create_upgraded_endpoint_channel mops cl sid ep info m = Some (c, m') \<Longrightarrow> listening m' = listening m"
    and listening_disconnect:
      "m_on_endpoint_disconnect mops cl ep m = Some m' \<Longrightarrow> listening m' = listening m"
begin

definition serving :: "'m base_bwu_handler \<Rightarrow> bool" where
  "serving h \<longleftrightarrow> base_wf h \<and> listening (inner h) = fst ` active_pairs h"

lemma listening_revert_services:
  "base_revert_services mops sids m = Some m' \<Longrightarrow> listening m' = listening m - set sids"
  by (induction sids arbitrary: m) (auto simp: listening_revert elim!: bind_SomeE)

lemma serving_initialize:
  assumes "base_initialize_upgraded_medium_for_endpoint mops cl sid ep h = Some (frame, h')" and "serving h"
  shows "serving h'"
proof -
  have "listening (inner h') = (if frame = [] then listening (inner h)
      else insert (wrap_initiator_upgrade_service_id sid) (listening (inner h)))"
    using assms(1) by (auto simp: base_initialize_map dest!: listening_initialize split: if_splits)
  with base_tracked_initialize [OF assms(1)] base_wf_initialize [OF assms(1)] assms(2) show ?thesis
    by (simp add: serving_def)
qed

lemma serving_revert_for_endpoint:
  assumes "base_revert_initiator_state_for_endpoint mops sid ep h = Some h'" and "serving h"
  shows "serving h'"
proof -
  from assms(2) have wf: "base_wf h" and listens: "listening (inner h) = fst ` active_pairs h"
    by (simp_all add: serving_def)
  have spec: "spec_revert_for_endpoint mops sid ep (inner h, active_pairs h) = Some (inner h', active_pairs h')"
    using base_revert_for_endpoint_refines [OF wf, of mops sid ep] assms(1) by (simp add: base_abs_def)
  have "listening (inner h') = fst ` active_pairs h'"
  proof (cases "is_initiator_upgrade_service_id sid \<and> sid \<in> fst ` active_pairs h
      \<and> sid \<notin> fst ` (active_pairs h - {(sid, ep)})")
    case True
    with spec have "listening (inner h') = listening (inner h) - {sid}"
      and "active_pairs h' = active_pairs h - {(sid, ep)}"
      by (auto simp: spec_revert_for_endpoint_def listening_revert)
    with True listens fst_remove_pair [of "active_pairs h" sid ep] show ?thesis by simp
  next
    case False
    with spec have "inner h' = inner h" and
      "active_pairs h' = (if is_initiator_upgrade_service_id sid then active_pairs h - {(sid, ep)} else active_pairs h)"
      by (auto simp: spec_revert_for_endpoint_def split: if_splits)
    moreover have "fst ` (active_pairs h - {(sid, ep)}) = fst ` active_pairs h" if "is_initiator_upgrade_service_id sid"
      using False that fst_remove_pair [of "active_pairs h" sid ep]
      by (cases "sid \<in> fst ` active_pairs h") (simp_all split: if_splits)
    ultimately show ?thesis using listens by simp
  qed
  with base_wf_revert_for_endpoint [OF assms(1) wf] show ?thesis by (simp add: serving_def)
qed

lemma serving_revert:
  assumes "base_revert_initiator_state mops h = Some h'" and "serving h"
  shows "serving h' \<and> listening (inner h') = {}"
proof -
  from assms obtain m where m: "base_revert_services mops (hm_keys (upgrade_service_id_to_active_endpoint_ids h)) (inner h) = Some m"
    "h' = h\<lparr>inner := m, upgrade_service_id_to_active_endpoint_ids := []\<rparr>"
    by (auto simp: base_revert_initiator_state_def elim!: bind_SomeE)
  from assms(2) active_pairs_services [of h] listening_revert_services [OF m(1)] have "listening m = {}"
    by (simp add: serving_def del: set_map)
  with m(2) show ?thesis by (simp add: serving_def base_wf_def active_pairs_def)
qed

lemma serving_step:
  assumes "hand_step (base_handler_ops mops) h h'" and "serving h"
    and "\<And>sid. h_revert_responder_state (base_handler_ops mops) sid h = Some h' \<Longrightarrow> sid \<notin> listening (inner h)"
  shows "serving h'"
  using assms(1)
proof (cases rule: hand_step.cases)
  case (4 sid)
  with assms(3) have "sid \<notin> listening (inner h)" by blast
  moreover from 4 obtain m where "m_handle_revert_initiator_state_for_service mops sid (inner h) = Some m"
    "h' = h\<lparr>inner := m\<rparr>" by (auto simp: base_handler_ops_def base_revert_responder_state_def elim!: bind_SomeE)
  ultimately show ?thesis using assms(2) listening_revert [of sid "inner h" m]
    by (simp add: serving_def)
next
  case (5 cl sid ep info c)
  then obtain m where "m_create_upgraded_endpoint_channel mops cl sid ep info (inner h) = Some (c, m)"
    "h' = h\<lparr>inner := m\<rparr>"
    by (auto simp: base_handler_ops_def base_create_upgraded_endpoint_channel_def elim!: bind_SomeE)
  with assms(2) listening_create show ?thesis by (simp add: serving_def)
next
  case (6 cl ep)
  then obtain m where "m_on_endpoint_disconnect mops cl ep (inner h) = Some m" "h' = h\<lparr>inner := m\<rparr>"
    by (auto simp: base_handler_ops_def base_on_endpoint_disconnect_def elim!: bind_SomeE)
  with assms(2) listening_disconnect show ?thesis by (simp add: serving_def)
qed (use assms(2) in \<open>simp_all add: base_handler_ops_def serving_initialize serving_revert_for_endpoint
    serving_revert\<close>)

end

end
