(* ===== verification/Wifi_Lan.thy ===== *)
theory Wifi_Lan
  imports Tcp Bwu_Serving Validator
begin

text \<open>
  \<^verbatim>\<open>src/bwu/wifi_lan.rs\<close>: the Wi-Fi LAN handler. The initiator keeps one listener per upgrade
  service and advertises its address; the responder dials the address it is given. The handler's
  state has the network it acts on as its last field. Its connection sink is the queue the accept
  loop of theory \<^verbatim>\<open>Tcp\<close> delivers to.
\<close>

record ('n, 'l) wifi_lan_bwu_handler =
  wlh_bind_ip :: ipv4
  wlh_advertise_ip :: ipv4
  wlh_listeners :: "(string, 'l listener) hash_map"
  wlh_net :: 'n

definition wifi_lan_with_endpoint :: "ipv4 \<Rightarrow> ipv4 \<Rightarrow> 'n \<Rightarrow> ('n, 'l) wifi_lan_bwu_handler" where
  "wifi_lan_with_endpoint bind_ip advertise_ip n =
     \<lparr>wlh_bind_ip = bind_ip, wlh_advertise_ip = advertise_ip, wlh_listeners = [], wlh_net = n\<rparr>"

definition wifi_lan_new :: "'n \<Rightarrow> ('n, 'l) wifi_lan_bwu_handler" where
  "wifi_lan_new = wifi_lan_with_endpoint ipv4_localhost ipv4_localhost"

definition WIFI_LAN_CHANNEL_NAME :: string where
  "WIFI_LAN_CHANNEL_NAME = ''wifi-lan''"

text \<open>The listener of a service: the one it has, or a new one, or none when it cannot be bound.\<close>

definition wifi_lan_listener ::
    "('n, 'sock, 'l) net_ops \<Rightarrow> string \<Rightarrow> ('n, 'l) wifi_lan_bwu_handler
      \<Rightarrow> socket_addr option \<times> ('n, 'l) wifi_lan_bwu_handler" where
  "wifi_lan_listener N upgrade_service_id h =
     (case hm_get (wlh_listeners h) upgrade_service_id of
        Some listener \<Rightarrow> (Some (l_addr listener), h)
      | None \<Rightarrow>
          (case start_listener N (wlh_bind_ip h) (wlh_net h) of
             (None, n) \<Rightarrow> (None, h\<lparr>wlh_net := n\<rparr>)
           | (Some listener, n) \<Rightarrow>
               (Some (l_addr listener),
                h\<lparr>wlh_net := n,
                  wlh_listeners := hm_insert upgrade_service_id listener (wlh_listeners h)\<rparr>)))"

definition wifi_lan_handle_initialize_upgraded_medium_for_endpoint ::
    "('n, 'sock, 'l) net_ops \<Rightarrow> (offline_frame \<Rightarrow> bytes) \<Rightarrow> client_proxy \<Rightarrow> string \<Rightarrow> string
      \<Rightarrow> ('n, 'l) wifi_lan_bwu_handler \<Rightarrow> (bytes \<times> ('n, 'l) wifi_lan_bwu_handler) option" where
  "wifi_lan_handle_initialize_upgraded_medium_for_endpoint N enc _ upgrade_service_id _ h =
     (case wifi_lan_listener N upgrade_service_id h of
        (None, h) \<Rightarrow> Some ([], h)
      | (Some addr, h) \<Rightarrow>
          Some (for_bwu_wifi_lan_path_available enc
                  [\<lparr>address = ipv4_octets (wlh_advertise_ip h), addr_port = uint (snd addr)\<rparr>], h))"

definition wifi_lan_handle_revert_initiator_state_for_service ::
    "('n, 'sock, 'l) net_ops \<Rightarrow> string \<Rightarrow> ('n, 'l) wifi_lan_bwu_handler
      \<Rightarrow> ('n, 'l) wifi_lan_bwu_handler option" where
  "wifi_lan_handle_revert_initiator_state_for_service N upgrade_service_id h =
     (case hm_get (wlh_listeners h) upgrade_service_id of
        None \<Rightarrow> Some h
      | Some listener \<Rightarrow>
          do {
            n \<leftarrow> stop_listener N listener (wlh_net h);
            Some (h\<lparr>wlh_listeners := hm_remove upgrade_service_id (wlh_listeners h), wlh_net := n\<rparr>)
          })"

fun wifi_lan_revert_services ::
    "('n, 'sock, 'l) net_ops \<Rightarrow> string list \<Rightarrow> ('n, 'l) wifi_lan_bwu_handler
      \<Rightarrow> ('n, 'l) wifi_lan_bwu_handler option" where
  "wifi_lan_revert_services N [] h = Some h"
| "wifi_lan_revert_services N (service_id # service_ids) h =
     do {
       h \<leftarrow> wifi_lan_handle_revert_initiator_state_for_service N service_id h;
       wifi_lan_revert_services N service_ids h
     }"

definition wifi_lan_drop ::
    "('n, 'sock, 'l) net_ops \<Rightarrow> ('n, 'l) wifi_lan_bwu_handler \<Rightarrow> ('n, 'l) wifi_lan_bwu_handler option" where
  "wifi_lan_drop N h = wifi_lan_revert_services N (hm_keys (wlh_listeners h)) h"

text \<open>\<^verbatim>\<open>u16::try_from\<close> of an \<^verbatim>\<open>i32\<close>.\<close>

definition u16_try_from :: "i32 \<Rightarrow> 16 word option" where
  "u16_try_from p = (if 0 \<le> p \<and> p \<le> 65535 then Some (word_of_int p) else None)"

definition wifi_lan_dial_address :: "upgrade_path_info \<Rightarrow> socket_addr option" where
  "wifi_lan_dial_address info =
     do {
       socket \<leftarrow> upi_wifi_lan_socket info;
       ip \<leftarrow> wl_ip_address socket;
       (if length ip \<noteq> 4 then None
        else do {
          wifi_port \<leftarrow> wl_wifi_port socket;
          port \<leftarrow> u16_try_from wifi_port;
          Some ((ip ! 0, ip ! 1, ip ! 2, ip ! 3), port)
        })
     }"

definition wifi_lan_create_upgraded_endpoint_channel ::
    "('n, 'sock, 'l) net_ops \<Rightarrow> client_proxy \<Rightarrow> string \<Rightarrow> string \<Rightarrow> upgrade_path_info
      \<Rightarrow> ('n, 'l) wifi_lan_bwu_handler
      \<Rightarrow> ('sock tcp_channel option \<times> ('n, 'l) wifi_lan_bwu_handler) option" where
  "wifi_lan_create_upgraded_endpoint_channel N _ service_id _ info h =
     (case wifi_lan_dial_address info of
        None \<Rightarrow> Some (None, h)
      | Some addr \<Rightarrow>
          (case net_connect N addr (wlh_net h) of
             (None, n) \<Rightarrow> Some (None, h\<lparr>wlh_net := n\<rparr>)
           | (Some stream, n) \<Rightarrow>
               Some (tcp_channel N stream service_id WIFI_LAN_CHANNEL_NAME WifiLan, h\<lparr>wlh_net := n\<rparr>)))"

definition wifi_lan_medium_ops ::
    "('n, 'sock, 'l) net_ops \<Rightarrow> (offline_frame \<Rightarrow> bytes)
      \<Rightarrow> ('sock tcp_channel, ('n, 'l) wifi_lan_bwu_handler) medium_handler_ops" where
  "wifi_lan_medium_ops N enc =
     \<lparr>m_handle_initialize_upgraded_medium_for_endpoint =
        wifi_lan_handle_initialize_upgraded_medium_for_endpoint N enc,
      m_handle_revert_initiator_state_for_service = wifi_lan_handle_revert_initiator_state_for_service N,
      m_create_upgraded_endpoint_channel = wifi_lan_create_upgraded_endpoint_channel N,
      m_get_upgrade_medium = (\<lambda>h. WifiLan),
      m_on_endpoint_disconnect = (\<lambda>cl ep h. Some h)\<rparr>"

section \<open>What is advertised is what is dialled\<close>

lemma u16_try_from_uint: "u16_try_from (uint p) = Some p"
proof -
  have "uint p < 65536" using unsigned_less [of p, where ?'a = int] by simp
  then show ?thesis by (simp add: u16_try_from_def)
qed

lemma length_ipv4_octets [simp]: "length (ipv4_octets ip) = 4"
  by (cases ip) simp

lemma ipv4_octets_nth:
  "(ipv4_octets ip ! 0, ipv4_octets ip ! 1, ipv4_octets ip ! 2, ipv4_octets ip ! 3) = ip"
  by (cases ip) (simp add: numeral_2_eq_2 numeral_3_eq_3)

lemma dial_advertised:
  "wifi_lan_dial_address (wifi_lan_path_info [\<lparr>address = ipv4_octets ip, addr_port = uint p\<rparr>]) = Some (ip, p)"
  using ipv4_octets_nth [of ip]
  by (simp add: wifi_lan_dial_address_def wifi_lan_path_info_def u16_try_from_uint)

lemma wifi_lan_initialize_cases:
  assumes "wifi_lan_handle_initialize_upgraded_medium_for_endpoint N enc cl sid ep h = Some (frame, h')"
  obtains (failed) n where "frame = []" "hm_get (wlh_listeners h) sid = None" "h' = h\<lparr>wlh_net := n\<rparr>"
  | (reused) l where "hm_get (wlh_listeners h) sid = Some l" "h' = h"
      "frame = for_bwu_wifi_lan_path_available enc
         [\<lparr>address = ipv4_octets (wlh_advertise_ip h), addr_port = uint (snd (l_addr l))\<rparr>]"
  | (started) l n where "hm_get (wlh_listeners h) sid = None"
      "start_listener N (wlh_bind_ip h) (wlh_net h) = (Some l, n)"
      "h' = h\<lparr>wlh_net := n, wlh_listeners := hm_insert sid l (wlh_listeners h)\<rparr>"
      "frame = for_bwu_wifi_lan_path_available enc
         [\<lparr>address = ipv4_octets (wlh_advertise_ip h), addr_port = uint (snd (l_addr l))\<rparr>]"
  using assms
  by (auto simp: wifi_lan_handle_initialize_upgraded_medium_for_endpoint_def wifi_lan_listener_def
      split: option.splits prod.splits)

text \<open>
  C19. What a Wi-Fi LAN initiator advertises is what the responder dials: the frame of a
  successful initialisation is a valid UPGRADE_PATH_AVAILABLE for the receiver, the initiator then
  listens for the service, and the responder that gets the frame's path dials the advertised
  address at the port of that listener. A second endpoint of the service gets the same frame and
  no second listener.
\<close>

theorem wifi_lan_advertise_dial:
  assumes "\<forall>f. enc f = frame \<longrightarrow> dec frame = Some f"
    and "wifi_lan_handle_initialize_upgraded_medium_for_endpoint N enc cl sid ep h = Some (frame, h')"
    and "frame \<noteq> []"
  shows "\<exists>l info. hm_get (wlh_listeners h') sid = Some l
    \<and> from_bytes dec frame = Inr (bwu_offline_frame (bwu_event UpgradePathAvailable\<lparr>bwu_upgrade_path_info := Some info\<rparr>))
    \<and> wifi_lan_dial_address info = Some (wlh_advertise_ip h, snd (l_addr l))
    \<and> wifi_lan_handle_initialize_upgraded_medium_for_endpoint N enc cl' sid ep' h' = Some (frame, h')"
proof -
  obtain l where l: "hm_get (wlh_listeners h') sid = Some l" "wlh_advertise_ip h' = wlh_advertise_ip h"
    "frame = for_bwu_wifi_lan_path_available enc
       [\<lparr>address = ipv4_octets (wlh_advertise_ip h), addr_port = uint (snd (l_addr l))\<rparr>]"
    using assms(2) by (cases rule: wifi_lan_initialize_cases) (use assms(3) in auto)
  let ?info = "wifi_lan_path_info [\<lparr>address = ipv4_octets (wlh_advertise_ip h), addr_port = uint (snd (l_addr l))\<rparr>]"
  have "from_bytes dec frame = Inr (bwu_offline_frame (bwu_event UpgradePathAvailable\<lparr>bwu_upgrade_path_info := Some ?info\<rparr>))"
    using assms(1) path_available_parses [of dec enc ?info] l(3)
    by (simp add: for_bwu_wifi_lan_path_available_def bwu_upgrade_path_available_def encode_bwu_frame
        wifi_lan_path_info_valid)
  moreover have "wifi_lan_handle_initialize_upgraded_medium_for_endpoint N enc cl' sid ep' h' = Some (frame, h')"
    using l by (simp add: wifi_lan_handle_initialize_upgraded_medium_for_endpoint_def wifi_lan_listener_def)
  ultimately show ?thesis using l(1) dial_advertised by blast
qed

definition lan_frame_example :: offline_frame where
  "lan_frame_example = bwu_offline_frame (bwu_event UpgradePathAvailable\<lparr>bwu_upgrade_path_info :=
     Some (wifi_lan_path_info [\<lparr>address = [127, 0, 0, 1], addr_port = 4000\<rparr>])\<rparr>)"

theorem wifi_lan_advertise_dial_witness:
  "\<exists>h' info. wifi_lan_handle_initialize_upgraded_medium_for_endpoint memory_net
       (\<lambda>f. if f = lan_frame_example then [1] else [2]) (client_proxy_new 0 ''me'') ''S_UPGRADE'' ''e''
       (wifi_lan_new 0) = Some ([1], h')
     \<and> from_bytes (\<lambda>bs. if bs = [1] then Some lan_frame_example else None) [1]
       = Inr (bwu_offline_frame (bwu_event UpgradePathAvailable\<lparr>bwu_upgrade_path_info := Some info\<rparr>))
     \<and> wifi_lan_dial_address info = Some (ipv4_localhost, 4000)"
proof -
  let ?enc = "\<lambda>f. if f = lan_frame_example then [1] else [2] :: bytes"
  let ?dec = "\<lambda>bs :: bytes. if bs = [1] then Some lan_frame_example else None"
  let ?l = "\<lparr>l_addr = (ipv4_localhost, 4000), l_socket = 0, l_stop = False, l_finished = False\<rparr> :: nat listener"
  let ?h = "(wifi_lan_new 0)\<lparr>wlh_net := 1, wlh_listeners := [(''S_UPGRADE'', ?l)]\<rparr>"
  have init: "wifi_lan_handle_initialize_upgraded_medium_for_endpoint memory_net ?enc (client_proxy_new 0 ''me'')
      ''S_UPGRADE'' ''e'' (wifi_lan_new 0) = Some ([1], ?h)"
    by (simp add: wifi_lan_handle_initialize_upgraded_medium_for_endpoint_def wifi_lan_listener_def
        wifi_lan_new_def wifi_lan_with_endpoint_def start_listener_def memory_net_def ipv4_localhost_def
        for_bwu_wifi_lan_path_available_def bwu_upgrade_path_available_def encode_bwu_frame lan_frame_example_def)
  have "\<forall>f. ?enc f = [1] \<longrightarrow> ?dec [1] = Some f" by simp
  from wifi_lan_advertise_dial [where enc = ?enc and dec = ?dec, OF this init] init show ?thesis
    by (auto simp: wifi_lan_new_def wifi_lan_with_endpoint_def)
qed

section \<open>The listeners are those of the tracked services\<close>

text \<open>
  An encoder that never returns the empty string, which stands for a failed medium; for one that
  never does (as for every message with a field set) this is the encoder itself.
\<close>

definition nonempty_enc :: "(offline_frame \<Rightarrow> bytes) \<Rightarrow> offline_frame \<Rightarrow> bytes" where
  "nonempty_enc enc f = (if enc f = [] then [0] else enc f)"

lemma nonempty_enc_id: "\<forall>f. enc f \<noteq> [] \<Longrightarrow> nonempty_enc enc = enc"
  by (auto simp: nonempty_enc_def)

lemma nonempty_enc [simp]: "nonempty_enc enc f \<noteq> []"
  by (simp add: nonempty_enc_def)

lemma bwu_upgrade_path_available_nonempty [simp]: "bwu_upgrade_path_available (nonempty_enc enc) i \<noteq> []"
  by (simp add: bwu_upgrade_path_available_def encode_bwu_frame)

abbreviation wifi_lan_services :: "('n, 'l) wifi_lan_bwu_handler \<Rightarrow> string set" where
  "wifi_lan_services m \<equiv> set (hm_keys (wlh_listeners m))"

interpretation lan_serving: serving_medium "wifi_lan_medium_ops N (nonempty_enc enc)" wifi_lan_services
  for N :: "('n, 'sock, 'l) net_ops" and enc
proof unfold_locales
  fix cl sid ep frame and m m' :: "('n, 'l) wifi_lan_bwu_handler"
  show "wifi_lan_services m' = (if frame = [] then wifi_lan_services m else insert sid (wifi_lan_services m))"
    if "m_handle_initialize_upgraded_medium_for_endpoint (wifi_lan_medium_ops N (nonempty_enc enc)) cl sid ep m
      = Some (frame, m')"
  proof -
    from that have "wifi_lan_handle_initialize_upgraded_medium_for_endpoint N (nonempty_enc enc) cl sid ep m
      = Some (frame, m')" by (simp add: wifi_lan_medium_ops_def)
    then show ?thesis
    proof (cases rule: wifi_lan_initialize_cases)
      case (reused l)
      then have "sid \<in> wifi_lan_services m" unfolding hm_contains_get by blast
      with reused show ?thesis by (simp add: for_bwu_wifi_lan_path_available_def insert_absorb del: set_map)
    qed (simp_all add: for_bwu_wifi_lan_path_available_def del: set_map)
  qed
  show "wifi_lan_services m' = wifi_lan_services m - {sid}"
    if "m_handle_revert_initiator_state_for_service (wifi_lan_medium_ops N (nonempty_enc enc)) sid m = Some m'"
  proof (cases "hm_get (wlh_listeners m) sid")
    case None
    then have "sid \<notin> wifi_lan_services m" unfolding hm_contains_get by simp
    with None that show ?thesis
      by (simp add: wifi_lan_medium_ops_def wifi_lan_handle_revert_initiator_state_for_service_def del: set_map)
  next
    case (Some l)
    with that show ?thesis
      by (auto simp: wifi_lan_medium_ops_def wifi_lan_handle_revert_initiator_state_for_service_def
          simp del: set_map elim!: bind_SomeE)
  qed
qed (auto simp: wifi_lan_medium_ops_def wifi_lan_create_upgraded_endpoint_channel_def
    split: option.splits prod.splits)

text \<open>
  C20. Under the bookkeeping of \<^verbatim>\<open>BaseBwuHandler\<close> the Wi-Fi LAN handler listens exactly for the
  services that have an endpoint with an initiated upgrade: every call keeps that, if a responder
  revert is only called for a service the handler does not serve; and reverting everything stops
  every listener.
\<close>

theorem wifi_lan_listens_for_tracked:
  assumes "\<forall>f. enc f \<noteq> []" and "base_wf h" and "wifi_lan_services (inner h) = fst ` active_pairs h"
    and "hand_step (base_handler_ops (wifi_lan_medium_ops N enc)) h h'"
    and "\<forall>sid. sid \<in> wifi_lan_services (inner h) \<longrightarrow>
      h_revert_responder_state (base_handler_ops (wifi_lan_medium_ops N enc)) sid h \<noteq> Some h'"
  shows "base_wf h' \<and> wifi_lan_services (inner h') = fst ` active_pairs h'
    \<and> (h_revert_initiator_state (base_handler_ops (wifi_lan_medium_ops N enc)) h = Some h' \<longrightarrow>
        wlh_listeners (inner h') = [])"
proof -
  note enc = nonempty_enc_id [OF assms(1)]
  from assms(2,3) have serving: "lan_serving.serving h" by (simp add: lan_serving.serving_def del: set_map)
  from lan_serving.serving_step [of N enc, unfolded enc, OF assms(4) serving] assms(5)
  have "lan_serving.serving h'" by blast
  moreover have "wifi_lan_services (inner h') = {}"
    if "h_revert_initiator_state (base_handler_ops (wifi_lan_medium_ops N enc)) h = Some h'"
    using that lan_serving.serving_revert [of N enc, unfolded enc, OF _ serving]
    by (simp add: base_handler_ops_def del: set_map)
  then have "wlh_listeners (inner h') = []"
    if "h_revert_initiator_state (base_handler_ops (wifi_lan_medium_ops N enc)) h = Some h'" using that by simp
  ultimately show ?thesis by (simp add: lan_serving.serving_def del: set_map)
qed

theorem wifi_lan_listens_for_tracked_witness:
  "\<exists>h'. base_initialize_upgraded_medium_for_endpoint (wifi_lan_medium_ops memory_net (\<lambda>f. [1]))
       (client_proxy_new 0 ''me'') ''S'' ''e'' (base_bwu_handler_new (wifi_lan_new 0)) = Some ([1], h')
     \<and> wifi_lan_services (inner h') = fst ` active_pairs h'"
proof -
  let ?ops = "wifi_lan_medium_ops memory_net (\<lambda>f. [1])"
  let ?h = "base_bwu_handler_new (wifi_lan_new 0) :: (nat, nat) wifi_lan_bwu_handler base_bwu_handler"
  obtain h' where h': "base_initialize_upgraded_medium_for_endpoint ?ops (client_proxy_new 0 ''me'') ''S'' ''e'' ?h
      = Some ([1], h')"
    by (simp add: base_initialize_map wifi_lan_medium_ops_def base_bwu_handler_new_def
        wifi_lan_handle_initialize_upgraded_medium_for_endpoint_def wifi_lan_listener_def
        wifi_lan_new_def wifi_lan_with_endpoint_def start_listener_def memory_net_def
        for_bwu_wifi_lan_path_available_def bwu_upgrade_path_available_def encode_bwu_frame)
  then have "hand_step (base_handler_ops ?ops) ?h h'"
    by (intro hand_step.intros(1)) (simp add: base_handler_ops_def)
  moreover have "wifi_lan_services (inner ?h) = {}" "active_pairs ?h = {}"
    by (simp_all add: base_bwu_handler_new_def wifi_lan_new_def wifi_lan_with_endpoint_def active_pairs_def)
  ultimately have "wifi_lan_services (inner h') = fst ` active_pairs h'"
    using wifi_lan_listens_for_tracked [of "\<lambda>f. [1]" ?h memory_net h'] by simp
  with h' show ?thesis by blast
qed

text \<open>Every address can be connected to, as a loopback listener can.\<close>

definition dials_succeed :: "('n, 'sock, 'l) net_ops \<Rightarrow> bool" where
  "dials_succeed N \<longleftrightarrow> (\<forall>addr n. fst (net_connect N addr n) \<noteq> None)"

lemma dials_succeed_connect: "dials_succeed N \<Longrightarrow> fst (net_connect N addr n) \<noteq> None"
  unfolding dials_succeed_def by blast

lemma stop_listener_returns:
  "stop_listener N l n \<noteq> None \<longleftrightarrow> l_finished l \<or> fst (net_connect N (l_addr l) n) \<noteq> None"
  by (simp add: stop_listener_def split: prod.split)

lemma wifi_lan_revert_returns:
  "wifi_lan_handle_revert_initiator_state_for_service N sid h \<noteq> None \<longleftrightarrow>
     (case hm_get (wlh_listeners h) sid of
        None \<Rightarrow> True
      | Some l \<Rightarrow> l_finished l \<or> fst (net_connect N (l_addr l) (wlh_net h)) \<noteq> None)"
proof (cases "hm_get (wlh_listeners h) sid")
  case (Some l)
  then show ?thesis using stop_listener_returns [of N l "wlh_net h"]
    by (cases "stop_listener N l (wlh_net h)")
      (simp_all add: wifi_lan_handle_revert_initiator_state_for_service_def)
qed (simp add: wifi_lan_handle_revert_initiator_state_for_service_def)

lemma wifi_lan_revert_listeners:
  assumes "wifi_lan_handle_revert_initiator_state_for_service N sid h = Some h'"
  shows "wlh_listeners h' = hm_remove sid (wlh_listeners h)"
proof (cases "hm_get (wlh_listeners h) sid")
  case None
  with assms show ?thesis
    by (simp add: wifi_lan_handle_revert_initiator_state_for_service_def hm_remove_absent)
qed (use assms in \<open>auto simp: wifi_lan_handle_revert_initiator_state_for_service_def elim!: bind_SomeE\<close>)

lemma wifi_lan_revert_services_return:
  assumes "dials_succeed N"
  shows "\<exists>h'. wifi_lan_revert_services N sids h = Some h'
    \<and> wifi_lan_services h' = wifi_lan_services h - set sids"
proof (induction sids arbitrary: h)
  case (Cons sid sids)
  have "wifi_lan_handle_revert_initiator_state_for_service N sid h \<noteq> None"
    unfolding wifi_lan_revert_returns
    by (cases "hm_get (wlh_listeners h) sid") (use dials_succeed_connect [OF assms] in auto)
  then obtain h1 where h1: "wifi_lan_handle_revert_initiator_state_for_service N sid h = Some h1" by blast
  with Cons.IH [of h1] show ?case
    by (auto simp: wifi_lan_revert_listeners simp del: set_map)
qed simp


end
