(* ===== verification/Wifi_Hotspot.thy ===== *)
theory Wifi_Hotspot
  imports Wifi_Lan
begin

text \<open>
  \<^verbatim>\<open>src/bwu/wifi_hotspot.rs\<close>: the hotspot handler. The initiator brings up an access point and
  a listener per upgrade service and advertises both; the responder joins the access point and
  dials its gateway. The platform seam \<^verbatim>\<open>SoftAp\<close> is a record of operations, with the fake one of
  the crate as an instance.
\<close>

record hotspot_creds =
  hc_ssid :: string
  hc_password :: string
  hc_frequency :: i32
  hc_gateway :: ipv4
  hc_bind_ip :: ipv4

record 'a softap_ops =
  ap_start :: "string \<Rightarrow> 'a \<Rightarrow> hotspot_creds option \<times> 'a"
  ap_connect_as_sta :: "hotspot_creds \<Rightarrow> 'a \<Rightarrow> bool \<times> 'a"
  ap_stop :: "string \<Rightarrow> 'a \<Rightarrow> 'a"
  ap_disconnect_sta :: "'a \<Rightarrow> 'a"
  ap_is_connected_to_hotspot :: "'a \<Rightarrow> bool"

record 'l hotspot_listener =
  hl_listener :: "'l listener"
  hl_creds :: hotspot_creds

record ('n, 'l, 'a) wifi_hotspot_bwu_handler =
  whh_softap :: 'a
  whh_listeners :: "(string, 'l hotspot_listener) hash_map"
  whh_net :: 'n

definition wifi_hotspot_new :: "'a \<Rightarrow> 'n \<Rightarrow> ('n, 'l, 'a) wifi_hotspot_bwu_handler" where
  "wifi_hotspot_new a n = \<lparr>whh_softap = a, whh_listeners = [], whh_net = n\<rparr>"

definition WIFI_HOTSPOT_CHANNEL_NAME :: string where
  "WIFI_HOTSPOT_CHANNEL_NAME = ''wifi-hotspot''"

definition wifi_hotspot_listener ::
    "('n, 'sock, 'l) net_ops \<Rightarrow> 'a softap_ops \<Rightarrow> string \<Rightarrow> ('n, 'l, 'a) wifi_hotspot_bwu_handler
      \<Rightarrow> 'l hotspot_listener option \<times> ('n, 'l, 'a) wifi_hotspot_bwu_handler" where
  "wifi_hotspot_listener N A upgrade_service_id h =
     (case hm_get (whh_listeners h) upgrade_service_id of
        Some hl \<Rightarrow> (Some hl, h)
      | None \<Rightarrow>
          (case ap_start A upgrade_service_id (whh_softap h) of
             (None, a) \<Rightarrow> (None, h\<lparr>whh_softap := a\<rparr>)
           | (Some creds, a) \<Rightarrow>
               (case start_listener N (hc_bind_ip creds) (whh_net h) of
                  (None, n) \<Rightarrow>
                    (None, h\<lparr>whh_softap := ap_stop A upgrade_service_id a, whh_net := n\<rparr>)
                | (Some listener, n) \<Rightarrow>
                    (let hl = \<lparr>hl_listener = listener, hl_creds = creds\<rparr> in
                     (Some hl,
                      h\<lparr>whh_softap := a, whh_net := n,
                        whh_listeners := hm_insert upgrade_service_id hl (whh_listeners h)\<rparr>)))))"

definition advertised_credentials :: "'l hotspot_listener \<Rightarrow> wifi_hotspot_credentials" where
  "advertised_credentials hl = wifi_hotspot_credentials_default\<lparr>
     wh_ssid := Some (hc_ssid (hl_creds hl)), wh_password := Some (hc_password (hl_creds hl)),
     wh_port := Some (uint (snd (l_addr (hl_listener hl)))),
     wh_gateway := Some (ipv4_to_string (hc_gateway (hl_creds hl))),
     wh_frequency := Some (hc_frequency (hl_creds hl))\<rparr>"

definition wifi_hotspot_handle_initialize_upgraded_medium_for_endpoint ::
    "('n, 'sock, 'l) net_ops \<Rightarrow> 'a softap_ops \<Rightarrow> (offline_frame \<Rightarrow> bytes) \<Rightarrow> client_proxy \<Rightarrow> string
      \<Rightarrow> string \<Rightarrow> ('n, 'l, 'a) wifi_hotspot_bwu_handler
      \<Rightarrow> (bytes \<times> ('n, 'l, 'a) wifi_hotspot_bwu_handler) option" where
  "wifi_hotspot_handle_initialize_upgraded_medium_for_endpoint N A enc _ upgrade_service_id _ h =
     (case wifi_hotspot_listener N A upgrade_service_id h of
        (None, h) \<Rightarrow> Some ([], h)
      | (Some hl, h) \<Rightarrow>
          Some (for_bwu_wifi_hotspot_path_available enc (advertised_credentials hl) False, h))"

definition wifi_hotspot_handle_revert_initiator_state_for_service ::
    "('n, 'sock, 'l) net_ops \<Rightarrow> 'a softap_ops \<Rightarrow> string \<Rightarrow> ('n, 'l, 'a) wifi_hotspot_bwu_handler
      \<Rightarrow> ('n, 'l, 'a) wifi_hotspot_bwu_handler option" where
  "wifi_hotspot_handle_revert_initiator_state_for_service N A upgrade_service_id h =
     (case hm_get (whh_listeners h) upgrade_service_id of
        None \<Rightarrow> Some h
      | Some hl \<Rightarrow>
          do {
            n \<leftarrow> stop_listener N (hl_listener hl) (whh_net h);
            Some (h\<lparr>whh_listeners := hm_remove upgrade_service_id (whh_listeners h), whh_net := n,
                    whh_softap := ap_stop A upgrade_service_id (whh_softap h)\<rparr>)
          })"

fun wifi_hotspot_revert_services ::
    "('n, 'sock, 'l) net_ops \<Rightarrow> 'a softap_ops \<Rightarrow> string list \<Rightarrow> ('n, 'l, 'a) wifi_hotspot_bwu_handler
      \<Rightarrow> ('n, 'l, 'a) wifi_hotspot_bwu_handler option" where
  "wifi_hotspot_revert_services N A [] h = Some h"
| "wifi_hotspot_revert_services N A (service_id # service_ids) h =
     do {
       h \<leftarrow> wifi_hotspot_handle_revert_initiator_state_for_service N A service_id h;
       wifi_hotspot_revert_services N A service_ids h
     }"

definition wifi_hotspot_drop ::
    "('n, 'sock, 'l) net_ops \<Rightarrow> 'a softap_ops \<Rightarrow> ('n, 'l, 'a) wifi_hotspot_bwu_handler
      \<Rightarrow> ('n, 'l, 'a) wifi_hotspot_bwu_handler option" where
  "wifi_hotspot_drop N A h = wifi_hotspot_revert_services N A (hm_keys (whh_listeners h)) h"

text \<open>The credentials and the port the responder takes from an offered path.\<close>

definition hotspot_path_creds :: "upgrade_path_info \<Rightarrow> (hotspot_creds \<times> 16 word) option" where
  "hotspot_path_creds info =
     do {
       creds_pb \<leftarrow> upi_wifi_hotspot_credentials info;
       gw \<leftarrow> wh_gateway creds_pb;
       gateway \<leftarrow> ipv4_parse gw;
       p \<leftarrow> wh_port creds_pb;
       port \<leftarrow> u16_try_from p;
       Some (\<lparr>hc_ssid = unwrap_or (wh_ssid creds_pb) [],
              hc_password = unwrap_or (wh_password creds_pb) [],
              hc_frequency = unwrap_or (wh_frequency creds_pb) (-1),
              hc_gateway = gateway, hc_bind_ip = gateway\<rparr>, port)
     }"

definition wifi_hotspot_create_upgraded_endpoint_channel ::
    "('n, 'sock, 'l) net_ops \<Rightarrow> 'a softap_ops \<Rightarrow> client_proxy \<Rightarrow> string \<Rightarrow> string \<Rightarrow> upgrade_path_info
      \<Rightarrow> ('n, 'l, 'a) wifi_hotspot_bwu_handler
      \<Rightarrow> ('sock tcp_channel option \<times> ('n, 'l, 'a) wifi_hotspot_bwu_handler) option" where
  "wifi_hotspot_create_upgraded_endpoint_channel N A _ service_id _ info h =
     (case hotspot_path_creds info of
        None \<Rightarrow> Some (None, h)
      | Some (creds, port) \<Rightarrow>
          (let (joined, a) = ap_connect_as_sta A creds (whh_softap h); h = h\<lparr>whh_softap := a\<rparr> in
           if \<not> joined then Some (None, h)
           else
             (case net_connect N (hc_gateway creds, port) (whh_net h) of
                (None, n) \<Rightarrow> Some (None, h\<lparr>whh_net := n\<rparr>)
              | (Some stream, n) \<Rightarrow>
                  Some (tcp_channel N stream service_id WIFI_HOTSPOT_CHANNEL_NAME WifiHotspot,
                        h\<lparr>whh_net := n\<rparr>))))"

definition wifi_hotspot_on_endpoint_disconnect ::
    "'a softap_ops \<Rightarrow> client_proxy \<Rightarrow> string \<Rightarrow> ('n, 'l, 'a) wifi_hotspot_bwu_handler
      \<Rightarrow> ('n, 'l, 'a) wifi_hotspot_bwu_handler option" where
  "wifi_hotspot_on_endpoint_disconnect A _ _ h =
     Some (h\<lparr>whh_softap := ap_disconnect_sta A (whh_softap h)\<rparr>)"

definition wifi_hotspot_medium_ops ::
    "('n, 'sock, 'l) net_ops \<Rightarrow> 'a softap_ops \<Rightarrow> (offline_frame \<Rightarrow> bytes)
      \<Rightarrow> ('sock tcp_channel, ('n, 'l, 'a) wifi_hotspot_bwu_handler) medium_handler_ops" where
  "wifi_hotspot_medium_ops N A enc =
     \<lparr>m_handle_initialize_upgraded_medium_for_endpoint =
        wifi_hotspot_handle_initialize_upgraded_medium_for_endpoint N A enc,
      m_handle_revert_initiator_state_for_service =
        wifi_hotspot_handle_revert_initiator_state_for_service N A,
      m_create_upgraded_endpoint_channel = wifi_hotspot_create_upgraded_endpoint_channel N A,
      m_get_upgrade_medium = (\<lambda>h. WifiHotspot),
      m_on_endpoint_disconnect = wifi_hotspot_on_endpoint_disconnect A\<rparr>"

section \<open>The fake access point\<close>

record fake_softap =
  fs_ssid :: string
  fs_password :: string
  fs_frequency :: i32
  fs_connected :: bool

definition fake_softap_new :: fake_softap where
  "fake_softap_new = \<lparr>fs_ssid = ''DIRECT-beamish-test'', fs_password = ''testpassword'',
     fs_frequency = 2437, fs_connected = False\<rparr>"

definition fake_softap_default :: fake_softap where
  "fake_softap_default = fake_softap_new"

definition fake_softap_ops :: "fake_softap softap_ops" where
  "fake_softap_ops =
     \<lparr>ap_start = (\<lambda>_ a. (Some \<lparr>hc_ssid = fs_ssid a, hc_password = fs_password a,
        hc_frequency = fs_frequency a, hc_gateway = ipv4_localhost, hc_bind_ip = ipv4_localhost\<rparr>, a)),
      ap_connect_as_sta = (\<lambda>_ a. (True, a\<lparr>fs_connected := True\<rparr>)),
      ap_stop = (\<lambda>_ a. a),
      ap_disconnect_sta = (\<lambda>a. a\<lparr>fs_connected := False\<rparr>),
      ap_is_connected_to_hotspot = fs_connected\<rparr>"

section \<open>What is advertised is what is joined and dialled\<close>

lemma wifi_hotspot_initialize_cases:
  assumes "wifi_hotspot_handle_initialize_upgraded_medium_for_endpoint N A enc cl sid ep h = Some (frame, h')"
  obtains (no_ap) a where "frame = []" "hm_get (whh_listeners h) sid = None"
      "ap_start A sid (whh_softap h) = (None, a)" "h' = h\<lparr>whh_softap := a\<rparr>"
  | (no_listener) creds a n where "frame = []" "hm_get (whh_listeners h) sid = None"
      "ap_start A sid (whh_softap h) = (Some creds, a)" "h' = h\<lparr>whh_softap := ap_stop A sid a, whh_net := n\<rparr>"
  | (reused) hl where "hm_get (whh_listeners h) sid = Some hl" "h' = h"
      "frame = for_bwu_wifi_hotspot_path_available enc (advertised_credentials hl) False"
  | (started) creds l a n where "hm_get (whh_listeners h) sid = None"
      "ap_start A sid (whh_softap h) = (Some creds, a)"
      "h' = h\<lparr>whh_softap := a, whh_net := n,
         whh_listeners := hm_insert sid \<lparr>hl_listener = l, hl_creds = creds\<rparr> (whh_listeners h)\<rparr>"
      "frame = for_bwu_wifi_hotspot_path_available enc
         (advertised_credentials \<lparr>hl_listener = l, hl_creds = creds\<rparr>) False"
  using assms
  by (auto simp: wifi_hotspot_handle_initialize_upgraded_medium_for_endpoint_def wifi_hotspot_listener_def
      Let_def split: option.splits prod.splits)

lemma hotspot_path_creds_advertised:
  "hotspot_path_creds (wifi_hotspot_path_info (advertised_credentials hl) sd)
   = Some ((hl_creds hl)\<lparr>hc_bind_ip := hc_gateway (hl_creds hl)\<rparr>, snd (l_addr (hl_listener hl)))"
  by (simp add: hotspot_path_creds_def wifi_hotspot_path_info_def advertised_credentials_def
      ipv4_parse_to_string u16_try_from_uint)

lemma advertised_valid:
  "ensure_valid_bwu_path_available_frame (wifi_hotspot_path_info (advertised_credentials hl) sd) = Success \<longleftrightarrow>
     8 \<le> length (hc_password (hl_creds hl)) \<and> length (hc_password (hl_creds hl)) < 64"
  by (simp add: wifi_hotspot_path_info_valid ensure_valid_bwu_wifi_hotspot_path_available_def
      advertised_credentials_def wifi_hotspot_credentials_default_def is_valid_ipv4_to_string within_range_def
      WIFI_PASSWORD_SSID_MIN_LENGTH_def WIFI_PASSWORD_SSID_MAX_LENGTH_def)


text \<open>The hotspot of the fake access point, on the network in memory.\<close>

definition hotspot_listener_example :: "nat hotspot_listener" where
  "hotspot_listener_example = \<lparr>
     hl_listener = \<lparr>l_addr = (ipv4_localhost, 4000), l_socket = 0, l_stop = False, l_finished = False\<rparr>,
     hl_creds = \<lparr>hc_ssid = ''DIRECT-beamish-test'', hc_password = ''testpassword'', hc_frequency = 2437,
       hc_gateway = ipv4_localhost, hc_bind_ip = ipv4_localhost\<rparr>\<rparr>"

definition hotspot_frame_example :: offline_frame where
  "hotspot_frame_example = bwu_offline_frame (bwu_event UpgradePathAvailable\<lparr>bwu_upgrade_path_info :=
     Some (wifi_hotspot_path_info (advertised_credentials hotspot_listener_example) False)\<rparr>)"

lemma fake_hotspot_initialize:
  "wifi_hotspot_handle_initialize_upgraded_medium_for_endpoint memory_net fake_softap_ops enc cl sid ep
     (wifi_hotspot_new fake_softap_new 0)
   = Some (enc hotspot_frame_example, \<lparr>whh_softap = fake_softap_new,
       whh_listeners = [(sid, hotspot_listener_example)], whh_net = 1\<rparr>)"
  by (simp add: wifi_hotspot_handle_initialize_upgraded_medium_for_endpoint_def wifi_hotspot_listener_def
      wifi_hotspot_new_def fake_softap_ops_def fake_softap_new_def start_listener_def memory_net_def
      hotspot_listener_example_def for_bwu_wifi_hotspot_path_available_def bwu_upgrade_path_available_def
      encode_bwu_frame hotspot_frame_example_def Let_def)


section \<open>Access points and listeners are those of the tracked services\<close>

abbreviation hotspot_services :: "('n, 'l, 'a) wifi_hotspot_bwu_handler \<Rightarrow> string set" where
  "hotspot_services m \<equiv> set (hm_keys (whh_listeners m))"

interpretation hotspot_serving: serving_medium "wifi_hotspot_medium_ops N A (nonempty_enc enc)" hotspot_services
  for N :: "('n, 'sock, 'l) net_ops" and A :: "'a softap_ops" and enc
proof unfold_locales
  fix cl sid ep frame and m m' :: "('n, 'l, 'a) wifi_hotspot_bwu_handler"
  show "hotspot_services m' = (if frame = [] then hotspot_services m else insert sid (hotspot_services m))"
    if "m_handle_initialize_upgraded_medium_for_endpoint (wifi_hotspot_medium_ops N A (nonempty_enc enc)) cl sid ep m
      = Some (frame, m')"
  proof -
    from that have "wifi_hotspot_handle_initialize_upgraded_medium_for_endpoint N A (nonempty_enc enc) cl sid ep m
      = Some (frame, m')" by (simp add: wifi_hotspot_medium_ops_def)
    then show ?thesis
    proof (cases rule: wifi_hotspot_initialize_cases)
      case (reused hl)
      then have "sid \<in> hotspot_services m" unfolding hm_contains_get by blast
      with reused show ?thesis by (simp add: for_bwu_wifi_hotspot_path_available_def insert_absorb del: set_map)
    qed (simp_all add: for_bwu_wifi_hotspot_path_available_def del: set_map)
  qed
  show "hotspot_services m' = hotspot_services m - {sid}"
    if "m_handle_revert_initiator_state_for_service (wifi_hotspot_medium_ops N A (nonempty_enc enc)) sid m = Some m'"
  proof (cases "hm_get (whh_listeners m) sid")
    case None
    then have "sid \<notin> hotspot_services m" unfolding hm_contains_get by simp
    with None that show ?thesis
      by (simp add: wifi_hotspot_medium_ops_def wifi_hotspot_handle_revert_initiator_state_for_service_def
          del: set_map)
  next
    case (Some l)
    with that show ?thesis
      by (auto simp: wifi_hotspot_medium_ops_def wifi_hotspot_handle_revert_initiator_state_for_service_def
          simp del: set_map elim!: bind_SomeE)
  qed
qed (auto simp: wifi_hotspot_medium_ops_def wifi_hotspot_create_upgraded_endpoint_channel_def
    wifi_hotspot_on_endpoint_disconnect_def Let_def split: option.splits prod.splits if_splits)

text \<open>An access point with a record of the services it is up for.\<close>

definition recording_ap :: "'a softap_ops \<Rightarrow> ('a \<times> string set) softap_ops" where
  "recording_ap A =
     \<lparr>ap_start = (\<lambda>sid (a, up).
        (let (creds, a) = ap_start A sid a in (creds, a, if creds = None then up else insert sid up))),
      ap_connect_as_sta = (\<lambda>creds (a, up). (let (ok, a) = ap_connect_as_sta A creds a in (ok, a, up))),
      ap_stop = (\<lambda>sid (a, up). (ap_stop A sid a, up - {sid})),
      ap_disconnect_sta = (\<lambda>(a, up). (ap_disconnect_sta A a, up)),
      ap_is_connected_to_hotspot = (\<lambda>(a, up). ap_is_connected_to_hotspot A a)\<rparr>"

abbreviation aps_up :: "('n, 'l, 'a \<times> string set) wifi_hotspot_bwu_handler \<Rightarrow> string set" where
  "aps_up m \<equiv> snd (whh_softap m)"

text \<open>The access points that are up are those of the services with a listener.\<close>

lemma aps_up_initialize:
  assumes "wifi_hotspot_handle_initialize_upgraded_medium_for_endpoint N (recording_ap A) enc cl sid ep m = Some (frame, m')"
    and "aps_up m = hotspot_services m"
  shows "aps_up m' = hotspot_services m'"
  using assms(1)
proof (cases rule: wifi_hotspot_initialize_cases)
  case (no_listener creds a n)
  then have "sid \<notin> hotspot_services m" unfolding hm_contains_get by simp
  with no_listener assms(2) show ?thesis
    by (cases "whh_softap m") (auto simp: recording_ap_def Let_def simp del: set_map split: prod.splits)
qed (use assms(2) in \<open>cases "whh_softap m"; auto simp: recording_ap_def Let_def simp del: set_map
    split: prod.splits\<close>)+

lemma aps_up_revert:
  assumes "wifi_hotspot_handle_revert_initiator_state_for_service N (recording_ap A) sid m = Some m'"
    and "aps_up m = hotspot_services m"
  shows "aps_up m' = hotspot_services m'"
  using assms
  by (cases "whh_softap m") (auto simp: wifi_hotspot_handle_revert_initiator_state_for_service_def
      recording_ap_def simp del: set_map elim!: bind_SomeE split: option.splits)

lemma recording_create_keeps:
  assumes "wifi_hotspot_create_upgraded_endpoint_channel N (recording_ap A) cl sid ep info m = Some (c, m')"
  shows "whh_listeners m' = whh_listeners m \<and> aps_up m' = aps_up m"
proof (cases "hotspot_path_creds info")
  case (Some p)
  moreover obtain a up where "whh_softap m = (a, up)" by (cases "whh_softap m")
  moreover obtain ok a' where "ap_connect_as_sta A (fst p) a = (ok, a')" by (cases "ap_connect_as_sta A (fst p) a")
  moreover obtain r n where "net_connect N (hc_gateway (fst p), snd p) (whh_net m) = (r, n)"
    by (cases "net_connect N (hc_gateway (fst p), snd p) (whh_net m)")
  ultimately show ?thesis using assms
    by (cases p; cases r) (auto simp: wifi_hotspot_create_upgraded_endpoint_channel_def recording_ap_def
        Let_def split: if_splits)
qed (use assms in \<open>simp add: wifi_hotspot_create_upgraded_endpoint_channel_def\<close>)

lemma aps_up_step:
  assumes "medium_step (wifi_hotspot_medium_ops N (recording_ap A) enc) m m'"
    and "aps_up m = hotspot_services m"
  shows "aps_up m' = hotspot_services m'"
  using assms(1)
proof (cases rule: medium_step.cases)
  case (initialize cl sid ep frame)
  then have "wifi_hotspot_handle_initialize_upgraded_medium_for_endpoint N (recording_ap A) enc cl sid ep m
      = Some (frame, m')" by (simp add: wifi_hotspot_medium_ops_def)
  then show ?thesis using assms(2) by (rule aps_up_initialize)
next
  case (revert sid)
  then have "wifi_hotspot_handle_revert_initiator_state_for_service N (recording_ap A) sid m = Some m'"
    by (simp add: wifi_hotspot_medium_ops_def)
  then show ?thesis using assms(2) by (rule aps_up_revert)
next
  case (create cl sid ep info c)
  then have "wifi_hotspot_create_upgraded_endpoint_channel N (recording_ap A) cl sid ep info m = Some (c, m')"
    by (simp add: wifi_hotspot_medium_ops_def)
  with assms(2) recording_create_keeps show ?thesis by metis
next
  case (disconnect cl ep)
  with assms(2) show ?thesis
    by (cases "whh_softap m") (auto simp: wifi_hotspot_medium_ops_def recording_ap_def
        wifi_hotspot_on_endpoint_disconnect_def simp del: set_map)
qed

lemma aps_up_steps:
  "(medium_step (wifi_hotspot_medium_ops N (recording_ap A) enc))\<^sup>*\<^sup>* m m' \<Longrightarrow>
   aps_up m = hotspot_services m \<Longrightarrow> aps_up m' = hotspot_services m'"
  by (induction rule: rtranclp_induct) (use aps_up_step in blast)+

text \<open>
  C22. No access point leaks: under the bookkeeping of \<^verbatim>\<open>BaseBwuHandler\<close> the hotspot handler has an
  access point up, and a listener, exactly for the services that have an endpoint with an initiated
  upgrade. Every call keeps that, whatever the platform and the network answer (a failed bind takes
  the access point down again), if a responder revert is only called for a service the handler does
  not serve.
\<close>

theorem wifi_hotspot_up_for_tracked:
  assumes "\<forall>f. enc f \<noteq> []" and "base_wf h" and "hotspot_services (inner h) = fst ` active_pairs h"
    and "aps_up (inner h) = hotspot_services (inner h)"
    and "hand_step (base_handler_ops (wifi_hotspot_medium_ops N (recording_ap A) enc)) h h'"
    and "\<forall>sid. sid \<in> hotspot_services (inner h) \<longrightarrow>
      h_revert_responder_state (base_handler_ops (wifi_hotspot_medium_ops N (recording_ap A) enc)) sid h \<noteq> Some h'"
  shows "base_wf h' \<and> hotspot_services (inner h') = fst ` active_pairs h'
    \<and> aps_up (inner h') = hotspot_services (inner h')"
proof -
  note enc = nonempty_enc_id [OF assms(1)]
  from assms(2,3) have serving: "hotspot_serving.serving h" by (simp add: hotspot_serving.serving_def del: set_map)
  from hotspot_serving.serving_step [of N "recording_ap A" enc, unfolded enc, OF assms(5) serving] assms(6)
  have "hotspot_serving.serving h'" by blast
  moreover have "aps_up (inner h') = hotspot_services (inner h')"
    using aps_up_steps [OF base_step_medium [OF assms(5)] assms(4)] .
  ultimately show ?thesis by (simp add: hotspot_serving.serving_def del: set_map)
qed

theorem wifi_hotspot_up_for_tracked_witness:
  "\<exists>h'. base_initialize_upgraded_medium_for_endpoint
       (wifi_hotspot_medium_ops memory_net (recording_ap fake_softap_ops) (\<lambda>f. [1]))
       (client_proxy_new 0 ''me'') ''S'' ''e'' (base_bwu_handler_new (wifi_hotspot_new (fake_softap_new, {}) 0))
       = Some ([1], h')
     \<and> aps_up (inner h') = fst ` active_pairs h'"
proof -
  let ?ops = "wifi_hotspot_medium_ops memory_net (recording_ap fake_softap_ops) (\<lambda>f. [1])"
  let ?h = "base_bwu_handler_new (wifi_hotspot_new (fake_softap_new, {}) 0)
      :: (nat, nat, fake_softap \<times> string set) wifi_hotspot_bwu_handler base_bwu_handler"
  obtain h' where h': "base_initialize_upgraded_medium_for_endpoint ?ops (client_proxy_new 0 ''me'') ''S'' ''e'' ?h
      = Some ([1], h')"
    by (simp add: base_initialize_map wifi_hotspot_medium_ops_def base_bwu_handler_new_def
        wifi_hotspot_handle_initialize_upgraded_medium_for_endpoint_def wifi_hotspot_listener_def
        wifi_hotspot_new_def start_listener_def memory_net_def fake_softap_ops_def recording_ap_def
        for_bwu_wifi_hotspot_path_available_def bwu_upgrade_path_available_def encode_bwu_frame Let_def)
  then have "hand_step (base_handler_ops ?ops) ?h h'"
    by (intro hand_step.intros(1)) (simp add: base_handler_ops_def)
  moreover have "hotspot_services (inner ?h) = {}" "active_pairs ?h = {}" "aps_up (inner ?h) = {}"
    by (simp_all add: base_bwu_handler_new_def wifi_hotspot_new_def active_pairs_def)
  ultimately have "aps_up (inner h') = fst ` active_pairs h'"
    using wifi_hotspot_up_for_tracked [of "\<lambda>f. [1]" ?h memory_net fake_softap_ops h'] by simp
  with h' show ?thesis by blast
qed

end
