(* ===== verification/Bwu_Composition.thy ===== *)
theory Bwu_Composition
  imports Bwu_Actor Wifi_Hotspot
begin

text \<open>
  Properties of the components together: the whole handshake of the initiator, a latch that
  outlives its upgrade, what a failed hotspot upgrade leaves behind in the hotspot handler, and a manager over stream channels that
  waits for itself.
\<close>

section \<open>The handshake from the connection to the event\<close>

lemma connection_runs_protocol:
  assumes "op_read (chan_ops E) (chan_at s new) = Some (Inr data, n1)"
    and "from_bytes (decode_frame E) data = Inr frame" and "introduction_of_frame frame = Some intro"
    and "op_write (chan_ops E) n1 (for_bwu_introduction_ack (encode_frame E)) = Some (Success, n2)"
    and "ci_endpoint_id intro = Some ep" and "is_upgrade_ongoing s ep" and "new < length (heap s)"
  shows "on_incoming_connection E new s =
    run_upgrade_protocol E ep new (\<not> unwrap_or (ci_supports_disabling_encryption intro) False)
      (cancel_retry_upgrade_alarm ep (ch_apply (\<lambda>_. n2) new (ch_apply (\<lambda>_. n1) new s)))"
proof -
  have "ch_read E new s = Some (Inr data, ch_apply (\<lambda>_. n1) new s)" by (rule ch_read_Some) (rule assms(1))
  moreover have "ch_write E new (for_bwu_introduction_ack (encode_frame E)) (ch_apply (\<lambda>_. n1) new s)
      = Some (Success, ch_apply (\<lambda>_. n2) new (ch_apply (\<lambda>_. n1) new s))"
    by (rule ch_write_Some) (use assms(4,7) in simp)
  ultimately show ?thesis using assms(2,3,5,6)
    by (simp add: on_incoming_connection_def read_client_introduction_frame_def
        write_client_introduction_ack_frame_def introduced_endpoint_def is_upgrade_ongoing_def
        exception_ok_def)
qed

text \<open>
  The helper of the tests that plays the remote side of a connection: it reads what the handler was
  asked to initialise and comes in on a new channel with the introduction of that endpoint. An
  index out of range or a missing id is a panic of the helper.
\<close>

definition notify_bwu_manager_of_incoming_connection ::
    "(fake_endpoint_channel, 'h) bwu_env \<Rightarrow> input_data list \<Rightarrow> medium \<Rightarrow> nat
      \<Rightarrow> (fake_endpoint_channel, 'h) bwu_state
      \<Rightarrow> (chan_ref \<times> (fake_endpoint_channel, 'h) bwu_state) option" where
  "notify_bwu_manager_of_incoming_connection E calls m index s =
     do {
       init \<leftarrow> (if index < length calls then Some (calls ! index) else None);
       service_id \<leftarrow> in_service_id init;
       endpoint_id \<leftarrow> in_endpoint_id init;
       let channel = set_read_output (Inr (for_bwu_introduction (encode_frame E) endpoint_id [] False))
             (fake_endpoint_channel_new m service_id);
       let (i, s) = alloc_chan channel s;
       s \<leftarrow> on_incoming_connection E i s;
       Some (i, s)
     }"

lemma notify_runs_protocol:
  fixes s :: "(fake_endpoint_channel, 'h) bwu_state"
  assumes "chan_ops E = fake_channel_ops"
    and "decode_frame E (encode_frame E intro_frame) = Some intro_frame"
    and "intro_frame = bwu_offline_frame (bwu_event ClientIntroduction\<lparr>bwu_client_introduction :=
           Some (bwu_introduction ep [] False)\<rparr>)"
    and "index < length calls" and "in_service_id (calls ! index) = Some sid"
    and "in_endpoint_id (calls ! index) = Some ep" and "is_upgrade_ongoing s ep"
  shows "\<exists>c. fc_medium c = m \<and> notify_bwu_manager_of_incoming_connection E calls m index s =
      map_option (Pair (length (heap s)))
        (run_upgrade_protocol E ep (length (heap s)) True
          (cancel_retry_upgrade_alarm ep (s\<lparr>heap := heap s @ [c]\<rparr>)))"
proof -
  let ?i = "length (heap s)"
  let ?c = "set_read_output (Inr (for_bwu_introduction (encode_frame E) ep [] False))
    (fake_endpoint_channel_new m sid)"
  let ?s = "s\<lparr>heap := heap s @ [?c]\<rparr>"
  have enc: "for_bwu_introduction (encode_frame E) ep [] False = encode_frame E intro_frame"
    by (simp add: for_bwu_introduction_def encode_bwu_frame assms(3))
  have intro: "introduction_of_frame intro_frame = Some (bwu_introduction ep [] False)"
    by (simp add: assms(3) introduction_of_frame_def bwu_offline_frame_v1 bwu_event_def)
  have parse: "from_bytes (decode_frame E) (encode_frame E intro_frame) = Inr intro_frame"
    using assms(2) by (simp add: from_bytes_Inr_iff assms(3) ensure_valid_bwu_offline_frame)
  have id: "ci_endpoint_id (bwu_introduction ep [] False) = Some ep"
    "ci_supports_disabling_encryption (bwu_introduction ep [] False) = Some False"
    by (simp_all add: bwu_introduction_def Let_def)
  have rd: "op_read (chan_ops E) (chan_at ?s ?i) = Some (Inr (encode_frame E intro_frame), ?c)"
    by (simp add: assms(1) fake_channel_ops_def set_read_output_def enc)
  have wr: "op_write (chan_ops E) ?c (for_bwu_introduction_ack (encode_frame E))
      = Some (Success, ?c\<lparr>wrote_anything := True\<rparr>)"
    by (simp add: assms(1) fake_channel_ops_def set_read_output_def fake_endpoint_channel_new_def Let_def)
  have "on_incoming_connection E ?i ?s = run_upgrade_protocol E ep ?i True (cancel_retry_upgrade_alarm ep
      (s\<lparr>heap := heap s @ [?c\<lparr>wrote_anything := True\<rparr>]\<rparr>))"
    using connection_runs_protocol [OF rd parse intro wr id(1)] assms(7) id(2)
    by (simp add: is_upgrade_ongoing_def ch_apply_def set_chan_def)
  then have "notify_bwu_manager_of_incoming_connection E calls m index s = map_option (Pair ?i)
      (run_upgrade_protocol E ep ?i True (cancel_retry_upgrade_alarm ep
        (s\<lparr>heap := heap s @ [?c\<lparr>wrote_anything := True\<rparr>]\<rparr>)))"
    using assms(4-6) by (simp add: notify_bwu_manager_of_incoming_connection_def alloc_chan_def map_conv_bind_option comp_def)
  then show ?thesis
    by (intro exI [of _ "?c\<lparr>wrote_anything := True\<rparr>"])
      (simp add: set_read_output_def fake_endpoint_channel_new_def)
qed

lemma last_write_on_parked:
  assumes "hm_get (previous_endpoint_channels s) ep = Some p" and "is_upgrade_ongoing s ep"
    and "is_connected_to_endpoint (client s) ep"
    and "op_write (chan_ops E) (chan_at s p) (for_bwu_safe_to_close (encode_frame E)) = Some (Success, c)"
  shows "on_incoming_frame E n (bwu_offline_frame (bwu_event LastWriteToPriorChannel)) ep m s
    = Some (ch_apply (\<lambda>_. c) p s)"
proof -
  have "ch_write E p (for_bwu_safe_to_close (encode_frame E)) s = Some (Success, ch_apply (\<lambda>_. c) p s)"
    by (rule ch_write_Some) (rule assms(4))
  with assms(1-3) show ?thesis
    by (simp add: frame_dispatch on_bwu_negotiation_frame_def is_upgrade_ongoing_def
        process_last_write_to_prior_channel_event_def exception_ok_def)
qed

text \<open>The remote's SAFE_TO_CLOSE while the old channel is parked, with the state it leaves.\<close>

lemma safe_to_close_on_parked:
  assumes "endpoint_channel (chan_ops E) closed"
    and "hm_get (previous_endpoint_channels s) ep = Some p" and "registered s ep = Some i"
    and "p \<noteq> i" and "p < length (heap s)" and "i < length (heap s)"
    and "op_write (chan_ops E) (op_disable_encryption (chan_ops E) (chan_at s p))
           (for_disconnection (encode_frame E) False False) = Some (e, c1)"
    and "op_read (chan_ops E) c1 = Some (r, c2)"
    and "is_upgrade_ongoing s ep" and "is_connected_to_endpoint (client s) ep"
  shows "\<exists>s'. on_incoming_frame E n (bwu_offline_frame (bwu_event SafeToClosePriorChannel)) ep m s = Some s'
    \<and> ecm s' = ecm s \<and> \<not> op_is_paused (chan_ops E) (chan_at s' i) \<and> closed (chan_at s' p)
    \<and> hm_get (previous_endpoint_channels s') ep = None \<and> \<not> is_upgrade_ongoing s' ep
    \<and> bandwidth_changed (client s') = bandwidth_changed (client s) @ [(ep, op_medium (chan_ops E) (chan_at s i))]"
proof -
  have "on_incoming_frame E n (bwu_offline_frame (bwu_event SafeToClosePriorChannel)) ep m s
      = process_safe_to_close_prior_channel_event E ep s"
    using assms(9,10) by (simp add: frame_dispatch on_bwu_negotiation_frame_def is_upgrade_ongoing_def)
  with safe_to_close_state [OF assms(1-8)] assms(4-6) show ?thesis
    using endpoint_channel.closed_close_with_reason [OF assms(1)] endpoint_channel.paused_resume [OF assms(1)]
    by (fastforce simp: is_upgrade_ongoing_def)
qed

text \<open>
  C2. The handshake of the initiator completes: a connection comes in on the new channel and
  introduces an endpoint with an upgrade in progress, then the remote's LAST_WRITE and
  SAFE_TO_CLOSE arrive on the old one. When the writes on the way succeed and the drain read
  returns, all three are processed, and in the end the endpoint's channel is the new one, resumed,
  the old one is closed and nothing is parked, the upgrade is no longer in progress, and exactly
  one event, with the new medium, has been reported.
\<close>

theorem initiator_handshake_completes:
  assumes "endpoint_channel (chan_ops E) closed" and "bwu_wf s"
    and "registered s ep = Some old" and "old \<noteq> new" and "new < length (heap s)"
    and "is_upgrade_ongoing s ep" and "is_connected_to_endpoint (client s) ep"
    and "ep \<notin> set (successfully_upgraded_endpoints s)"
    and "op_read (chan_ops E) (chan_at s new) = Some (Inr data, n1)"
    and "from_bytes (decode_frame E) data = Inr frame" and "introduction_of_frame frame = Some intro"
    and "ci_endpoint_id intro = Some ep"
    and "op_write (chan_ops E) n1 (for_bwu_introduction_ack (encode_frame E)) = Some (Success, n2)"
    and "op_write (chan_ops E) (chan_at s old) (for_bwu_last_write (encode_frame E)) = Some (Success, o1)"
    and "op_write (chan_ops E) o1 (for_bwu_safe_to_close (encode_frame E)) = Some (Success, o2)"
    and "op_write (chan_ops E) (op_disable_encryption (chan_ops E) o2)
           (for_disconnection (encode_frame E) False False) = Some (e, o3)"
    and "op_read (chan_ops E) o3 = Some (r, o4)"
  shows "\<exists>s1 s2 s3. on_incoming_connection E new s = Some s1
    \<and> on_incoming_frame E k (bwu_offline_frame (bwu_event LastWriteToPriorChannel)) ep m s1 = Some s2
    \<and> on_incoming_frame E k (bwu_offline_frame (bwu_event SafeToClosePriorChannel)) ep m s2 = Some s3
    \<and> registered s3 = (registered s)(ep \<mapsto> new)
    \<and> \<not> op_is_paused (chan_ops E) (chan_at s3 new) \<and> closed (chan_at s3 old)
    \<and> hm_get (previous_endpoint_channels s3) ep = None \<and> \<not> is_upgrade_ongoing s3 ep
    \<and> bandwidth_changed (client s3) =
        bandwidth_changed (client s) @ [(ep, op_medium (chan_ops E) (chan_at s new))]"
proof -
  let ?ops = "chan_ops E"
  from assms(2,3) have old: "old < length (heap s)" by (auto simp: bwu_wf_def)
  let ?s0 = "cancel_retry_upgrade_alarm ep (ch_apply (\<lambda>_. n2) new (ch_apply (\<lambda>_. n1) new s))"
  let ?enc = "\<not> unwrap_or (ci_supports_disabling_encryption intro) False"
  let ?n3 = "op_pause ?ops (op_set_local_endpoint_id ?ops n2 (cp_local_endpoint_id (client s)))"
  have "registered ?s0 ep = Some old" "new < length (heap ?s0)" "old < length (heap ?s0)"
    "op_write ?ops (chan_at ?s0 old) (for_bwu_last_write (encode_frame E)) = Some (Success, o1)"
    "ep \<notin> set (successfully_upgraded_endpoints ?s0)"
    using assms(3-5,8,14) old by simp_all
  from swap_state [OF assms(1) this(1) assms(4) this(2-5), of ?enc]
    connection_runs_protocol [OF assms(9-11,13,12,6,5)]
  obtain s1 where s1: "on_incoming_connection E new s = Some s1"
    "heap s1 = (heap s)[new := ?n3, old := o1]" "registered s1 = (registered s)(ep \<mapsto> new)"
    "hm_get (previous_endpoint_channels s1) ep = Some old" "client s1 = client s"
    "in_progress_upgrades s1 = in_progress_upgrades s"
    using assms(4,5) old by (simp add: list_update_swap)
  let ?s2 = "ch_apply (\<lambda>_. o2) old s1"
  have s2: "on_incoming_frame E k (bwu_offline_frame (bwu_event LastWriteToPriorChannel)) ep m s1 = Some ?s2"
    using assms(6,7,15) s1 old by (intro last_write_on_parked) (simp_all add: is_upgrade_ongoing_def)
  have medium: "op_medium ?ops ?n3 = op_medium ?ops (chan_at s new)"
    using endpoint_channel.identity_step [OF assms(1) step_read [OF assms(9)]]
      endpoint_channel.identity_step [OF assms(1) step_write [OF assms(13)]]
      endpoint_channel.fresh_paused [OF assms(1), of n2] by (simp add: Let_def)
  have "hm_get (previous_endpoint_channels ?s2) ep = Some old" "registered ?s2 ep = Some new"
    "old < length (heap ?s2)" "new < length (heap ?s2)"
    "op_write ?ops (op_disable_encryption ?ops (chan_at ?s2 old)) (for_disconnection (encode_frame E) False False)
      = Some (e, o3)"
    using s1 assms(4,5,16) old by simp_all
  from safe_to_close_on_parked [OF assms(1) this(1,2) assms(4) this(3-5) assms(17), of k m] s1 assms(6,7)
  obtain s3 where s3: "on_incoming_frame E k (bwu_offline_frame (bwu_event SafeToClosePriorChannel)) ep m ?s2 = Some s3"
    "ecm s3 = ecm s1" "\<not> op_is_paused ?ops (chan_at s3 new)" "closed (chan_at s3 old)"
    "hm_get (previous_endpoint_channels s3) ep = None" "\<not> is_upgrade_ongoing s3 ep"
    "bandwidth_changed (client s3) = bandwidth_changed (client s) @ [(ep, op_medium ?ops (chan_at ?s2 new))]"
    by (auto simp: is_upgrade_ongoing_def)
  have "op_medium ?ops (chan_at ?s2 new) = op_medium ?ops (chan_at s new)"
    using s1(2) assms(4,5) medium by simp
  with s1(1,3) s2 s3 show ?thesis by auto
qed

text \<open>
  The test environment with an upgrade of ''e'' in progress and a connection on channel 1 whose
  next frame is the introduction of ''e''.
\<close>

definition intro_frame :: offline_frame where
  "intro_frame = bwu_offline_frame (bwu_event ClientIntroduction\<lparr>bwu_client_introduction :=
     Some (bwu_introduction ''e'' [] False)\<rparr>)"

definition intro_dec :: "bytes \<Rightarrow> offline_frame option" where
  "intro_dec bs = (if bs = [7] then Some intro_frame else None)"

definition intro_state :: "(fake_endpoint_channel, fake_handler) bwu_state" where
  "intro_state = insert_in_progress ''e'' (ch_apply (set_read_output (Inr [7])) 1
     (fake_pair\<lparr>client := on_connection_accepted (client_proxy_new 0 ''me'') ''e''\<rparr>))"

lemma intro_frame_read:
  "from_bytes intro_dec [7] = Inr intro_frame"
  "introduction_of_frame intro_frame = Some (bwu_introduction ''e'' [] False)"
  by (simp add: from_bytes_Inr_iff intro_dec_def intro_frame_def ensure_valid_bwu_offline_frame)
    (simp add: intro_frame_def introduction_of_frame_def bwu_offline_frame_v1 bwu_event_def)

lemma fake_calls:
  "op_read (chan_ops (fake_env enc dec)) c = Some (read_output c, c)"
  "op_write (chan_ops (fake_env enc dec)) c bs = Some (write_output c, c\<lparr>wrote_anything := True\<rparr>)"
  "op_disable_encryption (chan_ops (fake_env enc dec)) c = c"
  "op_medium (chan_ops (fake_env enc dec)) c = fc_medium c"
  by (simp_all add: fake_env_def fake_channel_ops_def Let_def)

lemma intro_state_facts:
  "bwu_wf intro_state" "registered intro_state ''e'' = Some 0" "(0::nat) \<noteq> 1" "1 < length (heap intro_state)"
  "is_upgrade_ongoing intro_state ''e''" "is_connected_to_endpoint (client intro_state) ''e''"
  "''e'' \<notin> set (successfully_upgraded_endpoints intro_state)"
  "hm_get (previous_endpoint_channels intro_state) ''e'' = None"
  "bandwidth_changed (client intro_state) = []"
proof -
  show "bwu_wf intro_state"
    using fake_pair_inv by (simp add: intro_state_def bwu_inv_def bwu_wf_def fake_pair_def)
qed (simp_all add: intro_state_def fake_pair_defs get_channel_for_endpoint_def is_upgrade_ongoing_def
    is_connected_to_endpoint_def on_connection_accepted_def client_entry_update_def client_proxy_new_def)

lemma intro_state_channels:
  "read_output (chan_at intro_state 1) = Inr [7]"
  "write_output (chan_at intro_state 1) = Success" "write_output (chan_at intro_state 0) = Success"
  "fc_medium (chan_at intro_state 1) = WifiLan"
  by (simp_all add: intro_state_def fake_pair_defs set_read_output_def fake_endpoint_channel_new_def)

theorem initiator_handshake_completes_witness:
  "\<exists>s1 s2 s3. on_incoming_connection (fake_env (\<lambda>f. [1]) intro_dec) 1 intro_state = Some s1
    \<and> on_incoming_frame (fake_env (\<lambda>f. [1]) intro_dec) 0
        (bwu_offline_frame (bwu_event LastWriteToPriorChannel)) ''e'' Bluetooth s1 = Some s2
    \<and> on_incoming_frame (fake_env (\<lambda>f. [1]) intro_dec) 0
        (bwu_offline_frame (bwu_event SafeToClosePriorChannel)) ''e'' Bluetooth s2 = Some s3
    \<and> registered s3 ''e'' = Some 1 \<and> bandwidth_changed (client s3) = [(''e'', WifiLan)]"
proof -
  let ?E = "fake_env (\<lambda>f. [1]) intro_dec"
  have id: "ci_endpoint_id (bwu_introduction ''e'' [] False) = Some ''e''"
    by (simp add: bwu_introduction_def Let_def)
  have parse: "from_bytes (decode_frame ?E) [7] = Inr intro_frame"
    using intro_frame_read(1) by (simp add: fake_env_def)
  have rd: "op_read (chan_ops ?E) (chan_at intro_state 1) = Some (Inr [7], chan_at intro_state 1)"
    by (simp add: fake_calls intro_state_channels [unfolded One_nat_def])
  note complete = initiator_handshake_completes [where k = 0 and m = Bluetooth,
      OF fake_env_channel intro_state_facts(1-7) rd parse intro_frame_read(2) id]
  have "\<exists>s1 s2 s3. on_incoming_connection ?E 1 intro_state = Some s1
    \<and> on_incoming_frame ?E 0 (bwu_offline_frame (bwu_event LastWriteToPriorChannel)) ''e'' Bluetooth s1 = Some s2
    \<and> on_incoming_frame ?E 0 (bwu_offline_frame (bwu_event SafeToClosePriorChannel)) ''e'' Bluetooth s2 = Some s3
    \<and> registered s3 = (registered intro_state)(''e'' \<mapsto> 1)
    \<and> \<not> op_is_paused (chan_ops ?E) (chan_at s3 1) \<and> is_closed (chan_at s3 0)
    \<and> hm_get (previous_endpoint_channels s3) ''e'' = None \<and> \<not> is_upgrade_ongoing s3 ''e''
    \<and> bandwidth_changed (client s3) = bandwidth_changed (client intro_state)
        @ [(''e'', op_medium (chan_ops ?E) (chan_at intro_state 1))]"
    by (rule complete) (simp add: fake_calls intro_state_channels [unfolded One_nat_def])+
  then show ?thesis by (auto simp: intro_state_channels [unfolded One_nat_def] fake_calls intro_state_facts(9))
qed

section \<open>A latch that outlives its upgrade\<close>

text \<open>
  C24. An early LAST_WRITE is latched for the endpoint, and resetting the upgrade does not clear
  the latch: when the endpoint is upgraded again, the swap writes SAFE_TO_CLOSE right after
  LAST_WRITE, although no LAST_WRITE of this upgrade has come in.
\<close>

theorem stale_latch_confirms_early:
  assumes "endpoint_channel (chan_ops E) closed" and "bwu_wf s"
    and "registered s ep = Some old" and "old \<noteq> new" and "new < length (heap s)"
    and "is_upgrade_ongoing s ep" and "is_connected_to_endpoint (client s) ep"
    and "hm_get (previous_endpoint_channels s) ep = None"
    and "op_write (chan_ops E) (chan_at s old) (for_bwu_last_write (encode_frame E)) = Some (Success, o1)"
    and "op_write (chan_ops E) o1 (for_bwu_safe_to_close (encode_frame E)) = Some (Success, o2)"
  shows "\<exists>s1 s2. on_incoming_frame E k (bwu_offline_frame (bwu_event LastWriteToPriorChannel)) ep m s = Some s1
    \<and> \<not> is_upgrade_ongoing (reset_upgrade_for_endpoint ep s1) ep
    \<and> run_upgrade_protocol E ep new enc (insert_in_progress ep (reset_upgrade_for_endpoint ep s1)) = Some s2
    \<and> hm_get (previous_endpoint_channels s2) ep = Some old \<and> chan_at s2 old = o2"
proof -
  let ?s1 = "latch_last_write ep s"
  let ?s2 = "insert_in_progress ep (reset_upgrade_for_endpoint ep ?s1)"
  have old: "old < length (heap s)" using assms(2,3) by (auto simp: bwu_wf_def)
  have "on_incoming_frame E k (bwu_offline_frame (bwu_event LastWriteToPriorChannel)) ep m s = Some ?s1"
    using assms(6-8) by (simp add: frame_dispatch on_bwu_negotiation_frame_def is_upgrade_ongoing_def
        process_last_write_to_prior_channel_event_def)
  moreover have "\<not> is_upgrade_ongoing (reset_upgrade_for_endpoint ep ?s1) ep"
    by (simp add: is_upgrade_ongoing_def reset_upgrade_for_endpoint_def)
  ultimately show ?thesis
    using swap_latched [OF assms(1), of ?s2 ep old new o1 o2 enc] assms(3-5,9,10) old
    by (simp add: reset_upgrade_for_endpoint_def)
qed

theorem stale_latch_confirms_early_witness:
  "\<exists>s1 s2. on_incoming_frame (fake_env (\<lambda>f. [1]) intro_dec) 0
        (bwu_offline_frame (bwu_event LastWriteToPriorChannel)) ''e'' Bluetooth intro_state = Some s1
    \<and> run_upgrade_protocol (fake_env (\<lambda>f. [1]) intro_dec) ''e'' 1 True
        (insert_in_progress ''e'' (reset_upgrade_for_endpoint ''e'' s1)) = Some s2
    \<and> hm_get (previous_endpoint_channels s2) ''e'' = Some 0"
proof -
  let ?E = "fake_env (\<lambda>f. [1]) intro_dec" and ?c = "chan_at intro_state 0"
  have w: "op_write (chan_ops ?E) ?c bs = Some (Success, ?c\<lparr>wrote_anything := True\<rparr>)"
    "op_write (chan_ops ?E) (?c\<lparr>wrote_anything := True\<rparr>) bs = Some (Success, ?c\<lparr>wrote_anything := True\<rparr>)" for bs
    by (simp_all add: fake_calls intro_state_channels)
  from stale_latch_confirms_early [OF fake_env_channel intro_state_facts(1-6,8) w, of 0 Bluetooth True]
  show ?thesis by blast
qed

section \<open>A failed hotspot upgrade\<close>

text \<open>A handler that serves idle, as the one of a device that only ever responds.\<close>

definition serves_nothing :: "('n, 'l, 'a) wifi_hotspot_bwu_handler base_bwu_handler \<Rightarrow> bool" where
  "serves_nothing h \<longleftrightarrow> upgrade_service_id_to_active_endpoint_ids h = [] \<and> whh_listeners (inner h) = []"

lemma serves_nothing_reverts:
  assumes "serves_nothing h"
  shows "base_revert_initiator_state (wifi_hotspot_medium_ops N A enc) h = Some h"
    and "base_revert_responder_state (wifi_hotspot_medium_ops N A enc) sid h = Some h"
    and "base_revert_initiator_state_for_endpoint (wifi_hotspot_medium_ops N A enc) sid ep h = Some h"
  using assms by (simp_all add: serves_nothing_def base_ops_defs wifi_hotspot_medium_ops_def
      wifi_hotspot_handle_revert_initiator_state_for_service_def)

lemma revert_serves_nothing:
  assumes "hand_ops E = base_handler_ops (wifi_hotspot_medium_ops N A enc)"
    and "hm_get (handlers s) WifiHotspot = Some h" and "serves_nothing h"
    and "get_bwu_medium_for_endpoint s ep \<in> {UnknownMedium, WifiHotspot}"
  shows "\<exists>s'. revert_bwu_medium_for_endpoint E sid ep s = Some s'
    \<and> hm_get (handlers s') WifiHotspot = Some h \<and> get_bwu_medium_for_endpoint s' ep = UnknownMedium"
proof (cases "get_bwu_medium_for_endpoint s ep = WifiHotspot")
  case True
  have "handler_do WifiHotspot f (clear_bwu_medium_for_endpoint ep s) = Some ((clear_bwu_medium_for_endpoint ep s)
      \<lparr>handlers := hm_insert WifiHotspot h (handlers s)\<rparr>)" if "f h = Some h" for f
    using assms(2) that by (simp add: handler_do_def)
  note reverted = this serves_nothing_reverts [OF assms(3)]
  show ?thesis using assms(2)
    by (simp add: revert_bwu_medium_for_endpoint_def True assms(1) base_handler_ops_def reverted Let_def
        has_handler_for_medium_def) (simp add: get_bwu_medium_for_endpoint_def clear_bwu_medium_for_endpoint_def)
next
  case False
  with assms(4) have "get_bwu_medium_for_endpoint s ep = UnknownMedium" by simp
  then show ?thesis using assms(2)
    by (simp add: revert_bwu_medium_for_endpoint_def has_handler_for_medium_def Let_def)
      (simp add: get_bwu_medium_for_endpoint_def clear_bwu_medium_for_endpoint_def)
qed

lemma disconnect_serves_nothing:
  assumes "hand_ops E = base_handler_ops (wifi_hotspot_medium_ops N A enc)"
    and "hm_get (handlers s) WifiHotspot = Some h" and "serves_nothing h"
    and "get_bwu_medium_for_endpoint s ep = UnknownMedium"
  shows "\<exists>s'. on_endpoint_disconnect E sid ep r s = Some s' \<and> hm_get (handlers s') WifiHotspot = Some h"
proof -
  let ?s = "unlatch_last_write ep (forget_retries ep (remove_in_progress ep
    (case hm_get (previous_endpoint_channels s) ep of
       None \<Rightarrow> s
     | Some p \<Rightarrow> ch_apply (\<lambda>c. op_close_with_reason (chan_ops E) c Shutdown) p (unpark_channel ep s))))"
  have "hm_get (handlers ?s) WifiHotspot = Some h" "get_bwu_medium_for_endpoint ?s ep = UnknownMedium"
    using assms(2,4) by (auto simp: get_bwu_medium_for_endpoint_def split: option.splits)
  with revert_serves_nothing [OF assms(1) this(1) assms(3), of ep sid] show ?thesis
    using assms(2,4) by (auto simp: on_endpoint_disconnect_def has_handler_for_medium_def Let_def
        split: option.splits)
qed

lemma hotspot_dial_fails:
  assumes "hand_ops E = base_handler_ops (wifi_hotspot_medium_ops N A enc)"
    and "hm_get (handlers s) WifiHotspot = Some h" and "registered s ep = Some old"
    and "get_bwu_medium_for_endpoint s ep = WifiHotspot" and "upi_medium_of info = WifiHotspot"
    and "hotspot_path_creds info = Some (creds, port)"
    and "ap_connect_as_sta A creds (whh_softap (inner h)) = (True, a)"
    and "net_connect N (hc_gateway creds, port) (whh_net (inner h)) = (None, n)"
  shows "process_bwu_path_available_event_internal E ep info s = Some (None, s\<lparr>handlers :=
      hm_insert WifiHotspot (h\<lparr>inner := (inner h)\<lparr>whh_softap := a, whh_net := n\<rparr>\<rparr>) (handlers s)\<rparr>)"
proof -
  have "h_create_upgraded_endpoint_channel (hand_ops E) cl sid ep info h
      = Some (None, h\<lparr>inner := (inner h)\<lparr>whh_softap := a, whh_net := n\<rparr>\<rparr>)" for cl sid
    using assms(1,6-8) by (simp add: base_handler_ops_def base_create_upgraded_endpoint_channel_def
        wifi_hotspot_medium_ops_def wifi_hotspot_create_upgraded_endpoint_channel_def Let_def)
  moreover have "has_handler_for_medium s WifiHotspot"
    unfolding has_handler_for_medium_def hm_contains_get using assms(2) by simp
  ultimately show ?thesis using assms(2-5)
    by (simp add: process_bwu_path_available_event_internal_def handler_call_def Let_def)
qed

text \<open>
  C23. A device that joined the hotspot of an offered path and then fails to dial the initiator
  refuses the path and forgets the medium, but it stays joined: neither the refusal nor the later
  disconnect of the endpoint makes the handler leave the access point.
\<close>

theorem hotspot_failure_stays_joined:
  assumes "hand_ops E = base_handler_ops (wifi_hotspot_medium_ops N A enc)"
    and "hm_get (handlers s) WifiHotspot = Some h" and "serves_nothing h"
    and "registered s ep = Some old" and "\<not> wifi_lan_connected E s"
    and "\<not> is_incoming_connection (client s) ep" and "\<not> is_upgrade_ongoing s ep"
    and "get_bwu_medium_for_endpoint s ep = UnknownMedium" and "upi_medium_of info = WifiHotspot"
    and "hotspot_path_creds info = Some (creds, port)"
    and "ap_connect_as_sta A creds (whh_softap (inner h)) = (True, a)"
    and "net_connect N (hc_gateway creds, port) (whh_net (inner h)) = (None, n)"
    and "op_write (chan_ops E) (chan_at s old) (for_bwu_failure (encode_frame E) info) = Some (Success, c)"
  shows "\<exists>s1 s2 h'. process_bwu_path_available_event E ep info s = Some s1
    \<and> \<not> is_upgrade_ongoing s1 ep \<and> get_bwu_medium_for_endpoint s1 ep = UnknownMedium
    \<and> on_endpoint_disconnect E sid ep r s1 = Some s2
    \<and> hm_get (handlers s2) WifiHotspot = Some h' \<and> whh_softap (inner h') = a"
proof -
  let ?s = "set_bwu_medium_for_endpoint ep WifiHotspot s"
  let ?h = "h\<lparr>inner := (inner h)\<lparr>whh_softap := a, whh_net := n\<rparr>\<rparr>"
  let ?sj = "?s\<lparr>handlers := hm_insert WifiHotspot ?h (handlers s)\<rparr>"
  let ?sw = "ch_apply (\<lambda>_. c) old ?sj"
  have set: "get_bwu_medium_for_endpoint ?s ep = WifiHotspot"
    by (simp add: get_bwu_medium_for_endpoint_def set_bwu_medium_for_endpoint_def)
  have idle: "serves_nothing ?h" using assms(3) by (simp add: serves_nothing_def)
  have "process_bwu_path_available_event_internal E ep info ?s = Some (None, ?sj)"
    using hotspot_dial_fails [OF assms(1) _ _ set assms(9-12)] assms(2,4) by simp
  then have path: "process_bwu_path_available_event E ep info s = run_upgrade_failed_protocol E ep info ?sj"
    using assms(5-9) set by (simp add: process_bwu_path_available_event_def is_upgrade_ongoing_def Let_def)
  have w: "ch_write E old (for_bwu_failure (encode_frame E) info) ?sj = Some (Success, ?sw)"
    by (rule ch_write_Some) (use assms(13) in simp)
  have medium: "get_bwu_medium_for_endpoint ?sw ep = WifiHotspot"
    using set by (simp add: get_bwu_medium_for_endpoint_def split: if_splits)
  then have "get_bwu_medium_for_endpoint ?sw ep \<in> {UnknownMedium, WifiHotspot}" by simp
  from revert_serves_nothing [OF assms(1) _ idle this] obtain s1 where s1:
    "revert_bwu_medium_for_endpoint E (op_service_id (chan_ops E) (chan_at ?sw old)) ep ?sw = Some s1"
    "hm_get (handlers s1) WifiHotspot = Some ?h" "get_bwu_medium_for_endpoint s1 ep = UnknownMedium" by fastforce
  let ?sf = "remove_in_progress ep s1"
  have fin: "process_bwu_path_available_event E ep info s = Some ?sf"
    unfolding path run_upgrade_failed_protocol_def using assms(4) w s1(1) medium by (simp add: exception_ok_def)
  have "get_bwu_medium_for_endpoint ?sf ep = UnknownMedium"
    using s1(3) by (simp add: get_bwu_medium_for_endpoint_def split: if_splits)
  with disconnect_serves_nothing [OF assms(1) _ idle this, of sid r] s1(2) fin show ?thesis
    by (auto simp: is_upgrade_ongoing_def)
qed

text \<open>A responder over TCP with the fake access point, on a network where nothing can be dialled.\<close>

definition unreachable_net :: "(nat, bytes, nat) net_ops" where
  "unreachable_net = memory_net\<lparr>net_connect := (\<lambda>addr n. (None, n))\<rparr>"

definition hotspot_env :: "(bytes tcp_channel,
    (nat, nat, fake_softap) wifi_hotspot_bwu_handler base_bwu_handler) bwu_env" where
  "hotspot_env = \<lparr>chan_ops = stream_channel_ops (tcp_stream_ops unreachable_net) (\<lambda>bs. None),
     hand_ops = base_handler_ops (wifi_hotspot_medium_ops unreachable_net fake_softap_ops (\<lambda>f. [1])),
     encode_frame = (\<lambda>f. [1]), decode_frame = (\<lambda>bs. None)\<rparr>"

definition hotspot_state :: "(bytes tcp_channel,
    (nat, nat, fake_softap) wifi_hotspot_bwu_handler base_bwu_handler) bwu_state" where
  "hotspot_state = bwu_manager_new \<lparr>endpoints = [(''e'', 0)]\<rparr> (client_proxy_new 0 ''me'')
     [stream_channel_new ''A'' ''bt'' Bluetooth \<lparr>td_socket = []\<rparr>]
     [(WifiHotspot, base_bwu_handler_new (wifi_hotspot_new fake_softap_new 0))] bwu_config_default"

definition hotspot_offer :: upgrade_path_info where
  "hotspot_offer = wifi_hotspot_path_info (advertised_credentials hotspot_listener_example) False"

theorem hotspot_failure_stays_joined_witness:
  "\<exists>s1 s2 h'. process_bwu_path_available_event hotspot_env ''e'' hotspot_offer hotspot_state = Some s1
    \<and> on_endpoint_disconnect hotspot_env ''A'' ''e'' LocalDisconnection s1 = Some s2
    \<and> hm_get (handlers s2) WifiHotspot = Some h' \<and> fs_connected (whh_softap (inner h'))"
proof -
  let ?h = "base_bwu_handler_new (wifi_hotspot_new fake_softap_new 0)
    :: (nat, nat, fake_softap) wifi_hotspot_bwu_handler base_bwu_handler"
  have ops: "hand_ops hotspot_env
      = base_handler_ops (wifi_hotspot_medium_ops unreachable_net fake_softap_ops (\<lambda>f. [1]))"
    by (simp add: hotspot_env_def)
  have state: "hm_get (handlers hotspot_state) WifiHotspot = Some ?h" "registered hotspot_state ''e'' = Some 0"
    "\<not> wifi_lan_connected hotspot_env hotspot_state" "\<not> is_incoming_connection (client hotspot_state) ''e''"
    "\<not> is_upgrade_ongoing hotspot_state ''e''" "get_bwu_medium_for_endpoint hotspot_state ''e'' = UnknownMedium"
    by (simp_all add: hotspot_state_def hotspot_env_def bwu_manager_new_def get_channel_for_endpoint_def
        is_wifi_lan_connected_def is_incoming_connection_def is_upgrade_ongoing_def client_proxy_new_def
        get_bwu_medium_for_endpoint_def stream_channel_ops_def stream_channel_new_def)
  have idle: "serves_nothing ?h"
    by (simp add: serves_nothing_def base_bwu_handler_new_def wifi_hotspot_new_def)
  have medium: "upi_medium_of hotspot_offer = WifiHotspot"
    by (simp add: hotspot_offer_def wifi_hotspot_path_info_def upi_medium_of_def)
  have creds: "hotspot_path_creds hotspot_offer = Some (hl_creds hotspot_listener_example, 4000)"
    by (simp add: hotspot_offer_def hotspot_path_creds_advertised hotspot_listener_example_def)
  note stays = hotspot_failure_stays_joined [OF ops state(1) idle state(2-6) medium creds]
  have "\<exists>s1 s2 h'. process_bwu_path_available_event hotspot_env ''e'' hotspot_offer hotspot_state = Some s1
    \<and> \<not> is_upgrade_ongoing s1 ''e'' \<and> get_bwu_medium_for_endpoint s1 ''e'' = UnknownMedium
    \<and> on_endpoint_disconnect hotspot_env ''A'' ''e'' LocalDisconnection s1 = Some s2
    \<and> hm_get (handlers s2) WifiHotspot = Some h' \<and> whh_softap (inner h') = fake_softap_new\<lparr>fs_connected := True\<rparr>"
    by (rule stays) (simp_all add: fake_softap_ops_def base_bwu_handler_new_def wifi_hotspot_new_def
        unreachable_net_def hotspot_env_def hotspot_state_def bwu_manager_new_def stream_channel_ops_def
        stream_write_def stream_channel_new_def seal_payload_def write_framed_def tcp_stream_ops_def
        tcp_write_all_def tcp_flush_def memory_net_def for_bwu_failure_def encode_bwu_frame
        DEFAULT_MAX_ALLOWED_READ_BYTES_def)
  then show ?thesis by auto
qed

section \<open>An offer during the swap\<close>

lemma path_available_dispatch:
  assumes "wifi_lan_connected E s" and "upi_medium_of info = WifiHotspot"
  shows "on_incoming_frame E k
      (bwu_offline_frame (bwu_event UpgradePathAvailable\<lparr>bwu_upgrade_path_info := Some info\<rparr>)) ep m s
    = run_upgrade_failed_protocol E ep info s"
  using assms by (simp add: frame_dispatch on_bwu_negotiation_frame_def process_bwu_path_available_event_def)

text \<open>
  C25. The manager can wait for itself: after the swap to a Wi-Fi LAN channel over a stream, which
  stays paused until the handshake completes, an offer of a hotspot makes the manager write its
  refusal on the paused channel. That write waits for a resume or a close, which only the manager
  does, so the frame is never processed to the end.
\<close>

theorem offer_during_swap_blocks:
  assumes "chan_ops E = stream_channel_ops sops dec" and "bwu_wf s"
    and "registered s ep = Some old" and "old \<noteq> i" and "i < length (heap s)"
    and "sc_medium (chan_at s i) = WifiLan" and "ep \<notin> set (successfully_upgraded_endpoints s)"
    and "stream_write sops (chan_at s old) (for_bwu_last_write (encode_frame E)) = Some (Success, old')"
    and "upi_medium_of info = WifiHotspot"
  shows "\<exists>s1. run_upgrade_protocol E ep i enc s = Some s1
    \<and> on_incoming_frame E k
        (bwu_offline_frame (bwu_event UpgradePathAvailable\<lparr>bwu_upgrade_path_info := Some info\<rparr>)) ep m s1 = None"
proof -
  have ch: "endpoint_channel (chan_ops E) (\<lambda>c. ps_closed (sc_pause c))"
    unfolding assms(1) by (rule stream_channel.endpoint_channel_axioms)
  have old: "old < length (heap s)" using assms(2,3) by (auto simp: bwu_wf_def)
  have "op_write (chan_ops E) (chan_at s old) (for_bwu_last_write (encode_frame E)) = Some (Success, old')"
    using assms(1,8) by (simp add: stream_channel_ops_def)
  from swap_state [OF ch assms(3-5) old this assms(7), of enc] obtain s1 where s1:
    "run_upgrade_protocol E ep i enc s = Some s1"
    "chan_at s1 i = stream_pause ((chan_at s i)\<lparr>sc_local_endpoint_id := cp_local_endpoint_id (client s)\<rparr>)"
    "ecm s1 = replace_channel_for_endpoint (client s) ep i enc (ecm s)"
    using assms(1,4,5) old by (simp add: stream_channel_ops_def)
  have reg: "registered s1 ep = Some i" using s1(3) by simp
  have "ecm_wf (ecm s1)" using assms(2) s1(3) ecm_reg.inv_put by (simp add: bwu_wf_def)
  moreover have "op_medium (chan_ops E) (chan_at s1 i) = WifiLan"
    using s1(2) assms(1,6) by (simp add: stream_channel_ops_def stream_pause_def)
  ultimately have "wifi_lan_connected E s1" using reg is_wifi_lan_connected_iff by blast
  from path_available_dispatch [OF this assms(9)] show ?thesis
    using s1(1,2) reg assms(1)
    by (simp add: run_upgrade_failed_protocol_def ch_write_def stream_channel_ops_def stream_write_def
        stream_pause_def)
qed

theorem offer_during_swap_blocks_witness:
  "\<exists>s1. run_upgrade_protocol hotspot_env ''e'' 1 True (hotspot_state\<lparr>heap := heap hotspot_state @
        [stream_channel_new ''A_UPGRADE'' ''lan'' WifiLan \<lparr>td_socket = []\<rparr>]\<rparr>) = Some s1
    \<and> on_incoming_frame hotspot_env 1 (bwu_offline_frame (bwu_event UpgradePathAvailable\<lparr>
        bwu_upgrade_path_info := Some hotspot_offer\<rparr>)) ''e'' Bluetooth s1 = None"
proof -
  let ?s = "hotspot_state\<lparr>heap := heap hotspot_state @
        [stream_channel_new ''A_UPGRADE'' ''lan'' WifiLan \<lparr>td_socket = []\<rparr>]\<rparr>"
  let ?sops = "tcp_stream_ops unreachable_net"
  have ops: "chan_ops hotspot_env = stream_channel_ops ?sops (\<lambda>bs. None)" by (simp add: hotspot_env_def)
  have wf: "bwu_wf ?s"
    by (simp add: hotspot_state_def bwu_manager_new_def bwu_wf_def get_channel_for_endpoint_def)
  have heap: "heap ?s = [stream_channel_new ''A'' ''bt'' Bluetooth \<lparr>td_socket = []\<rparr>,
      stream_channel_new ''A_UPGRADE'' ''lan'' WifiLan \<lparr>td_socket = []\<rparr>]"
    by (simp add: hotspot_state_def bwu_manager_new_def)
  have state: "registered ?s ''e'' = Some 0" "(0::nat) \<noteq> 1" "1 < length (heap ?s)"
    "sc_medium (chan_at ?s 1) = WifiLan" "''e'' \<notin> set (successfully_upgraded_endpoints ?s)"
    using heap by (simp_all add: stream_channel_new_def)
      (simp_all add: hotspot_state_def bwu_manager_new_def get_channel_for_endpoint_def)
  have wr: "\<exists>c. stream_write ?sops (chan_at ?s 0) (for_bwu_last_write (encode_frame hotspot_env))
      = Some (Success, c)"
    unfolding heap by (simp add: unreachable_net_def hotspot_env_def stream_write_def stream_channel_new_def
        seal_payload_def write_framed_def tcp_stream_ops_def tcp_write_all_def tcp_flush_def memory_net_def
        for_bwu_last_write_def encode_bwu_frame DEFAULT_MAX_ALLOWED_READ_BYTES_def)
  have medium: "upi_medium_of hotspot_offer = WifiHotspot"
    by (simp add: hotspot_offer_def wifi_hotspot_path_info_def upi_medium_of_def)
  from wr obtain c where "stream_write ?sops (chan_at ?s 0) (for_bwu_last_write (encode_frame hotspot_env))
      = Some (Success, c)" ..
  from offer_during_swap_blocks [OF ops wf state this medium] show ?thesis .
qed

end
