(* ===== verification/Handshake.thy ===== *)
theory Handshake
  imports Nearby_Prelude
begin

text \<open>
  The handshake of the converged upgrade protocol as a specification for two parties that talk
  over the channel being replaced: what each of them sends, in which order, and what it waits for,
  with the data of the applications on the same channel. Theory \<^verbatim>\<open>Bwu_Session\<close> shows that two
  managers follow it. Here every interleaving of the two parties and of the delivery of their
  messages is shown to be finite and to end with both done and no data lost.
\<close>

section \<open>The parties\<close>

datatype message = Data bytes | LastWrite | SafeToClose | Disconnect

text \<open>
  \<^verbatim>\<open>Before got\<close>: not swapped yet; \<^verbatim>\<open>Swapped got\<close>: on the new channel, the old one parked; both
  say whether the peer's LAST_WRITE has been processed. \<^verbatim>\<open>Draining\<close>: the disconnection has been
  sent and the read that drains the old channel waits.
\<close>

datatype phase = Before bool | Swapped bool | Draining | Completed

text \<open>
  \<^verbatim>\<open>todo\<close> is the data the application still has to send, \<^verbatim>\<open>written\<close> what it has written on the
  old channel, \<^verbatim>\<open>seen\<close> the messages taken out of the inbox and processed.
\<close>

record party =
  phase :: phase
  todo :: "bytes list"
  written :: "bytes list"
  seen :: "message list"
  inbox :: "message list"
  outbox :: "message list"

text \<open>
  The application writes on the old channel as long as it is the registered one, that is until the
  swap; what it has left then goes to the new channel.
\<close>

inductive party_step :: "party \<Rightarrow> party \<Rightarrow> bool" where
  send_data: "phase p = Before got \<Longrightarrow> todo p = d # ds \<Longrightarrow>
    party_step p (p\<lparr>todo := ds, written := written p @ [d], outbox := outbox p @ [Data d]\<rparr>)"
| swap: "phase p = Before got \<Longrightarrow>
    party_step p (p\<lparr>phase := Swapped got, outbox := outbox p @ LastWrite # (if got then [SafeToClose] else [])\<rparr>)"
| take_data: "phase p = Before got \<or> phase p = Swapped got \<Longrightarrow> inbox p = Data d # q \<Longrightarrow>
    party_step p (p\<lparr>seen := seen p @ [Data d], inbox := q\<rparr>)"
| early_last_write: "phase p = Before got \<Longrightarrow> inbox p = LastWrite # q \<Longrightarrow>
    party_step p (p\<lparr>seen := seen p @ [LastWrite], inbox := q, phase := Before True\<rparr>)"
| last_write: "phase p = Swapped got \<Longrightarrow> inbox p = LastWrite # q \<Longrightarrow>
    party_step p (p\<lparr>seen := seen p @ [LastWrite], inbox := q, phase := Swapped True,
      outbox := outbox p @ [SafeToClose]\<rparr>)"
| safe_to_close: "phase p = Swapped got \<Longrightarrow> inbox p = SafeToClose # q \<Longrightarrow>
    party_step p (p\<lparr>seen := seen p @ [SafeToClose], inbox := q, phase := Draining,
      outbox := outbox p @ [Disconnect]\<rparr>)"
| drained: "phase p = Draining \<Longrightarrow> inbox p = m # q \<Longrightarrow>
    party_step p (p\<lparr>inbox := q, phase := Completed\<rparr>)"

text \<open>A step of one of the two, or the delivery of what one of them has sent.\<close>

inductive handshake_step :: "party \<times> party \<Rightarrow> party \<times> party \<Rightarrow> bool" where
  left_step: "party_step p p' \<Longrightarrow> handshake_step (p, q) (p', q)"
| right_step: "party_step q q' \<Longrightarrow> handshake_step (p, q) (p, q')"
| left_deliver: "outbox p \<noteq> [] \<Longrightarrow>
    handshake_step (p, q) (p\<lparr>outbox := []\<rparr>, q\<lparr>inbox := inbox q @ outbox p\<rparr>)"
| right_deliver: "outbox q \<noteq> [] \<Longrightarrow>
    handshake_step (p, q) (p\<lparr>inbox := inbox p @ outbox q\<rparr>, q\<lparr>outbox := []\<rparr>)"

inductive_cases party_stepE: "party_step p p'"
inductive_cases handshake_stepE: "handshake_step pq pq'"

section \<open>The invariant\<close>

fun is_control :: "message \<Rightarrow> bool" where
  "is_control (Data d) \<longleftrightarrow> False"
| "is_control m \<longleftrightarrow> True"

abbreviation control :: "message list \<Rightarrow> message list" where
  "control \<equiv> filter is_control"

lemma control_data [simp]: "control (map Data ds) = []"
  by (induction ds) simp_all

text \<open>
  The handshake messages a party has sent, has seen, and has taken without processing them, by its
  phase.
\<close>

fun sent :: "phase \<Rightarrow> message list" where
  "sent (Before got) = []"
| "sent (Swapped got) = LastWrite # (if got then [SafeToClose] else [])"
| "sent Draining = [LastWrite, SafeToClose, Disconnect]"
| "sent Completed = [LastWrite, SafeToClose, Disconnect]"

fun heard :: "phase \<Rightarrow> message list" where
  "heard (Before got) = (if got then [LastWrite] else [])"
| "heard (Swapped got) = (if got then [LastWrite] else [])"
| "heard Draining = [LastWrite, SafeToClose]"
| "heard Completed = [LastWrite, SafeToClose]"

fun discarded :: "phase \<Rightarrow> message list" where
  "discarded Completed = [Disconnect]"
| "discarded _ = []"

lemma control_sent [simp]: "control (sent ph) = sent ph" "control (discarded ph) = discarded ph"
  by (cases ph; simp)+

text \<open>
  Everything the one has sent, its data first, has been taken by the other, is waiting, or is under
  way, in this order.
\<close>

definition flows :: "party \<Rightarrow> party \<Rightarrow> bool" where
  "flows p q \<longleftrightarrow> map Data (written p) @ sent (phase p) = seen q @ discarded (phase q) @ inbox q @ outbox p
     \<and> control (seen q) = heard (phase q)"

definition handshake_inv :: "party \<times> party \<Rightarrow> bool" where
  "handshake_inv = (\<lambda>(p, q). flows p q \<and> flows q p)"

lemma control_flow:
  "flows q p \<Longrightarrow> sent (phase q) = heard (phase p) @ discarded (phase p) @ control (inbox p) @ control (outbox q)"
  unfolding flows_def by (metis (no_types, lifting) append_Nil control_data control_sent filter_append)

text \<open>After a handshake message comes no more data.\<close>

lemma data_first:
  assumes "map Data w @ s = xs @ Data d # ys" and "control s = s"
  shows "control xs = []"
  using assms
proof (induction w arbitrary: xs)
  case Nil
  then have "control (xs @ Data d # ys) = xs @ Data d # ys" by simp
  then show ?case by (simp only: filter_id_conv) simp
next
  case (Cons a w)
  then show ?case by (cases xs) auto
qed

text \<open>So the message at the head of an inbox is known from the phase, but for data.\<close>

lemma head_of_flow:
  assumes "flows q p" and "inbox p = m # r"
  shows "phase p = Before got \<or> phase p = Swapped got \<Longrightarrow>
      m = (if got then SafeToClose else LastWrite) \<or> (\<exists>d. m = Data d \<and> \<not> got)"
    and "phase p = Draining \<Longrightarrow> m = Disconnect" and "phase p \<noteq> Completed"
proof -
  have data: "heard (phase p) = [] \<and> discarded (phase p) = []" if "m = Data d" for d
  proof -
    have "map Data (written q) @ sent (phase q) = (seen p @ discarded (phase p)) @ Data d # r @ outbox q"
      using assms that by (simp add: flows_def)
    from data_first [OF this] assms(1) show ?thesis by (simp add: flows_def)
  qed
  have ctl: "sent (phase q) = heard (phase p) @ discarded (phase p) @ m # control r @ control (outbox q)"
    if "is_control m" using control_flow [OF assms(1)] assms(2) that by simp
  show "m = (if got then SafeToClose else LastWrite) \<or> (\<exists>d. m = Data d \<and> \<not> got)"
    if "phase p = Before got \<or> phase p = Swapped got"
    using data ctl that by (cases m; cases "phase q") (auto split: if_splits)
  show "m = Disconnect" if "phase p = Draining"
    using data ctl that by (cases m; cases "phase q") (auto split: if_splits)
  show "phase p \<noteq> Completed"
    using data ctl by (cases m; cases "phase q") (auto split: if_splits)
qed

text \<open>A party that has seen the peer's LAST_WRITE before its own swap has an empty inbox.\<close>

lemma early_inbox:
  assumes "flows p q" and "flows q p" and "phase p = Before True"
  shows "inbox p = []"
proof (cases "inbox p")
  case (Cons m r)
  with head_of_flow(1) [OF assms(2) Cons, of True] assms(3) have "m = SafeToClose" by auto
  with Cons control_flow [OF assms(2)] control_flow [OF assms(1)] assms(3) show ?thesis
    by (cases "phase q") (auto split: if_splits)
qed

lemma party_step_flows:
  assumes "party_step p p'" and "flows p q" and "flows q p"
  shows "flows p' q \<and> flows q p'"
  using assms
proof (cases rule: party_step.cases)
  case (send_data got d ds)
  with assms(2,3) show ?thesis by (simp add: flows_def)
next
  case (swap got)
  with assms(2,3) show ?thesis by (simp add: flows_def)
next
  case (take_data got d r)
  with assms(2,3) show ?thesis by (auto simp: flows_def)
next
  case (early_last_write got r)
  then show ?thesis using assms(2,3) head_of_flow(1) [OF assms(3) early_last_write(3), of got]
    by (simp add: flows_def split: if_splits)
next
  case (last_write got r)
  then show ?thesis using assms(2,3) head_of_flow(1) [OF assms(3) last_write(3), of got]
    by (simp add: flows_def split: if_splits)
next
  case (safe_to_close got r)
  then show ?thesis using assms(2,3) head_of_flow(1) [OF assms(3) safe_to_close(3), of got]
    by (simp add: flows_def split: if_splits)
next
  case (drained m r)
  then show ?thesis using assms(2,3) head_of_flow(2) [OF assms(3) drained(3)] by (simp add: flows_def)
qed

lemma handshake_inv_step: "handshake_step pq pq' \<Longrightarrow> handshake_inv pq \<Longrightarrow> handshake_inv pq'"
proof (induction rule: handshake_step.induct)
  case (left_step p p' q)
  then show ?case using party_step_flows [of p p' q] by (simp add: handshake_inv_def)
next
  case (right_step q q' p)
  then show ?case using party_step_flows [of q q' p] by (simp add: handshake_inv_def)
qed (simp_all add: handshake_inv_def flows_def)

section \<open>Progress\<close>

lemma stuck_party:
  assumes "\<nexists>p'. party_step p p'" and "flows p q" and "flows q p"
  shows "phase p = Completed \<or> (inbox p = [] \<and> phase p \<in> {Swapped False, Swapped True, Draining})"
proof (cases "phase p")
  case (Before got)
  then show ?thesis using assms(1) party_step.swap by blast
next
  case (Swapped got)
  then show ?thesis
  proof (cases "inbox p")
    case (Cons m r)
    with Swapped head_of_flow(1) [OF assms(3) Cons, of got]
    have "m = LastWrite \<or> m = SafeToClose \<or> (\<exists>d. m = Data d)" by (cases got) auto
    then show ?thesis
      using assms(1) Swapped Cons party_step.last_write party_step.safe_to_close party_step.take_data by blast
  qed (cases got, auto)
next
  case Draining
  then show ?thesis using assms(1) party_step.drained by (cases "inbox p") blast+
qed simp

lemma handshake_progress:
  assumes "handshake_inv (p, q)" and "\<nexists>pq'. handshake_step (p, q) pq'"
  shows "phase p = Completed \<and> phase q = Completed"
proof -
  have out: "outbox p = []" "outbox q = []"
    using assms(2) handshake_step.left_deliver handshake_step.right_deliver by blast+
  have flow: "flows p q" "flows q p" using assms(1) by (simp_all add: handshake_inv_def)
  from stuck_party [OF _ flow] stuck_party [OF _ flow(2,1)] assms(2)
  have "phase p = Completed \<or> (inbox p = [] \<and> phase p \<in> {Swapped False, Swapped True, Draining})"
    "phase q = Completed \<or> (inbox q = [] \<and> phase q \<in> {Swapped False, Swapped True, Draining})"
    using handshake_step.left_step handshake_step.right_step by blast+
  with control_flow [OF flow(1)] control_flow [OF flow(2)] out show ?thesis by auto
qed

text \<open>
  Nothing is lost: what a party that has completed has seen is all the data that the peer had
  written, in order, and then the two messages of the handshake.
\<close>

lemma completed_seen:
  assumes "flows p q" and "phase q = Completed"
  shows "seen q = map Data (written p) @ [LastWrite, SafeToClose]"
proof -
  have s: "sent (phase p) = [LastWrite, SafeToClose, Disconnect]" "control (inbox q @ outbox p) = []"
    using control_flow [OF assms(1)] assms(2) by (cases "phase p"; auto split: if_splits)+
  let ?r = "inbox q @ outbox p"
  have eq: "map Data (written p) @ [LastWrite, SafeToClose, Disconnect] = (seen q @ [Disconnect]) @ ?r"
    using assms s(1) by (simp add: flows_def)
  have "?r = []"
  proof (rule ccontr)
    assume "?r \<noteq> []"
    moreover have "last ((seen q @ [Disconnect]) @ ?r) = Disconnect" unfolding eq [symmetric] by simp
    ultimately have "last ?r = Disconnect" by (metis last_appendR)
    with \<open>?r \<noteq> []\<close> have "Disconnect \<in> set ?r" by (metis last_in_set)
    with s(2) show False by (auto simp: filter_empty_conv)
  qed
  with eq show ?thesis by simp
qed

section \<open>Every run is finite\<close>

fun rank :: "phase \<Rightarrow> nat" where
  "rank (Before got) = (if got then 1 else 0)"
| "rank (Swapped got) = (if got then 2 else 1)"
| "rank Draining = 3"
| "rank Completed = 4"

text \<open>
  How far a party is: its phase, its data written, its messages delivered, the data it has seen.
\<close>

definition done_by :: "party \<Rightarrow> nat" where
  "done_by p = rank (phase p) + length (written p)
     + (length (written p) + length (sent (phase p)) - length (outbox p))
     + length (filter (\<lambda>m. \<not> is_control m) (seen p))"

lemma rank_bound: "rank ph \<le> 4" "length (sent ph) \<le> 3"
  by (cases ph; simp)+

lemma flows_outbox: "flows p q \<Longrightarrow> length (outbox p) \<le> length (written p) + length (sent (phase p))"
  unfolding flows_def by (drule conjunct1, drule arg_cong [of _ _ length]) simp

lemma done_by_step:
  assumes "party_step p p'" and "flows p q" and "flows q p"
  shows "done_by p < done_by p'"
proof -
  note le = flows_outbox [OF assms(2)]
  from assms(1) show ?thesis
  proof (cases rule: party_step.cases)
    case (last_write got m)
    then show ?thesis using le head_of_flow(1) [OF assms(3) last_write(3), of got]
      by (simp add: done_by_def split: if_splits)
  next
    case (early_last_write got m)
    then show ?thesis using le head_of_flow(1) [OF assms(3) early_last_write(3), of got]
      by (simp add: done_by_def split: if_splits)
  next
    case (safe_to_close got m)
    then show ?thesis using le head_of_flow(1) [OF assms(3) safe_to_close(3), of got]
      by (simp add: done_by_def split: if_splits)
  qed (use le in \<open>auto simp: done_by_def\<close>)
qed

lemma handshake_step_done:
  assumes "handshake_step (p, q) (p', q')" and "handshake_inv (p, q)"
  shows "done_by p + done_by q < done_by p' + done_by q'"
proof -
  have flow: "flows p q" "flows q p" using assms(2) by (simp_all add: handshake_inv_def)
  have delivered: "done_by r < done_by (r\<lparr>outbox := []\<rparr>)"
    if "outbox r \<noteq> []" "length (outbox r) \<le> length (written r) + length (sent (phase r))" for r :: party
    using that by (cases "outbox r") (simp_all add: done_by_def)
  have "done_by (r\<lparr>inbox := i\<rparr>) = done_by r" for r :: party and i by (simp add: done_by_def)
  with assms(1) show ?thesis
    by (cases rule: handshake_step.cases)
      (use done_by_step flow delivered flows_outbox in auto)
qed

text \<open>The data of an application is what it has written and what it has left.\<close>

lemma party_step_data: "party_step p p' \<Longrightarrow> written p' @ todo p' = written p @ todo p"
  by (induction rule: party_step.induct) simp_all

lemma handshake_step_data:
  "handshake_step (p, q) (p', q') \<Longrightarrow>
     written p' @ todo p' = written p @ todo p \<and> written q' @ todo q' = written q @ todo q"
  by (cases rule: handshake_step.cases) (auto simp: party_step_data)

lemma handshake_run:
  assumes "(handshake_step ^^ n) (p, q) (p', q')" and "handshake_inv (p, q)"
  shows "handshake_inv (p', q') \<and> done_by p + done_by q + n \<le> done_by p' + done_by q'
    \<and> written p' @ todo p' = written p @ todo p \<and> written q' @ todo q' = written q @ todo q"
  using assms
proof (induction n arbitrary: p' q')
  case (Suc n)
  then obtain pn qn where "(handshake_step ^^ n) (p, q) (pn, qn)" and st: "handshake_step (pn, qn) (p', q')"
    by auto
  with Suc have "handshake_inv (pn, qn) \<and> done_by p + done_by q + n \<le> done_by pn + done_by qn
      \<and> written pn @ todo pn = written p @ todo p \<and> written qn @ todo qn = written q @ todo q" by blast
  with st handshake_inv_step handshake_step_done handshake_step_data show ?case by fastforce
qed simp

definition party_start :: "bytes list \<Rightarrow> party" where
  "party_start ds = \<lparr>phase = Before False, todo = ds, written = [], seen = [], inbox = [], outbox = []\<rparr>"

lemma handshake_start: "handshake_inv (party_start ds, party_start es)"
  by (simp add: handshake_inv_def party_start_def flows_def)

lemma seen_bound:
  assumes "flows p q"
  shows "length (filter (\<lambda>m. \<not> is_control m) (seen q)) \<le> length (written p)"
proof -
  have "filter (\<lambda>m. \<not> is_control m) (sent (phase p)) = []" by (cases "phase p") auto
  moreover have "filter (\<lambda>m. \<not> is_control m) (map Data ds) = map Data ds" for ds by (induction ds) auto
  ultimately have "map Data (written p) = filter (\<lambda>m. \<not> is_control m) (seen q @ discarded (phase q) @ inbox q @ outbox p)"
    using assms unfolding flows_def by (metis append_Nil2 filter_append)
  from arg_cong [OF this, of length] show ?thesis by simp
qed

lemma handshake_bound:
  assumes "(handshake_step ^^ n) (party_start ds, party_start es) (p, q)"
  shows "handshake_inv (p, q)" and "n \<le> 14 + 3 * (length ds + length es)"
    and "written p @ todo p = ds" and "written q @ todo q = es"
proof -
  note run = handshake_run [OF assms handshake_start]
  then show inv: "handshake_inv (p, q)" and d: "written p @ todo p = ds" "written q @ todo q = es"
    by (simp_all add: party_start_def)
  have "length (written p) \<le> length ds" "length (written q) \<le> length es" using d by auto
  moreover have "length (filter (\<lambda>m. \<not> is_control m) (seen q)) \<le> length (written p)"
    "length (filter (\<lambda>m. \<not> is_control m) (seen p)) \<le> length (written q)"
    using inv seen_bound by (auto simp: handshake_inv_def)
  moreover have "n \<le> done_by p + done_by q" using run by linarith
  ultimately show "n \<le> 14 + 3 * (length ds + length es)"
    using rank_bound [of "phase p"] rank_bound [of "phase q"]
      diff_le_self [of "length (written p) + length (sent (phase p))" "length (outbox p)"]
      diff_le_self [of "length (written q) + length (sent (phase q))" "length (outbox q)"]
    unfolding done_by_def distrib_left by linarith
qed

end
