(* ===== verification/Frame_Link.thy ===== *)
theory Frame_Link
  imports Tcp
begin

text \<open>
  Two channels joined by a network: what is written on the one can be read on the other, frame by
  frame and in order. The locale \<^verbatim>\<open>frame_link\<close> is what the two-sided theorems rely on; it is
  interpreted on the stream channels of \<^verbatim>\<open>src/bwu/stream_channel.rs\<close> over the TCP streams of
  \<^verbatim>\<open>src/bwu/tcp.rs\<close>, with sockets that buffer what they get and what they send.
\<close>

section \<open>The interface\<close>

text \<open>
  \<^verbatim>\<open>link c ins outs\<close>: \<^verbatim>\<open>ins\<close> are the frames that can be read on \<^verbatim>\<open>c\<close>, \<^verbatim>\<open>outs\<close> those written
  and not yet under way. \<^verbatim>\<open>transmit a b\<close> carries what was written on \<^verbatim>\<open>a\<close> to \<^verbatim>\<open>b\<close>, if there
  is anything. What was written before a close is still carried.
\<close>

locale frame_link = endpoint_channel ops closed
  for ops :: "'ch channel_ops" and closed :: "'ch \<Rightarrow> bool" +
  fixes link :: "'ch \<Rightarrow> bytes list \<Rightarrow> bytes list \<Rightarrow> bool" and fits :: "bytes \<Rightarrow> bool"
    and transmit :: "'ch \<Rightarrow> 'ch \<Rightarrow> ('ch \<times> 'ch) option"
  assumes link_write: "link c ins outs \<Longrightarrow> \<not> closed c \<Longrightarrow> \<not> op_is_paused ops c \<Longrightarrow> fits data \<Longrightarrow>
      \<exists>c'. op_write ops c data = Some (Success, c') \<and> link c' ins (outs @ [data]) \<and> \<not> closed c'"
    and link_read: "link c (data # ins) outs \<Longrightarrow> fits data \<Longrightarrow>
      \<exists>c'. op_read ops c = Some (Inr data, c') \<and> link c' ins outs \<and> closed c' = closed c"
    and link_empty: "link c [] outs \<Longrightarrow> op_read ops c \<noteq> Some (Inr data, c')"
    and link_waits: "link c [] outs \<Longrightarrow> \<not> closed c \<Longrightarrow> op_read ops c = None"
    and link_disable: "link c ins outs \<Longrightarrow> link (op_disable_encryption ops c) ins outs"
    and closed_disable: "closed (op_disable_encryption ops c) = closed c"
    and link_close: "link c ins outs \<Longrightarrow> link (op_close_with_reason ops c r) ins outs"
    and transmit_nothing: "link a ia [] \<Longrightarrow> transmit a b = None"
    and transmit_frames: "link a ia oa \<Longrightarrow> oa \<noteq> [] \<Longrightarrow> link b ib ob \<Longrightarrow>
      \<exists>a' b'. transmit a b = Some (a', b') \<and> link a' ia [] \<and> link b' (ib @ oa) ob
        \<and> closed a' = closed a \<and> closed b' = closed b
        \<and> op_is_paused ops a' = op_is_paused ops a \<and> op_is_paused ops b' = op_is_paused ops b"
begin

text \<open>The calls of the handshake on a channel in use.\<close>

lemma link_writes:
  assumes "link c ins outs" and "\<not> closed c" and "\<not> op_is_paused ops c" and "fits b"
  obtains c' where "op_write ops c b = Some (Success, c')" "link c' ins (outs @ [b])" "\<not> closed c'"
    "\<not> op_is_paused ops c'"
  using link_write [OF assms] paused_write assms(3) by blast

lemma link_reads:
  assumes "link c (b # ins) outs" and "fits b"
  obtains c' where "op_read ops c = Some (Inr b, c')" "link c' ins outs" "closed c' = closed c"
    "op_is_paused ops c' = op_is_paused ops c"
  using link_read [OF assms] paused_read by blast

text \<open>What is read is what was written.\<close>

lemma read_is_next:
  assumes "op_read ops c = Some (Inr data, c')" and "link c ins outs" and "list_all fits ins"
  obtains ins' where "ins = data # ins'" "link c' ins' outs" "closed c' = closed c"
    "op_is_paused ops c' = op_is_paused ops c"
proof (cases ins)
  case Nil
  then show ?thesis using assms(1,2) link_empty by blast
next
  case (Cons b ins')
  with link_reads [of c b ins' outs] assms that show ?thesis by auto
qed

end

section \<open>Sockets in memory\<close>

text \<open>
  A socket with its two buffers. A read of bytes that are not there waits, unless the socket has
  been shut down; a shut socket takes no more bytes.
\<close>

record mem_socket =
  sock_rx :: bytes
  sock_tx :: bytes
  sock_shut :: bool

definition mem_read_exact :: "mem_socket \<Rightarrow> nat \<Rightarrow> ((io_error + bytes) \<times> mem_socket) option" where
  "mem_read_exact s k =
     (if k \<le> length (sock_rx s) then Some (Inr (take k (sock_rx s)), s\<lparr>sock_rx := drop k (sock_rx s)\<rparr>)
      else if sock_shut s then Some (Inl UnexpectedEof, s\<lparr>sock_rx := []\<rparr>) else None)"

definition mem_write_all :: "mem_socket \<Rightarrow> bytes \<Rightarrow> ((io_error + unit) \<times> mem_socket) option" where
  "mem_write_all s bs =
     (if sock_shut s then Some (Inl OtherIoError, s) else Some (Inr (), s\<lparr>sock_tx := sock_tx s @ bs\<rparr>))"

text \<open>A network like \<^verbatim>\<open>N\<close> whose sockets are these.\<close>

definition socket_net :: "('n, mem_socket, 'l) net_ops \<Rightarrow> ('n, mem_socket, 'l) net_ops" where
  "socket_net N = N\<lparr>sock_try_clone := Pair True, sock_read_exact := mem_read_exact,
     sock_write_all := mem_write_all, sock_flush := (\<lambda>s. Some (Inr (), s)),
     sock_shutdown := (\<lambda>s. s\<lparr>sock_shut := True\<rparr>)\<rparr>"

abbreviation socket_ops :: "('n, mem_socket, 'l) net_ops \<Rightarrow> mem_socket tcp_duplex_stream stream_ops" where
  "socket_ops N \<equiv> tcp_stream_ops (socket_net N)"

lemmas socket_defs = tcp_stream_ops_def socket_net_def tcp_read_exact_def tcp_write_all_def
  tcp_flush_def tcp_close_def mem_read_exact_def mem_write_all_def

interpretation socket_reader: reader_stream "socket_ops N" "\<lambda>d. sock_rx (td_socket d)"
  "\<lambda>d. (sock_tx (td_socket d), sock_shut (td_socket d))" for N :: "('n, mem_socket, 'l) net_ops"
  by unfold_locales (auto simp: socket_defs)

interpretation socket_writer: writer_stream "socket_ops N" "\<lambda>d. sock_tx (td_socket d)"
  "\<lambda>d. \<not> sock_shut (td_socket d)" "\<lambda>d. sock_rx (td_socket d)" for N :: "('n, mem_socket, 'l) net_ops"
  by unfold_locales (auto simp: socket_defs)

section \<open>Channels over sockets\<close>

definition wire_bytes :: "bytes list \<Rightarrow> bytes" where
  "wire_bytes frames = concat (map frame_bytes frames)"

lemma wire_bytes_simps [simp]:
  "wire_bytes [] = []" "wire_bytes (b # bs) = frame_bytes b @ wire_bytes bs"
  "wire_bytes (as @ bs) = wire_bytes as @ wire_bytes bs"
  by (simp_all add: wire_bytes_def)

lemma frame_bytes_not_Nil [simp]: "frame_bytes b \<noteq> []"
  by (simp add: frame_bytes_def to_be_bytes_def)

lemma wire_bytes_Nil_iff [simp]: "wire_bytes bs = [] \<longleftrightarrow> bs = []"
  by (cases bs) simp_all

abbreviation sock :: "mem_socket tcp_channel \<Rightarrow> mem_socket" where
  "sock c \<equiv> td_socket (sc_stream c)"

definition set_sock :: "mem_socket \<Rightarrow> mem_socket tcp_channel \<Rightarrow> mem_socket tcp_channel" where
  "set_sock s c = c\<lparr>sc_stream := (sc_stream c)\<lparr>td_socket := s\<rparr>\<rparr>"

definition socket_link :: "mem_socket tcp_channel \<Rightarrow> bytes list \<Rightarrow> bytes list \<Rightarrow> bool" where
  "socket_link c ins outs \<longleftrightarrow> sc_cipher c = None
     \<and> max_allowed_read_bytes c = DEFAULT_MAX_ALLOWED_READ_BYTES
     \<and> sock_shut (sock c) = ps_closed (sc_pause c)
     \<and> sock_rx (sock c) = wire_bytes ins \<and> sock_tx (sock c) = wire_bytes outs"

definition socket_fits :: "bytes \<Rightarrow> bool" where
  "socket_fits b \<longleftrightarrow> length b \<le> DEFAULT_MAX_ALLOWED_READ_BYTES"

definition socket_transmit ::
    "mem_socket tcp_channel \<Rightarrow> mem_socket tcp_channel
      \<Rightarrow> (mem_socket tcp_channel \<times> mem_socket tcp_channel) option" where
  "socket_transmit a b =
     (if sock_tx (sock a) = [] then None
      else Some (set_sock ((sock a)\<lparr>sock_tx := []\<rparr>) a,
                 set_sock ((sock b)\<lparr>sock_rx := sock_rx (sock b) @ sock_tx (sock a)\<rparr>) b))"

interpretation socket_frames: frame_link "stream_channel_ops (socket_ops N) dec"
  "\<lambda>c. ps_closed (sc_pause c)" socket_link socket_fits socket_transmit
  for N :: "('n, mem_socket, 'l) net_ops" and dec
proof unfold_locales
  fix c :: "mem_socket tcp_channel" and ins outs b
  assume c: "socket_link c ins outs" "\<not> ps_closed (sc_pause c)"
    "\<not> op_is_paused (stream_channel_ops (socket_ops N) dec) c" "socket_fits b"
  then show "\<exists>c'. op_write (stream_channel_ops (socket_ops N) dec) c b = Some (Success, c')
      \<and> socket_link c' ins (outs @ [b]) \<and> \<not> ps_closed (sc_pause c')"
    using socket_writer.stream_write_open [of c b b None N]
    by (auto simp: socket_link_def socket_fits_def seal_payload_def)
next
  fix c :: "mem_socket tcp_channel" and ins outs b
  assume "socket_link c (b # ins) outs" "socket_fits b"
  then show "\<exists>c'. op_read (stream_channel_ops (socket_ops N) dec) c = Some (Inr b, c')
      \<and> socket_link c' ins outs \<and> ps_closed (sc_pause c') = ps_closed (sc_pause c)"
    using socket_reader.stream_read_framed [of c b "wire_bytes ins" N dec]
    by (auto simp: socket_link_def socket_fits_def open_raw_def DEFAULT_MAX_ALLOWED_READ_BYTES_def)
qed (auto simp: socket_link_def socket_transmit_def set_sock_def stream_read_def read_raw_def socket_defs
    disable_encryption_def do_close_def Let_def)

end
