(* ===== verification/Sealed_Link.thy ===== *)
theory Sealed_Link
  imports Frame_Link
begin

text \<open>
  Two channels joined by a network, with or without encryption. The peers of an encrypted
  connection number their messages (UKEY2), so a frame can be opened only in its turn. The locale
  \<^verbatim>\<open>sealed_link\<close> is what the two-sided handshake relies on, where a side turns the encryption off
  before it sends its last frame. It is interpreted on the stream channels of
  \<^verbatim>\<open>src/bwu/stream_channel.rs\<close> over sockets, for every session of the two peers.
\<close>

section \<open>The interface\<close>

text \<open>A frame on its way, and whether it is sealed.\<close>

type_synonym packet = "bool \<times> bytes"

abbreviation sealed :: "packet list \<Rightarrow> nat" where
  "sealed ps \<equiv> length (filter fst ps)"

text \<open>
  \<^verbatim>\<open>link d e r w c ins outs\<close>: \<^verbatim>\<open>c\<close> is the end of the connection on side \<^verbatim>\<open>d\<close>, with the encryption
  on if \<^verbatim>\<open>e\<close>; \<^verbatim>\<open>r\<close> and \<^verbatim>\<open>w\<close> sealed frames have been read and written on it so far; \<^verbatim>\<open>ins\<close> can be
  read next, \<^verbatim>\<open>outs\<close> has been written and is not yet under way.
\<close>

locale sealed_link = endpoint_channel ops closed
  for ops :: "'ch channel_ops" and closed :: "'ch \<Rightarrow> bool" +
  fixes link :: "bool \<Rightarrow> bool \<Rightarrow> nat \<Rightarrow> nat \<Rightarrow> 'ch \<Rightarrow> packet list \<Rightarrow> packet list \<Rightarrow> bool"
    and fits :: "packet \<Rightarrow> bool" and transmit :: "'ch \<Rightarrow> 'ch \<Rightarrow> ('ch \<times> 'ch) option"
  assumes link_write: "link d e r w c ins outs \<Longrightarrow> \<not> closed c \<Longrightarrow> \<not> op_is_paused ops c \<Longrightarrow> fits (e, data) \<Longrightarrow>
      \<exists>c'. op_write ops c data = Some (Success, c')
        \<and> link d e r (w + of_bool e) c' ins (outs @ [(e, data)]) \<and> \<not> closed c'"
    and link_read: "link d e r w c ((e, data) # ins) outs \<Longrightarrow> fits (e, data) \<Longrightarrow>
      \<exists>c'. op_read ops c = Some (Inr data, c') \<and> link d e (r + of_bool e) w c' ins outs \<and> closed c' = closed c"
    and link_empty: "link d e r w c [] outs \<Longrightarrow> op_read ops c \<noteq> Some (Inr data, c')"
    and link_waits: "link d e r w c [] outs \<Longrightarrow> \<not> closed c \<Longrightarrow> op_read ops c = None"
    and link_disable: "link d e r w c ins outs \<Longrightarrow> link d False r w (op_disable_encryption ops c) ins outs"
    and closed_disable: "closed (op_disable_encryption ops c) = closed c"
    and link_close: "link d e r w c ins outs \<Longrightarrow> link d e r w (op_close_with_reason ops c reason) ins outs"
    and transmit_nothing: "link d e r w a ia [] \<Longrightarrow> transmit a b = None"
    and transmit_frames: "link d ea ra wa a ia oa \<Longrightarrow> oa \<noteq> [] \<Longrightarrow> link (\<not> d) eb rb wb b ib ob \<Longrightarrow>
      rb + sealed (ib @ oa) = wa \<Longrightarrow>
      \<exists>a' b'. transmit a b = Some (a', b') \<and> link d ea ra wa a' ia [] \<and> link (\<not> d) eb rb wb b' (ib @ oa) ob
        \<and> closed a' = closed a \<and> closed b' = closed b
        \<and> op_is_paused ops a' = op_is_paused ops a \<and> op_is_paused ops b' = op_is_paused ops b"
begin

lemma link_writes:
  assumes "link d e r w c ins outs" and "\<not> closed c" and "\<not> op_is_paused ops c" and "fits (e, data)"
  obtains c' where "op_write ops c data = Some (Success, c')"
    "link d e r (w + of_bool e) c' ins (outs @ [(e, data)])" "\<not> closed c'" "\<not> op_is_paused ops c'"
  using link_write [OF assms] paused_write assms(3) by blast

lemma link_reads:
  assumes "link d e r w c ((e, data) # ins) outs" and "fits (e, data)"
  obtains c' where "op_read ops c = Some (Inr data, c')" "link d e (r + of_bool e) w c' ins outs"
    "closed c' = closed c" "op_is_paused ops c' = op_is_paused ops c"
  using link_read [OF assms] paused_read by blast

end

section \<open>Sessions\<close>

text \<open>
  The keys of a session: the sealing and the opening of message number \<^verbatim>\<open>n\<close> of either direction,
  where opening gives back what was sealed.
\<close>

typedef session_keys =
  "{k :: (bool \<Rightarrow> nat \<Rightarrow> bytes \<Rightarrow> bytes) \<times> (bool \<Rightarrow> nat \<Rightarrow> bytes \<Rightarrow> bytes option).
     \<forall>d n b. snd k d n (fst k d n b) = Some b}"
  by (rule exI [of _ "(\<lambda>d n b. b, \<lambda>d n. Some)"]) simp

definition seal :: "session_keys \<Rightarrow> bool \<Rightarrow> nat \<Rightarrow> bytes \<Rightarrow> bytes" where
  "seal k = fst (Rep_session_keys k)"

definition unseal :: "session_keys \<Rightarrow> bool \<Rightarrow> nat \<Rightarrow> bytes \<Rightarrow> bytes option" where
  "unseal k = snd (Rep_session_keys k)"

lemma unseal_seal [simp]: "unseal k d n (seal k d n b) = Some b"
  using Rep_session_keys [of k] by (simp add: seal_def unseal_def)

text \<open>The cipher of side \<^verbatim>\<open>d\<close> that has sealed \<^verbatim>\<open>w\<close> messages and opened \<^verbatim>\<open>r\<close>.\<close>

primcorec session_cipher :: "session_keys \<Rightarrow> bool \<Rightarrow> nat \<Rightarrow> nat \<Rightarrow> cipher" where
  "c_encode (session_cipher k d w r) = (\<lambda>b. (Some (seal k d w b), session_cipher k d (Suc w) r))"
| "c_decode (session_cipher k d w r) = (\<lambda>b. (unseal k (\<not> d) r b,
     session_cipher k d w (if unseal k (\<not> d) r b = None then r else Suc r)))"

text \<open>What goes over the network for a list of frames, the first sealed one having number \<^verbatim>\<open>n\<close>.\<close>

fun payloads :: "(nat \<Rightarrow> bytes \<Rightarrow> bytes) \<Rightarrow> nat \<Rightarrow> packet list \<Rightarrow> bytes list" where
  "payloads f n [] = []"
| "payloads f n ((e, b) # ps) = (if e then f n b else b) # payloads f (n + of_bool e) ps"

lemma payloads_append [simp]: "payloads f n (ps @ qs) = payloads f n ps @ payloads f (n + sealed ps) qs"
  by (induction f n ps rule: payloads.induct) (simp_all add: add.assoc)

lemma payloads_Nil_iff [simp]: "payloads f n ps = [] \<longleftrightarrow> ps = []"
  by (cases "(f, n, ps)" rule: payloads.cases) simp_all

section \<open>Channels over sockets\<close>

text \<open>\<^verbatim>\<open>base d\<close> is the number of messages side \<^verbatim>\<open>d\<close> had sealed before.\<close>

definition session_link ::
    "session_keys \<Rightarrow> (bool \<Rightarrow> nat) \<Rightarrow> bool \<Rightarrow> bool \<Rightarrow> nat \<Rightarrow> nat \<Rightarrow> mem_socket tcp_channel
      \<Rightarrow> packet list \<Rightarrow> packet list \<Rightarrow> bool" where
  "session_link k base d e r w c ins outs \<longleftrightarrow>
     sc_cipher c = (if e then Some (session_cipher k d (base d + w) (base (\<not> d) + r)) else None)
     \<and> max_allowed_read_bytes c = DEFAULT_MAX_ALLOWED_READ_BYTES
     \<and> sock_shut (sock c) = ps_closed (sc_pause c) \<and> sealed outs \<le> w
     \<and> sock_rx (sock c) = wire_bytes (payloads (seal k (\<not> d)) (base (\<not> d) + r) ins)
     \<and> sock_tx (sock c) = wire_bytes (payloads (seal k d) (base d + (w - sealed outs)) outs)"

definition session_fits :: "session_keys \<Rightarrow> packet \<Rightarrow> bool" where
  "session_fits k = (\<lambda>(e, b). socket_fits b \<and> (e \<longrightarrow> b \<noteq> [] \<and> (\<forall>d n. socket_fits (seal k d n b))))"

interpretation session_frames: sealed_link "stream_channel_ops (socket_ops N) dec"
  "\<lambda>c. ps_closed (sc_pause c)" "session_link k base" "session_fits k" socket_transmit
  for N :: "('n, mem_socket, 'l) net_ops" and dec k base
proof unfold_locales
  fix c :: "mem_socket tcp_channel" and d e r w ins outs b
  assume c: "session_link k base d e r w c ins outs" "\<not> ps_closed (sc_pause c)"
    "\<not> op_is_paused (stream_channel_ops (socket_ops N) dec) c" "session_fits k (e, b)"
  let ?p = "if e then seal k d (base d + w) b else b"
  let ?k = "if e then Some (session_cipher k d (base d + Suc w) (base (\<not> d) + r)) else None"
  have "seal_payload (sc_cipher c) b = (Some ?p, ?k)" "length ?p \<le> max_allowed_read_bytes c"
    using c(1,4) by (auto simp: session_link_def seal_payload_def session_fits_def socket_fits_def)
  with c show "\<exists>c'. op_write (stream_channel_ops (socket_ops N) dec) c b = Some (Success, c')
      \<and> session_link k base d e r (w + of_bool e) c' ins (outs @ [(e, b)]) \<and> \<not> ps_closed (sc_pause c')"
    using socket_writer.stream_write_open [of c b ?p ?k N]
    by (auto simp: session_link_def)
next
  fix c :: "mem_socket tcp_channel" and d e r w ins outs b
  assume c: "session_link k base d e r w c ((e, b) # ins) outs" "session_fits k (e, b)"
  let ?p = "if e then seal k (\<not> d) (base (\<not> d) + r) b else b"
  let ?k = "if e then Some (session_cipher k d (base d + w) (base (\<not> d) + Suc r)) else None"
  have "open_raw dec (sc_cipher c) ?p = (Inr b, ?k)" "length ?p \<le> max_allowed_read_bytes c"
    using c by (auto simp: session_link_def open_raw_def session_fits_def socket_fits_def)
  with c show "\<exists>c'. op_read (stream_channel_ops (socket_ops N) dec) c = Some (Inr b, c')
      \<and> session_link k base d e (r + of_bool e) w c' ins outs \<and> ps_closed (sc_pause c') = ps_closed (sc_pause c)"
    using socket_reader.stream_read_framed [of c ?p "wire_bytes (payloads (seal k (\<not> d)) (base (\<not> d) + (r + of_bool e)) ins)" N dec]
    by (auto simp: session_link_def add.assoc DEFAULT_MAX_ALLOWED_READ_BYTES_def)
qed (auto simp: session_link_def socket_transmit_def set_sock_def stream_read_def read_raw_def socket_defs
    disable_encryption_def do_close_def Let_def add.assoc)

end
