(* ===== verification/Bwu_Session.thy ===== *)
theory Bwu_Session
  imports Bwu_Protocol Sealed_Link Handshake Wifi_Lan
begin

text \<open>
  Two managers, one on each side of a connection, in the middle of an upgrade: each runs the
  operations of \<^verbatim>\<open>src/bwu/manager.rs\<close> on its own state, and the network carries what they write
  on the channel that is being replaced, with the frames of the two applications between them. They
  are shown to follow the specification of theory \<^verbatim>\<open>Handshake\<close> step by step, and so to complete
  the upgrade under every interleaving, without losing a frame. The connection may be encrypted.
\<close>

section \<open>One side\<close>

text \<open>
  A manager together with the endpoint it upgrades, the channel it replaces and the new one; and
  its state, between two calls or in the wait of the completion.
\<close>

record ('ch, 'h) seat =
  seat_env :: "('ch, 'h) bwu_env"
  seat_ep :: string
  seat_old :: chan_ref
  seat_new :: chan_ref

datatype ('ch, 'h) side =
    Running (side_state: "('ch, 'h) bwu_state")
  | Waiting (side_state: "('ch, 'h) bwu_state")

text \<open>
  A device: its manager, the frames its application still has to send, and the frames that were
  read on the old channel and handed on, to the application and to the manager.
\<close>

datatype ('ch, 'h) node =
  Node (node_side: "('ch, 'h) side") (node_todo: "bytes list") (node_log: "bytes list")

definition frame_event :: "offline_frame \<Rightarrow> event_type option" where
  "frame_event f =
     (if get_frame_type f \<noteq> BandwidthUpgradeNegotiation then None
      else do {
        bwu \<leftarrow> Option.bind (of_v1 f) v1_bandwidth_upgrade_negotiation;
        event \<leftarrow> bwu_event_type bwu;
        event_type_try_from event
      })"

text \<open>The frame starts the completion.\<close>

definition completes :: "('ch, 'h) seat \<Rightarrow> offline_frame \<Rightarrow> ('ch, 'h) bwu_state \<Rightarrow> bool" where
  "completes st f s \<longleftrightarrow> frame_event f = Some SafeToClosePriorChannel
     \<and> is_connected_to_endpoint (client s) (seat_ep st) \<and> is_upgrade_ongoing s (seat_ep st)
     \<and> hm_get (previous_endpoint_channels s) (seat_ep st) = Some (seat_old st)"

text \<open>
  A step of a device: its application writes a frame on the registered channel, which is the old
  one until the swap; the manager runs the upgrade protocol on the new channel; it processes a frame
  that was read on the old channel, to the end or to the wait of the completion; or the wait is
  over. The completion is cut in two because it writes the disconnection frame and then waits for
  a frame of the peer, which may be waiting in the same place.
\<close>

inductive manager_step :: "('ch, 'h) seat \<Rightarrow> ('ch, 'h) node \<Rightarrow> ('ch, 'h) node \<Rightarrow> bool" for st where
  app_write: "registered s (seat_ep st) = Some (seat_old st) \<Longrightarrow>
    ch_write (seat_env st) (seat_old st) d s = Some (e, s') \<Longrightarrow>
    manager_step st (Node (Running s) (d # ds) log) (Node (Running s') ds log)"
| run_protocol: "registered s (seat_ep st) = Some (seat_old st) \<Longrightarrow>
    run_upgrade_protocol (seat_env st) (seat_ep st) (seat_new st) enc s = Some s' \<Longrightarrow>
    manager_step st (Node (Running s) ds log) (Node (Running s') ds log)"
| frame: "ch_read (seat_env st) (seat_old st) s = Some (Inr data, s1) \<Longrightarrow>
    from_bytes (decode_frame (seat_env st)) data = Inr f \<Longrightarrow> \<not> completes st f s1 \<Longrightarrow>
    on_incoming_frame (seat_env st) n f (seat_ep st) m s1 = Some s' \<Longrightarrow>
    manager_step st (Node (Running s) ds log) (Node (Running s') ds (log @ [data]))"
| frame_completes: "ch_read (seat_env st) (seat_old st) s = Some (Inr data, s1) \<Longrightarrow>
    from_bytes (decode_frame (seat_env st)) data = Inr f \<Longrightarrow> completes st f s1 \<Longrightarrow>
    safe_to_close_write (seat_env st) (seat_ep st) (seat_old st) s1 = Some s' \<Longrightarrow>
    manager_step st (Node (Running s) ds log) (Node (Waiting s') ds (log @ [data]))"
| wait_over: "safe_to_close_drain (seat_env st) (seat_ep st) (seat_old st) s = Some s' \<Longrightarrow>
    manager_step st (Node (Waiting s) ds log) (Node (Running s') ds log)"

inductive_cases manager_stepE: "manager_step st sd sd'"

lemma on_incoming_frame_completes:
  "completes st (bwu_offline_frame (bwu_event SafeToClosePriorChannel)) s \<Longrightarrow>
     on_incoming_frame (seat_env st) n (bwu_offline_frame (bwu_event SafeToClosePriorChannel)) (seat_ep st) m s =
       do { s \<leftarrow> safe_to_close_write (seat_env st) (seat_ep st) (seat_old st) s;
            safe_to_close_drain (seat_env st) (seat_ep st) (seat_old st) s }"
  by (simp add: completes_def frame_dispatch on_bwu_negotiation_frame_def is_upgrade_ongoing_def
      process_safe_to_close_prior_channel_event_def)

section \<open>Both sides\<close>

definition set_side_chan :: "chan_ref \<Rightarrow> 'ch \<Rightarrow> ('ch, 'h) side \<Rightarrow> ('ch, 'h) side" where
  "set_side_chan i c sd =
     (case sd of Running s \<Rightarrow> Running (set_chan i c s) | Waiting s \<Rightarrow> Waiting (set_chan i c s))"

abbreviation node_chan :: "('ch, 'h) seat \<Rightarrow> ('ch, 'h) node \<Rightarrow> 'ch" where
  "node_chan st nd \<equiv> chan_at (side_state (node_side nd)) (seat_old st)"

definition set_node_chan :: "('ch, 'h) seat \<Rightarrow> 'ch \<Rightarrow> ('ch, 'h) node \<Rightarrow> ('ch, 'h) node" where
  "set_node_chan st c nd = Node (set_side_chan (seat_old st) c (node_side nd)) (node_todo nd) (node_log nd)"

inductive session_step ::
    "('ch \<Rightarrow> 'ch \<Rightarrow> ('ch \<times> 'ch) option) \<Rightarrow> ('ch, 'h) seat \<Rightarrow> ('ch, 'g) seat
      \<Rightarrow> ('ch, 'h) node \<times> ('ch, 'g) node \<Rightarrow> ('ch, 'h) node \<times> ('ch, 'g) node \<Rightarrow> bool" for transmit a b where
  left: "manager_step a l l' \<Longrightarrow> session_step transmit a b (l, r) (l', r)"
| right: "manager_step b r r' \<Longrightarrow> session_step transmit a b (l, r) (l, r')"
| carry_right: "transmit (node_chan a l) (node_chan b r) = Some (cl, cr) \<Longrightarrow>
    session_step transmit a b (l, r) (set_node_chan a cl l, set_node_chan b cr r)"
| carry_left: "transmit (node_chan b r) (node_chan a l) = Some (cr, cl) \<Longrightarrow>
    session_step transmit a b (l, r) (set_node_chan a cl l, set_node_chan b cr r)"

section \<open>The specification a side follows\<close>

fun wire :: "(offline_frame \<Rightarrow> bytes) \<Rightarrow> message \<Rightarrow> bytes" where
  "wire enc (Data d) = d"
| "wire enc LastWrite = for_bwu_last_write enc"
| "wire enc SafeToClose = for_bwu_safe_to_close enc"
| "wire enc Disconnect = for_disconnection enc False False"

text \<open>The decoder of one side reads the two negotiation frames of the other.\<close>

definition understands :: "(bytes \<Rightarrow> offline_frame option) \<Rightarrow> (offline_frame \<Rightarrow> bytes) \<Rightarrow> bool" where
  "understands dec enc \<longleftrightarrow> list_all (\<lambda>e. dec (enc (bwu_offline_frame (bwu_event e))) =
     Some (bwu_offline_frame (bwu_event e))) [LastWriteToPriorChannel, SafeToClosePriorChannel]"

lemma understands_parses:
  assumes "understands dec enc"
  shows "from_bytes dec (for_bwu_last_write enc) = Inr (bwu_offline_frame (bwu_event LastWriteToPriorChannel))"
    and "from_bytes dec (for_bwu_safe_to_close enc) = Inr (bwu_offline_frame (bwu_event SafeToClosePriorChannel))"
  using assms by (simp_all add: understands_def for_bwu_last_write_def for_bwu_safe_to_close_def
      encode_bwu_frame from_bytes_Inr_iff ensure_valid_bwu_offline_frame)

text \<open>
  A frame of the application: the decoder reads it and it is not a negotiation frame, so it is none
  of the manager's business.
\<close>

definition app_frame :: "(bytes \<Rightarrow> offline_frame option) \<Rightarrow> bytes \<Rightarrow> bool" where
  "app_frame dec d \<longleftrightarrow>
     (case from_bytes dec d of
        Inr f \<Rightarrow> get_frame_type f \<noteq> BandwidthUpgradeNegotiation
      | Inl _ \<Rightarrow> False)"

text \<open>A message of the handshake or one of the frames \<^verbatim>\<open>A\<close> of the applications.\<close>

fun sendable :: "bytes set \<Rightarrow> message \<Rightarrow> bool" where
  "sendable A (Data d) \<longleftrightarrow> d \<in> A"
| "sendable A _ \<longleftrightarrow> True"

lemma sendable_control [intro]: "sendable A LastWrite" "sendable A SafeToClose" "sendable A Disconnect"
  by simp_all

text \<open>
  The upgrade is over: the endpoint is on the new channel, which is resumed, the old one is closed
  and no longer parked, and one event has been reported on top of the \<^verbatim>\<open>events\<close> before.
\<close>

definition upgraded ::
    "('ch \<Rightarrow> bool) \<Rightarrow> (string \<times> medium) list \<Rightarrow> medium \<Rightarrow> ('ch, 'h) seat \<Rightarrow> ('ch, 'h) bwu_state \<Rightarrow> bool" where
  "upgraded closed events m st s \<longleftrightarrow> registered s (seat_ep st) = Some (seat_new st)
     \<and> \<not> op_is_paused (chan_ops (seat_env st)) (chan_at s (seat_new st))
     \<and> closed (chan_at s (seat_old st))
     \<and> hm_get (previous_endpoint_channels s) (seat_ep st) = None
     \<and> \<not> is_upgrade_ongoing s (seat_ep st)
     \<and> bandwidth_changed (client s) = events @ [(seat_ep st, m)]"

text \<open>The upgrade is under way: nothing reported, the old channel usable.\<close>

definition under_way ::
    "('ch \<Rightarrow> bool) \<Rightarrow> (string \<times> medium) list \<Rightarrow> ('ch, 'h) seat \<Rightarrow> ('ch, 'h) bwu_state \<Rightarrow> bool" where
  "under_way closed events st s \<longleftrightarrow> is_upgrade_ongoing s (seat_ep st)
     \<and> \<not> closed (chan_at s (seat_old st))
     \<and> \<not> op_is_paused (chan_ops (seat_env st)) (chan_at s (seat_old st))
     \<and> bandwidth_changed (client s) = events"

fun in_phase ::
    "('ch \<Rightarrow> bool) \<Rightarrow> (string \<times> medium) list \<Rightarrow> medium \<Rightarrow> ('ch, 'h) seat \<Rightarrow> phase \<Rightarrow> ('ch, 'h) side \<Rightarrow> bool" where
  "in_phase closed events m st (Before got) (Running s) \<longleftrightarrow> under_way closed events st s
     \<and> registered s (seat_ep st) = Some (seat_old st)
     \<and> hm_get (previous_endpoint_channels s) (seat_ep st) = None
     \<and> (seat_ep st \<in> set (successfully_upgraded_endpoints s)) = got"
| "in_phase closed events m st (Swapped got) (Running s) \<longleftrightarrow> under_way closed events st s
     \<and> registered s (seat_ep st) = Some (seat_new st)
     \<and> hm_get (previous_endpoint_channels s) (seat_ep st) = Some (seat_old st)"
| "in_phase closed events m st Draining (Waiting s) \<longleftrightarrow> under_way closed events st s
     \<and> registered s (seat_ep st) = Some (seat_new st)
     \<and> hm_get (previous_endpoint_channels s) (seat_ep st) = None"
| "in_phase closed events m st Completed (Running s) \<longleftrightarrow> upgraded closed events m st s"
| "in_phase closed events m st _ _ \<longleftrightarrow> False"

text \<open>
  On an encrypted connection every message is sealed, but for the disconnection, before which a
  side turns the encryption of the old channel off. The sealed messages a party has read and written
  so far, and whether the encryption is still on.
\<close>

definition packet :: "bool \<Rightarrow> (offline_frame \<Rightarrow> bytes) \<Rightarrow> message \<Rightarrow> packet" where
  "packet e enc msg = (e \<and> msg \<noteq> Disconnect, wire enc msg)"

definition read_count :: "bool \<Rightarrow> party \<Rightarrow> nat" where
  "read_count e p = (if e then length (seen p) else 0)"

definition written_count :: "bool \<Rightarrow> party \<Rightarrow> nat" where
  "written_count e p =
     (if e then length (written p) + length (filter (\<lambda>msg. msg \<noteq> Disconnect) (sent (phase p))) else 0)"

fun seals :: "bool \<Rightarrow> phase \<Rightarrow> bool" where
  "seals e (Before got) \<longleftrightarrow> e"
| "seals e (Swapped got) \<longleftrightarrow> e"
| "seals e Draining \<longleftrightarrow> False"
| "seals e Completed \<longleftrightarrow> False"

text \<open>
  What stays true of a side: the two channels are there and the endpoint is connected, and on the
  old channel wait the messages of its inbox, as the peer encodes them, and those of its outbox.
\<close>

definition seated ::
    "(bool \<Rightarrow> nat \<Rightarrow> nat \<Rightarrow> 'ch \<Rightarrow> packet list \<Rightarrow> packet list \<Rightarrow> bool)
      \<Rightarrow> bool \<Rightarrow> bytes set \<Rightarrow> (offline_frame \<Rightarrow> bytes) \<Rightarrow> medium \<Rightarrow> ('ch, 'h) seat \<Rightarrow> party \<Rightarrow> ('ch, 'h) bwu_state \<Rightarrow> bool" where
  "seated link e A peer_enc m st p s \<longleftrightarrow> list_all (sendable A) (inbox p) \<and> list_all (sendable A) (outbox p)
     \<and> seat_old st \<noteq> seat_new st
     \<and> seat_old st < length (heap s) \<and> seat_new st < length (heap s)
     \<and> is_connected_to_endpoint (client s) (seat_ep st)
     \<and> op_medium (chan_ops (seat_env st)) (chan_at s (seat_new st)) = m
     \<and> link (seals e (phase p)) (read_count e p) (written_count e p) (chan_at s (seat_old st))
         (map (packet e peer_enc) (inbox p)) (map (packet e (encode_frame (seat_env st))) (outbox p))"

lemmas count_defs = read_count_def written_count_def

definition follows ::
    "('ch \<Rightarrow> bool) \<Rightarrow> (bool \<Rightarrow> nat \<Rightarrow> nat \<Rightarrow> 'ch \<Rightarrow> packet list \<Rightarrow> packet list \<Rightarrow> bool)
      \<Rightarrow> bool \<Rightarrow> bytes set \<Rightarrow> (offline_frame \<Rightarrow> bytes)
      \<Rightarrow> (string \<times> medium) list \<Rightarrow> medium \<Rightarrow> ('ch, 'h) seat \<Rightarrow> party \<Rightarrow> ('ch, 'h) side \<Rightarrow> bool" where
  "follows closed link e A peer_enc events m st p sd \<longleftrightarrow>
     seated link e A peer_enc m st p (side_state sd) \<and> in_phase closed events m st (phase p) sd"

definition node_follows ::
    "('ch \<Rightarrow> bool) \<Rightarrow> (bool \<Rightarrow> nat \<Rightarrow> nat \<Rightarrow> 'ch \<Rightarrow> packet list \<Rightarrow> packet list \<Rightarrow> bool)
      \<Rightarrow> bool \<Rightarrow> bytes set \<Rightarrow> (offline_frame \<Rightarrow> bytes)
      \<Rightarrow> (string \<times> medium) list \<Rightarrow> medium \<Rightarrow> ('ch, 'h) seat \<Rightarrow> party \<Rightarrow> ('ch, 'h) node \<Rightarrow> bool" where
  "node_follows closed link e A peer_enc events m st p nd \<longleftrightarrow>
     follows closed link e A peer_enc events m st p (node_side nd)
     \<and> node_todo nd = todo p \<and> set (todo p) \<subseteq> A \<and> node_log nd = map (wire peer_enc) (seen p)"

lemma follows_todo [simp]:
  "follows closed link e A pe ev m st (p\<lparr>todo := y\<rparr>) sd = follows closed link e A pe ev m st p sd"
  by (simp add: follows_def seated_def count_defs)

text \<open>The channels of a side are the linked ones, and the messages of both sides go through.\<close>

definition wired ::
    "'ch channel_ops \<Rightarrow> (packet \<Rightarrow> bool) \<Rightarrow> bool \<Rightarrow> bytes set \<Rightarrow> (offline_frame \<Rightarrow> bytes) \<Rightarrow> ('ch, 'h) seat \<Rightarrow> bool" where
  "wired ops fits e A peer_enc st \<longleftrightarrow> chan_ops (seat_env st) = ops
     \<and> (\<forall>d \<in> A. fits (e, d) \<and> app_frame (decode_frame (seat_env st)) d)
     \<and> understands (decode_frame (seat_env st)) peer_enc
     \<and> list_all (\<lambda>msg. fits (packet e (encode_frame (seat_env st)) msg) \<and> fits (packet e peer_enc msg))
         [LastWrite, SafeToClose, Disconnect]"

lemma wired_fits:
  "wired ops fits e A peer_enc st \<Longrightarrow> sendable A msg \<Longrightarrow>
     fits (packet e (encode_frame (seat_env st)) msg) \<and> fits (packet e peer_enc msg)"
  by (cases msg) (simp_all add: wired_def packet_def)

text \<open>Two wired sides, each following a party of the handshake.\<close>

definition session ::
    "'ch channel_ops \<Rightarrow> (packet \<Rightarrow> bool) \<Rightarrow> ('ch \<Rightarrow> bool) \<Rightarrow> (bool \<Rightarrow> bool \<Rightarrow> nat \<Rightarrow> nat \<Rightarrow> 'ch \<Rightarrow> packet list \<Rightarrow> packet list \<Rightarrow> bool)
      \<Rightarrow> bool \<Rightarrow> bytes set \<Rightarrow> ('ch, 'h) seat \<Rightarrow> ('ch, 'g) seat \<Rightarrow> (string \<times> medium) list \<Rightarrow> (string \<times> medium) list \<Rightarrow> medium \<Rightarrow> medium
      \<Rightarrow> party \<times> party \<Rightarrow> ('ch, 'h) node \<times> ('ch, 'g) node \<Rightarrow> bool" where
  "session ops fits closed link e A a b ea eb ma mb = (\<lambda>(p, q) (l, r).
     wired ops fits e A (encode_frame (seat_env b)) a \<and> wired ops fits e A (encode_frame (seat_env a)) b
     \<and> node_follows closed (link True) e A (encode_frame (seat_env b)) ea ma a p l
     \<and> node_follows closed (link False) e A (encode_frame (seat_env a)) eb mb b q r)"

text \<open>
  The peer has read every frame that the application had sent before the swap, in order, and then
  the two frames of the handshake. What it had not sent then is still to be sent.
\<close>

definition all_received ::
    "(offline_frame \<Rightarrow> bytes) \<Rightarrow> bytes list \<Rightarrow> ('ch, 'h) node \<Rightarrow> ('ch, 'g) node \<Rightarrow> bool" where
  "all_received enc ds nd peer \<longleftrightarrow>
     node_log peer = take (length ds - length (node_todo nd)) ds @ [for_bwu_last_write enc, for_bwu_safe_to_close enc]
     \<and> node_todo nd = drop (length ds - length (node_todo nd)) ds"

lemma frame_event_bwu [simp]: "frame_event (bwu_offline_frame (bwu_event e)) = Some e"
  by (simp add: frame_event_def bwu_offline_frame_v1)

section \<open>The steps of a side\<close>

lemma packet_tag:
  "msg \<noteq> Disconnect \<Longrightarrow> packet e enc msg = (e, wire enc msg)" "packet e enc Disconnect = (False, wire enc Disconnect)"
  by (simp_all add: packet_def)

lemma counts [simp]:
  "read_count e (p\<lparr>phase := ph\<rparr>) = read_count e p" "read_count e (p\<lparr>inbox := ins\<rparr>) = read_count e p"
  "read_count e (p\<lparr>outbox := outs\<rparr>) = read_count e p" "read_count e (p\<lparr>written := ds\<rparr>) = read_count e p"
  "written_count e (p\<lparr>inbox := ins\<rparr>) = written_count e p" "written_count e (p\<lparr>outbox := outs\<rparr>) = written_count e p"
  "written_count e (p\<lparr>seen := ms\<rparr>) = written_count e p"
  "read_count e (p\<lparr>seen := seen p @ [msg]\<rparr>) = read_count e p + of_bool e"
  "written_count e (p\<lparr>written := written p @ [d]\<rparr>) = written_count e p + of_bool e"
  by (simp_all add: count_defs)

lemma phase_counts:
  "phase p = Before got \<Longrightarrow> written_count e (p\<lparr>phase := Before got'\<rparr>) = written_count e p"
  "phase p = Before got \<Longrightarrow> written_count e (p\<lparr>phase := Swapped False\<rparr>) = written_count e p + of_bool e"
  "phase p = Before got \<Longrightarrow> written_count e (p\<lparr>phase := Swapped True\<rparr>) = written_count e p + of_bool e + of_bool e"
  "phase p = Swapped False \<Longrightarrow> written_count e (p\<lparr>phase := Swapped True\<rparr>) = written_count e p + of_bool e"
  "phase p = Swapped True \<Longrightarrow> written_count e (p\<lparr>phase := Draining\<rparr>) = written_count e p"
  "phase p = Draining \<Longrightarrow> written_count e (p\<lparr>phase := Completed\<rparr>) = written_count e p"
  by (simp_all add: count_defs)

text \<open>A sealed message is numbered by the peer the way this side counts it.\<close>

lemma counts_agree:
  assumes "flows p q"
  shows "read_count e q + sealed (map (packet e enc) (inbox q) @ map (packet e enc) (outbox p)) = written_count e p"
proof (cases e)
  case True
  let ?f = "filter (\<lambda>msg. msg \<noteq> Disconnect)"
  have "?f (map Data ds) = map Data ds" for ds by (induction ds) auto
  moreover have "?f (discarded (phase q)) = []" by (cases "phase q") auto
  moreover have "Disconnect \<notin> set (seen q)"
  proof
    assume "Disconnect \<in> set (seen q)"
    then have "Disconnect \<in> set (control (seen q))" by simp
    then have "Disconnect \<in> set (heard (phase q))" using assms by (simp add: flows_def del: set_filter)
    then show False by (cases "phase q") (auto split: if_splits)
  qed
  then have "?f (seen q) = seen q" by (auto simp: filter_id_conv)
  ultimately have "map Data (written p) @ ?f (sent (phase p)) = seen q @ ?f (inbox q) @ ?f (outbox p)"
    using assms unfolding flows_def by (metis append_Nil filter_append)
  from arg_cong [OF this, of length] True show ?thesis
    by (simp add: count_defs filter_map comp_def packet_def)
qed (simp add: count_defs filter_map comp_def packet_def)

text \<open>The peer's SAFE_TO_CLOSE is next only after its LAST_WRITE and this side's swap.\<close>

lemma swapped_safe:
  assumes "flows p q" and "flows q p" and "inbox p = SafeToClose # r"
  shows "phase p = Swapped True"
proof (cases "phase p")
  case (Before got)
  with early_inbox [OF assms(1,2)] head_of_flow(1) [OF assms(2,3), of got] assms(3) show ?thesis by (cases got) auto
next
  case (Swapped got)
  with head_of_flow(1) [OF assms(2,3), of got] show ?thesis by (cases got) auto
next
  case Draining
  with head_of_flow(2) [OF assms(2,3)] show ?thesis by simp
next
  case Completed
  with head_of_flow(3) [OF assms(2,3)] show ?thesis by simp
qed

context sealed_link
begin

lemmas channel = endpoint_channel_axioms

lemma message_written:
  assumes "link d e r w c ins (map (packet e enc) outs)" and "\<not> closed c" and "\<not> op_is_paused ops c"
    and "fits (packet e enc msg)" and "msg \<noteq> Disconnect"
  obtains c' where "op_write ops c (wire enc msg) = Some (Success, c')"
    "link d e r (w + of_bool e) c' ins (map (packet e enc) (outs @ [msg]))" "\<not> closed c'" "\<not> op_is_paused ops c'"
  using link_writes [OF assms(1-3), of "wire enc msg"] assms(4,5) by (auto simp: packet_tag)

lemma swap_follows:
  assumes "wired ops fits e A pe st" and "follows closed (link d) e A pe ev m st p (Running s)" and "phase p = Before got"
  shows "\<exists>s'. run_upgrade_protocol (seat_env st) (seat_ep st) (seat_new st) enc s = Some s'
    \<and> follows closed (link d) e A pe ev m st
        (p\<lparr>phase := Swapped got, outbox := outbox p @ LastWrite # (if got then [SafeToClose] else [])\<rparr>)
        (Running s')"
proof -
  let ?E = "seat_env st" let ?enc = "encode_frame (seat_env st)" let ?old = "chan_at s (seat_old st)"
  let ?ins = "map (packet e pe) (inbox p)" let ?r = "read_count e p" let ?w = "written_count e p"
  note st = assms(2)[unfolded follows_def seated_def assms(3) in_phase.simps seals.simps under_way_def side.sel]
  have ops: "chan_ops ?E = ops" using assms(1) by (simp add: wired_def)
  have ch: "endpoint_channel (chan_ops ?E) closed" using channel ops by simp
  have fits: "fits (packet e ?enc LastWrite)" "fits (packet e ?enc SafeToClose)"
    using wired_fits [OF assms(1)] by blast+
  obtain o1 where o1: "op_write ops ?old (wire ?enc LastWrite) = Some (Success, o1)"
    "link d e ?r (?w + of_bool e) o1 ?ins (map (packet e ?enc) (outbox p @ [LastWrite]))" "\<not> closed o1" "\<not> op_is_paused ops o1"
    using message_written [of d e ?r ?w ?old ?ins ?enc "outbox p" LastWrite] st ops fits(1) by blast
  obtain o2 where o2: "op_write ops o1 (wire ?enc SafeToClose) = Some (Success, o2)"
    "link d e ?r (?w + of_bool e + of_bool e) o2 ?ins (map (packet e ?enc) ((outbox p @ [LastWrite]) @ [SafeToClose]))"
    "\<not> closed o2" "\<not> op_is_paused ops o2"
    using message_written [OF o1(2-4) fits(2)] by blast
  let ?c = "op_pause ops (op_set_local_endpoint_id ops (chan_at s (seat_new st)) (cp_local_endpoint_id (client s)))"
  have med: "op_medium ops ?c = m"
    using fresh_paused [of "chan_at s (seat_new st)"] st ops by (simp add: Let_def)
  show ?thesis
  proof (cases got)
    case False
    with swap_state [OF ch, of s "seat_ep st" "seat_old st" "seat_new st" o1 enc] st ops o1 med assms(3)
    show ?thesis by (simp add: follows_def seated_def under_way_def is_upgrade_ongoing_def phase_counts)
  next
    case True
    with swap_latched [OF ch, of s "seat_ep st" "seat_old st" "seat_new st" o1 o2 enc] st ops o1 o2 med assms(3)
    show ?thesis by (simp add: follows_def seated_def under_way_def is_upgrade_ongoing_def phase_counts)
  qed
qed

text \<open>A frame is read on the old channel.\<close>

lemma running_inbox:
  assumes "follows closed (link d) e A pe ev m st p (Running s)" and "flows q p" and "inbox p = msg # r"
  shows "msg \<noteq> Disconnect" and "seals e (phase p) = e"
proof -
  have "phase p \<noteq> Draining" using assms(1) by (auto simp: follows_def)
  with head_of_flow [OF assms(2,3)] show "msg \<noteq> Disconnect" "seals e (phase p) = e"
    by (cases "phase p"; auto split: if_splits)+
qed

lemma read_possible:
  assumes "wired ops fits e A pe st" and "follows closed (link d) e A pe ev m st p (Running s)" and "flows q p"
    and "inbox p = msg # r"
  shows "\<exists>s1. ch_read (seat_env st) (seat_old st) s = Some (Inr (wire pe msg), s1)
    \<and> follows closed (link d) e A pe ev m st (p\<lparr>seen := seen p @ [msg], inbox := r\<rparr>) (Running s1)"
proof -
  note run = running_inbox [OF assms(2-4)]
  have ops: "chan_ops (seat_env st) = ops" using assms(1) by (simp add: wired_def)
  have "sendable A msg" using assms(2,4) by (simp add: follows_def seated_def)
  then have "fits (e, wire pe msg)" using wired_fits [OF assms(1)] run(1) packet_tag by metis
  moreover have "link d e (read_count e p) (written_count e p) (chan_at s (seat_old st))
      ((e, wire pe msg) # map (packet e pe) r) (map (packet e (encode_frame (seat_env st))) (outbox p))"
    using assms(2,4) run by (simp add: follows_def seated_def packet_tag)
  ultimately obtain c where c: "op_read ops (chan_at s (seat_old st)) = Some (Inr (wire pe msg), c)"
    "link d e (read_count e p + of_bool e) (written_count e p) c (map (packet e pe) r)
       (map (packet e (encode_frame (seat_env st))) (outbox p))"
    "closed c = closed (chan_at s (seat_old st))" "op_is_paused ops c = op_is_paused ops (chan_at s (seat_old st))"
    using link_reads by metis
  then have "ch_read (seat_env st) (seat_old st) s = Some (Inr (wire pe msg), ch_apply (\<lambda>_. c) (seat_old st) s)"
    using ops by (intro ch_read_Some) simp
  then show ?thesis using assms(2,4) ops c(2-) run(2)
    by (cases "phase p") (simp_all add: follows_def seated_def under_way_def upgraded_def ch_apply_def set_chan_def
        is_upgrade_ongoing_def)
qed

lemma read_follows:
  assumes "wired ops fits e A pe st" and "follows closed (link d) e A pe ev m st p (Running s)" and "flows q p"
    and "ch_read (seat_env st) (seat_old st) s = Some (Inr data, s1)"
  obtains msg r where "inbox p = msg # r" "data = wire pe msg"
    "follows closed (link d) e A pe ev m st (p\<lparr>seen := seen p @ [msg], inbox := r\<rparr>) (Running s1)"
proof (cases "inbox p")
  case Nil
  have ops: "chan_ops (seat_env st) = ops" using assms(1) by (simp add: wired_def)
  obtain c where "op_read ops (chan_at s (seat_old st)) = Some (Inr data, c)"
    using assms(4) ops by (auto simp: ch_read_def elim!: bind_SomeE)
  with Nil assms(2) link_empty show ?thesis by (fastforce simp: follows_def seated_def)
next
  case (Cons msg r)
  with read_possible [OF assms(1-3) Cons] assms(4) that show ?thesis by auto
qed

lemma last_write_follows:
  assumes "wired ops fits e A pe st" and "follows closed (link d) e A pe ev m st p (Running s)"
  defines "f \<equiv> bwu_offline_frame (bwu_event LastWriteToPriorChannel)"
  shows "phase p = Before got \<Longrightarrow> \<exists>s'. on_incoming_frame (seat_env st) n f (seat_ep st) md s = Some s'
      \<and> follows closed (link d) e A pe ev m st (p\<lparr>phase := Before True\<rparr>) (Running s')"
    and "phase p = Swapped False \<Longrightarrow> \<exists>s'. on_incoming_frame (seat_env st) n f (seat_ep st) md s = Some s'
      \<and> follows closed (link d) e A pe ev m st (p\<lparr>phase := Swapped True, outbox := outbox p @ [SafeToClose]\<rparr>) (Running s')"
proof -
  let ?E = "seat_env st" let ?enc = "encode_frame (seat_env st)" let ?old = "chan_at s (seat_old st)"
  have ops: "chan_ops ?E = ops" using assms(1) by (simp add: wired_def)
  have run: "on_incoming_frame ?E n f (seat_ep st) md s = process_last_write_to_prior_channel_event ?E (seat_ep st) s"
    if "is_upgrade_ongoing s (seat_ep st)"
    using assms(2) that
    by (simp add: f_def follows_def seated_def frame_dispatch on_bwu_negotiation_frame_def is_upgrade_ongoing_def)
  show "\<exists>s'. on_incoming_frame ?E n f (seat_ep st) md s = Some s'
      \<and> follows closed (link d) e A pe ev m st (p\<lparr>phase := Before True\<rparr>) (Running s')" if "phase p = Before got"
    using run assms(2) that
    by (simp add: follows_def seated_def under_way_def process_last_write_to_prior_channel_event_def
        is_upgrade_ongoing_def phase_counts)
  show "\<exists>s'. on_incoming_frame ?E n f (seat_ep st) md s = Some s' \<and> follows closed (link d) e A pe ev m st
      (p\<lparr>phase := Swapped True, outbox := outbox p @ [SafeToClose]\<rparr>) (Running s')" if "phase p = Swapped False"
  proof -
    note st = assms(2)[unfolded follows_def seated_def that in_phase.simps seals.simps under_way_def side.sel]
    have "fits (packet e ?enc SafeToClose)" using wired_fits [OF assms(1)] by blast
    then obtain c where c: "op_write ops ?old (wire ?enc SafeToClose) = Some (Success, c)"
      "link d e (read_count e p) (written_count e p + of_bool e) c (map (packet e pe) (inbox p))
         (map (packet e ?enc) (outbox p @ [SafeToClose]))" "\<not> closed c" "\<not> op_is_paused ops c"
      using message_written [of d e _ _ ?old _ ?enc "outbox p" SafeToClose] st ops by blast
    have "ch_write ?E (seat_old st) (wire ?enc SafeToClose) s = Some (Success, ch_apply (\<lambda>_. c) (seat_old st) s)"
      by (rule ch_write_Some) (use c(1) ops in simp)
    then show ?thesis using run st c ops that
      by (simp add: follows_def seated_def under_way_def process_last_write_to_prior_channel_event_def
          is_upgrade_ongoing_def exception_ok_def phase_counts)
  qed
qed

lemma safe_to_close_follows:
  assumes "wired ops fits e A pe st" and "follows closed (link d) e A pe ev m st p (Running s)" and "phase p = Swapped True"
  shows "completes st (bwu_offline_frame (bwu_event SafeToClosePriorChannel)) s"
    and "\<exists>s'. safe_to_close_write (seat_env st) (seat_ep st) (seat_old st) s = Some s'
      \<and> follows closed (link d) e A pe ev m st (p\<lparr>phase := Draining, outbox := outbox p @ [Disconnect]\<rparr>) (Waiting s')"
proof -
  let ?E = "seat_env st" let ?enc = "encode_frame (seat_env st)"
  let ?old = "op_disable_encryption ops (chan_at s (seat_old st))"
  let ?ins = "map (packet e pe) (inbox p)" let ?outs = "map (packet e ?enc) (outbox p)"
  have ops: "chan_ops ?E = ops" using assms(1) by (simp add: wired_def)
  note st = assms(2)[unfolded follows_def seated_def assms(3) in_phase.simps seals.simps under_way_def side.sel]
  then show "completes st (bwu_offline_frame (bwu_event SafeToClosePriorChannel)) s"
    by (simp add: completes_def)
  have old: "link d False (read_count e p) (written_count e p) ?old ?ins ?outs" "\<not> closed ?old" "\<not> op_is_paused ops ?old"
    using st ops link_disable closed_disable paused_disable by auto
  have "fits (False, wire ?enc Disconnect)" using wired_fits [OF assms(1), of Disconnect] packet_tag(2) by fastforce
  then obtain c where c: "op_write ops ?old (wire ?enc Disconnect) = Some (Success, c)"
    "link d False (read_count e p) (written_count e p) c ?ins (?outs @ [(False, wire ?enc Disconnect)])"
    "\<not> closed c" "\<not> op_is_paused ops c"
    using link_writes [OF old] by auto
  let ?s = "ch_apply (op_disable_encryption ops) (seat_old st) (unpark_channel (seat_ep st) s)"
  have "ch_write ?E (seat_old st) (wire ?enc Disconnect) ?s = Some (Success, ch_apply (\<lambda>_. c) (seat_old st) ?s)"
    by (rule ch_write_Some) (use c(1) st ops in simp)
  then show "\<exists>s'. safe_to_close_write ?E (seat_ep st) (seat_old st) s = Some s' \<and> follows closed (link d) e A pe ev m st
      (p\<lparr>phase := Draining, outbox := outbox p @ [Disconnect]\<rparr>) (Waiting s')"
    using st c ops assms(3)
    by (simp add: safe_to_close_write_def follows_def seated_def under_way_def is_upgrade_ongoing_def Let_def
        phase_counts packet_tag)
qed

lemma drain_waits:
  assumes "wired ops fits e A pe st" and "follows closed (link d) e A pe ev m st p (Waiting s)" and "inbox p = []"
  shows "safe_to_close_drain (seat_env st) (seat_ep st) (seat_old st) s = None"
proof -
  have "op_read ops (chan_at s (seat_old st)) = None"
    using assms(2,3) link_waits by (cases "phase p") (auto simp: follows_def seated_def under_way_def)
  then show ?thesis using assms(1) by (simp add: safe_to_close_drain_def ch_read_def wired_def)
qed

lemma drain_follows:
  assumes "wired ops fits e A pe st" and "follows closed (link d) e A pe ev m st p (Waiting s)" and "flows q p"
    and "inbox p = msg # r"
  shows "\<exists>s'. safe_to_close_drain (seat_env st) (seat_ep st) (seat_old st) s = Some s'
    \<and> follows closed (link d) e A pe ev m st (p\<lparr>inbox := r, phase := Completed\<rparr>) (Running s')"
proof -
  let ?E = "seat_env st" let ?old = "seat_old st" let ?new = "seat_new st"
  let ?outs = "map (packet e (encode_frame (seat_env st))) (outbox p)"
  have ops: "chan_ops ?E = ops" using assms(1) by (simp add: wired_def)
  have ph: "phase p = Draining" using assms(2) by (cases "phase p") (simp_all add: follows_def)
  note st = assms(2)[unfolded follows_def seated_def ph in_phase.simps seals.simps under_way_def side.sel]
  have msg: "msg = Disconnect" by (rule head_of_flow(2) [OF assms(3,4) ph])
  have "fits (False, wire pe msg)" using wired_fits [OF assms(1), of Disconnect] packet_tag(2) msg by fastforce
  then obtain c where c: "op_read ops (chan_at s ?old) = Some (Inr (wire pe msg), c)"
    "link d False (read_count e p) (written_count e p) c (map (packet e pe) r) ?outs"
    using st assms(4) msg link_read [of d False _ _ "chan_at s ?old" "wire pe msg" "map (packet e pe) r" ?outs]
    by (auto simp: packet_tag)
  have "ch_read ?E ?old s = Some (Inr (wire pe msg), ch_apply (\<lambda>_. c) ?old s)"
    by (rule ch_read_Some) (use c(1) ops in simp)
  moreover have "op_medium ops (op_resume ops (chan_at s ?new)) = m"
    using identity_step [OF step_resume] st ops by metis
  moreover have "written_count e (p\<lparr>inbox := r, phase := Completed\<rparr>) = written_count e p"
    using phase_counts(6) [of "p\<lparr>inbox := r\<rparr>" e] ph by simp
  ultimately show ?thesis
    using st ops c(2) assms(4) link_close closed_close_with_reason paused_resume
    by (simp add: safe_to_close_drain_def follows_def seated_def upgraded_def is_upgrade_ongoing_def Let_def)
qed

lemma app_frame_ignored:
  assumes "app_frame dec x"
  obtains f where "from_bytes dec x = Inr f" "frame_event f = None" "\<And>E n ep m s. on_incoming_frame E n f ep m s = Some s"
  using assms by (auto simp: app_frame_def frame_event_def on_incoming_frame_def split: sum.splits)

lemma data_written:
  assumes "wired ops fits e A pe st" and "follows closed (link d) e A pe ev m st p (Running s)"
    and "phase p = Before got" and "x \<in> A"
  shows "\<exists>s'. ch_write (seat_env st) (seat_old st) x s = Some (Success, s') \<and> follows closed (link d) e A pe ev m st
      (p\<lparr>todo := ds, written := written p @ [x], outbox := outbox p @ [Data x]\<rparr>) (Running s')"
proof -
  let ?enc = "encode_frame (seat_env st)" let ?old = "chan_at s (seat_old st)"
  note st = assms(2)[unfolded follows_def seated_def assms(3) in_phase.simps seals.simps under_way_def side.sel]
  have ops: "chan_ops (seat_env st) = ops" and "fits (packet e ?enc (Data x))"
    using assms(1,4) by (simp_all add: wired_def packet_def)
  then obtain c where c: "op_write ops ?old x = Some (Success, c)"
    "link d e (read_count e p) (written_count e p + of_bool e) c (map (packet e pe) (inbox p))
       (map (packet e ?enc) (outbox p @ [Data x]))" "\<not> closed c" "\<not> op_is_paused ops c"
    using message_written [of d e _ _ ?old "map (packet e pe) (inbox p)" ?enc "outbox p" "Data x"] st by auto
  have "ch_write (seat_env st) (seat_old st) x s = Some (Success, ch_apply (\<lambda>_. c) (seat_old st) s)"
    by (rule ch_write_Some) (use c(1) ops in simp)
  moreover have "written_count e (p\<lparr>todo := ds, written := written p @ [x]\<rparr>) = written_count e p + of_bool e"
    "read_count e (p\<lparr>todo := ds\<rparr>) = read_count e p" by (simp_all add: count_defs)
  ultimately show ?thesis using st c ops assms(3,4)
    by (simp add: follows_def seated_def under_way_def is_upgrade_ongoing_def)
qed

text \<open>What a side that runs reads next, decoded: data, or a message of the handshake.\<close>

lemma frame_read:
  assumes "wired ops fits e A pe st" and "follows closed (link d) e A pe ev m st p (Running s)"
    and "ch_read (seat_env st) (seat_old st) s = Some (Inr data, s1)"
    and "from_bytes (decode_frame (seat_env st)) data = Inr f" and "flows q p"
  obtains (app) x r where "inbox p = Data x # r" "data = x" "frame_event f = None"
      "\<And>n md. on_incoming_frame (seat_env st) n f (seat_ep st) md s1 = Some s1"
      "follows closed (link d) e A pe ev m st (p\<lparr>seen := seen p @ [Data x], inbox := r\<rparr>) (Running s1)"
  | (last) r where "inbox p = LastWrite # r" "data = wire pe LastWrite" "f = bwu_offline_frame (bwu_event LastWriteToPriorChannel)"
      "follows closed (link d) e A pe ev m st (p\<lparr>seen := seen p @ [LastWrite], inbox := r\<rparr>) (Running s1)"
  | (safe) r where "inbox p = SafeToClose # r" "data = wire pe SafeToClose" "f = bwu_offline_frame (bwu_event SafeToClosePriorChannel)"
      "follows closed (link d) e A pe ev m st (p\<lparr>seen := seen p @ [SafeToClose], inbox := r\<rparr>) (Running s1)"
proof -
  have p: "understands (decode_frame (seat_env st)) pe" using assms(1) by (simp add: wired_def)
  from read_follows [OF assms(1,2,5,3)] obtain msg r where r: "inbox p = msg # r" "data = wire pe msg"
    "follows closed (link d) e A pe ev m st (p\<lparr>seen := seen p @ [msg], inbox := r\<rparr>) (Running s1)" by blast
  show ?thesis
  proof (cases msg)
    case (Data x)
    with r assms(1,2) have "app_frame (decode_frame (seat_env st)) x" by (simp add: wired_def follows_def seated_def)
    then obtain g where "from_bytes (decode_frame (seat_env st)) x = Inr g" "frame_event g = None"
      "\<And>n md. on_incoming_frame (seat_env st) n g (seat_ep st) md s1 = Some s1" using app_frame_ignored by metis
    with Data r assms(4) show ?thesis using app [of x r] by simp
  next
    case LastWrite
    with r understands_parses [OF p] assms(4) last show ?thesis by simp
  next
    case SafeToClose
    with r understands_parses [OF p] assms(4) safe show ?thesis by simp
  next
    case Disconnect
    with running_inbox(1) [OF assms(2,5) r(1)] show ?thesis by simp
  qed
qed

text \<open>A step of a side is a step of the party it follows, and the other way round.\<close>

lemma node_followsI:
  assumes "follows closed (link d) e A pe ev m st p' sd'" and "todo p' = ds" and "set ds \<subseteq> A"
    and "log = map (wire pe) (seen p')"
  shows "node_follows closed (link d) e A pe ev m st p' (Node sd' ds log)"
  using assms by (simp add: node_follows_def)

lemma node_followsD:
  assumes "node_follows closed (link d) e A pe ev m st p (Node sd ds log)"
  shows "follows closed (link d) e A pe ev m st p sd" "todo p = ds" "set ds \<subseteq> A" "log = map (wire pe) (seen p)"
  using assms by (auto simp: node_follows_def)

lemma manager_step_follows:
  assumes "wired ops fits e A pe st" and "node_follows closed (link d) e A pe ev m st p nd" and "manager_step st nd nd'"
    and "flows p q" and "flows q p"
  shows "\<exists>p'. party_step p p' \<and> node_follows closed (link d) e A pe ev m st p' nd'"
  using assms(3)
proof (cases rule: manager_step.cases)
  case (app_write s x ex s' ds log)
  note nd = node_followsD [OF assms(2)[unfolded app_write(1)]]
  obtain got where got: "phase p = Before got"
    using nd(1) app_write(3) by (cases "phase p") (auto simp: follows_def seated_def upgraded_def)
  have "follows closed (link d) e A pe ev m st
      (p\<lparr>todo := ds, written := written p @ [x], outbox := outbox p @ [Data x]\<rparr>) (Running s')"
    using data_written [OF assms(1) nd(1) got, of x ds] nd(3) app_write(4) by auto
  with party_step.send_data [OF got nd(2)] nd(3,4) app_write(2) show ?thesis by (auto intro!: node_followsI)
next
  case (run_protocol s enc s' ds log)
  note nd = node_followsD [OF assms(2)[unfolded run_protocol(1)]]
  obtain got where got: "phase p = Before got"
    using nd(1) run_protocol(3) by (cases "phase p") (auto simp: follows_def seated_def upgraded_def)
  then show ?thesis
    using swap_follows [OF assms(1) nd(1) got, of enc] party_step.swap [OF got] run_protocol(2,4) nd(2-)
    by (auto intro!: node_followsI)
next
  case (frame s data s1 f n md s' ds log)
  note nd = node_followsD [OF assms(2)[unfolded frame(1)]]
  have ph: "(\<exists>got. phase p = Before got \<or> phase p = Swapped got) \<or> phase p = Completed"
    using nd(1) by (cases "phase p") (auto simp: follows_def)
  from assms(1) nd(1) frame(3,4) assms(5) show ?thesis
  proof (cases rule: frame_read)
    case (app x r)
    with head_of_flow(3) [OF assms(5)] ph obtain got where got: "phase p = Before got \<or> phase p = Swapped got" by blast
    from app(4,5) frame(6) have "follows closed (link d) e A pe ev m st (p\<lparr>seen := seen p @ [Data x], inbox := r\<rparr>) (Running s')"
      by simp
    with party_step.take_data [OF got app(1)] nd(2-) app(2) frame(2) show ?thesis by (auto intro!: node_followsI)
  next
    case (last r)
    with head_of_flow(3) [OF assms(5)] ph obtain got where "phase p = Before got \<or> phase p = Swapped got" by blast
    then show ?thesis
    proof
      assume got: "phase p = Before got"
      have "follows closed (link d) e A pe ev m st (p\<lparr>seen := seen p @ [LastWrite], inbox := r, phase := Before True\<rparr>) (Running s')"
        using last_write_follows(1) [OF assms(1) last(4), of got n md] got last(3) frame(6) by auto
      with party_step.early_last_write [OF got last(1)] nd(2-) last(2) frame(2) show ?thesis by (auto intro!: node_followsI)
    next
      assume got: "phase p = Swapped got"
      then have "phase p = Swapped False" using head_of_flow(1) [OF assms(5) last(1), of got] by (cases got) auto
      then have "follows closed (link d) e A pe ev m st
          (p\<lparr>seen := seen p @ [LastWrite], inbox := r, phase := Swapped True, outbox := outbox p @ [SafeToClose]\<rparr>) (Running s')"
        using last_write_follows(2) [OF assms(1) last(4), of n md] last(3) frame(6) by auto
      with party_step.last_write [OF got last(1)] nd(2-) last(2) frame(2) show ?thesis by (auto intro!: node_followsI)
    qed
  next
    case (safe r)
    with swapped_safe [OF assms(4,5)] nd(1) ph have "phase p = Swapped True" by blast
    with safe_to_close_follows(1) [OF assms(1) safe(4)] frame(5) safe(3) show ?thesis by simp
  qed
next
  case (frame_completes s data s1 f s' ds log)
  note nd = node_followsD [OF assms(2)[unfolded frame_completes(1)]]
  have ev: "frame_event f = Some SafeToClosePriorChannel"
    using frame_completes(5) by (simp add: completes_def)
  from assms(1) nd(1) frame_completes(3,4) assms(5) show ?thesis
  proof (cases rule: frame_read)
    case (safe r)
    have got: "phase p = Swapped True"
      using swapped_safe [OF assms(4,5) safe(1)] nd(1) by (cases "phase p") (auto simp: follows_def)
    have "follows closed (link d) e A pe ev m st
        (p\<lparr>seen := seen p @ [SafeToClose], inbox := r, phase := Draining, outbox := outbox p @ [Disconnect]\<rparr>) (Waiting s')"
      using safe_to_close_follows(2) [OF assms(1) safe(4)] got frame_completes(6) by auto
    with party_step.safe_to_close [OF got safe(1)] nd(2-) safe(2) frame_completes(2) show ?thesis
      by (auto intro!: node_followsI)
  qed (use ev in auto)
next
  case (wait_over s s' ds log)
  note nd = node_followsD [OF assms(2)[unfolded wait_over(1)]]
  then have ph: "phase p = Draining" by (cases "phase p") (simp_all add: follows_def)
  show ?thesis
  proof (cases "inbox p")
    case Nil
    then show ?thesis using drain_waits [OF assms(1) nd(1)] wait_over(3) by simp
  next
    case (Cons msg r)
    then show ?thesis using drain_follows [OF assms(1) nd(1) assms(5) Cons] wait_over party_step.drained [OF ph Cons] nd(2-)
      by (auto intro!: node_followsI)
  qed
qed

lemma party_step_possible:
  assumes "wired ops fits e A pe st" and "node_follows closed (link d) e A pe ev m st p nd" and "party_step p p'"
    and "flows p q" and "flows q p"
  shows "\<exists>nd'. manager_step st nd nd'"
proof -
  obtain sd ds log where nd: "nd = Node sd ds log" by (cases nd)
  note fl = node_followsD [OF assms(2)[unfolded nd]]
  have p: "understands (decode_frame (seat_env st)) pe" using assms(1) by (simp add: wired_def)
  have running: "\<exists>s. sd = Running s" if "phase p = Before got \<or> phase p = Swapped got" for got
    using that fl(1) by (cases sd) (auto simp: follows_def)
  have "sendable A msg" if "inbox p = msg # r" for msg r using fl(1) that by (simp add: follows_def seated_def)
  then have data: "app_frame (decode_frame (seat_env st)) x" if "inbox p = Data x # r" for x r
    using that assms(1) by (fastforce simp: wired_def)
  have read: "\<exists>s s1. sd = Running s \<and> ch_read (seat_env st) (seat_old st) s = Some (Inr (wire pe msg), s1)
      \<and> follows closed (link d) e A pe ev m st (p\<lparr>seen := seen p @ [msg], inbox := r\<rparr>) (Running s1)"
    if ph: "phase p = Before got \<or> phase p = Swapped got" and r: "inbox p = msg # r" for got msg r
  proof -
    obtain s where s: "sd = Running s" using running ph by blast
    with read_possible [OF assms(1) fl(1)[unfolded s] assms(5) r] show ?thesis by blast
  qed
  have last_write: "\<exists>nd'. manager_step st nd nd'"
    if ph: "phase p = Before got \<or> phase p = Swapped got" and r: "inbox p = LastWrite # r" for got r
  proof -
    obtain s s1 where s1: "sd = Running s" "ch_read (seat_env st) (seat_old st) s = Some (Inr (wire pe LastWrite), s1)"
      "follows closed (link d) e A pe ev m st (p\<lparr>seen := seen p @ [LastWrite], inbox := r\<rparr>) (Running s1)"
      using read [OF ph r] by blast
    let ?f = "bwu_offline_frame (bwu_event LastWriteToPriorChannel)"
    have "phase p = Before got \<or> phase p = Swapped False"
      using ph head_of_flow(1) [OF assms(5) r ph] by (cases got) auto
    then have "\<exists>s'. on_incoming_frame (seat_env st) 0 ?f (seat_ep st) UnknownMedium s1 = Some s'"
      using last_write_follows(1) [OF assms(1) s1(3), of got 0 UnknownMedium]
        last_write_follows(2) [OF assms(1) s1(3), of 0 UnknownMedium] by auto
    moreover have "\<not> completes st ?f s1" by (simp add: completes_def)
    ultimately show ?thesis using nd s1(1,2) understands_parses(1) [OF p] manager_step.frame by fastforce
  qed
  show ?thesis using assms(3)
  proof (cases rule: party_step.cases)
    case (send_data got x es)
    then obtain s where s: "sd = Running s" using running by blast
    then have "registered s (seat_ep st) = Some (seat_old st)" using fl(1) send_data by (simp add: follows_def)
    moreover have "ds = x # es" "x \<in> A" using fl(2,3) send_data by auto
    ultimately show ?thesis
      using nd s data_written [OF assms(1) fl(1)[unfolded s] send_data(2)] manager_step.app_write by fast
  next
    case (swap got)
    then obtain s where s: "sd = Running s" using running by blast
    then have "registered s (seat_ep st) = Some (seat_old st)" using fl(1) swap by (simp add: follows_def)
    with nd s swap_follows [OF assms(1) fl(1)[unfolded s] swap(2), of True] manager_step.run_protocol
    show ?thesis by fast
  next
    case (take_data got x r)
    from read [OF take_data(2,3)] obtain s s1 where s1: "sd = Running s"
      "ch_read (seat_env st) (seat_old st) s = Some (Inr x, s1)" by auto
    obtain f where "from_bytes (decode_frame (seat_env st)) x = Inr f" "\<not> completes st f s1"
      "on_incoming_frame (seat_env st) 0 f (seat_ep st) UnknownMedium s1 = Some s1"
      using app_frame_ignored [OF data [OF take_data(3)]] by (metis completes_def option.distinct(1))
    with nd s1 manager_step.frame show ?thesis by fast
  next
    case (safe_to_close got r)
    then obtain s s1 where s1: "sd = Running s" "ch_read (seat_env st) (seat_old st) s = Some (Inr (wire pe SafeToClose), s1)"
      "follows closed (link d) e A pe ev m st (p\<lparr>seen := seen p @ [SafeToClose], inbox := r\<rparr>) (Running s1)" using read by blast
    have "phase p = Swapped True" using swapped_safe [OF assms(4,5) safe_to_close(3)] safe_to_close(2) by auto
    then show ?thesis
      using nd s1 safe_to_close_follows [OF assms(1) s1(3)] understands_parses(2) [OF p]
        manager_step.frame_completes by fastforce
  next
    case (drained msg r)
    then obtain s where s: "sd = Waiting s" using fl(1) by (cases sd) (auto simp: follows_def)
    with nd drain_follows [OF assms(1) fl(1)[unfolded s] assms(5) drained(3)] manager_step.wait_over
    show ?thesis by fast
  qed (use last_write in blast)+
qed

text \<open>What the network carries.\<close>

lemma set_side_chan_follows:
  assumes "wired ops fits e A pe st" and "follows closed (link d) e A pe ev m st p sd"
    and "link d (seals e (phase p)) (read_count e p) (written_count e p) c
      (map (packet e pe) ins) (map (packet e (encode_frame (seat_env st))) outs)"
    and "closed c = closed (chan_at (side_state sd) (seat_old st))"
    and "op_is_paused ops c = op_is_paused ops (chan_at (side_state sd) (seat_old st))"
    and "list_all (sendable A) (ins @ outs)"
  shows "follows closed (link d) e A pe ev m st (p\<lparr>inbox := ins, outbox := outs\<rparr>) (set_side_chan (seat_old st) c sd)"
proof -
  have ops: "chan_ops (seat_env st) = ops" using assms(1) by (simp add: wired_def)
  with assms(2-6) show ?thesis
    by (cases sd; cases "phase p")
      (simp_all add: follows_def seated_def under_way_def upgraded_def set_side_chan_def set_chan_def is_upgrade_ongoing_def)
qed

lemma transmit_follows:
  assumes "wired ops fits e A (encode_frame (seat_env b)) a" and "wired ops fits e A (encode_frame (seat_env a)) b"
    and "follows closed (link d) e A (encode_frame (seat_env b)) ea ma a p l"
    and "follows closed (link (\<not> d)) e A (encode_frame (seat_env a)) eb mb b q r" and "flows p q"
  defines "sent_to \<equiv> transmit (chan_at (side_state l) (seat_old a)) (chan_at (side_state r) (seat_old b))"
  shows "outbox p = [] \<Longrightarrow> sent_to = None"
    and "outbox p \<noteq> [] \<Longrightarrow> \<exists>cl cr. sent_to = Some (cl, cr)
      \<and> follows closed (link d) e A (encode_frame (seat_env b)) ea ma a (p\<lparr>outbox := []\<rparr>) (set_side_chan (seat_old a) cl l)
      \<and> follows closed (link (\<not> d)) e A (encode_frame (seat_env a)) eb mb b (q\<lparr>inbox := inbox q @ outbox p\<rparr>)
          (set_side_chan (seat_old b) cr r)"
proof -
  let ?cl = "chan_at (side_state l) (seat_old a)" let ?cr = "chan_at (side_state r) (seat_old b)"
  let ?wa = "packet e (encode_frame (seat_env a))" let ?wb = "packet e (encode_frame (seat_env b))"
  let ?la = "link d (seals e (phase p)) (read_count e p) (written_count e p)"
  let ?lb = "link (\<not> d) (seals e (phase q)) (read_count e q) (written_count e q)"
  have l: "?la ?cl (map ?wb (inbox p)) (map ?wa (outbox p))" and r: "?lb ?cr (map ?wa (inbox q)) (map ?wb (outbox q))"
    and ca: "list_all (sendable A) (inbox p @ outbox p @ inbox q @ outbox q)"
    using assms(3,4) by (simp_all add: follows_def seated_def)
  show "sent_to = None" if "outbox p = []" using transmit_nothing l that by (simp add: sent_to_def)
  assume "outbox p \<noteq> []"
  with transmit_frames [OF l _ r counts_agree [OF assms(5)]] obtain cl cr where c: "transmit ?cl ?cr = Some (cl, cr)"
    "?la cl (map ?wb (inbox p)) []" "?lb cr (map ?wa (inbox q @ outbox p)) (map ?wb (outbox q))"
    "closed cl = closed ?cl" "closed cr = closed ?cr"
    "op_is_paused ops cl = op_is_paused ops ?cl" "op_is_paused ops cr = op_is_paused ops ?cr"
    by auto
  with set_side_chan_follows [OF assms(1,3), of cl "inbox p" "[]"]
    set_side_chan_follows [OF assms(2,4), of cr "inbox q @ outbox p" "outbox q"]
  show "\<exists>cl cr. sent_to = Some (cl, cr)
      \<and> follows closed (link d) e A (encode_frame (seat_env b)) ea ma a (p\<lparr>outbox := []\<rparr>) (set_side_chan (seat_old a) cl l)
      \<and> follows closed (link (\<not> d)) e A (encode_frame (seat_env a)) eb mb b (q\<lparr>inbox := inbox q @ outbox p\<rparr>)
          (set_side_chan (seat_old b) cr r)"
    using ca by (simp add: sent_to_def)
qed

lemma node_transmit_follows:
  assumes "wired ops fits e A (encode_frame (seat_env b)) a" and "wired ops fits e A (encode_frame (seat_env a)) b"
    and "node_follows closed (link d) e A (encode_frame (seat_env b)) ea ma a p l"
    and "node_follows closed (link (\<not> d)) e A (encode_frame (seat_env a)) eb mb b q r" and "flows p q"
  shows "outbox p = [] \<Longrightarrow> transmit (node_chan a l) (node_chan b r) = None"
    and "outbox p \<noteq> [] \<Longrightarrow> \<exists>cl cr. transmit (node_chan a l) (node_chan b r) = Some (cl, cr)
      \<and> node_follows closed (link d) e A (encode_frame (seat_env b)) ea ma a (p\<lparr>outbox := []\<rparr>) (set_node_chan a cl l)
      \<and> node_follows closed (link (\<not> d)) e A (encode_frame (seat_env a)) eb mb b (q\<lparr>inbox := inbox q @ outbox p\<rparr>) (set_node_chan b cr r)"
proof -
  have fl: "follows closed (link d) e A (encode_frame (seat_env b)) ea ma a p (node_side l)"
    "follows closed (link (\<not> d)) e A (encode_frame (seat_env a)) eb mb b q (node_side r)"
    using assms(3,4) by (simp_all add: node_follows_def)
  note sent = transmit_follows [OF assms(1,2) fl assms(5)]
  show "transmit (node_chan a l) (node_chan b r) = None" if "outbox p = []" using sent(1) that .
  assume "outbox p \<noteq> []"
  from sent(2) [OF this] assms(3,4) show "\<exists>cl cr. transmit (node_chan a l) (node_chan b r) = Some (cl, cr)
      \<and> node_follows closed (link d) e A (encode_frame (seat_env b)) ea ma a (p\<lparr>outbox := []\<rparr>) (set_node_chan a cl l)
      \<and> node_follows closed (link (\<not> d)) e A (encode_frame (seat_env a)) eb mb b (q\<lparr>inbox := inbox q @ outbox p\<rparr>) (set_node_chan b cr r)"
    by (auto simp: node_follows_def set_node_chan_def)
qed

lemma session_step_follows:
  assumes "session_step transmit a b lr lr'" and "session ops fits closed link e A a b ea eb ma mb pq lr" and "handshake_inv pq"
  shows "\<exists>pq'. handshake_step pq pq' \<and> session ops fits closed link e A a b ea eb ma mb pq' lr'"
  using assms(1)
proof (cases rule: session_step.cases)
  case (left l l' r)
  then show ?thesis using assms(2,3) manager_step_follows handshake_step.left_step
    by (fastforce simp: session_def handshake_inv_def)
next
  case (right r r' l)
  then show ?thesis using assms(2,3) manager_step_follows handshake_step.right_step
    by (fastforce simp: session_def handshake_inv_def)
next
  case (carry_right l r cl cr)
  obtain p q where "pq = (p, q)" by (cases pq)
  then show ?thesis using carry_right assms(2,3) node_transmit_follows [of e A b a True ea ma p l eb mb q r]
      handshake_step.left_deliver [of p q]
    by (cases "outbox p = []") (auto simp: session_def handshake_inv_def)
next
  case (carry_left r l cr cl)
  obtain p q where "pq = (p, q)" by (cases pq)
  then show ?thesis using carry_left assms(2,3) node_transmit_follows [of e A a b False eb mb q r ea ma p l]
      handshake_step.right_deliver [of q p]
    by (cases "outbox q = []") (auto simp: session_def handshake_inv_def)
qed

lemma handshake_step_possible:
  assumes "handshake_step pq pq'" and "session ops fits closed link e A a b ea eb ma mb pq lr" and "handshake_inv pq"
  shows "\<exists>lr'. session_step transmit a b lr lr'"
proof -
  obtain l r where lr: "lr = (l, r)" by (cases lr)
  show ?thesis using assms(1)
  proof (cases rule: handshake_step.cases)
    case (left_step p p' q)
    then show ?thesis using lr assms(2,3) party_step_possible session_step.left by (fastforce simp: session_def handshake_inv_def)
  next
    case (right_step q q' p)
    then show ?thesis using lr assms(2,3) party_step_possible session_step.right by (fastforce simp: session_def handshake_inv_def)
  next
    case (left_deliver p q)
    then show ?thesis using lr assms(2,3) node_transmit_follows(2) [of e A b a True ea ma p l eb mb q r] session_step.carry_right
      by (fastforce simp: session_def handshake_inv_def)
  next
    case (right_deliver q p)
    then show ?thesis using lr assms(2,3) node_transmit_follows(2) [of e A a b False eb mb q r ea ma p l] session_step.carry_left
      by (fastforce simp: session_def handshake_inv_def)
  qed
qed

lemma session_run:
  assumes "(session_step transmit a b ^^ n) lr lr'" and "session ops fits closed link e A a b ea eb ma mb pq lr" and "handshake_inv pq"
  shows "\<exists>pq'. (handshake_step ^^ n) pq pq' \<and> session ops fits closed link e A a b ea eb ma mb pq' lr' \<and> handshake_inv pq'"
  using assms
proof (induction n arbitrary: lr')
  case (Suc n)
  then obtain x where "(session_step transmit a b ^^ n) lr x" "session_step transmit a b x lr'" by auto
  with Suc session_step_follows handshake_inv_step show ?case by (metis relpowp_Suc_I)
qed auto

lemma follows_sides:
  assumes "follows closed (link d) e A pe ev m st p sd"
  shows "phase p = Completed \<Longrightarrow> \<exists>s. sd = Running s \<and> upgraded closed ev m st s"
    and "under_way closed ev st (side_state sd) \<or> upgraded closed ev m st (side_state sd)"
  using assms by (cases sd; cases "phase p"; simp add: follows_def)+

text \<open>On completion the peer has read what the application has written.\<close>

lemma received_all:
  assumes "flows p q" and "phase q = Completed" and "written p @ todo p = ds"
    and "node_follows closed (link d) e A pe ev m st p nd" and "node_follows closed (link d') e A enc ev' m' st' q nd'"
  shows "all_received enc ds nd nd'"
proof -
  have "node_log nd' = written p @ [for_bwu_last_write enc, for_bwu_safe_to_close enc]"
    using completed_seen [OF assms(1,2)] assms(5) by (simp add: node_follows_def comp_def)
  then show ?thesis using assms(3,4) by (auto simp: all_received_def node_follows_def)
qed

text \<open>Every run is short, and one that cannot go on has completed on both sides.\<close>

lemma session_completes:
  assumes "session ops fits closed link e A a b ea eb ma mb (party_start ds, party_start es) lr"
    and "(session_step transmit a b ^^ n) lr (l, r)"
  shows "n \<le> 14 + 3 * (length ds + length es)"
    and "under_way closed ea a (side_state (node_side l)) \<or> upgraded closed ea ma a (side_state (node_side l))"
    and "under_way closed eb b (side_state (node_side r)) \<or> upgraded closed eb mb b (side_state (node_side r))"
    and "(\<exists>lr'. session_step transmit a b (l, r) lr')
      \<or> (\<exists>sl sr. node_side l = Running sl \<and> node_side r = Running sr
          \<and> upgraded closed ea ma a sl \<and> upgraded closed eb mb b sr
          \<and> all_received (encode_frame (seat_env a)) ds l r \<and> all_received (encode_frame (seat_env b)) es r l)"
proof -
  obtain p q where pq: "(handshake_step ^^ n) (party_start ds, party_start es) (p, q)"
    "session ops fits closed link e A a b ea eb ma mb (p, q) (l, r)" "handshake_inv (p, q)"
    using session_run [OF assms(2,1) handshake_start] by auto
  note bound = handshake_bound [OF pq(1)]
  from bound(2) show "n \<le> 14 + 3 * (length ds + length es)" .
  have nf: "node_follows closed (link True) e A (encode_frame (seat_env b)) ea ma a p l"
    "node_follows closed (link False) e A (encode_frame (seat_env a)) eb mb b q r" using pq(2) by (simp_all add: session_def)
  then have f: "follows closed (link True) e A (encode_frame (seat_env b)) ea ma a p (node_side l)"
    "follows closed (link False) e A (encode_frame (seat_env a)) eb mb b q (node_side r)" by (simp_all add: node_follows_def)
  from follows_sides(2) [OF f(1)] follows_sides(2) [OF f(2)] show
    "under_way closed ea a (side_state (node_side l)) \<or> upgraded closed ea ma a (side_state (node_side l))"
    "under_way closed eb b (side_state (node_side r)) \<or> upgraded closed eb mb b (side_state (node_side r))" .
  have flow: "flows p q" "flows q p" using bound(1) by (simp_all add: handshake_inv_def)
  have all: "all_received (encode_frame (seat_env a)) ds l r" "all_received (encode_frame (seat_env b)) es r l"
    if "phase p = Completed" "phase q = Completed"
    using received_all [OF flow(1) that(2) bound(3) nf] received_all [OF flow(2) that(1) bound(4) nf(2,1)] .
  show "(\<exists>lr'. session_step transmit a b (l, r) lr')
      \<or> (\<exists>sl sr. node_side l = Running sl \<and> node_side r = Running sr
          \<and> upgraded closed ea ma a sl \<and> upgraded closed eb mb b sr
          \<and> all_received (encode_frame (seat_env a)) ds l r \<and> all_received (encode_frame (seat_env b)) es r l)"
    using handshake_step_possible [OF _ pq(2,3)] handshake_progress [OF pq(3)] follows_sides(1) [OF f(1)]
      follows_sides(1) [OF f(2)] all by blast
qed

end

section \<open>Two managers over sockets\<close>

text \<open>
  A manager that is ready to swap: an upgrade of the endpoint is in progress, the endpoint is on
  the old channel, nothing is waiting on it, no LAST_WRITE is latched, and the new channel is there.
\<close>

definition ready_to_swap ::
    "('ch \<Rightarrow> bool) \<Rightarrow> ('ch \<Rightarrow> packet list \<Rightarrow> packet list \<Rightarrow> bool) \<Rightarrow> ('ch, 'h) seat \<Rightarrow> ('ch, 'h) bwu_state \<Rightarrow> bool" where
  "ready_to_swap closed link st s \<longleftrightarrow> seat_old st \<noteq> seat_new st
     \<and> seat_old st < length (heap s) \<and> seat_new st < length (heap s)
     \<and> is_connected_to_endpoint (client s) (seat_ep st) \<and> is_upgrade_ongoing s (seat_ep st)
     \<and> registered s (seat_ep st) = Some (seat_old st)
     \<and> hm_get (previous_endpoint_channels s) (seat_ep st) = None
     \<and> seat_ep st \<notin> set (successfully_upgraded_endpoints s)
     \<and> link (chan_at s (seat_old st)) [] [] \<and> \<not> closed (chan_at s (seat_old st))
     \<and> \<not> op_is_paused (chan_ops (seat_env st)) (chan_at s (seat_old st))"

abbreviation new_medium :: "('ch, 'h) seat \<Rightarrow> ('ch, 'h) bwu_state \<Rightarrow> medium" where
  "new_medium st s \<equiv> op_medium (chan_ops (seat_env st)) (chan_at s (seat_new st))"

lemma ready_follows:
  "ready_to_swap closed (link e 0 0) st s \<Longrightarrow>
     follows closed link e A pe (bandwidth_changed (client s)) (new_medium st s) st (party_start ds) (Running s)"
  by (cases e) (simp_all add: ready_to_swap_def follows_def seated_def under_way_def party_start_def count_defs)

abbreviation sock_closed :: "mem_socket tcp_channel \<Rightarrow> bool" where
  "sock_closed c \<equiv> ps_closed (sc_pause c)"

abbreviation completed :: "(mem_socket tcp_channel, 'h) seat \<Rightarrow> (mem_socket tcp_channel, 'h) bwu_state
    \<Rightarrow> (mem_socket tcp_channel, 'h) bwu_state \<Rightarrow> bool" where
  "completed st s0 s \<equiv> upgraded sock_closed (bandwidth_changed (client s0)) (new_medium st s0) st s"

text \<open>
  C1. Two managers complete the handshake with each other, whatever the interleaving, encrypted or
  not, and no frame is lost: each is ready to swap, their old channels are stream channels over the
  two ends of a TCP connection, both in the clear or both with the ciphers of one session, each
  decodes the negotiation frames of the other, and the two applications have the frames ds and es
  to send, which are not negotiation frames. Then whatever steps the two applications, the two
  managers and the network have made so far, their number is bounded, each side is still in the
  upgrade with nothing reported or has completed it, and either some step is possible or both sides
  have completed: the endpoint is on the new channel, resumed, the old one is closed, one event with
  the new medium has been reported, and each side has read on the old channel exactly the frames
  that the other's application had sent before its swap, in order, and then LAST_WRITE and
  SAFE_TO_CLOSE. In particular the drain reads of the two sides never wait for each other, the one
  frame that a drain read throws away is no application frame, and no sealed frame is read by a side
  that has turned its encryption off.
\<close>

theorem two_sided_handshake_completes:
  fixes N :: "('n, mem_socket, 'l) net_ops" and k :: session_keys and base :: "bool \<Rightarrow> nat"
  assumes "wired (stream_channel_ops (socket_ops N) dec) (session_fits k) e (set ds \<union> set es) (encode_frame (seat_env b)) a"
    and "wired (stream_channel_ops (socket_ops N) dec) (session_fits k) e (set ds \<union> set es) (encode_frame (seat_env a)) b"
    and "ready_to_swap sock_closed (session_link k base True e 0 0) a sa"
    and "ready_to_swap sock_closed (session_link k base False e 0 0) b sb"
    and "(session_step socket_transmit a b ^^ n) (Node (Running sa) ds [], Node (Running sb) es []) (l, r)"
  shows "n \<le> 14 + 3 * (length ds + length es)
    \<and> (under_way sock_closed (bandwidth_changed (client sa)) a (side_state (node_side l))
       \<or> completed a sa (side_state (node_side l)))
    \<and> (under_way sock_closed (bandwidth_changed (client sb)) b (side_state (node_side r))
       \<or> completed b sb (side_state (node_side r)))
    \<and> ((\<exists>lr. session_step socket_transmit a b (l, r) lr)
       \<or> (\<exists>sl sr. node_side l = Running sl \<and> node_side r = Running sr \<and> completed a sa sl \<and> completed b sb sr
            \<and> all_received (encode_frame (seat_env a)) ds l r \<and> all_received (encode_frame (seat_env b)) es r l))"
proof -
  have "session (stream_channel_ops (socket_ops N) dec) (session_fits k) sock_closed (session_link k base) e
      (set ds \<union> set es) a b (bandwidth_changed (client sa)) (bandwidth_changed (client sb))
      (new_medium a sa) (new_medium b sb) (party_start ds, party_start es) (Node (Running sa) ds [], Node (Running sb) es [])"
    using assms(1,2) ready_follows [where link = "session_link k base True", OF assms(3)]
      ready_follows [where link = "session_link k base False", OF assms(4)]
    by (simp add: session_def node_follows_def party_start_def)
  note ends = session_frames.session_completes [OF this assms(5)]
  show ?thesis by (intro conjI ends)
qed

text \<open>
  Two managers over an encrypted in-memory connection, upgrading to Wi-Fi LAN, with a keep-alive
  frame of the application. A message is sealed by its direction and its number in front of it.
\<close>

definition counter_keys :: session_keys where
  "counter_keys = Abs_session_keys (\<lambda>d n b. of_bool d # of_nat n # b,
     \<lambda>d n c. (case c of x # y # b \<Rightarrow> if x = of_bool d \<and> y = of_nat n then Some b else None | _ \<Rightarrow> None))"

lemma counter_keys_seal: "seal counter_keys d n b = of_bool d # of_nat n # b"
  by (simp add: seal_def counter_keys_def Abs_session_keys_inverse)

definition pair_base :: "bool \<Rightarrow> nat" where
  "pair_base d = (if d then 5 else 7)"

definition mem_net :: "(nat, mem_socket, nat) net_ops" where
  "mem_net = socket_net
     \<lparr>net_bind = (\<lambda>addr n. (Some n, Suc n)),
      net_local_addr = (\<lambda>l. Some (ipv4_localhost, of_nat (4000 + l))),
      net_close = (\<lambda>l n. n),
      net_connect = (\<lambda>addr n. (Some \<lparr>sock_rx = [], sock_tx = [], sock_shut = False\<rparr>, n)),
      sock_try_clone = (\<lambda>s. (True, s)),
      sock_read_exact = (\<lambda>s k. None), sock_write_all = (\<lambda>s bs. None), sock_flush = (\<lambda>s. None),
      sock_shutdown = (\<lambda>s. s)\<rparr>"

definition keep_alive_offline_frame :: offline_frame where
  "keep_alive_offline_frame = v1_offline_frame KeepAlive (\<lambda>v1. v1\<lparr>v1_keep_alive := Some keep_alive_frame_default\<rparr>)"

definition pair_enc :: "offline_frame \<Rightarrow> bytes" where
  "pair_enc f =
     (if f = bwu_offline_frame (bwu_event LastWriteToPriorChannel) then [1]
      else if f = bwu_offline_frame (bwu_event SafeToClosePriorChannel) then [2]
      else if f = keep_alive_offline_frame then [4] else [3])"

definition pair_dec :: "bytes \<Rightarrow> offline_frame option" where
  "pair_dec bs =
     (if bs = [1] then Some (bwu_offline_frame (bwu_event LastWriteToPriorChannel))
      else if bs = [2] then Some (bwu_offline_frame (bwu_event SafeToClosePriorChannel))
      else if bs = [4] then Some keep_alive_offline_frame else None)"

definition pair_env ::
    "(mem_socket tcp_channel, (nat, nat) wifi_lan_bwu_handler base_bwu_handler) bwu_env" where
  "pair_env = \<lparr>chan_ops = stream_channel_ops (socket_ops mem_net) pair_dec,
     hand_ops = base_handler_ops (wifi_lan_medium_ops (socket_net mem_net) pair_enc),
     encode_frame = pair_enc, decode_frame = pair_dec\<rparr>"

definition pair_seat ::
    "string \<Rightarrow> (mem_socket tcp_channel, (nat, nat) wifi_lan_bwu_handler base_bwu_handler) seat" where
  "pair_seat ep = \<lparr>seat_env = pair_env, seat_ep = ep, seat_old = 0, seat_new = 1\<rparr>"

definition pair_state ::
    "bool \<Rightarrow> string \<Rightarrow> (mem_socket tcp_channel, (nat, nat) wifi_lan_bwu_handler base_bwu_handler) bwu_state" where
  "pair_state d ep = insert_in_progress ep (bwu_manager_new \<lparr>endpoints = [(ep, 0)]\<rparr>
     (on_connection_accepted (client_proxy_new 0 ''me'') ep)
     [enable_encryption (stream_channel_new ''A'' ''bt'' Bluetooth
        \<lparr>td_socket = \<lparr>sock_rx = [], sock_tx = [], sock_shut = False\<rparr>\<rparr>)
        (session_cipher counter_keys d (pair_base d) (pair_base (\<not> d))),
      stream_channel_new ''A'' ''lan'' WifiLan \<lparr>td_socket = \<lparr>sock_rx = [], sock_tx = [], sock_shut = False\<rparr>\<rparr>]
     [(WifiLan, base_bwu_handler_new (wifi_lan_new 0))] bwu_config_default)"

lemma pair_wired:
  "wired (stream_channel_ops (socket_ops mem_net) pair_dec) (session_fits counter_keys) True (set [[4]] \<union> set [])
     (encode_frame (seat_env (pair_seat ep'))) (pair_seat ep)"
proof -
  have "bwu_offline_frame (bwu_event SafeToClosePriorChannel) \<noteq> bwu_offline_frame (bwu_event LastWriteToPriorChannel)"
    by (rule notI) (drule arg_cong [of _ _ frame_event], simp)
  moreover have "session_fits counter_keys (e, pair_enc f)" "session_fits counter_keys (e, [4])" for e f
    by (simp_all add: session_fits_def counter_keys_seal socket_fits_def pair_enc_def DEFAULT_MAX_ALLOWED_READ_BYTES_def)
  moreover have "app_frame pair_dec [4]"
    by (simp add: app_frame_def from_bytes_def pair_dec_def keep_alive_offline_frame_def v1_offline_frame_def
        get_frame_type_def ensure_valid_offline_frame_def exception_ok_def)
  ultimately show ?thesis
    by (simp add: wired_def pair_seat_def pair_env_def understands_def for_bwu_last_write_def
        for_bwu_safe_to_close_def for_disconnection_def encode_bwu_frame encode_v1_def packet_def)
      (simp add: pair_dec_def pair_enc_def)
qed

lemma pair_ready: "ready_to_swap sock_closed (session_link counter_keys pair_base d True 0 0) (pair_seat ep) (pair_state d ep)"
  by (simp add: ready_to_swap_def pair_seat_def pair_state_def pair_env_def bwu_manager_new_def
      get_channel_for_endpoint_def is_upgrade_ongoing_def is_connected_to_endpoint_def
      on_connection_accepted_def client_entry_update_def client_proxy_new_def session_link_def
      stream_channel_new_def enable_encryption_def)

theorem two_sided_handshake_completes_witness:
  "\<exists>n l r sl sr. n \<le> 17 \<and> (session_step socket_transmit (pair_seat ''b'') (pair_seat ''a'') ^^ n)
       (Node (Running (pair_state True ''b'')) [[4]] [], Node (Running (pair_state False ''a'')) [] []) (l, r)
     \<and> node_side l = Running sl \<and> registered sl ''b'' = Some 1 \<and> bandwidth_changed (client sl) = [(''b'', WifiLan)]
     \<and> node_side r = Running sr \<and> registered sr ''a'' = Some 1 \<and> bandwidth_changed (client sr) = [(''a'', WifiLan)]
     \<and> all_received pair_enc [[4]] l r \<and> all_received pair_enc [] r l"
proof -
  let ?run = "\<lambda>n. (session_step socket_transmit (pair_seat ''b'') (pair_seat ''a'') ^^ n)
       (Node (Running (pair_state True ''b'')) [[4]] [], Node (Running (pair_state False ''a'')) [] [])"
  note ends = two_sided_handshake_completes [OF pair_wired pair_wired pair_ready pair_ready]
  have "\<forall>n. (\<exists>lr. ?run n lr) \<longrightarrow> n < 18" using ends by fastforce
  then obtain n where n: "\<exists>lr. ?run n lr" "\<forall>k. (\<exists>lr. ?run k lr) \<longrightarrow> k \<le> n"
    using ex_has_greatest_nat [of "\<lambda>n. \<exists>lr. ?run n lr" 0 "\<lambda>n. n" 18] by auto
  then obtain l r where run: "?run n (l, r)" by auto
  have last: "\<nexists>lr. ?run (Suc n) lr" using n(2) Suc_n_not_le_n by blast
  have "\<nexists>lr. session_step socket_transmit (pair_seat ''b'') (pair_seat ''a'') (l, r) lr"
    using run last relpowp_Suc_I by metis
  with ends [OF run] obtain sl sr where s: "node_side l = Running sl" "node_side r = Running sr"
    "completed (pair_seat ''b'') (pair_state True ''b'') sl" "completed (pair_seat ''a'') (pair_state False ''a'') sr"
    "all_received pair_enc [[4]] l r" "all_received pair_enc [] r l"
    by (auto simp: pair_seat_def pair_env_def)
  have "n \<le> 17" using ends [OF run] by simp
  moreover have "registered sl ''b'' = Some 1" "bandwidth_changed (client sl) = [(''b'', WifiLan)]"
    "registered sr ''a'' = Some 1" "bandwidth_changed (client sr) = [(''a'', WifiLan)]"
    using s(3,4) by (simp_all add: upgraded_def pair_seat_def pair_state_def pair_env_def bwu_manager_new_def
        on_connection_accepted_def client_entry_update_def client_proxy_new_def stream_channel_new_def)
  ultimately show ?thesis using run s(1,2,5,6) by blast
qed

end
