(* ===== verification/Bwu_Introduction.thy ===== *)
theory Bwu_Introduction
  imports Bwu_Session Bwu_Composition
begin

text \<open>
  How the two sides of an upgrade meet on the new channel: the responder dials and introduces
  itself, the initiator recognises the endpoint and acknowledges, and both run the upgrade
  protocol. Theory \<^verbatim>\<open>Bwu_Session\<close> goes on from there.
\<close>

section \<open>The two frames\<close>

definition introduction_frame :: "string \<Rightarrow> string \<Rightarrow> bool \<Rightarrow> offline_frame" where
  "introduction_frame endpoint_id last_endpoint_id dis =
     bwu_offline_frame (bwu_event ClientIntroduction\<lparr>bwu_client_introduction :=
       Some (bwu_introduction endpoint_id last_endpoint_id dis)\<rparr>)"

definition ack_frame :: offline_frame where
  "ack_frame = bwu_offline_frame (bwu_event ClientIntroductionAck)"

lemma introduction_built: "for_bwu_introduction enc i l dis = enc (introduction_frame i l dis)"
  by (simp add: for_bwu_introduction_def introduction_frame_def encode_bwu_frame)

lemma ack_built: "for_bwu_introduction_ack enc = enc ack_frame"
  by (simp add: for_bwu_introduction_ack_def ack_frame_def encode_bwu_frame)

lemma introduction_parses:
  assumes "dec (enc (introduction_frame i l dis)) = Some (introduction_frame i l dis)"
  shows "from_bytes dec (enc (introduction_frame i l dis)) = Inr (introduction_frame i l dis)"
  using assms by (simp add: from_bytes_Inr_iff) (simp add: introduction_frame_def ensure_valid_bwu_offline_frame)

lemma introduction_read:
  "introduction_of_frame (introduction_frame i l dis) = Some (bwu_introduction i l dis)"
  "ci_endpoint_id (bwu_introduction i l dis) = Some i"
  "ci_supports_disabling_encryption (bwu_introduction i l dis) = Some dis"
  by (simp_all add: introduction_of_frame_def introduction_frame_def bwu_offline_frame_v1 bwu_event_def
      bwu_introduction_def Let_def)

lemma ack_parses: "dec (enc ack_frame) = Some ack_frame \<Longrightarrow> from_bytes dec (enc ack_frame) = Inr ack_frame"
  by (simp add: from_bytes_Inr_iff) (simp add: ack_frame_def ensure_valid_bwu_offline_frame)

lemma ack_read: "is_introduction_ack ack_frame"
  by (simp add: is_introduction_ack_def ack_frame_def bwu_offline_frame_v1)

section \<open>The responder's identity\<close>

text \<open>The id of the last session that the responder names besides its own.\<close>

definition last_local_id :: "('ch, 'h) bwu_env \<Rightarrow> chan_ref \<Rightarrow> ('ch, 'h) bwu_state \<Rightarrow> string" where
  "last_local_id E old s =
     (let last_local = op_local_endpoint_id (chan_ops E) (chan_at s old)
      in if last_local = [] then cp_last_local_endpoint_id (client s) else last_local)"

text \<open>
  The responder accepts the path: it is not the advertiser, no upgrade is going on, the medium is
  one it has a handler for, and the handler dials.
\<close>

definition dials ::
    "('ch, 'h) bwu_env \<Rightarrow> string \<Rightarrow> upgrade_path_info \<Rightarrow> chan_ref \<Rightarrow> 'ch \<Rightarrow> 'h \<Rightarrow> ('ch, 'h) bwu_state \<Rightarrow> bool" where
  "dials E ep info old c h' s \<longleftrightarrow> \<not> wifi_lan_connected E s \<and> \<not> is_incoming_connection (client s) ep
     \<and> \<not> is_upgrade_ongoing s ep \<and> get_bwu_medium_for_endpoint s ep = UnknownMedium
     \<and> registered s ep = Some old
     \<and> upi_supports_client_introduction_ack info = Some True
     \<and> Option.bind (hm_get (handlers s) (upi_medium_of info))
         (h_create_upgraded_endpoint_channel (hand_ops E) (client s)
            (op_service_id (chan_ops E) (chan_at s old)) ep info) = Some (Some c, h')"

text \<open>The responder's state when it has been acknowledged on the channel \<^verbatim>\<open>c\<close>.\<close>

definition dialled ::
    "string \<Rightarrow> medium \<Rightarrow> 'ch \<Rightarrow> 'h \<Rightarrow> ('ch, 'h) bwu_state \<Rightarrow> ('ch, 'h) bwu_state" where
  "dialled ep m c h' s = insert_in_progress ep ((set_bwu_medium_for_endpoint ep m s)
     \<lparr>handlers := hm_insert m h' (handlers s), heap := heap s @ [c]\<rparr>)"

context frame_link
begin

lemma initiator_takes_introduction:
  assumes "chan_ops E = ops" and "pe F = data" and "F = introduction_frame i l dis"
    and "decode_frame E data = Some F" and "fits data" and "fits (encode_frame E ack_frame)"
    and "link (chan_at s new) [data] []" and "\<not> closed (chan_at s new)" and "\<not> op_is_paused ops (chan_at s new)"
    and "new < length (heap s)" and "is_upgrade_ongoing s i"
  shows "\<exists>c. on_incoming_connection E new s =
      run_upgrade_protocol E i new (\<not> dis) (cancel_retry_upgrade_alarm i (set_chan new c s))
    \<and> link c [] [encode_frame E ack_frame]"
proof -
  obtain n1 where n1: "op_read ops (chan_at s new) = Some (Inr data, n1)" "link n1 [] []"
    "closed n1 = closed (chan_at s new)" "op_is_paused ops n1 = op_is_paused ops (chan_at s new)"
    using link_reads [OF assms(7,5)] .
  obtain n2 where n2: "op_write ops n1 (encode_frame E ack_frame) = Some (Success, n2)"
    "link n2 [] ([] @ [encode_frame E ack_frame])"
    using link_writes [OF n1(2) _ _ assms(6)] n1(3,4) assms(8,9) by blast
  have parse: "from_bytes (decode_frame E) data = Inr F"
    using introduction_parses [of "decode_frame E" pe i l dis] assms(2-4) by simp
  have rd: "op_read (chan_ops E) (chan_at s new) = Some (Inr data, n1)" using n1(1) assms(1) by simp
  have wr: "op_write (chan_ops E) n1 (for_bwu_introduction_ack (encode_frame E)) = Some (Success, n2)"
    using n2(1) assms(1) by (simp add: ack_built)
  note intro = introduction_read(1) [of i l dis, folded assms(3)]
  from connection_runs_protocol [OF rd parse intro wr introduction_read(2) assms(11,10)] n2(2)
  show ?thesis by (intro exI [of _ n2]) (simp add: introduction_read(3) ch_apply_def set_chan_def)
qed

lemma responder_runs_protocol:
  assumes "chan_ops E = ops" and "dials E ep info old c h' s" and "upi_medium_of info \<noteq> UnknownMedium"
    and "data = encode_frame E (introduction_frame (cp_local_endpoint_id (client s)) (last_local_id E old s)
          (unwrap_or (upi_supports_disabling_encryption info) False))"
    and "link c [pe ack_frame] []" and "\<not> closed c" and "\<not> op_is_paused ops c"
    and "decode_frame E (pe ack_frame) = Some ack_frame" and "fits data" and "fits (pe ack_frame)"
    and "old < length (heap s)"
  shows "\<exists>c'. process_bwu_path_available_event E ep info s =
      run_upgrade_protocol E ep (length (heap s)) (\<not> unwrap_or (upi_supports_disabling_encryption info) False)
        (dialled ep (upi_medium_of info) c' h' s)
    \<and> link c' [] [data]"
proof -
  let ?m = "upi_medium_of info" and ?i = "length (heap s)"
  let ?sm = "set_bwu_medium_for_endpoint ep ?m s"
  let ?sa = "\<lambda>c. ?sm\<lparr>handlers := hm_insert ?m h' (handlers s), heap := heap s @ [c]\<rparr>"
  note d = assms(2)[unfolded dials_def]
  obtain c1 where c1: "op_write ops c data = Some (Success, c1)" "link c1 [pe ack_frame] ([] @ [data])"
    using link_writes [OF assms(5-7,9)] by blast
  obtain c2 where c2: "op_read ops c1 = Some (Inr (pe ack_frame), c2)" "link c2 [] [data]"
    using link_reads [of c1 "pe ack_frame" "[]" "[data]"] c1(2) assms(10) by auto
  have wr: "ch_write E ?i data (?sa c) = Some (Success, ?sa c1)"
    using c1(1) assms(1) by (simp add: ch_write_def set_chan_def)
  have rd: "read_client_introduction_ack_frame E ?i (?sa c1) = Some (True, ?sa c2)"
    using c2(1) assms(1) ack_parses [of "decode_frame E" pe, OF assms(8)] ack_read
    by (simp add: read_client_introduction_ack_frame_def ch_read_def set_chan_def)
  have set: "get_bwu_medium_for_endpoint ?sm ep = ?m"
    by (simp add: get_bwu_medium_for_endpoint_def set_bwu_medium_for_endpoint_def)
  obtain h where h: "hm_get (handlers s) ?m = Some h"
    "h_create_upgraded_endpoint_channel (hand_ops E) (client s)
       (op_service_id (chan_ops E) (chan_at s old)) ep info h = Some (Some c, h')"
    using d by (auto elim!: bind_SomeE)
  have call: "handler_call ?m (h_create_upgraded_endpoint_channel (hand_ops E) (client s)
      (op_service_id (chan_ops E) (chan_at s old)) ep info) ?sm
      = Some (Some c, ?sm\<lparr>handlers := hm_insert ?m h' (handlers s)\<rparr>)"
    using h by (simp add: handler_call_def)
  have "has_handler_for_medium ?sm ?m"
    unfolding has_handler_for_medium_def hm_contains_get using h(1) assms(3) by simp
  moreover have "for_bwu_introduction (encode_frame E) (cp_local_endpoint_id (client s))
      (if op_local_endpoint_id (chan_ops E) (chan_at s old) = [] then cp_last_local_endpoint_id (client s)
       else op_local_endpoint_id (chan_ops E) (chan_at s old))
      (unwrap_or (upi_supports_disabling_encryption info) False) = data"
    by (simp add: assms(4) introduction_built last_local_id_def Let_def)
  ultimately have "process_bwu_path_available_event_internal E ep info ?sm = Some (Some ?i, ?sa c2)"
    using set d call unfolding process_bwu_path_available_event_internal_def Let_def
    by (simp add: alloc_chan_def exception_ok_def wr rd cong: if_cong)
  then have "process_bwu_path_available_event E ep info s =
      run_upgrade_protocol E ep ?i (\<not> unwrap_or (upi_supports_disabling_encryption info) False)
        (dialled ep ?m c2 h' s)"
    using set d by (simp add: process_bwu_path_available_event_def dialled_def is_upgrade_ongoing_def Let_def)
  with c2(2) show ?thesis by blast
qed

end

section \<open>Both sides meet\<close>


text \<open>A Wi-Fi LAN responder ''me'', offered a path by ''i'', and the initiator that upgrades ''me''.\<close>

definition meet_offer :: upgrade_path_info where
  "meet_offer = wifi_lan_path_info [\<lparr>address = [127, 0, 0, 1], addr_port = 4000\<rparr>]"

definition meet_enc :: "offline_frame \<Rightarrow> bytes" where
  "meet_enc f = (if f = ack_frame then [1] else [2])"

definition meet_dec :: "bytes \<Rightarrow> offline_frame option" where
  "meet_dec bs = Some (if bs = [1] then ack_frame else introduction_frame ''me'' ''me'' False)"

definition fresh_socket :: "bytes list \<Rightarrow> mem_socket" where
  "fresh_socket ins = \<lparr>sock_rx = wire_bytes ins, sock_tx = [], sock_shut = False\<rparr>"

definition meet_net :: "(nat, mem_socket, nat) net_ops" where
  "meet_net = mem_net\<lparr>net_connect := (\<lambda>addr n. (Some (fresh_socket [[1]]), n))\<rparr>"

definition meet_env ::
    "(mem_socket tcp_channel, (nat, nat) wifi_lan_bwu_handler base_bwu_handler) bwu_env" where
  "meet_env = \<lparr>chan_ops = stream_channel_ops (socket_ops meet_net) meet_dec,
     hand_ops = base_handler_ops (wifi_lan_medium_ops (socket_net meet_net) meet_enc),
     encode_frame = meet_enc, decode_frame = meet_dec\<rparr>"

definition meet_state :: "string \<Rightarrow> bytes list
    \<Rightarrow> (mem_socket tcp_channel, (nat, nat) wifi_lan_bwu_handler base_bwu_handler) bwu_state" where
  "meet_state ep ins = bwu_manager_new \<lparr>endpoints = [(ep, 0)]\<rparr>
     (on_connection_accepted (client_proxy_new 0 ''me'') ep)
     [stream_channel_new ''A'' ''bt'' Bluetooth \<lparr>td_socket = fresh_socket []\<rparr>,
      stream_channel_new ''A'' ''lan'' WifiLan \<lparr>td_socket = fresh_socket ins\<rparr>]
     [(WifiLan, base_bwu_handler_new (wifi_lan_new 0))] bwu_config_default"

lemma meet_dials:
  "dials meet_env ''i'' meet_offer 0 (stream_channel_new ''A'' WIFI_LAN_CHANNEL_NAME WifiLan
     \<lparr>td_socket = fresh_socket [[1]]\<rparr>) (base_bwu_handler_new (wifi_lan_new 0)) (meet_state ''i'' [])"
  by (simp add: dials_def meet_env_def meet_offer_def meet_state_def bwu_manager_new_def
      is_wifi_lan_connected_def is_incoming_connection_def is_upgrade_ongoing_def
      get_bwu_medium_for_endpoint_def get_channel_for_endpoint_def stream_channel_new_def
      on_connection_accepted_def client_entry_update_def client_proxy_new_def wifi_lan_path_info_def
      upi_medium_of_def base_handler_ops_def base_create_upgraded_endpoint_channel_def
      wifi_lan_medium_ops_def wifi_lan_create_upgraded_endpoint_channel_def wifi_lan_dial_address_def
      u16_try_from_def meet_net_def mem_net_def socket_net_def tcp_channel_def tcp_duplex_stream_new_def
      base_bwu_handler_new_def wifi_lan_new_def wifi_lan_with_endpoint_def endpoint_state_default_def)


end
