(* ===== verification/Unit_Tests.thy ===== *)
theory Unit_Tests
  imports Bwu_Testing "HOL-Library.List_Lexorder" "HOL-Library.Char_ord"
begin

text \<open>
  The unit tests inside the sources, translated assertion by assertion and evaluated on the model:
  the definitions of the development pass the tests of the code they translate. A test that
  serialises and parses a frame has the codec as an argument.
\<close>

section \<open>The tests of \<open>src/frames.rs\<close>\<close>

definition ALL_MEDIUMS :: "medium list" where
  "ALL_MEDIUMS = [UnknownMedium, Mdns, Bluetooth, WifiHotspot, Ble, WifiLan, WifiAware, Nfc, WifiDirect,
     WebRtc, BleL2cap, Usb, WebRtcNonCellular, Awdl]"

definition connection_request_medium_round_trips :: bool where
  "connection_request_medium_round_trips \<longleftrightarrow>
     list_all (\<lambda>m. connection_request_medium_to_medium (medium_to_connection_request_medium m) = m) ALL_MEDIUMS"

definition presence_request_emits_present_empty_endpoint_id_when_device_has_none ::
    "(offline_frame \<Rightarrow> bytes) \<Rightarrow> (bytes \<Rightarrow> offline_frame option) \<Rightarrow> bool" where
  "presence_request_emits_present_empty_endpoint_id_when_device_has_none enc dec \<longleftrightarrow>
     (let info = \<lparr>local_endpoint_id = ''ABC'', local_endpoint_info = [0x58], nonce = 0, supports_5ghz = False,
            bssid = [], ap_frequency = 0, supported_mediums = [], keep_alive_interval_millis = 0,
            keep_alive_timeout_millis = 0, medium_role_info = None, supported_wifi_direct_auth_types = []\<rparr>;
          device = presence_device_default\<lparr>pd_endpoint_id := None\<rparr>;
          req = do {
            frame \<leftarrow> dec (for_connection_request_presence enc device info);
            v1 \<leftarrow> of_v1 frame;
            v1_connection_request v1 }
      in map_option crf_endpoint_id req = Some (Some []))"

definition upgrade_path_info_medium_round_trips :: bool where
  "upgrade_path_info_medium_round_trips \<longleftrightarrow>
     list_all (\<lambda>m. if m = BleL2cap then medium_to_upgrade_path_info_medium m = UpiUnknownMedium
       else upgrade_path_info_medium_to_medium (medium_to_upgrade_path_info_medium m) = m) ALL_MEDIUMS"

section \<open>The tests of \<open>src/validator.rs\<close>\<close>

definition ipv4_matcher_mirrors_pattern :: bool where
  "ipv4_matcher_mirrors_pattern \<longleftrightarrow> is_valid_ipv4 ''0.0.0.0'' \<and> is_valid_ipv4 ''192.168.1.1''
     \<and> is_valid_ipv4 ''255.255.255.255'' \<and> \<not> is_valid_ipv4 ''256.0.0.1'' \<and> \<not> is_valid_ipv4 ''1.2.3''
     \<and> \<not> is_valid_ipv4 ''1.2.3.4.5'' \<and> \<not> is_valid_ipv4 ''1.2.3.'' \<and> \<not> is_valid_ipv4 ''''
     \<and> \<not> is_valid_ipv4 ''a.b.c.d''"

definition wifi_direct_ssid_matcher_mirrors_pattern :: bool where
  "wifi_direct_ssid_matcher_mirrors_pattern \<longleftrightarrow> matches_wifi_direct_ssid ''DIRECT-A0-0123456789AB''
     \<and> matches_wifi_direct_ssid ''DIRECT-Zz'' \<and> \<not> matches_wifi_direct_ssid ''DIRECT-A*-0123456789AB''
     \<and> \<not> matches_wifi_direct_ssid ''NOTDIRECT-AB'' \<and> \<not> matches_wifi_direct_ssid ''DIRECT-A''
     \<and> \<not> matches_wifi_direct_ssid ''DIRECT-'' \<and> \<not> matches_wifi_direct_ssid (''DIRECT-AB'' @ [CHR 0x0A])
     \<and> \<not> matches_wifi_direct_ssid (''DIRECT-AB'' @ [CHR 0x0D]) \<and> matches_wifi_direct_ssid (''DIRECT-AB'' @ [CHR 0x09])"

definition unrecognized_packet_type_is_rejected :: bool where
  "unrecognized_packet_type_is_rejected \<longleftrightarrow>
     (let frame = \<lparr>of_version = Some (version_as_i32 V1),
            of_v1 = Some (v1_frame_default\<lparr>v1_type := Some (frame_type_as_i32 PayloadTransfer),
              v1_payload_transfer := Some (payload_transfer_frame_default\<lparr>pt_packet_type := Some 99,
                pt_payload_header := Some (payload_header_default\<lparr>ph_id := Some 1, ph_total_size := Some 1024\<rparr>)\<rparr>)\<rparr>)\<rparr>
      in ensure_valid_offline_frame frame = InvalidProtocolBuffer)"

definition within_range_is_half_open :: bool where
  "within_range_is_half_open \<longleftrightarrow> within_range 8 8 64 \<and> \<not> within_range 64 8 64 \<and> \<not> within_range 7 8 64"

section \<open>The tests of \<open>src/bwu/service_id.rs\<close>\<close>

definition wraps_only_when_needed :: bool where
  "wraps_only_when_needed \<longleftrightarrow> wrap_initiator_upgrade_service_id ''ServiceA'' = ''ServiceA_UPGRADE''
     \<and> wrap_initiator_upgrade_service_id ''ServiceA_UPGRADE'' = ''ServiceA_UPGRADE''
     \<and> wrap_initiator_upgrade_service_id '''' = ''''"

definition recognizes_and_unwraps :: bool where
  "recognizes_and_unwraps \<longleftrightarrow> is_initiator_upgrade_service_id ''ServiceA_UPGRADE''
     \<and> \<not> is_initiator_upgrade_service_id ''ServiceA'' \<and> \<not> is_initiator_upgrade_service_id ''''
     \<and> unwrap_initiator_upgrade_service_id ''ServiceA_UPGRADE'' = ''ServiceA''
     \<and> unwrap_initiator_upgrade_service_id ''ServiceA'' = ''ServiceA''
     \<and> unwrap_initiator_upgrade_service_id '''' = ''''"

section \<open>The test of \<open>src/bwu/channel_manager.rs\<close>\<close>

text \<open>The two channels of the test are the two cells of the heap.\<close>

definition register_replace_count_and_wifi_lan :: bool where
  "register_replace_count_and_wifi_lan \<longleftrightarrow>
     (let cl = client_proxy_default;
          hp = [fake_endpoint_channel_new Bluetooth ''A'', fake_endpoint_channel_new WifiLan ''A''];
          bt = 0; lan = 1;
          ecm1 = endpoint_channel_manager_new;
          ecm2 = register_channel_for_endpoint cl ''Endpoint1'' bt ecm1;
          stashed = get_channel_for_endpoint ecm2 ''Endpoint1'';
          ecm3 = replace_channel_for_endpoint cl ''Endpoint1'' lan False ecm2;
          (found, ecm4) = unregister_channel_for_endpoint ''Endpoint1'' LocalDisconnection SafeDisconnection ecm3
      in get_connected_endpoints_count ecm1 = 0 \<and> \<not> is_wifi_lan_connected fake_channel_ops hp ecm1
        \<and> get_connected_endpoints_count ecm2 = 1 \<and> \<not> is_wifi_lan_connected fake_channel_ops hp ecm2
        \<and> get_connected_endpoints_count ecm3 = 1 \<and> is_wifi_lan_connected fake_channel_ops hp ecm3
        \<and> map_option (\<lambda>c. op_medium fake_channel_ops (hp ! c)) stashed = Some Bluetooth
        \<and> found \<and> get_connected_endpoints_count ecm4 = 0)"

section \<open>The tests of \<open>src/bwu/handler.rs\<close>\<close>

record recording_handler =
  initialize_calls :: "(string \<times> string) list"
  revert_calls :: "string list"
  fail_for :: "string option"

definition recording_handler_default :: recording_handler where
  "recording_handler_default = \<lparr>initialize_calls = [], revert_calls = [], fail_for = None\<rparr>"

definition recording_ops :: "(unit, recording_handler) medium_handler_ops" where
  "recording_ops =
     \<lparr>m_handle_initialize_upgraded_medium_for_endpoint = (\<lambda>_ upgrade_service_id endpoint_id h.
        (let h = h\<lparr>initialize_calls := initialize_calls h @ [(upgrade_service_id, endpoint_id)]\<rparr>
         in Some (if fail_for h = Some endpoint_id then [] else [1], h))),
      m_handle_revert_initiator_state_for_service = (\<lambda>upgrade_service_id h.
        Some (h\<lparr>revert_calls := revert_calls h @ [upgrade_service_id]\<rparr>)),
      m_create_upgraded_endpoint_channel = (\<lambda>_ _ _ _ h. Some (None, h)),
      m_get_upgrade_medium = (\<lambda>_. WebRtc),
      m_on_endpoint_disconnect = (\<lambda>_ _ h. Some h)\<rparr>"

definition initialize_wraps_service_id_and_tracks_endpoints :: bool where
  "initialize_wraps_service_id_and_tracks_endpoints \<longleftrightarrow>
     do { (frame, h) \<leftarrow> base_initialize_upgraded_medium_for_endpoint recording_ops client_proxy_default
            ''ServiceA'' ''Endpoint1'' (base_bwu_handler_new recording_handler_default);
          Some (frame = [1] \<and> initialize_calls (inner h) = [(''ServiceA_UPGRADE'', ''Endpoint1'')]) } = Some True"

definition empty_initialize_frame_is_not_tracked :: bool where
  "empty_initialize_frame_is_not_tracked \<longleftrightarrow>
     do { (frame, h) \<leftarrow> base_initialize_upgraded_medium_for_endpoint recording_ops client_proxy_default
            ''ServiceA'' ''Endpoint1'' (base_bwu_handler_new (recording_handler_default\<lparr>fail_for := Some ''Endpoint1''\<rparr>));
          h \<leftarrow> base_revert_initiator_state_for_endpoint recording_ops ''ServiceA_UPGRADE'' ''Endpoint1'' h;
          Some (frame = [] \<and> revert_calls (inner h) = []) } = Some True"

definition revert_per_endpoint_fires_only_on_last :: bool where
  "revert_per_endpoint_fires_only_on_last \<longleftrightarrow>
     do { (_, h) \<leftarrow> base_initialize_upgraded_medium_for_endpoint recording_ops client_proxy_default
            ''ServiceA'' ''Endpoint1'' (base_bwu_handler_new recording_handler_default);
          (_, h) \<leftarrow> base_initialize_upgraded_medium_for_endpoint recording_ops client_proxy_default
            ''ServiceA'' ''Endpoint2'' h;
          h1 \<leftarrow> base_revert_initiator_state_for_endpoint recording_ops ''ServiceA_UPGRADE'' ''Endpoint1'' h;
          h2 \<leftarrow> base_revert_initiator_state_for_endpoint recording_ops ''ServiceA_UPGRADE'' ''Endpoint2'' h1;
          Some (revert_calls (inner h1) = [] \<and> revert_calls (inner h2) = [''ServiceA_UPGRADE'']) } = Some True"

definition revert_ignores_unwrapped_service_id :: bool where
  "revert_ignores_unwrapped_service_id \<longleftrightarrow>
     do { (_, h) \<leftarrow> base_initialize_upgraded_medium_for_endpoint recording_ops client_proxy_default
            ''ServiceA'' ''Endpoint1'' (base_bwu_handler_new recording_handler_default);
          h \<leftarrow> base_revert_initiator_state_for_endpoint recording_ops ''ServiceA'' ''Endpoint1'' h;
          Some (revert_calls (inner h) = []) } = Some True"

definition revert_all_reverts_each_service_once :: bool where
  "revert_all_reverts_each_service_once \<longleftrightarrow>
     do { (_, h) \<leftarrow> base_initialize_upgraded_medium_for_endpoint recording_ops client_proxy_default
            ''ServiceA'' ''Endpoint1'' (base_bwu_handler_new recording_handler_default);
          (_, h) \<leftarrow> base_initialize_upgraded_medium_for_endpoint recording_ops client_proxy_default
            ''ServiceB'' ''Endpoint2'' h;
          h \<leftarrow> base_revert_initiator_state recording_ops h;
          Some (sort (revert_calls (inner h)) = [''ServiceA_UPGRADE'', ''ServiceB_UPGRADE'']) } = Some True"

definition responder_revert_calls_handler_with_raw_id :: bool where
  "responder_revert_calls_handler_with_raw_id \<longleftrightarrow>
     do { h \<leftarrow> base_revert_responder_state recording_ops ''ServiceA'' (base_bwu_handler_new recording_handler_default);
          Some (revert_calls (inner h) = [''ServiceA'']) } = Some True"

section \<open>The tests of \<open>src/bwu/testing.rs\<close>\<close>

definition channel_records_close_pause_and_write :: bool where
  "channel_records_close_pause_and_write \<longleftrightarrow>
     (let ops = fake_channel_ops; ch0 = fake_endpoint_channel_new Bluetooth ''A'' in
      do { (e1, ch1) \<leftarrow> op_write ops ch0 [0x78];
           let ch2 = op_pause ops ch1;
           let ch3 = op_resume ops ch2;
           (e2, ch4) \<leftarrow> op_write ops (set_write_output Io ch3) [0x79];
           let ch5 = op_close_with_reason ops ch4 Upgraded;
           Some (\<not> is_closed ch0 \<and> \<not> wrote_anything ch0 \<and> e1 = Success \<and> wrote_anything ch1
             \<and> op_is_paused ops ch2 \<and> \<not> op_is_paused ops ch3 \<and> e2 = Io
             \<and> is_closed ch5 \<and> disconnection_reason_of ch5 = Upgraded) } = Some True)"

definition handler_records_and_emits_valid_path_available_frames ::
    "(offline_frame \<Rightarrow> bytes) \<Rightarrow> (bytes \<Rightarrow> offline_frame option) \<Rightarrow> bool" where
  "handler_records_and_emits_valid_path_available_frames enc dec \<longleftrightarrow>
     list_all (\<lambda>m.
       (case m_handle_initialize_upgraded_medium_for_endpoint (fake_medium_ops enc) client_proxy_default
          ''ServiceA_UPGRADE'' ''Endpoint1'' (fake_bwu_handler_new m) of
          Some (bs, h) \<Rightarrow> bs \<noteq> []
            \<and> (case from_bytes dec bs of Inr frame \<Rightarrow> get_frame_type frame = BandwidthUpgradeNegotiation | Inl _ \<Rightarrow> False)
            \<and> length (handle_initialize_calls h) = 1
        | None \<Rightarrow> False)) [Bluetooth, WifiLan, WebRtc, WifiHotspot, WifiDirect]"

section \<open>The model passes them\<close>

lemma frames_tests_pass: "connection_request_medium_round_trips" "upgrade_path_info_medium_round_trips"
  by (simp_all add: connection_request_medium_round_trips_def upgrade_path_info_medium_round_trips_def
      ALL_MEDIUMS_def)

lemma presence_test_passes:
  assumes "\<And>f. dec (enc f) = Some f"
  shows "presence_request_emits_present_empty_endpoint_id_when_device_has_none enc dec"
  by (simp add: presence_request_emits_present_empty_endpoint_id_when_device_has_none_def assms
      for_connection_request_presence_def encode_v1_def v1_offline_frame_def Let_def presence_device_default_def)

lemmas ipv4_evaluation = is_valid_ipv4_def octet_rejected_def Let_def parse_unsigned_def decimal_value_def
  is_ascii_digit_def digit_value_def

lemma ipv4_test_passes: "ipv4_matcher_mirrors_pattern"
  by (simp add: ipv4_matcher_mirrors_pattern_def ipv4_evaluation)

lemma matcher_tests_pass: "wifi_direct_ssid_matcher_mirrors_pattern" "within_range_is_half_open"
  by (simp_all add: wifi_direct_ssid_matcher_mirrors_pattern_def matches_wifi_direct_ssid_def str_strip_prefix_def
      is_ascii_alphanumeric_def is_ascii_digit_def within_range_is_half_open_def within_range_def)

lemma packet_type_test_passes: "unrecognized_packet_type_is_rejected"
  unfolding unrecognized_packet_type_is_rejected_def by code_simp

lemma service_id_tests_pass: "wraps_only_when_needed" "recognizes_and_unwraps"
  unfolding wraps_only_when_needed_def recognizes_and_unwraps_def by code_simp+

lemma registry_test_passes: "register_replace_count_and_wifi_lan"
  by code_simp

lemma handler_tests_pass: "initialize_wraps_service_id_and_tracks_endpoints"
    "empty_initialize_frame_is_not_tracked" "revert_per_endpoint_fires_only_on_last"
    "revert_ignores_unwrapped_service_id" "responder_revert_calls_handler_with_raw_id"
  by code_simp+

lemma revert_all_test_passes: "revert_all_reverts_each_service_once"
proof -
  have "wrap_initiator_upgrade_service_id ''ServiceA'' = ''ServiceA_UPGRADE''"
    "wrap_initiator_upgrade_service_id ''ServiceB'' = ''ServiceB_UPGRADE''" by code_simp+
  then show ?thesis
    by (simp add: revert_all_reverts_each_service_once_def recording_ops_def recording_handler_default_def
        base_initialize_upgraded_medium_for_endpoint_def base_revert_initiator_state_def base_bwu_handler_new_def Let_def)
qed

lemma channel_test_passes: "channel_records_close_pause_and_write"
  by code_simp

lemma fake_paths_valid:
  "ensure_valid_bwu_path_available_frame (bluetooth_path_info ''ServiceA_UPGRADE'' ''01:02:03:04:05:06'') = Success"
  "ensure_valid_bwu_path_available_frame (wifi_lan_path_info [\<lparr>address = [0x41, 0x42, 0x43, 0x44], addr_port = 1234\<rparr>]) = Success"
  "ensure_valid_bwu_path_available_frame (webrtc_path_info ''peer-id'' location_hint_default) = Success"
  "ensure_valid_bwu_path_available_frame (wifi_hotspot_path_info fake_hotspot_credentials False) = Success"
  "ensure_valid_bwu_path_available_frame
     (wifi_direct_path_info [] [] 2143 2412 False ''123.234.23.1'' ''NC-WifiDirectTest'' ''b592f7d3'') = Success"
  by (simp_all add: ensure_valid_bwu_path_available_frame_def bluetooth_path_info_def wifi_lan_path_info_def
      webrtc_path_info_def wifi_hotspot_path_info_def wifi_direct_path_info_def fake_hotspot_credentials_def
      wifi_hotspot_credentials_default_def wifi_lan_socket_default_def wifi_direct_credentials_default_def
      ensure_valid_bwu_bluetooth_path_available_def ensure_valid_bwu_web_rtc_path_available_def
      ensure_valid_bwu_wifi_lan_path_available_def ensure_valid_bwu_wifi_hotspot_path_available_def
      ensure_valid_bwu_wifi_direct_path_available_def candidate_rejected_def within_range_def ipv4_evaluation
      WIFI_PASSWORD_SSID_MIN_LENGTH_def WIFI_PASSWORD_SSID_MAX_LENGTH_def WIFI_DIRECT_SSID_MAX_LENGTH_def
      WIFI_DIRECT_PIN_MIN_LENGTH_def WIFI_DIRECT_PIN_MAX_LENGTH_def)

lemma fake_handler_test_passes:
  assumes "\<And>f. dec (enc f) = Some f" and "\<And>f. enc f \<noteq> []"
  shows "handler_records_and_emits_valid_path_available_frames enc dec"
proof -
  have "from_bytes dec (bwu_upgrade_path_available enc i)
      = Inr (bwu_offline_frame ((bwu_event UpgradePathAvailable)\<lparr>bwu_upgrade_path_info := Some i\<rparr>))"
    "bwu_upgrade_path_available enc i \<noteq> []"
    if "ensure_valid_bwu_path_available_frame i = Success" for i
    using path_available_parses [where enc = enc and dec = dec] assms that
    by (simp_all add: bwu_upgrade_path_available_def encode_bwu_frame)
  note parses = this [OF fake_paths_valid(1)] this [OF fake_paths_valid(2)] this [OF fake_paths_valid(3)]
    this [OF fake_paths_valid(4)] this [OF fake_paths_valid(5)]
  show ?thesis
    by (simp add: handler_records_and_emits_valid_path_available_frames_def fake_medium_ops_def fake_bwu_handler_new_def
        fake_handle_initialize_upgraded_medium_for_endpoint_def for_bwu_bluetooth_path_available_def
        for_bwu_wifi_lan_path_available_def for_bwu_webrtc_path_available_def for_bwu_wifi_hotspot_path_available_def
        for_bwu_wifi_direct_path_available_def parses)
qed

end
