(* ===== verification/Manager_Tests.thy ===== *)
theory Manager_Tests
  imports Bwu_Introduction Unit_Tests
begin

text \<open>
  The scenarios of \<^verbatim>\<open>tests/bwu_manager.rs\<close>, translated step by step and evaluated on the model of
  the manager with the crate's own fakes, for every codec that is lossless. A scenario is
  \<^verbatim>\<open>Some True\<close> when every step returns and every assertion holds.
\<close>

section \<open>The fixture\<close>

type_synonym fixture = "(fake_endpoint_channel, fake_handler) bwu_state"
type_synonym test_env = "(fake_endpoint_channel, fake_handler) bwu_env"

text \<open>The depth of the stack is more than any scenario needs.\<close>

abbreviation test_depth :: nat where
  "test_depth \<equiv> Suc (Suc (Suc 0))"

definition test_fixture :: "bool \<Rightarrow> fixture" where
  "test_fixture support_multiple =
     bwu_manager_new endpoint_channel_manager_new (client_proxy_new 0 ''LocalEndpoint'') []
       (fake_handlers [WebRtc, WifiLan, WifiDirect, WifiHotspot])
       (bwu_config_default\<lparr>support_multiple_bwu_mediums := support_multiple\<rparr>)"

definition create_initial_endpoint :: "string \<Rightarrow> string \<Rightarrow> medium \<Rightarrow> fixture \<Rightarrow> chan_ref \<times> fixture" where
  "create_initial_endpoint service_id endpoint_id m f =
     (let cl = on_connection_accepted (on_connection_initiated (client f) endpoint_id False False) endpoint_id;
          (channel, f) = alloc_chan (fake_endpoint_channel_new m service_id) (f\<lparr>client := cl\<rparr>)
      in (channel, f\<lparr>ecm := register_channel_for_endpoint cl endpoint_id channel (ecm f)\<rparr>))"

definition current_medium :: "string \<Rightarrow> fixture \<Rightarrow> medium option" where
  "current_medium endpoint_id f = map_option (\<lambda>c. fc_medium (chan_at f c)) (registered f endpoint_id)"

definition feed :: "test_env \<Rightarrow> bytes \<Rightarrow> string \<Rightarrow> medium \<Rightarrow> fixture \<Rightarrow> fixture option" where
  "feed E data endpoint_id m f =
     (case from_bytes (decode_frame E) data of
        Inr frame \<Rightarrow> on_incoming_frame E test_depth frame endpoint_id m f
      | Inl _ \<Rightarrow> None)"

definition records_for :: "medium \<Rightarrow> fixture \<Rightarrow> fake_bwu_handler option" where
  "records_for m f = map_option inner (hm_get (handlers f) m)"

definition initiate :: "test_env \<Rightarrow> string \<Rightarrow> medium \<Rightarrow> fixture \<Rightarrow> fixture option" where
  "initiate E = initiate_bwu_for_endpoint E test_depth"

definition notify :: "test_env \<Rightarrow> medium \<Rightarrow> nat \<Rightarrow> fixture \<Rightarrow> (chan_ref \<times> fixture) option" where
  "notify E m index f =
     do { r \<leftarrow> records_for m f;
          notify_bwu_manager_of_incoming_connection E (handle_initialize_calls r) m index f }"

definition fully_upgrade_endpoint ::
    "test_env \<Rightarrow> string \<Rightarrow> medium \<Rightarrow> medium \<Rightarrow> fixture \<Rightarrow> fixture option" where
  "fully_upgrade_endpoint E endpoint_id initial_medium upgrade_medium f =
     do {
       f \<leftarrow> initiate E endpoint_id upgrade_medium f;
       r \<leftarrow> records_for upgrade_medium f;
       (_, f) \<leftarrow> notify E upgrade_medium (length (handle_initialize_calls r) - 1) f;
       f \<leftarrow> feed E (for_bwu_last_write (encode_frame E)) endpoint_id initial_medium f;
       feed E (for_bwu_safe_to_close (encode_frame E)) endpoint_id initial_medium f
     }"

definition unregister :: "string \<Rightarrow> fixture \<Rightarrow> fixture" where
  "unregister endpoint_id f =
     f\<lparr>ecm := snd (unregister_channel_for_endpoint endpoint_id LocalDisconnection SafeDisconnection (ecm f))\<rparr>"

definition disconnect :: "test_env \<Rightarrow> string \<Rightarrow> string \<Rightarrow> fixture \<Rightarrow> fixture option" where
  "disconnect E service_id endpoint_id f =
     on_endpoint_disconnect E service_id endpoint_id LocalDisconnection (unregister endpoint_id f)"

text \<open>What the records of a handler say: services initialised, endpoints disconnected, services reverted.\<close>

definition initialized :: "medium \<Rightarrow> fixture \<Rightarrow> (string option \<times> string option) list option" where
  "initialized m f = map_option (\<lambda>r. map (\<lambda>c. (in_service_id c, in_endpoint_id c)) (handle_initialize_calls r)) (records_for m f)"

definition disconnected :: "medium \<Rightarrow> fixture \<Rightarrow> string option list option" where
  "disconnected m f = map_option (\<lambda>r. map in_endpoint_id (disconnect_calls r)) (records_for m f)"

definition reverted :: "medium \<Rightarrow> fixture \<Rightarrow> string option list option" where
  "reverted m f = map_option (\<lambda>r. map in_service_id (handle_revert_calls r)) (records_for m f)"

section \<open>Upgrades\<close>

definition initiate_bwu_success :: "test_env \<Rightarrow> bool \<Rightarrow> bool option" where
  "initiate_bwu_success E support_multiple =
     (let (initial, f) = create_initial_endpoint ''ServiceA'' ''Endpoint1'' Bluetooth (test_fixture support_multiple) in
      do {
        f1 \<leftarrow> initiate E ''Endpoint1'' WebRtc f;
        (upgraded, f2) \<leftarrow> notify E WebRtc 0 f1;
        f3 \<leftarrow> feed E (for_bwu_last_write (encode_frame E)) ''Endpoint1'' Bluetooth f2;
        f4 \<leftarrow> feed E (for_bwu_safe_to_close (encode_frame E)) ''Endpoint1'' Bluetooth f3;
        Some (initialized WebRtc f1 = Some [(Some ''ServiceA_UPGRADE'', Some ''Endpoint1'')]
          \<and> initialized WifiLan f1 = Some [] \<and> initialized WifiHotspot f1 = Some [] \<and> initialized WifiDirect f1 = Some []
          \<and> is_upgrade_ongoing f1 ''Endpoint1'' \<and> current_medium ''Endpoint1'' f1 = Some Bluetooth
          \<and> current_medium ''Endpoint1'' f2 = Some WebRtc
          \<and> fc_is_paused (chan_at f2 upgraded) \<and> \<not> is_closed (chan_at f2 initial)
          \<and> \<not> fc_is_paused (chan_at f4 upgraded) \<and> is_closed (chan_at f4 initial)
          \<and> disconnection_reason_of (chan_at f4 initial) = Upgraded)
      })"

definition reset_upgrade_reoffers_without_reverting_the_medium :: "test_env \<Rightarrow> bool option" where
  "reset_upgrade_reoffers_without_reverting_the_medium E =
     do {
       let f = snd (create_initial_endpoint ''ServiceA'' ''Endpoint1'' Bluetooth (test_fixture False));
       f1 \<leftarrow> initiate E ''Endpoint1'' WebRtc f;
       f2 \<leftarrow> initiate E ''Endpoint1'' WebRtc f1;
       let f3 = reset_upgrade_for_endpoint ''Endpoint1'' f2;
       f4 \<leftarrow> initiate E ''Endpoint1'' WebRtc f3;
       Some (is_upgrade_ongoing f1 ''Endpoint1'' \<and> map_option length (initialized WebRtc f1) = Some 1
         \<and> map_option length (initialized WebRtc f2) = Some 1 \<and> \<not> is_upgrade_ongoing f3 ''Endpoint1''
         \<and> is_upgrade_ongoing f4 ''Endpoint1'' \<and> map_option length (initialized WebRtc f4) = Some 2
         \<and> reverted WebRtc f4 = Some [])
     }"

definition receive_unexpected_frame_does_not_crash :: "test_env \<Rightarrow> ((offline_frame \<Rightarrow> bytes) \<Rightarrow> bytes) \<Rightarrow> bool option" where
  "receive_unexpected_frame_does_not_crash E frame =
     do { f \<leftarrow> feed E (frame (encode_frame E)) ''Endpoint1'' Bluetooth (test_fixture True);
          Some (\<not> is_upgrade_ongoing f ''Endpoint1'') }"

definition receive_early_last_write_completes_upgrade :: "test_env \<Rightarrow> bool option" where
  "receive_early_last_write_completes_upgrade E =
     (let (initial, f) = create_initial_endpoint ''ServiceA'' ''Endpoint1'' Bluetooth (test_fixture True) in
      do {
        f1 \<leftarrow> initiate E ''Endpoint1'' WebRtc f;
        f2 \<leftarrow> feed E (for_bwu_last_write (encode_frame E)) ''Endpoint1'' Bluetooth f1;
        (upgraded, f3) \<leftarrow> notify E WebRtc 0 f2;
        f4 \<leftarrow> feed E (for_bwu_safe_to_close (encode_frame E)) ''Endpoint1'' Bluetooth f3;
        Some (is_upgrade_ongoing f1 ''Endpoint1'' \<and> \<not> fc_is_paused (chan_at f4 upgraded)
          \<and> is_closed (chan_at f4 initial) \<and> disconnection_reason_of (chan_at f4 initial) = Upgraded)
      })"

definition receive_unexpected_last_write_before_upgrade_does_not_wedge :: "test_env \<Rightarrow> bool option" where
  "receive_unexpected_last_write_before_upgrade_does_not_wedge E =
     do {
       f0 \<leftarrow> feed E (for_bwu_last_write (encode_frame E)) ''Endpoint1'' Bluetooth (test_fixture True);
       let (initial, f) = create_initial_endpoint ''ServiceA'' ''Endpoint1'' Bluetooth f0;
       f1 \<leftarrow> initiate E ''Endpoint1'' WebRtc f;
       (upgraded, f2) \<leftarrow> notify E WebRtc 0 f1;
       f3 \<leftarrow> feed E (for_bwu_last_write (encode_frame E)) ''Endpoint1'' Bluetooth f2;
       f4 \<leftarrow> feed E (for_bwu_safe_to_close (encode_frame E)) ''Endpoint1'' Bluetooth f3;
       Some (\<not> fc_is_paused (chan_at f4 upgraded) \<and> is_closed (chan_at f4 initial))
     }"

section \<open>Frames that are blocked\<close>

definition upgrade_path_available_frame :: "test_env \<Rightarrow> bytes" where
  "upgrade_path_available_frame E =
     for_bwu_wifi_lan_path_available (encode_frame E) [\<lparr>address = [1, 2, 3, 4], addr_port = 1234\<rparr>]"

definition register_bluetooth :: "string \<Rightarrow> fixture \<Rightarrow> fixture" where
  "register_bluetooth endpoint_id f =
     (let (c, f) = alloc_chan (fake_endpoint_channel_new Bluetooth ''ServiceA'') f
      in f\<lparr>ecm := register_channel_for_endpoint (client f) endpoint_id c (ecm f)\<rparr>)"

definition block_bwu_frame_before_accept :: "test_env \<Rightarrow> bool option" where
  "block_bwu_frame_before_accept E =
     do { f \<leftarrow> feed E (upgrade_path_available_frame E) ''Endpoint2'' Bluetooth
            (register_bluetooth ''Endpoint2'' (test_fixture True));
          Some (\<not> is_upgrade_ongoing f ''Endpoint2'') }"

definition block_bwu_frame_from_advertiser :: "test_env \<Rightarrow> bool option" where
  "block_bwu_frame_from_advertiser E =
     do {
       let f = test_fixture True;
       let c1 = remote_endpoint_accepted_connection (local_endpoint_accepted_connection
             (on_connection_initiated (client f) ''Endpoint2'' True False) ''Endpoint2'') ''Endpoint2'';
       let c2 = on_connection_accepted c1 ''Endpoint2'';
       f \<leftarrow> feed E (upgrade_path_available_frame E) ''Endpoint2'' Bluetooth
              (register_bluetooth ''Endpoint2'' (f\<lparr>client := c2\<rparr>));
       Some (is_connection_accepted c1 ''Endpoint2'' \<and> is_connected_to_endpoint c2 ''Endpoint2''
         \<and> \<not> is_upgrade_ongoing f ''Endpoint2'')
     }"

section \<open>Upgrades that are not initiated\<close>

definition dont_upgrade_if_already_connected_over_requested_medium :: "test_env \<Rightarrow> bool option" where
  "dont_upgrade_if_already_connected_over_requested_medium E =
     do {
       let f = snd (create_initial_endpoint ''ServiceA'' ''Endpoint1'' Bluetooth (test_fixture True));
       f1 \<leftarrow> fully_upgrade_endpoint E ''Endpoint1'' Bluetooth WebRtc f;
       f2 \<leftarrow> initiate E ''Endpoint1'' WebRtc f1;
       Some (map_option length (initialized WebRtc f1) = Some 1 \<and> map_option length (initialized WebRtc f2) = Some 1)
     }"

definition dont_upgrade_from_wifi_lan_to_wifi_hotspot :: "test_env \<Rightarrow> bool option" where
  "dont_upgrade_from_wifi_lan_to_wifi_hotspot E =
     do { f \<leftarrow> initiate E ''Endpoint1'' WifiHotspot
            (snd (create_initial_endpoint ''ServiceA'' ''Endpoint1'' WifiLan (test_fixture True)));
          Some (initialized WifiHotspot f = Some []) }"

definition no_initial_medium :: "test_env \<Rightarrow> bool option" where
  "no_initial_medium E =
     do { f \<leftarrow> initiate E ''Endpoint1'' WifiHotspot (test_fixture True);
          Some (list_all (\<lambda>m. initialized m f = Some []) [WebRtc, WifiLan, WifiDirect, WifiHotspot]) }"

definition upgrade_already_in_progress :: "test_env \<Rightarrow> bool option" where
  "upgrade_already_in_progress E =
     do {
       let f = snd (create_initial_endpoint ''ServiceA'' ''Endpoint1'' Bluetooth (test_fixture True));
       f1 \<leftarrow> initiate E ''Endpoint1'' WebRtc f;
       f2 \<leftarrow> initiate E ''Endpoint1'' WifiLan f1;
       Some (map_option length (initialized WebRtc f1) = Some 1 \<and> map_option length (initialized WebRtc f2) = Some 1
         \<and> initialized WifiLan f2 = Some [])
     }"

definition failed_to_write_upgrade_path_available_frame :: "test_env \<Rightarrow> bool option" where
  "failed_to_write_upgrade_path_available_frame E =
     do {
       let (initial, f) = create_initial_endpoint ''ServiceA'' ''Endpoint1'' Bluetooth (test_fixture True);
       let f = ch_apply (set_write_output Io) initial f;
       f1 \<leftarrow> initiate E ''Endpoint1'' WebRtc f;
       (upgraded, f2) \<leftarrow> notify E WebRtc 0 f1;
       Some (map_option length (initialized WebRtc f1) = Some 1 \<and> \<not> is_upgrade_ongoing f1 ''Endpoint1''
         \<and> current_medium ''Endpoint1'' f1 = Some Bluetooth \<and> current_medium ''Endpoint1'' f2 = Some Bluetooth)
     }"

section \<open>Reverts\<close>

definition two_endpoints :: "string \<Rightarrow> bool \<Rightarrow> fixture" where
  "two_endpoints service2 support_multiple =
     snd (create_initial_endpoint service2 ''Endpoint2'' Bluetooth
       (snd (create_initial_endpoint ''ServiceA'' ''Endpoint1'' Bluetooth (test_fixture support_multiple))))"

definition upgrade_both :: "test_env \<Rightarrow> medium \<Rightarrow> fixture \<Rightarrow> fixture option" where
  "upgrade_both E m f =
     do { f \<leftarrow> fully_upgrade_endpoint E ''Endpoint1'' Bluetooth m f;
          fully_upgrade_endpoint E ''Endpoint2'' Bluetooth m f }"

definition revert_on_disconnect_multiple_endpoints_flag_enabled :: "test_env \<Rightarrow> bool option" where
  "revert_on_disconnect_multiple_endpoints_flag_enabled E =
     do {
       f \<leftarrow> upgrade_both E WebRtc (two_endpoints ''ServiceA'' True);
       f1 \<leftarrow> disconnect E ''ServiceA_UPGRADE'' ''Endpoint1'' f;
       f2 \<leftarrow> disconnect E ''ServiceA_UPGRADE'' ''Endpoint2'' f1;
       Some (disconnected WebRtc f1 = Some [Some ''Endpoint1''] \<and> reverted WebRtc f1 = Some []
         \<and> disconnected WebRtc f2 = Some [Some ''Endpoint1'', Some ''Endpoint2'']
         \<and> reverted WebRtc f2 = Some [Some ''ServiceA_UPGRADE''])
     }"

definition revert_on_disconnect_multiple_endpoints_flag_disabled :: "test_env \<Rightarrow> bool option" where
  "revert_on_disconnect_multiple_endpoints_flag_disabled E =
     do {
       f \<leftarrow> upgrade_both E WebRtc (two_endpoints ''ServiceA'' False);
       f1 \<leftarrow> disconnect E ''ServiceA_UPGRADE'' ''Endpoint1'' f;
       f2 \<leftarrow> disconnect E ''ServiceA_UPGRADE'' ''Endpoint2'' f1;
       Some (map_option length (disconnected WebRtc f1) = Some 1 \<and> reverted WebRtc f1 = Some [Some ''ServiceA_UPGRADE'']
         \<and> map_option length (disconnected WebRtc f2) = Some 1 \<and> map_option length (reverted WebRtc f2) = Some 1)
     }"

definition revert_on_disconnect_multiple_services_flag_enabled :: "test_env \<Rightarrow> bool option" where
  "revert_on_disconnect_multiple_services_flag_enabled E =
     do {
       f \<leftarrow> upgrade_both E WifiLan (two_endpoints ''ServiceB'' True);
       f1 \<leftarrow> disconnect E ''ServiceA_UPGRADE'' ''Endpoint1'' f;
       f2 \<leftarrow> disconnect E ''ServiceB_UPGRADE'' ''Endpoint2'' f1;
       Some (get_connected_endpoints_count (ecm f) = 2
         \<and> map_option length (disconnected WifiLan f1) = Some 1 \<and> reverted WifiLan f1 = Some [Some ''ServiceA_UPGRADE'']
         \<and> map_option length (disconnected WifiLan f2) = Some 2
         \<and> reverted WifiLan f2 = Some [Some ''ServiceA_UPGRADE'', Some ''ServiceB_UPGRADE''])
     }"

definition revert_on_disconnect_multiple_services_flag_disabled :: "test_env \<Rightarrow> bool option" where
  "revert_on_disconnect_multiple_services_flag_disabled E =
     do {
       f \<leftarrow> upgrade_both E WifiLan (two_endpoints ''ServiceB'' False);
       f1 \<leftarrow> disconnect E ''ServiceA_UPGRADE'' ''Endpoint1'' f;
       f2 \<leftarrow> disconnect E ''ServiceB_UPGRADE'' ''Endpoint2'' f1;
       Some (map_option length (disconnected WifiLan f1) = Some 1 \<and> map_option length (reverted WifiLan f1) = Some 2
         \<and> map_option length (disconnected WifiLan f2) = Some 1 \<and> map_option length (reverted WifiLan f2) = Some 2)
     }"

definition web_rtc_upgrade_path_info :: upgrade_path_info where
  "web_rtc_upgrade_path_info = upgrade_path_info_default\<lparr>upi_medium := Some (upi_medium_pb_as_i32 UpiWebRtc)\<rparr>"

definition setup_upgrade_failure :: "test_env \<Rightarrow> bool \<Rightarrow> fixture option" where
  "setup_upgrade_failure E support_multiple =
     do {
       f \<leftarrow> upgrade_both E WebRtc (two_endpoints ''ServiceA'' support_multiple);
       let f = snd (create_initial_endpoint ''ServiceB'' ''Endpoint3'' Bluetooth f);
       f \<leftarrow> initiate E ''Endpoint3'' WebRtc f;
       (_, f) \<leftarrow> notify E WebRtc 2 f;
       Some f
     }"

definition revert_on_upgrade_failure :: "test_env \<Rightarrow> bool \<Rightarrow> bool option" where
  "revert_on_upgrade_failure E support_multiple =
     do {
       f \<leftarrow> setup_upgrade_failure E support_multiple;
       f \<leftarrow> feed E (for_bwu_failure (encode_frame E) web_rtc_upgrade_path_info) ''Endpoint3'' WebRtc f;
       Some (reverted WebRtc f = Some (if support_multiple then [Some ''ServiceB_UPGRADE''] else []))
     }"

definition hotspot_offer_credentials :: wifi_hotspot_credentials where
  "hotspot_offer_credentials = wifi_hotspot_credentials_default\<lparr>wh_ssid := Some ''Direct-357a2d8c'',
     wh_password := Some ''b592f7d3'', wh_port := Some 1234, wh_frequency := Some 2412,
     wh_gateway := Some ''123.234.23.1''\<rparr>"

text \<open>The offer a responder receives, with the acknowledgement of the introduction turned off.\<close>

definition responder_path_info :: "medium \<Rightarrow> upgrade_path_info option" where
  "responder_path_info m =
     (if m = WifiDirect then Some (wifi_direct_path_info [] [] 2143 2412 False ''123.234.23.1'' ''NC-WifiDirectTest'' ''b592f7d3'')
      else if m = WifiHotspot then Some (wifi_hotspot_path_info hotspot_offer_credentials False)
      else if m = WifiLan then Some (wifi_lan_path_info [\<lparr>address = [0x41, 0x42, 0x43, 0x44], addr_port = 1234\<rparr>])
      else None)"

definition without_introduction_ack :: "offline_frame \<Rightarrow> offline_frame" where
  "without_introduction_ack frame =
     frame\<lparr>of_v1 := map_option (\<lambda>v1. v1\<lparr>v1_bandwidth_upgrade_negotiation := map_option (\<lambda>b. b\<lparr>bwu_upgrade_path_info :=
       map_option (\<lambda>i. i\<lparr>upi_supports_client_introduction_ack := Some False\<rparr>) (bwu_upgrade_path_info b)\<rparr>)
       (v1_bandwidth_upgrade_negotiation v1)\<rparr>) (of_v1 frame)\<rparr>"

definition responder_path_available_frame :: "test_env \<Rightarrow> medium \<Rightarrow> offline_frame option" where
  "responder_path_available_frame E m =
     do {
       info \<leftarrow> responder_path_info m;
       (case from_bytes (decode_frame E) (bwu_upgrade_path_available (encode_frame E) info) of
          Inr frame \<Rightarrow> Some (without_introduction_ack frame)
        | Inl _ \<Rightarrow> None)
     }"

definition responder_disconnects :: "test_env \<Rightarrow> medium \<Rightarrow> fixture option" where
  "responder_disconnects E m =
     do {
       let f = snd (create_initial_endpoint ''ServiceA'' ''Endpoint1'' Bluetooth (test_fixture True));
       frame \<leftarrow> responder_path_available_frame E m;
       f \<leftarrow> on_incoming_frame E test_depth frame ''Endpoint1'' Bluetooth f;
       on_endpoint_disconnect E ''ServiceA'' ''Endpoint1'' LocalDisconnection f
     }"

definition revert_on_disconnect_wifi_direct_responder :: "test_env \<Rightarrow> bool option" where
  "revert_on_disconnect_wifi_direct_responder E =
     do { f \<leftarrow> responder_disconnects E WifiDirect;
          Some (disconnected WifiDirect f = Some [Some ''Endpoint1'']
            \<and> map_option length (reverted WifiDirect f) = Some 1) }"

definition revert_on_disconnect_hotspot_responder :: "test_env \<Rightarrow> bool option" where
  "revert_on_disconnect_hotspot_responder E =
     do { f \<leftarrow> responder_disconnects E WifiHotspot;
          Some (map_option length (reverted WifiHotspot f) = Some 1) }"

definition revert_on_disconnect_wifi_lan_responder :: "test_env \<Rightarrow> bool option" where
  "revert_on_disconnect_wifi_lan_responder E =
     do { f \<leftarrow> responder_disconnects E WifiLan; Some (reverted WifiLan f = Some []) }"

section \<open>Evaluation\<close>

lemmas fixture_defs = test_fixture_def create_initial_endpoint_def current_medium_def records_for_def
  initiate_def notify_def fully_upgrade_endpoint_def unregister_def disconnect_def initialized_def
  disconnected_def reverted_def register_bluetooth_def fake_handlers_def
  notify_bwu_manager_of_incoming_connection_def set_read_output_def set_write_output_def
  endpoint_channel_manager_new_def client_proxy_new_def client_updates client_queries
  register_channel_for_endpoint_def get_channel_for_endpoint_def endpoint_state_default_def
  replace_channel_for_endpoint_def is_wifi_lan_connected_def unregister_channel_for_endpoint_def
  get_connected_endpoints_count_def
  fake_defs base_handler_ops_def base_ops_defs base_bwu_handler_new_def exception_ok_def

lemmas manager_defs = initiate_bwu_for_endpoint.simps
  bwu_config_default_def resolve_config_def bwu_manager_new_def set_chan_def ch_apply_def
  ch_read_def ch_write_def alloc_chan_def handler_call_def handler_do_def insert_in_progress_def
  remove_in_progress_def park_channel_def unpark_channel_def latch_last_write_def
  unlatch_last_write_def replace_channel_def report_bandwidth_changed_def is_upgrade_ongoing_def
  get_bwu_medium_for_endpoint_def set_bwu_medium_for_endpoint_def
  clear_bwu_medium_for_endpoint_def has_handler_for_medium_def
  read_client_introduction_frame_def read_client_introduction_ack_frame_def
  write_client_introduction_ack_frame_def calculate_next_retry_delay_def
  cancel_retry_upgrade_alarm_def cancel_all_retry_upgrade_alarms_def schedule_retry_def
  retry_upgrades_after_delay_def pending_retry_delay_def pending_retry_delays_def
  revert_bwu_medium_for_endpoint_def strip_out_unavailable_mediums_def
  choose_best_upgrade_medium_def try_next_best_upgrade_mediums_def
  process_upgrade_failure_event_def initiate_body_def reset_upgrade_for_endpoint_def
  fire_retry_alarm_def process_last_write_to_prior_channel_event_def run_upgrade_protocol_def
  safe_to_close_write_def safe_to_close_drain_def process_safe_to_close_prior_channel_event_def
  run_upgrade_failed_protocol_def process_bwu_path_available_event_internal_def
  close_unfinished_def process_bwu_path_available_event_def introduced_endpoint_def
  on_incoming_connection_def invoke_on_incoming_connection_for_testing_def
  on_bwu_negotiation_frame_def forget_retries_def on_endpoint_disconnect_def shutdown_def

text \<open>The frames that the scenarios exchange, and a codec that carries them.\<close>

definition test_negotiations :: "bandwidth_upgrade_negotiation_frame list" where
  "test_negotiations = [bwu_event LastWriteToPriorChannel, bwu_event SafeToClosePriorChannel,
     bwu_failure_frame web_rtc_upgrade_path_info]
   @ map (\<lambda>ep. (bwu_event ClientIntroduction)\<lparr>bwu_client_introduction := Some (bwu_introduction ep [] False)\<rparr>)
       [''Endpoint1'', ''Endpoint2'', ''Endpoint3'', ''Endpoint4'', ''Endpoint5'']
   @ map (\<lambda>info. (bwu_event UpgradePathAvailable)\<lparr>bwu_upgrade_path_info := Some info\<rparr>)
       [webrtc_path_info ''peer-id'' location_hint_default,
        wifi_lan_path_info [\<lparr>address = [0x41, 0x42, 0x43, 0x44], addr_port = 1234\<rparr>],
        wifi_hotspot_path_info fake_hotspot_credentials False, wifi_hotspot_path_info hotspot_offer_credentials False,
        wifi_direct_path_info [] [] 2143 2412 False ''123.234.23.1'' ''NC-WifiDirectTest'' ''b592f7d3'',
        wifi_lan_path_info [\<lparr>address = [1, 2, 3, 4], addr_port = 1234\<rparr>]]"

definition lossless :: "(offline_frame \<Rightarrow> bytes) \<Rightarrow> (bytes \<Rightarrow> offline_frame option) \<Rightarrow> bool" where
  "lossless enc dec \<longleftrightarrow>
     list_all (\<lambda>b. dec (enc (bwu_offline_frame b)) = Some (bwu_offline_frame b) \<and> enc (bwu_offline_frame b) \<noteq> [])
       test_negotiations"

lemma offers_valid:
  "ensure_valid_bwu_path_available_frame (wifi_hotspot_path_info hotspot_offer_credentials False) = Success"
  "ensure_valid_bwu_path_available_frame (wifi_lan_path_info [\<lparr>address = [1, 2, 3, 4], addr_port = 1234\<rparr>]) = Success"
  by (simp_all add: wifi_hotspot_path_info_valid wifi_lan_path_info_valid ensure_valid_bwu_wifi_hotspot_path_available_def
      hotspot_offer_credentials_def wifi_hotspot_credentials_default_def within_range_def ipv4_evaluation
      WIFI_PASSWORD_SSID_MIN_LENGTH_def WIFI_PASSWORD_SSID_MAX_LENGTH_def)

lemma test_negotiations_valid: "list_all (\<lambda>b. ensure_valid_bwu_negotiation_frame b = Success) test_negotiations"
  by (simp add: test_negotiations_def bwu_failure_frame_def path_available_valid fake_paths_valid offers_valid)

lemma lossless_parses:
  assumes "lossless enc dec" and "b \<in> set test_negotiations"
  shows "from_bytes dec (enc (bwu_offline_frame b)) = Inr (bwu_offline_frame b)" "enc (bwu_offline_frame b) \<noteq> []"
proof -
  have "ensure_valid_bwu_negotiation_frame b = Success"
    using test_negotiations_valid assms(2) by (auto simp: list_all_iff)
  then show "from_bytes dec (enc (bwu_offline_frame b)) = Inr (bwu_offline_frame b)" "enc (bwu_offline_frame b) \<noteq> []"
    using assms by (simp_all add: lossless_def list_all_iff from_bytes_Inr_iff ensure_valid_bwu_offline_frame)
qed

lemma test_env_simps:
  "chan_ops (fake_env enc dec) = fake_channel_ops" "hand_ops (fake_env enc dec) = fake_handler_ops enc"
  "encode_frame (fake_env enc dec) = enc" "decode_frame (fake_env enc dec) = dec"
  by (simp_all add: fake_env_def)

lemma feed_negotiation:
  assumes "lossless enc dec" and "b \<in> set test_negotiations"
  shows "feed (fake_env enc dec) (encode_bwu enc b) ep m f = on_bwu_negotiation_frame (fake_env enc dec) test_depth b ep f"
  using lossless_parses [OF assms] by (simp add: feed_def test_env_simps encode_bwu_frame frame_dispatch)

lemma feed_frames:
  assumes "lossless enc dec"
  defines "E \<equiv> fake_env enc dec"
  shows "feed E (for_bwu_last_write enc) ep m f = on_bwu_negotiation_frame E test_depth (bwu_event LastWriteToPriorChannel) ep f"
    and "feed E (for_bwu_safe_to_close enc) ep m f = on_bwu_negotiation_frame E test_depth (bwu_event SafeToClosePriorChannel) ep f"
    and "feed E (for_bwu_failure enc web_rtc_upgrade_path_info) ep m f =
      on_bwu_negotiation_frame E test_depth (bwu_failure_frame web_rtc_upgrade_path_info) ep f"
    and "feed E (upgrade_path_available_frame E) ep m f = on_bwu_negotiation_frame E test_depth ((bwu_event UpgradePathAvailable)
      \<lparr>bwu_upgrade_path_info := Some (wifi_lan_path_info [\<lparr>address = [1, 2, 3, 4], addr_port = 1234\<rparr>])\<rparr>) ep f"
  unfolding E_def for_bwu_last_write_def for_bwu_safe_to_close_def for_bwu_failure_def upgrade_path_available_frame_def
    for_bwu_wifi_lan_path_available_def bwu_upgrade_path_available_def test_env_simps
  by (rule feed_negotiation [OF assms(1)]; simp add: test_negotiations_def)+

lemma lossless_introduction:
  assumes "lossless enc dec" and "ep \<in> {''Endpoint1'', ''Endpoint2'', ''Endpoint3'', ''Endpoint4'', ''Endpoint5''}"
  shows "from_bytes dec (for_bwu_introduction enc ep [] False) = Inr (introduction_frame ep [] False)"
  unfolding introduction_built introduction_frame_def
  by (rule lossless_parses(1) [OF assms(1)]) (use assms(2) in \<open>auto simp: test_negotiations_def\<close>)

lemma offered_bytes:
  assumes "lossless enc dec"
  shows "path_available_bytes enc WebRtc sid \<noteq> []" "path_available_bytes enc WifiLan sid \<noteq> []"
    "path_available_bytes enc WifiHotspot sid \<noteq> []" "path_available_bytes enc WifiDirect sid \<noteq> []"
  unfolding path_available_bytes.simps for_bwu_webrtc_path_available_def for_bwu_wifi_lan_path_available_def
    for_bwu_wifi_hotspot_path_available_def for_bwu_wifi_direct_path_available_def bwu_upgrade_path_available_def encode_bwu_frame
  by (rule lossless_parses(2) [OF assms(1)]; simp add: test_negotiations_def)+

lemma service_upgrades:
  "wrap_initiator_upgrade_service_id ''ServiceA'' = ''ServiceA_UPGRADE''"
  "wrap_initiator_upgrade_service_id ''ServiceB'' = ''ServiceB_UPGRADE''"
  "wrap_initiator_upgrade_service_id ''ServiceB_UPGRADE'' = ''ServiceB_UPGRADE''"
  "is_initiator_upgrade_service_id ''ServiceA_UPGRADE''" "is_initiator_upgrade_service_id ''ServiceB_UPGRADE''"
  "\<not> is_initiator_upgrade_service_id ''ServiceA''"
  by code_simp+

declare path_available_bytes.simps [simp del]

lemmas evaluation = fixture_defs manager_defs service_upgrades test_env_simps introduction_read Let_def

lemma upgrades_pass:
  assumes "lossless enc dec"
  shows "initiate_bwu_success (fake_env enc dec) multi = Some True"
    and "reset_upgrade_reoffers_without_reverting_the_medium (fake_env enc dec) = Some True"
    and "receive_unexpected_frame_does_not_crash (fake_env enc dec) for_bwu_last_write = Some True"
    and "receive_unexpected_frame_does_not_crash (fake_env enc dec) for_bwu_safe_to_close = Some True"
    and "receive_early_last_write_completes_upgrade (fake_env enc dec) = Some True"
    and "receive_unexpected_last_write_before_upgrade_does_not_wedge (fake_env enc dec) = Some True"
  by ((cases multi; simp add: initiate_bwu_success_def),
      simp_all add: reset_upgrade_reoffers_without_reverting_the_medium_def
        receive_unexpected_frame_does_not_crash_def receive_early_last_write_completes_upgrade_def
        receive_unexpected_last_write_before_upgrade_does_not_wedge_def
        evaluation feed_frames [OF assms] lossless_introduction [OF assms] offered_bytes [OF assms])

lemma blocked_frames_pass:
  assumes "lossless enc dec"
  shows "block_bwu_frame_before_accept (fake_env enc dec) = Some True"
    and "block_bwu_frame_from_advertiser (fake_env enc dec) = Some True"
  by (simp_all add: block_bwu_frame_before_accept_def block_bwu_frame_from_advertiser_def
      evaluation feed_frames [OF assms])

lemma guards_pass:
  assumes "lossless enc dec"
  shows "dont_upgrade_if_already_connected_over_requested_medium (fake_env enc dec) = Some True"
    and "dont_upgrade_from_wifi_lan_to_wifi_hotspot (fake_env enc dec) = Some True"
    and "no_initial_medium (fake_env enc dec) = Some True"
    and "upgrade_already_in_progress (fake_env enc dec) = Some True"
    and "failed_to_write_upgrade_path_available_frame (fake_env enc dec) = Some True"
  by (simp_all add: dont_upgrade_if_already_connected_over_requested_medium_def
      dont_upgrade_from_wifi_lan_to_wifi_hotspot_def no_initial_medium_def upgrade_already_in_progress_def
      failed_to_write_upgrade_path_available_frame_def
      evaluation feed_frames [OF assms] lossless_introduction [OF assms] offered_bytes [OF assms])

lemma reverts_pass:
  assumes "lossless enc dec"
  shows "revert_on_disconnect_multiple_endpoints_flag_enabled (fake_env enc dec) = Some True"
    and "revert_on_disconnect_multiple_endpoints_flag_disabled (fake_env enc dec) = Some True"
    and "revert_on_disconnect_multiple_services_flag_enabled (fake_env enc dec) = Some True"
    and "revert_on_disconnect_multiple_services_flag_disabled (fake_env enc dec) = Some True"
  by (simp_all add: revert_on_disconnect_multiple_endpoints_flag_enabled_def
      revert_on_disconnect_multiple_endpoints_flag_disabled_def two_endpoints_def upgrade_both_def
      revert_on_disconnect_multiple_services_flag_enabled_def revert_on_disconnect_multiple_services_flag_disabled_def
      evaluation feed_frames [OF assms] lossless_introduction [OF assms] offered_bytes [OF assms])

lemma failures_pass:
  assumes "lossless enc dec"
  shows "revert_on_upgrade_failure (fake_env enc dec) multi = Some True"
  by (cases multi; simp add: revert_on_upgrade_failure_def setup_upgrade_failure_def two_endpoints_def upgrade_both_def
      bwu_failure_frame_def web_rtc_upgrade_path_info_def upi_medium_of_def
      evaluation feed_frames [OF assms, unfolded bwu_failure_frame_def web_rtc_upgrade_path_info_def]
      lossless_introduction [OF assms] offered_bytes [OF assms])

lemma responder_frame:
  assumes "lossless enc dec" and "responder_path_info m = Some info"
  shows "responder_path_available_frame (fake_env enc dec) m = Some (bwu_offline_frame ((bwu_event UpgradePathAvailable)
    \<lparr>bwu_upgrade_path_info := Some (info\<lparr>upi_supports_client_introduction_ack := Some False\<rparr>)\<rparr>))"
proof -
  have "from_bytes dec (bwu_upgrade_path_available enc info)
      = Inr (bwu_offline_frame ((bwu_event UpgradePathAvailable)\<lparr>bwu_upgrade_path_info := Some info\<rparr>))"
    unfolding bwu_upgrade_path_available_def encode_bwu_frame
    by (rule lossless_parses(1) [OF assms(1)])
      (use assms(2) in \<open>auto simp: test_negotiations_def responder_path_info_def split: if_splits\<close>)
  with assms(2) show ?thesis
    by (simp add: responder_path_available_frame_def test_env_simps without_introduction_ack_def
        bwu_offline_frame_def v1_offline_frame_def)
qed

lemma responders_pass:
  assumes "lossless enc dec"
  shows "revert_on_disconnect_wifi_direct_responder (fake_env enc dec) = Some True"
    and "revert_on_disconnect_hotspot_responder (fake_env enc dec) = Some True"
    and "revert_on_disconnect_wifi_lan_responder (fake_env enc dec) = Some True"
  by (simp_all add: revert_on_disconnect_wifi_direct_responder_def revert_on_disconnect_hotspot_responder_def
      revert_on_disconnect_wifi_lan_responder_def responder_disconnects_def responder_frame [OF assms] frame_dispatch
      responder_path_info_def wifi_direct_path_info_def wifi_hotspot_path_info_def wifi_lan_path_info_def
      upi_medium_of_def evaluation feed_frames [OF assms])

text \<open>There is such a codec: the position of the frame in the list.\<close>

definition position_enc :: "offline_frame \<Rightarrow> bytes" where
  "position_enc f = [of_nat (length (takeWhile (\<lambda>b. bwu_offline_frame b \<noteq> f) test_negotiations))]"

definition position_dec :: "bytes \<Rightarrow> offline_frame option" where
  "position_dec bs =
     (case bs of [b] \<Rightarrow> if unat b < length test_negotiations then Some (bwu_offline_frame (test_negotiations ! unat b)) else None
      | _ \<Rightarrow> None)"

lemma lossless_position: "lossless position_enc position_dec"
proof -
  have len: "length test_negotiations = 14" by (simp add: test_negotiations_def)
  have "position_dec (position_enc (bwu_offline_frame b)) = Some (bwu_offline_frame b)" if "b \<in> set test_negotiations" for b
  proof -
    let ?p = "\<lambda>c. bwu_offline_frame c \<noteq> bwu_offline_frame b"
    let ?i = "length (takeWhile ?p test_negotiations)"
    have "x \<in> set xs \<Longrightarrow> \<not> P x \<Longrightarrow> length (takeWhile P xs) < length xs" for P xs and x :: 'a
      by (induction xs) auto
    from this [OF that, of ?p] have i: "?i < length test_negotiations" by simp
    then have "\<not> ?p (test_negotiations ! ?i)" by (rule nth_length_takeWhile)
    moreover have "unat (of_nat ?i :: 8 word) = ?i" using i len by (simp add: unsigned_of_nat take_bit_nat_eq_self)
    ultimately show ?thesis using i by (simp add: position_enc_def position_dec_def)
  qed
  then show ?thesis by (simp add: lossless_def list_all_iff position_enc_def)
qed

end
