(* ===== verification/Retry_Tests.thy ===== *)
theory Retry_Tests
  imports Manager_Tests
begin

text \<open>
  The scenarios of \<^verbatim>\<open>tests/bwu_retry.rs\<close> on the model of the manager: the delays of the backoff,
  the next medium after a failure, and the alarms.
\<close>

section \<open>The harness\<close>

definition harness :: "medium list \<Rightarrow> bwu_config \<Rightarrow> fixture" where
  "harness ms cfg = bwu_manager_new endpoint_channel_manager_new (client_proxy_new 0 ''LocalEndpoint'') []
     (fake_handlers ms) cfg"

definition connect :: "string \<Rightarrow> medium \<Rightarrow> medium list \<Rightarrow> fixture \<Rightarrow> fixture" where
  "connect endpoint_id m ms h =
     (let cl = set_upgrade_mediums
            (on_connection_accepted (on_connection_initiated (client h) endpoint_id False False) endpoint_id)
            endpoint_id ms;
          (channel, h) = alloc_chan (fake_endpoint_channel_new m ''ServiceA'') (h\<lparr>client := cl\<rparr>)
      in h\<lparr>ecm := register_channel_for_endpoint cl endpoint_id channel (ecm h)\<rparr>)"

fun medium_to_upi :: "medium \<Rightarrow> i32" where
  "medium_to_upi WifiLan = upi_medium_pb_as_i32 UpiWifiLan"
| "medium_to_upi WifiDirect = upi_medium_pb_as_i32 UpiWifiDirect"
| "medium_to_upi WifiHotspot = upi_medium_pb_as_i32 UpiWifiHotspot"
| "medium_to_upi WebRtc = upi_medium_pb_as_i32 UpiWebRtc"
| "medium_to_upi Bluetooth = upi_medium_pb_as_i32 UpiBluetooth"
| "medium_to_upi _ = upi_medium_pb_as_i32 UpiUnknownMedium"

definition feed_failure :: "test_env \<Rightarrow> string \<Rightarrow> medium \<Rightarrow> fixture \<Rightarrow> fixture option" where
  "feed_failure E endpoint_id m =
     feed E (for_bwu_failure (encode_frame E) (upgrade_path_info_default\<lparr>upi_medium := Some (medium_to_upi m)\<rparr>))
       endpoint_id Bluetooth"

abbreviation fire :: "test_env \<Rightarrow> fixture \<Rightarrow> fixture option" where
  "fire E \<equiv> fire_retry_alarm E test_depth ''Endpoint1''"

abbreviation pending :: "fixture \<Rightarrow> duration option" where
  "pending h \<equiv> pending_retry_delay h ''Endpoint1''"

section \<open>The delays\<close>

definition first_retry_uses_initial_delay_exp_default :: bool where
  "first_retry_uses_initial_delay_exp_default \<longleftrightarrow>
     calculate_next_retry_delay (harness [] bwu_config_default) ''fresh'' = Some (from_secs 3)"

text \<open>Fire the alarm \<^verbatim>\<open>n\<close> times and collect the delays.\<close>

fun fires :: "test_env \<Rightarrow> nat \<Rightarrow> fixture \<Rightarrow> duration option list option" where
  "fires E 0 h = Some []"
| "fires E (Suc n) h = do { h \<leftarrow> fire E h; seen \<leftarrow> fires E n h; Some (pending h # seen) }"

definition exp_backoff_doubles_and_caps_at_max :: "test_env \<Rightarrow> bool option" where
  "exp_backoff_doubles_and_caps_at_max E =
     do {
       h \<leftarrow> feed_failure E ''Endpoint1'' WebRtc (connect ''Endpoint1'' Bluetooth [] (harness [] bwu_config_default));
       seen \<leftarrow> fires E 8 h;
       Some (pending h = Some (from_secs 3) \<and> seen = map (\<lambda>n. Some (from_secs n)) [6, 12, 24, 48, 96, 192, 300, 300])
     }"

definition linear_backoff_grows_by_initial_and_caps :: "test_env \<Rightarrow> bool option" where
  "linear_backoff_grows_by_initial_and_caps E =
     do {
       h \<leftarrow> feed_failure E ''Endpoint1'' WebRtc (connect ''Endpoint1'' Bluetooth []
              (harness [] (bwu_config_default\<lparr>use_exp_backoff_in_bwu_retry := False\<rparr>)));
       seen \<leftarrow> fires E 2 h;
       Some (pending h = Some (from_secs 5) \<and> seen = map (\<lambda>n. Some (from_secs n)) [10, 10])
     }"

section \<open>The next medium\<close>

definition failure_tries_next_untried_medium :: "test_env \<Rightarrow> bool option" where
  "failure_tries_next_untried_medium E =
     do {
       let h = connect ''Endpoint1'' Bluetooth [WebRtc, WifiDirect] (harness [WebRtc, WifiDirect] bwu_config_default);
       h1 \<leftarrow> initiate E ''Endpoint1'' WebRtc h;
       h2 \<leftarrow> feed_failure E ''Endpoint1'' WebRtc h1;
       Some (map_option length (initialized WebRtc h1) = Some 1
         \<and> map_option (map fst) (initialized WifiDirect h2) = Some [Some ''ServiceA_UPGRADE'']
         \<and> is_upgrade_ongoing h2 ''Endpoint1'' \<and> pending h2 = None)
     }"

definition endpoint_on :: "medium \<Rightarrow> fixture" where
  "endpoint_on m = connect ''Endpoint1'' m [] (harness [WebRtc] bwu_config_default)"

definition failure_with_no_untried_medium_schedules_retry :: "test_env \<Rightarrow> bool option" where
  "failure_with_no_untried_medium_schedules_retry E =
     do { h \<leftarrow> feed_failure E ''Endpoint1'' WebRtc (endpoint_on Bluetooth);
          Some (pending h = Some (from_secs 3) \<and> \<not> is_upgrade_ongoing h ''Endpoint1'') }"

definition no_retry_scheduled_when_already_on_wifi_lan :: "test_env \<Rightarrow> bool option" where
  "no_retry_scheduled_when_already_on_wifi_lan E =
     do { h \<leftarrow> feed_failure E ''Endpoint1'' WebRtc (endpoint_on WifiLan); Some (pending h = None) }"

section \<open>The alarms\<close>

definition cancel_keeps_backoff_so_a_new_initiate_resumes_it :: "test_env \<Rightarrow> bool option" where
  "cancel_keeps_backoff_so_a_new_initiate_resumes_it E =
     do {
       h1 \<leftarrow> feed_failure E ''Endpoint1'' WebRtc (endpoint_on Bluetooth);
       h2 \<leftarrow> initiate E ''Endpoint1'' WebRtc h1;
       h3 \<leftarrow> feed_failure E ''Endpoint1'' WebRtc h2;
       Some (pending h1 = Some (from_secs 3) \<and> pending h2 = None \<and> pending h3 = Some (from_secs 6))
     }"

definition disconnect_resets_backoff_and_cancels_alarm :: "test_env \<Rightarrow> bool option" where
  "disconnect_resets_backoff_and_cancels_alarm E =
     do {
       h1 \<leftarrow> feed_failure E ''Endpoint1'' WebRtc (endpoint_on Bluetooth);
       h2 \<leftarrow> on_endpoint_disconnect E ''ServiceA'' ''Endpoint1'' LocalDisconnection h1;
       h3 \<leftarrow> feed_failure E ''Endpoint1'' WebRtc h2;
       Some (pending h1 = Some (from_secs 3) \<and> pending h2 = None \<and> pending h3 = Some (from_secs 3))
     }"

definition fire_with_no_pending_alarm_is_a_noop :: "test_env \<Rightarrow> bool option" where
  "fire_with_no_pending_alarm_is_a_noop E =
     do { h \<leftarrow> fire_retry_alarm E test_depth ''Nobody'' (harness [] bwu_config_default);
          Some (pending_retry_delay h ''Nobody'' = None) }"

definition fire_after_disconnect_does_not_reschedule :: "test_env \<Rightarrow> bool option" where
  "fire_after_disconnect_does_not_reschedule E =
     do {
       h1 \<leftarrow> feed_failure E ''Endpoint1'' WebRtc (endpoint_on Bluetooth);
       h2 \<leftarrow> fire E (h1\<lparr>client := on_disconnected (client h1) ''Endpoint1''\<rparr>);
       Some (pending h1 = Some (from_secs 3) \<and> pending h2 = None)
     }"

definition shutdown_cancels_all_retry_alarms :: "test_env \<Rightarrow> bool option" where
  "shutdown_cancels_all_retry_alarms E =
     do {
       h1 \<leftarrow> feed_failure E ''Endpoint1'' WebRtc (endpoint_on Bluetooth);
       h2 \<leftarrow> shutdown E h1;
       Some (pending h1 = Some (from_secs 3) \<and> pending h2 = None)
     }"

section \<open>Evaluation\<close>

lemma feed_failure_web_rtc:
  assumes "lossless enc dec"
  shows "feed_failure (fake_env enc dec) ep WebRtc f = on_bwu_negotiation_frame (fake_env enc dec) test_depth
    ((bwu_event UpgradeFailure)\<lparr>bwu_upgrade_path_info := Some (upgrade_path_info_default\<lparr>upi_medium := Some (upi_medium_pb_as_i32 UpiWebRtc)\<rparr>)\<rparr>) ep f"
  using feed_frames(3) [OF assms]
  by (simp add: feed_failure_def test_env_simps web_rtc_upgrade_path_info_def bwu_failure_frame_def)

lemmas harness_evaluation = harness_def connect_def upi_medium_of_def evaluation

lemma fires_numeral:
  "fires E (numeral k) h = do { h \<leftarrow> fire E h; seen \<leftarrow> fires E (pred_numeral k) h; Some (pending h # seen) }"
  by (simp add: numeral_eq_Suc)

lemma delays_pass:
  assumes "lossless enc dec"
  shows "first_retry_uses_initial_delay_exp_default"
    and "exp_backoff_doubles_and_caps_at_max (fake_env enc dec) = Some True"
    and "linear_backoff_grows_by_initial_and_caps (fake_env enc dec) = Some True"
  by (simp_all add: first_retry_uses_initial_delay_exp_default_def exp_backoff_doubles_and_caps_at_max_def
      linear_backoff_grows_by_initial_and_caps_def fires_numeral from_secs_def duration_mul_def duration_add_def
      duration_max_def harness_evaluation feed_failure_web_rtc [OF assms])

lemma next_mediums_pass:
  assumes "lossless enc dec"
  shows "failure_tries_next_untried_medium (fake_env enc dec) = Some True"
    and "failure_with_no_untried_medium_schedules_retry (fake_env enc dec) = Some True"
    and "no_retry_scheduled_when_already_on_wifi_lan (fake_env enc dec) = Some True"
  by (simp_all add: failure_tries_next_untried_medium_def failure_with_no_untried_medium_schedules_retry_def
      no_retry_scheduled_when_already_on_wifi_lan_def endpoint_on_def from_secs_def harness_evaluation
      feed_failure_web_rtc [OF assms] offered_bytes [OF assms])

lemma alarms_pass:
  assumes "lossless enc dec"
  shows "cancel_keeps_backoff_so_a_new_initiate_resumes_it (fake_env enc dec) = Some True"
    and "disconnect_resets_backoff_and_cancels_alarm (fake_env enc dec) = Some True"
    and "fire_with_no_pending_alarm_is_a_noop (fake_env enc dec) = Some True"
    and "fire_after_disconnect_does_not_reschedule (fake_env enc dec) = Some True"
    and "shutdown_cancels_all_retry_alarms (fake_env enc dec) = Some True"
  by (simp_all add: cancel_keeps_backoff_so_a_new_initiate_resumes_it_def
      disconnect_resets_backoff_and_cancels_alarm_def fire_with_no_pending_alarm_is_a_noop_def
      fire_after_disconnect_does_not_reschedule_def shutdown_cancels_all_retry_alarms_def endpoint_on_def
      from_secs_def duration_mul_def duration_max_def harness_evaluation feed_failure_web_rtc [OF assms] offered_bytes [OF assms])

end
