(* ===== verification/Spec2Isabelle.thy ===== *)
theory Spec2Isabelle
  imports Validator Frame_Typing Service_Id Client_Proxy Stream_Channel Bwu_Actor Bwu_Liveness Wifi_Hotspot
    Bwu_Composition Handshake Frame_Link Bwu_Session Bwu_Introduction Unit_Tests Manager_Tests Retry_Tests
begin

text \<open>
  \<^bold>\<open>nearby-rs: a verification of the bandwidth-upgrade core of Nearby Connections.\<close>

  \<^bold>\<open>The program.\<close> The crate implements the bandwidth upgrade (BWU) of the Nearby Connections
  protocol. Two devices are connected over a slow medium; one of them, the initiator, sets up a
  faster medium and offers it in a frame; the responder connects over it; then both sides move
  the connection to the new channel with a handshake (LAST_WRITE, SAFE_TO_CLOSE) that drains the
  old one. The parts, bottom up:

  \<^item> \<^verbatim>\<open>src/mediums.rs\<close>, \<^verbatim>\<open>proto/offline_wire_formats.proto\<close>, \<^verbatim>\<open>src/frames.rs\<close>: the
    mediums, the wire messages, and the builders of every frame.
  \<^item> \<^verbatim>\<open>src/validator.rs\<close>: the checks on every frame received from the peer.
  \<^item> \<^verbatim>\<open>src/bwu/channel.rs\<close>, \<^verbatim>\<open>stream_channel.rs\<close>: a channel to an endpoint, and its
    implementation by length-prefixed frames over a byte stream.
  \<^item> \<^verbatim>\<open>src/bwu/client.rs\<close>, \<^verbatim>\<open>channel_manager.rs\<close>, \<^verbatim>\<open>service_id.rs\<close>: what is known about each
    endpoint, which channel each one uses, and the names of upgrade services.
  \<^item> \<^verbatim>\<open>src/bwu/handler.rs\<close>: a handler per medium, with a base class that counts the endpoints of
    each service; \<^verbatim>\<open>tcp.rs\<close>, \<^verbatim>\<open>wifi_lan.rs\<close>, \<^verbatim>\<open>wifi_hotspot.rs\<close> are the real ones,
    \<^verbatim>\<open>testing.rs\<close> has the fake ones.
  \<^item> \<^verbatim>\<open>src/bwu/manager.rs\<close>: the state machine that runs upgrades over channels and handlers.
  \<^item> \<^verbatim>\<open>src/bwu/actor.rs\<close>: the single task that owns the manager, applies commands one at a time
    and arms the retry timers.

  \<^bold>\<open>The theories\<close>, with the locale that states the interface where one component relies on
  another:

  \<^item> \<^verbatim>\<open>Nearby_Prelude\<close>: hash maps and sets as association lists and lists, bytes and machine
    integers, shared lemmas. \<^verbatim>\<open>Rust_Std\<close>: what the code uses of Rust's standard library
    (UTF-8, decimal parsing, IPv4 addresses, big-endian integers, \<^verbatim>\<open>Duration\<close>).
  \<^item> \<^verbatim>\<open>Mediums\<close>, \<^verbatim>\<open>Offline_Wire\<close>, \<^verbatim>\<open>Frames\<close>, \<^verbatim>\<open>Validator\<close>: the frames as records of
    options. Parsing is total and only lets valid frames through; names are safe, payload ranges
    in bounds; the hand-written matchers accept exactly their grammars; the frames the crate
    builds parse back. \<^verbatim>\<open>Frame_Typing\<close>: the tags of every frame the crate builds name exactly the
    messages it carries.
  \<^item> \<^verbatim>\<open>Service_Id\<close>, \<^verbatim>\<open>Client_Proxy\<close>, \<^verbatim>\<open>Channel_Manager\<close>: the small components.
  \<^item> \<^verbatim>\<open>Channel\<close>: the trait as a record of operations and the locale \<^verbatim>\<open>endpoint_channel\<close> for
    its contract (identity is fixed, closed is final, pause and resume). \<^verbatim>\<open>Stream_Channel\<close>
    interprets it for the stream channel over any stream, \<^verbatim>\<open>Bwu_Testing\<close> for the fake channel.
    The locales \<^verbatim>\<open>reader_stream\<close> and \<^verbatim>\<open>writer_stream\<close> are the two halves of a byte stream;
    \<^verbatim>\<open>loopback_stream\<close> joins them, is interpreted by the pipe and carries the round trips of frames.
  \<^item> \<^verbatim>\<open>Bwu_Handler\<close>: the handler traits, the locale \<^verbatim>\<open>upgrade_handler\<close>, and the refinement
    of the abstract set of (service, endpoint) pairs by \<^verbatim>\<open>BaseBwuHandler\<close>.
  \<^item> \<^verbatim>\<open>Bwu_Manager\<close>: the whole state machine. \<^verbatim>\<open>Bwu_Actions\<close> decomposes every operation
    into small actions on one endpoint; \<^verbatim>\<open>Bwu_Invariants\<close> has the transition system and what
    holds in every reachable state; \<^verbatim>\<open>Bwu_Protocol\<close> the handshake step by step;
    \<^verbatim>\<open>Bwu_Retry\<close> the termination of the recursion through failing mediums.
  \<^item> \<^verbatim>\<open>Bwu_Actor\<close>: the actor, its handle and its timers. The locale \<^verbatim>\<open>retry_source\<close> is what
    the timer bookkeeping needs of the manager. A round of the actor is a sequence of manager
    steps, so the invariants hold under it. \<^verbatim>\<open>Bwu_Liveness\<close>: the loop of the actor; with
    channels and handlers that answer, no command and no timer makes it stop.
  \<^item> \<^verbatim>\<open>Tcp\<close>: the stream over a socket, the channel over it, and the listeners with their accept
    loop. \<^verbatim>\<open>Bwu_Serving\<close>: the locale \<^verbatim>\<open>serving_medium\<close>, a medium that serves some services, and
    what holds of it under \<^verbatim>\<open>BaseBwuHandler\<close>: it serves exactly the services with an initiated
    upgrade. \<^verbatim>\<open>Wifi_Lan\<close> and \<^verbatim>\<open>Wifi_Hotspot\<close> are the two real handlers; each interprets that
    locale, and what the initiator advertises is shown to be what the responder dials or joins.
  \<^item> \<^verbatim>\<open>Bwu_Composition\<close>: the components together. The handshake of the initiator runs to its
    end; a latch that outlives its upgrade confirms the next one early; a responder whose hotspot
    upgrade fails stays on the access point; an offer of a hotspot during the swap to Wi-Fi LAN
    makes the manager wait for itself.
  \<^item> Two managers talking to each other. \<^verbatim>\<open>Handshake\<close> is the specification: two parties, the
    messages of the handshake and the data of the applications between them, and a proof that every
    interleaving is finite (at most 14 steps and three for each frame of data) and ends with both
    done and no data lost. \<^verbatim>\<open>Frame_Link\<close> has the locale \<^verbatim>\<open>frame_link\<close>, two channels joined by a network,
    interpreted by stream channels over TCP streams with buffering sockets; \<^verbatim>\<open>Sealed_Link\<close> has
    \<^verbatim>\<open>sealed_link\<close>, the same with encryption that can be turned off, interpreted by the same channels
    with the ciphers of any session that numbers its messages. \<^verbatim>\<open>Bwu_Session\<close>: each
    manager follows a party of the specification step by step, and every step of a party is
    possible for its manager, so two managers complete the upgrade under every interleaving, and
    what an application has sent before the swap is read by the peer, in order. The
    completion is cut where it waits for the peer, since both sides wait there at the same time.
    \<^verbatim>\<open>Bwu_Introduction\<close>: how the two meet on the new channel before that.
  \<^item> The tests of the crate on the model. \<^verbatim>\<open>Unit_Tests\<close> has the tests inside the sources,
    \<^verbatim>\<open>Manager_Tests\<close> and \<^verbatim>\<open>Retry_Tests\<close> the scenarios of \<^verbatim>\<open>tests/bwu_manager.rs\<close> (all but the one
    with five endpoints, whose evaluation takes too long) and of \<^verbatim>\<open>tests/bwu_retry.rs\<close>. Each is
    translated assertion by assertion and holds for every codec that carries the frames it uses.

  \<^bold>\<open>How code is modelled.\<close> A struct is a record, an enum a datatype, \<^verbatim>\<open>i32\<close> and \<^verbatim>\<open>i64\<close>
  integers in their range or words. A method maps the state before to the state after. Channels
  live in a heap and an \<^verbatim>\<open>Arc\<close> is an index into it, because the old and the new channel are
  reachable from the registry, from the parked channels and from other threads. A \<^verbatim>\<open>HashMap\<close> is
  an association list with distinct keys (an invariant); where the code iterates over one, the
  model uses the order of the list, which stands for one of the possible orders.

  \<^verbatim>\<open>None\<close> in place of a result means that the call does not return: it waits on a paused
  channel or an open empty stream, a handler does not return, an \<^verbatim>\<open>unwrap\<close> or an arithmetic
  overflow panics, or the recursion has used up its stack. Errors the code handles are values
  (\<^verbatim>\<open>exception\<close>, sums and options).

  \<^bold>\<open>Bounds.\<close> The recursion \<^verbatim>\<open>initiate_bwu_for_endpoint\<close> \<open>\<rightarrow>\<close>
  \<^verbatim>\<open>process_upgrade_failure_event\<close> \<open>\<rightarrow>\<close> \<^verbatim>\<open>try_next_best_upgrade_mediums\<close> has the remaining
  depth of the stack as an argument; one more than the number of the endpoint's upgrade mediums is
  enough when they differ pairwise, and no depth is enough when a failing one is repeated. A list
  of pairwise different mediums that have a handler has at most 13 members, so a depth of 14 is
  enough for every command of the actor.

  \<^bold>\<open>Parameters.\<close> The protobuf codec is generated code: \<^verbatim>\<open>enc\<close> and \<^verbatim>\<open>dec\<close> are arguments, and
  a theorem that needs them to be inverse says so. The socket calls of the operating system are the
  record \<^verbatim>\<open>net_ops\<close>, the platform behind the trait \<^verbatim>\<open>SoftAp\<close> the record \<^verbatim>\<open>softap_ops\<close>. Ciphers,
  byte streams, channels and handlers that are not under \<^verbatim>\<open>src\<close> are arguments too.

  \<^bold>\<open>Not modelled.\<close> The sharing of one cipher by the old and the new channel: a cipher is part of the
  channel that uses it, and turning the encryption off drops it. The threads that write application frames and that read a channel and hand frames to
  the manager are not part of the crate; they are steps of \<^verbatim>\<open>Bwu_Session\<close>, where a writer looks up
  the registered channel and writes to it in one step. So a writer that still holds the old channel
  after the swap is not covered. The interleaving of an accept loop with the handler that owns it, beyond the
  stop flag each connection sees; module declarations and the build script. Mutex poisoning does not occur in the model, as no thread panics while it holds a
  lock.
\<close>

end
